(* ===== verification/TL_Prelude.thy ===== *)
theory TL_Prelude
  imports Main "HOL-Library.Word"
begin

section \<open>Shared vocabulary of the TrustLink development\<close>

text \<open>
  This theory holds what every component uses: the integer widths of the Rust code, the
  way a contract invocation ends (a value, a contract error or a host trap), the sequencing
  of fallible steps, Rust's checked and saturating arithmetic on unsigned words, and generic
  facts on the vectors that serve as indexes.
\<close>

type_synonym u8 = "8 word"
type_synonym u32 = "32 word"
type_synonym u64 = "64 word"

named_theorems flow \<open>inversion of successful fallible computations\<close>
named_theorems steps \<open>elimination rules that take a successful computation apart, step by step\<close>
named_theorems spec_defs \<open>definitions of guards and small accessors that proofs unfold together\<close>

subsection \<open>Results\<close>

text \<open>
  The Soroban host rolls back every effect of an invocation that returns an error or traps,
  so an aborted computation carries no state.  \<open>Trap\<close> is a host trap: a failed
  \<^verbatim>\<open>require_auth\<close>, a failed cross-contract call, or an arithmetic overflow
  (the release profile of \<^verbatim>\<open>Cargo.toml\<close> sets \<^verbatim>\<open>overflow-checks = true\<close> and
  \<^verbatim>\<open>panic = "abort"\<close>).  The error type is a parameter here; it is instantiated with the
  contract's error enumeration.
\<close>

datatype 'e abort = Err 'e | Trap

text \<open>Rust's question-mark operator: stop at the first failure, go on with the value.\<close>

definition and_then :: "'e + 'a \<Rightarrow> ('a \<Rightarrow> 'e + 'b) \<Rightarrow> 'e + 'b" where
  "and_then r k = (case r of Inl e \<Rightarrow> Inl e | Inr a \<Rightarrow> k a)"

text \<open>An early return \<^verbatim>\<open>if !b { return Err(e) }\<close>.\<close>

definition ensure :: "bool \<Rightarrow> 'e \<Rightarrow> 'e + unit" where
  "ensure b e = (if b then Inr () else Inl e)"

text \<open>\<^verbatim>\<open>Option::ok_or\<close>.\<close>

definition ok_or :: "'a option \<Rightarrow> 'e \<Rightarrow> 'e + 'a" where
  "ok_or v e = (case v of None \<Rightarrow> Inl e | Some a \<Rightarrow> Inr a)"

text \<open>\<^verbatim>\<open>Option::unwrap_or\<close>.\<close>

definition unwrap_or :: "'a option \<Rightarrow> 'a \<Rightarrow> 'a" where
  "unwrap_or v d = (case v of None \<Rightarrow> d | Some a \<Rightarrow> a)"

text \<open>A \<^verbatim>\<open>for\<close> loop whose body may fail, threading a state.\<close>

fun for_each :: "('x \<Rightarrow> 's \<Rightarrow> 'e + 's) \<Rightarrow> 'x list \<Rightarrow> 's \<Rightarrow> 'e + 's" where
  "for_each f [] s = Inr s"
| "for_each f (x # xs) s = and_then (f x s) (for_each f xs)"

lemma and_then_simps [simp]:
  "and_then (Inl e) k = Inl e"
  "and_then (Inr a) k = k a"
  by (simp_all add: and_then_def)

lemma and_then_Inr [flow]:
  "and_then r k = Inr b \<longleftrightarrow> (\<exists>a. r = Inr a \<and> k a = Inr b)"
  by (cases r) simp_all

text \<open>
  The same inversions as elimination rules.  \<open>elim steps\<close> walks through a handler and leaves the
  conditions it passed and, for every intermediate state, its relation to the one before; long
  handlers are inverted that way because no state is substituted into another.
\<close>

lemma and_thenE [steps]:
  assumes "and_then r k = Inr b" obtains a where "r = Inr a" "k a = Inr b"
  using assms by (auto simp: and_then_Inr)

lemma Inr_eqE [steps]:
  assumes "Inr a = Inr b" obtains "b = a"
  using assms by simp

lemma pair_eqE [steps]:
  assumes "(a, b) = (c, d)" obtains "a = c" "b = d"
  using assms by simp

lemma case_prod_stepE [steps]:
  assumes "(case p of (x, y) \<Rightarrow> f x y) = Inr z" obtains x y where "p = (x, y)" "f x y = Inr z"
  using assms by (cases p) simp

lemma if_stepE [steps]:
  assumes "(if b then x else y) = Inr z"
  obtains "b" "x = Inr z" | "\<not> b" "y = Inr z"
  using assms by (auto split: if_splits)

lemma and_then_Inl:
  "and_then r k = Inl e \<longleftrightarrow> r = Inl e \<or> (\<exists>a. r = Inr a \<and> k a = Inl e)"
  by (cases r) simp_all

lemma and_then_assoc: "and_then (and_then r f) g = and_then r (\<lambda>a. and_then (f a) g)"
  by (cases r) simp_all

lemma and_then_cong [fundef_cong]:
  "r = r' \<Longrightarrow> (\<And>a. r' = Inr a \<Longrightarrow> k a = k' a) \<Longrightarrow> and_then r k = and_then r' k'"
  by (cases r') simp_all

lemma ensure_Inr [flow]: "ensure b e = Inr u \<longleftrightarrow> b"
  by (simp add: ensure_def)

lemma ensureE [steps]:
  assumes "ensure b e = Inr u" obtains "b"
  using assms by (simp add: ensure_Inr)

lemma ensure_Inl: "ensure b e = Inl e' \<longleftrightarrow> \<not> b \<and> e' = e"
  by (auto simp: ensure_def)

lemma ensure_simps [simp]: "ensure True e = Inr ()" "ensure False e = Inl e"
  by (simp_all add: ensure_def)

lemma ok_or_Inr [flow]: "ok_or v e = Inr a \<longleftrightarrow> v = Some a"
  by (cases v) (simp_all add: ok_or_def)

lemma ok_orE [steps]:
  assumes "ok_or v e = Inr a" obtains "v = Some a"
  using assms by (simp add: ok_or_Inr)

lemma ok_or_simps [simp]: "ok_or None e = Inl e" "ok_or (Some a) e = Inr a"
  by (simp_all add: ok_or_def)

lemma unwrap_or_simps [simp]: "unwrap_or None d = d" "unwrap_or (Some a) d = a"
  by (simp_all add: unwrap_or_def)

lemma for_each_append:
  "for_each f (xs @ ys) s = and_then (for_each f xs s) (for_each f ys)"
  by (induction xs arbitrary: s) (simp_all add: and_then_assoc cong: and_then_cong)

text \<open>A loop invariant of \<^const>\<open>for_each\<close>, by induction on the list.\<close>

lemma for_each_invariant:
  assumes "for_each f xs s = Inr s'" and "I s"
    and "\<And>x t t'. x \<in> set xs \<Longrightarrow> I t \<Longrightarrow> f x t = Inr t' \<Longrightarrow> I t'"
  shows "I s'"
  using assms by (induction xs arbitrary: s) (auto simp: flow)

subsection \<open>Arithmetic at a fixed width\<close>

text \<open>Rust's \<^verbatim>\<open>a + b\<close> and \<^verbatim>\<open>a * b\<close> under overflow checks, \<^verbatim>\<open>saturating_add\<close> and
  \<^verbatim>\<open>saturating_sub\<close>.\<close>

definition checked_add :: "'w::len word \<Rightarrow> 'w word \<Rightarrow> 'e abort + 'w word" where
  "checked_add a b =
     (if unat a + unat b < 2 ^ LENGTH('w) then Inr (a + b) else Inl Trap)"

definition checked_mul :: "'w::len word \<Rightarrow> 'w word \<Rightarrow> 'e abort + 'w word" where
  "checked_mul a b =
     (if unat a * unat b < 2 ^ LENGTH('w) then Inr (a * b) else Inl Trap)"

definition saturating_add :: "'w::len word \<Rightarrow> 'w word \<Rightarrow> 'w word" where
  "saturating_add a b =
     (if unat a + unat b < 2 ^ LENGTH('w) then a + b else - 1)"

definition saturating_sub :: "'w::len word \<Rightarrow> 'w word \<Rightarrow> 'w word" where
  "saturating_sub a b = (if b \<le> a then a - b else 0)"

lemma unat_add_exact: "unat a + unat b < 2 ^ LENGTH('w) \<Longrightarrow> unat (a + b) = unat a + unat b"
  for a b :: "'w::len word"
  by (simp add: unat_word_ariths)

lemma unat_mult_exact: "unat a * unat b < 2 ^ LENGTH('w) \<Longrightarrow> unat (a * b) = unat a * unat b"
  for a b :: "'w::len word"
  by (simp add: unat_word_ariths)

lemma checked_add_Inr [flow]:
  "checked_add a b = Inr c \<longleftrightarrow> unat a + unat b < 2 ^ LENGTH('w) \<and> c = a + b"
  for a b c :: "'w::len word"
  by (auto simp: checked_add_def)

lemma checked_mul_Inr [flow]:
  "checked_mul a b = Inr c \<longleftrightarrow> unat a * unat b < 2 ^ LENGTH('w) \<and> c = a * b"
  for a b c :: "'w::len word"
  by (auto simp: checked_mul_def)

lemma checked_addE [steps]:
  fixes a b c :: "'w::len word"
  assumes "checked_add a b = Inr c"
  obtains "unat a + unat b < 2 ^ LENGTH('w)" "c = a + b"
  using assms by (simp add: checked_add_Inr)

lemma unat_saturating_add:
  "unat (saturating_add a b) = min (unat a + unat b) (2 ^ LENGTH('w) - 1)"
  for a b :: "'w::len word"
  by (auto simp: saturating_add_def unat_add_exact unsigned_minus_1_eq_mask mask_eq_exp_minus_1 min_def)

lemma unat_saturating_sub: "unat (saturating_sub a b) = unat a - unat b"
  by (auto simp: saturating_sub_def word_le_nat_alt unat_sub not_le)

subsection \<open>Vectors\<close>

text \<open>
  A host \<^verbatim>\<open>Vec\<close> is a list; it never holds \<open>2 ^ 32\<close> elements or more, so comparisons of its
  \<^verbatim>\<open>len()\<close> are comparisons of the list length.  \<open>vec_get\<close> is \<^verbatim>\<open>Vec::get\<close>.
\<close>

definition vec_get :: "'a list \<Rightarrow> nat \<Rightarrow> 'a option" where
  "vec_get xs i = (if i < length xs then Some (xs ! i) else None)"

text \<open>The copy loops that drop every occurrence of one element.\<close>

definition without :: "'a \<Rightarrow> 'a list \<Rightarrow> 'a list" where
  "without x xs = filter (\<lambda>y. y \<noteq> x) xs"

lemma without_simps [simp]:
  "without x [] = []"
  "without x (y # ys) = (if y = x then without x ys else y # without x ys)"
  "without x (xs @ ys) = without x xs @ without x ys"
  by (simp_all add: without_def)

lemma set_without [simp]: "set (without x xs) = set xs - {x}"
  by (auto simp: without_def)

lemma distinct_without [intro]: "distinct xs \<Longrightarrow> distinct (without x xs)"
  by (simp add: without_def)

lemma without_absent [simp]: "x \<notin> set xs \<Longrightarrow> without x xs = xs"
  by (auto simp: without_def intro!: filter_True)

lemma length_without_le: "length (without x xs) \<le> length xs"
  by (simp add: without_def)

lemma map_filter_nth_upt:
  assumes "n \<le> length xs"
  shows "List.map_filter (vec_get xs) [m..<n] = take (n - m) (drop m xs)"
proof -
  have "List.map_filter (vec_get xs) [m..<n] = map ((!) xs) [m..<n]"
    using assms by (auto simp: List.map_filter_def vec_get_def filter_id_conv)
  also have "\<dots> = take (n - m) (drop m xs)"
    using assms by (intro nth_equalityI) auto
  finally show ?thesis .
qed

subsection \<open>Maps of lists\<close>

text \<open>An index is a map from owners to lists, an absent entry standing for the empty list.\<close>

definition list_of :: "('k \<rightharpoonup> 'v list) \<Rightarrow> 'k \<Rightarrow> 'v list" where
  "list_of m k = unwrap_or (m k) []"

definition add_to :: "'k \<Rightarrow> 'v \<Rightarrow> ('k \<rightharpoonup> 'v list) \<Rightarrow> ('k \<rightharpoonup> 'v list)" where
  "add_to k v m = m(k \<mapsto> list_of m k @ [v])"

definition drop_from :: "'k \<Rightarrow> 'v \<Rightarrow> ('k \<rightharpoonup> 'v list) \<Rightarrow> ('k \<rightharpoonup> 'v list)" where
  "drop_from k v m = m(k \<mapsto> without v (list_of m k))"

lemma list_of_simps [simp]:
  "list_of (add_to k v m) j = (if j = k then list_of m k @ [v] else list_of m j)"
  "list_of (drop_from k v m) j = (if j = k then without v (list_of m k) else list_of m j)"
  "list_of (m(k \<mapsto> l)) j = (if j = k then l else list_of m j)"
  "list_of Map.empty j = []"
  by (simp_all add: list_of_def add_to_def drop_from_def)

lemmas index_ops = list_of_def add_to_def drop_from_def

end
