(* ===== verification/TL_Types.thy ===== *)
theory TL_Types
  imports TL_Prelude
begin

section \<open>Data model\<close>

text \<open>
  Models \<^verbatim>\<open>src/src/errors.rs\<close>, \<^verbatim>\<open>src/src/constants.rs\<close> and \<^verbatim>\<open>src/src/types.rs\<close>: the error
  enumeration, the constants, every record and enumeration the contract stores, the
  deterministic identifiers and the status of an attestation.  Structs are records (field
  names carry a short prefix because Isabelle's selectors share one name space), enums are
  datatypes.

  The environment record collects what the contract takes from the Soroban host and from other
  contracts: the ledger clock, the set of addresses that authorised the invocation, SHA-256,
  the XDR serialisers, and the outcome of calls into the fee token.  None of that code is part
  of the repository, so each is a parameter.
\<close>

unbundle bit_operations_syntax

datatype address = Address nat

subsection \<open>Errors\<close>

text \<open>The variants of \<^verbatim>\<open>Error\<close>; the three that the file lists twice with the same code
  appear once.\<close>

datatype (plugins only: code) error =
    E_AlreadyInitialized | E_NotInitialized | E_Unauthorized | E_NotFound
  | E_DuplicateAttestation | E_AlreadyRevoked | E_Expired | E_InvalidValidFrom
  | E_InvalidExpiration | E_MetadataTooLong | E_InvalidSourceReference | E_InvalidTimestamp
  | E_InvalidFee | E_FeeTokenRequired | E_TooManyTags | E_TagTooLong | E_InvalidThreshold
  | E_NotRequiredSigner | E_AlreadySigned | E_ProposalFinalized | E_ProposalExpired
  | E_ReasonTooLong | E_CannotEndorseOwn | E_AlreadyEndorsed | E_ContractPaused
  | E_SubjectNotWhitelisted | E_DelegationNotFound | E_DelegationExpired
  | E_CannotDelegateToSelf | E_LastAdminCannotBeRemoved | E_RateLimited | E_InvalidClaimType
  | E_InvalidJurisdiction | E_LimitExceeded | E_BatchTooLarge | E_ClaimTypeNotRegistered
  | E_InvalidFeeToken | E_DuplicateRequest | E_RequestAlreadyProcessed | E_RequestExpired
  | E_AlreadyApproved | E_CouncilProposalExists | E_CouncilProposalExecuted
  | E_CouncilProposalExpired

type_synonym 'a res = "error abort + 'a"

text \<open>The discriminants, as the host reports them to callers.\<close>

primrec error_code :: "error \<Rightarrow> u32" where
  "error_code E_AlreadyInitialized = 1"
| "error_code E_NotInitialized = 2"
| "error_code E_Unauthorized = 3"
| "error_code E_NotFound = 4"
| "error_code E_DuplicateAttestation = 5"
| "error_code E_AlreadyRevoked = 6"
| "error_code E_Expired = 7"
| "error_code E_InvalidValidFrom = 8"
| "error_code E_InvalidExpiration = 9"
| "error_code E_MetadataTooLong = 10"
| "error_code E_InvalidSourceReference = 43"
| "error_code E_InvalidTimestamp = 11"
| "error_code E_InvalidFee = 12"
| "error_code E_FeeTokenRequired = 13"
| "error_code E_TooManyTags = 14"
| "error_code E_TagTooLong = 15"
| "error_code E_InvalidThreshold = 16"
| "error_code E_NotRequiredSigner = 17"
| "error_code E_AlreadySigned = 18"
| "error_code E_ProposalFinalized = 19"
| "error_code E_ProposalExpired = 20"
| "error_code E_ReasonTooLong = 21"
| "error_code E_CannotEndorseOwn = 22"
| "error_code E_AlreadyEndorsed = 23"
| "error_code E_ContractPaused = 24"
| "error_code E_SubjectNotWhitelisted = 25"
| "error_code E_DelegationNotFound = 26"
| "error_code E_DelegationExpired = 27"
| "error_code E_CannotDelegateToSelf = 28"
| "error_code E_LastAdminCannotBeRemoved = 29"
| "error_code E_RateLimited = 30"
| "error_code E_InvalidClaimType = 31"
| "error_code E_InvalidJurisdiction = 32"
| "error_code E_LimitExceeded = 33"
| "error_code E_BatchTooLarge = 34"
| "error_code E_ClaimTypeNotRegistered = 35"
| "error_code E_InvalidFeeToken = 35"
| "error_code E_DuplicateRequest = 36"
| "error_code E_RequestAlreadyProcessed = 37"
| "error_code E_RequestExpired = 38"
| "error_code E_AlreadyApproved = 39"
| "error_code E_CouncilProposalExists = 40"
| "error_code E_CouncilProposalExecuted = 41"
| "error_code E_CouncilProposalExpired = 42"

subsection \<open>Constants\<close>

definition MULTISIG_PROPOSAL_TTL_SECS :: u64 where
  "MULTISIG_PROPOSAL_TTL_SECS = 7 * 24 * 60 * 60"

definition ATTESTATION_REQUEST_TTL_SECS :: u64 where
  "ATTESTATION_REQUEST_TTL_SECS = 7 * 24 * 60 * 60"

definition SECS_PER_DAY :: u64 where
  "SECS_PER_DAY = 86400"

definition DEFAULT_TTL_DAYS :: u32 where
  "DEFAULT_TTL_DAYS = 30"

definition DAY_IN_LEDGERS :: u32 where
  "DAY_IN_LEDGERS = 17280"

definition DEFAULT_INSTANCE_LIFETIME :: u32 where
  "DEFAULT_INSTANCE_LIFETIME = DAY_IN_LEDGERS * DEFAULT_TTL_DAYS"

lemma DEFAULT_INSTANCE_LIFETIME_eq: "DEFAULT_INSTANCE_LIFETIME = 518400"
  by (simp add: DEFAULT_INSTANCE_LIFETIME_def DAY_IN_LEDGERS_def DEFAULT_TTL_DAYS_def)

subsection \<open>Enumerations and structs\<close>

datatype request_status = Req_Pending | Req_Fulfilled | Req_Rejected | Req_Cancelled

record attestation_request =
  req_id :: string
  req_subject :: address
  req_issuer :: address
  req_claim_type :: string
  req_timestamp :: u64
  req_expires_at :: u64
  req_status :: request_status
  req_rejection_reason :: "string option"

datatype issuer_tier = Tier_Basic | Tier_Verified | Tier_Premium

text \<open>\<^verbatim>\<open>IssuerTier::rank\<close>: the discriminant.\<close>

primrec tier_rank :: "issuer_tier \<Rightarrow> u32" where
  "tier_rank Tier_Basic = 0"
| "tier_rank Tier_Verified = 1"
| "tier_rank Tier_Premium = 2"

record contract_metadata =
  cm_name :: string
  cm_version :: string
  cm_description :: string

record issuer_metadata =
  im_name :: string
  im_url :: string
  im_description :: string

text \<open>Fees are \<^verbatim>\<open>i128\<close>; the contract only compares them with zero and passes them on.\<close>

record fee_config =
  attestation_fee :: int
  fee_collector :: address
  fee_token :: "address option"

record global_stats =
  total_attestations :: u64
  total_revocations :: u64
  total_issuers :: u64

record health_status =
  hs_initialized :: bool
  hs_admin_set :: bool
  hs_issuer_count :: u64
  hs_total_attestations :: u64

record issuer_stats =
  total_issued :: u64

record ttl_config =
  ttl_days :: u32

record rate_limit_config =
  min_issuance_interval :: u64

record contract_config =
  cc_contract_name :: string
  cc_contract_version :: string
  cc_contract_description :: string
  cc_fee_config :: fee_config
  cc_ttl_config :: ttl_config
  cc_require_registered_claim_type :: bool

record claim_type_info =
  ct_claim_type :: string
  ct_description :: string

datatype council_operation = Op_RemoveIssuer address | Op_PauseContract

record council_proposal =
  cp_id :: u32
  cp_operation :: council_operation
  cp_proposer :: address
  cp_approvals :: "address list"
  cp_executed :: bool

datatype attestation_origin = Origin_Native | Origin_Imported | Origin_Bridged

record attestation =
  att_id :: string
  att_issuer :: address
  att_subject :: address
  att_claim_type :: string
  att_timestamp :: u64
  att_expiration :: "u64 option"
  att_revoked :: bool
  att_metadata :: "string option"
  att_jurisdiction :: "string option"
  att_valid_from :: "u64 option"
  att_origin :: attestation_origin
  att_source_chain :: "string option"
  att_source_tx :: "string option"
  att_tags :: "string list option"
  att_revocation_reason :: "string option"
  att_deleted :: bool

datatype attestation_status = St_Valid | St_Expired | St_Revoked | St_Pending

datatype audit_action =
    Audit_Created | Audit_Revoked | Audit_Renewed | Audit_Updated | Audit_Transferred
  | Audit_Deleted

record audit_entry =
  ae_action :: audit_action
  ae_actor :: address
  ae_timestamp :: u64
  ae_details :: "string option"

record endorsement =
  en_attestation_id :: string
  en_endorser :: address
  en_timestamp :: u64

record multisig_proposal =
  ms_id :: string
  ms_proposer :: address
  ms_subject :: address
  ms_claim_type :: string
  ms_required_signers :: "address list"
  ms_threshold :: u32
  ms_signers :: "address list"
  ms_created_at :: u64
  ms_expires_at :: u64
  ms_finalized :: bool

record storage_limits =
  max_attestations_per_issuer :: u32
  max_attestations_per_subject :: u32

text \<open>\<^verbatim>\<open>impl Default for StorageLimits\<close>.\<close>

definition default_limits :: storage_limits where
  "default_limits =
     \<lparr>max_attestations_per_issuer = 10000, max_attestations_per_subject = 100\<rparr>"

record expiration_hook =
  callback_contract :: address
  notify_days_before :: u32

record delegation =
  dg_delegator :: address
  dg_delegate :: address
  dg_claim_type :: string
  dg_expiration :: "u64 option"

record pending_admin_transfer =
  proposed_by :: address
  new_admin :: address

record attestation_template =
  tp_issuer :: address
  tp_template_id :: string
  tp_claim_type :: string
  tp_metadata :: "string option"

subsection \<open>The host environment of one invocation\<close>

record env =
  timestamp :: u64
  authorised :: "address \<Rightarrow> bool"
  current_contract_address :: address
  sha256 :: "u8 list \<Rightarrow> u8 list"
  address_xdr :: "address \<Rightarrow> u8 list"
  string_xdr :: "string \<Rightarrow> u8 list"
  u64_xdr :: "u64 \<Rightarrow> u8 list"
  address_to_string :: "address \<Rightarrow> string"
  token_transfer_ok :: "address \<Rightarrow> address \<Rightarrow> address \<Rightarrow> int \<Rightarrow> bool"
  token_balance_ok :: "address \<Rightarrow> address \<Rightarrow> bool"

text \<open>\<^verbatim>\<open>Address::require_auth\<close> traps unless the address authorised the invocation.\<close>

definition require_auth :: "env \<Rightarrow> address \<Rightarrow> unit res" where
  "require_auth e a = ensure (authorised e a) Trap"

lemma require_auth_Inr [flow]: "require_auth e a = Inr u \<longleftrightarrow> authorised e a"
  by (simp add: require_auth_def flow)

lemma require_authE [steps]:
  assumes "require_auth e a = Inr u" obtains "authorised e a"
  using assms by (simp add: require_auth_Inr)

subsection \<open>Identifiers\<close>

definition HEX :: string where
  "HEX = ''0123456789abcdef''"

definition hex_byte :: "u8 \<Rightarrow> string" where
  "hex_byte b = [HEX ! unat (drop_bit 4 b), HEX ! unat (b AND 15)]"

text \<open>\<^verbatim>\<open>Attestation::hash_payload\<close>: 32 digest bytes, two lower-case hex characters each.\<close>

definition hash_payload :: "env \<Rightarrow> u8 list \<Rightarrow> string" where
  "hash_payload e payload =
     (let hash = sha256 e payload in concat (map (\<lambda>i. hex_byte (hash ! i)) [0..<32]))"

definition attestation_payload :: "env \<Rightarrow> address \<Rightarrow> address \<Rightarrow> string \<Rightarrow> u64 \<Rightarrow> u8 list" where
  "attestation_payload e issuer subject claim_type ts =
     address_xdr e issuer @ address_xdr e subject @ string_xdr e claim_type @ u64_xdr e ts"

definition generate_id :: "env \<Rightarrow> address \<Rightarrow> address \<Rightarrow> string \<Rightarrow> u64 \<Rightarrow> string" where
  "generate_id e issuer subject claim_type ts =
     hash_payload e (attestation_payload e issuer subject claim_type ts)"

definition generate_bridge_id ::
  "env \<Rightarrow> address \<Rightarrow> address \<Rightarrow> string \<Rightarrow> string \<Rightarrow> string \<Rightarrow> u64 \<Rightarrow> string" where
  "generate_bridge_id e bridge subject claim_type source_chain source_tx ts =
     hash_payload e
       (address_xdr e bridge @ address_xdr e subject @ string_xdr e claim_type @
        string_xdr e source_chain @ string_xdr e source_tx @ u64_xdr e ts)"

definition ascii_bytes :: "string \<Rightarrow> u8 list" where
  "ascii_bytes cs = map of_char cs"

definition generate_request_id :: "env \<Rightarrow> address \<Rightarrow> address \<Rightarrow> string \<Rightarrow> u64 \<Rightarrow> string" where
  "generate_request_id e subject issuer claim_type ts =
     hash_payload e
       (ascii_bytes ''req:'' @ address_xdr e subject @ address_xdr e issuer @
        string_xdr e claim_type @ u64_xdr e ts)"

definition generate_multisig_id :: "env \<Rightarrow> address \<Rightarrow> address \<Rightarrow> string \<Rightarrow> u64 \<Rightarrow> string" where
  "generate_multisig_id e proposer subject claim_type ts =
     hash_payload e
       (ascii_bytes ''multisig:'' @ address_xdr e proposer @ address_xdr e subject @
        string_xdr e claim_type @ u64_xdr e ts)"

text \<open>A decoder for the hex rendering; it shows that no digest bit is lost.\<close>

definition hex_digit :: "char \<Rightarrow> nat" where
  "hex_digit c = (let n = of_char c in if n < 58 then n - 48 else n - 87)"

fun unhex :: "string \<Rightarrow> u8 list" where
  "unhex (h # l # cs) = of_nat (16 * hex_digit h + hex_digit l) # unhex cs"
| "unhex _ = []"

lemma hex_digit_HEX: "n < 16 \<Longrightarrow> hex_digit (HEX ! n) = n"
proof -
  have "list_all (\<lambda>n. hex_digit (HEX ! n) = n) [0..<16]" by code_simp
  then show "n < 16 \<Longrightarrow> ?thesis" by (simp add: list_all_iff)
qed

lemma low_nibble: "unat (b AND 15) = unat b mod 16" for b :: u8
proof -
  have "unat (b AND 15) = unat b AND mask 4"
    by (simp add: unsigned_and_eq mask_eq_exp_minus_1)
  also have "\<dots> = unat b mod 16"
    by (simp add: take_bit_eq_mod flip: take_bit_eq_mask)
  finally show ?thesis .
qed

lemma high_nibble: "unat (drop_bit 4 b) = unat b div 16" for b :: u8
  by (simp add: drop_bit_eq_div unat_div)

lemma unhex_hex_byte: "unhex (hex_byte b @ cs) = b # unhex cs"
proof -
  have "unat b < 256" using unsigned_less [of b, where ?'a = nat] by simp
  then show ?thesis
    by (simp add: hex_byte_def low_nibble high_nibble hex_digit_HEX)
qed

lemma unhex_concat: "unhex (concat (map hex_byte bs)) = bs"
  by (induction bs) (simp_all add: unhex_hex_byte)

lemma unhex_hash_payload:
  assumes "length (sha256 e p) = 32"
  shows "unhex (hash_payload e p) = sha256 e p"
proof -
  have "map (\<lambda>i. hex_byte (sha256 e p ! i)) [0..<32] = map hex_byte (sha256 e p)"
    using assms by (intro nth_equalityI) auto
  then show ?thesis by (simp add: hash_payload_def unhex_concat Let_def)
qed

text \<open>
  XDR encodings are self-delimiting: an encoding is never a proper prefix of another.
  This is what makes the concatenated payload injective.
\<close>

definition xdr_self_delimiting :: "env \<Rightarrow> bool" where
  "xdr_self_delimiting e \<longleftrightarrow>
     (\<forall>a b xs ys. address_xdr e a @ xs = address_xdr e b @ ys \<longrightarrow> a = b) \<and>
     (\<forall>a b xs ys. string_xdr e a @ xs = string_xdr e b @ ys \<longrightarrow> a = b) \<and>
     (\<forall>a b. u64_xdr e a = u64_xdr e b \<longrightarrow> a = b)"

lemma attestation_payload_inject:
  assumes "xdr_self_delimiting e"
    and eq: "attestation_payload e i s c t = attestation_payload e i' s' c' t'"
  shows "i = i' \<and> s = s' \<and> c = c' \<and> t = t'"
proof -
  from assms(1) have A: "\<And>a b xs ys. address_xdr e a @ xs = address_xdr e b @ ys \<Longrightarrow> a = b"
    and S: "\<And>a b xs ys. string_xdr e a @ xs = string_xdr e b @ ys \<Longrightarrow> a = b"
    and U: "\<And>a b. u64_xdr e a = u64_xdr e b \<Longrightarrow> a = b"
    unfolding xdr_self_delimiting_def by blast+
  from eq have "i = i'" unfolding attestation_payload_def by (rule A)
  moreover with eq have "address_xdr e s @ string_xdr e c @ u64_xdr e t =
      address_xdr e s' @ string_xdr e c' @ u64_xdr e t'"
    by (simp add: attestation_payload_def)
  moreover from this have "s = s'" by (rule A)
  moreover from calculation have "string_xdr e c @ u64_xdr e t = string_xdr e c' @ u64_xdr e t'"
    by simp
  moreover from this have "c = c'" by (rule S)
  ultimately show ?thesis using U by simp
qed

subsection \<open>Status\<close>

definition get_status :: "attestation \<Rightarrow> u64 \<Rightarrow> attestation_status" where
  "get_status a current_time =
     (if (case att_valid_from a of Some vf \<Rightarrow> current_time < vf | None \<Rightarrow> False)
      then St_Pending
      else if att_revoked a then St_Revoked
      else if (case att_expiration a of Some ex \<Rightarrow> ex \<le> current_time | None \<Rightarrow> False)
      then St_Expired
      else St_Valid)"

lemma get_status_Valid:
  "get_status a t = St_Valid \<longleftrightarrow>
     \<not> att_revoked a \<and> (\<forall>vf. att_valid_from a = Some vf \<longrightarrow> vf \<le> t) \<and>
     (\<forall>ex. att_expiration a = Some ex \<longrightarrow> t < ex)"
  by (auto simp: get_status_def not_less not_le split: option.splits)

subsection \<open>Issuer tiers are linearly ordered by rank\<close>

instantiation issuer_tier :: linorder
begin

definition less_eq_issuer_tier :: "issuer_tier \<Rightarrow> issuer_tier \<Rightarrow> bool" where
  "less_eq_issuer_tier a b \<longleftrightarrow> tier_rank a \<le> tier_rank b"

definition less_issuer_tier :: "issuer_tier \<Rightarrow> issuer_tier \<Rightarrow> bool" where
  "less_issuer_tier a b \<longleftrightarrow> tier_rank a < tier_rank b"

instance
proof
  fix x y z :: issuer_tier
  show "x < y \<longleftrightarrow> x \<le> y \<and> \<not> y \<le> x"
    by (auto simp: less_eq_issuer_tier_def less_issuer_tier_def)
  show "x \<le> x" by (simp add: less_eq_issuer_tier_def)
  show "x \<le> y \<Longrightarrow> y \<le> z \<Longrightarrow> x \<le> z"
    by (auto simp: less_eq_issuer_tier_def)
  show "x \<le> y \<Longrightarrow> y \<le> x \<Longrightarrow> x = y"
    by (cases x; cases y) (simp_all add: less_eq_issuer_tier_def word_le_nat_alt)
  show "x \<le> y \<or> y \<le> x"
    by (auto simp: less_eq_issuer_tier_def)
qed

end

end
