(* ===== verification/TL_State.thy ===== *)
theory TL_State
  imports TL_Types
begin

section \<open>Contract state\<close>

text \<open>
  Models the keys of \<^verbatim>\<open>src/src/storage.rs\<close>, the state they index, and the lifetime arithmetic
  every write goes through; the helpers themselves follow in \<open>TL_Storage\<close>.

  The host's key-value store is the contract's state.  Every \<^verbatim>\<open>StorageKey\<close> variant has one value
  type, so each variant is one typed field: a plain variant is an \<open>option\<close>, a variant with
  arguments a map from its arguments.  \<^verbatim>\<open>has\<close>, \<^verbatim>\<open>get\<close>, \<^verbatim>\<open>set\<close> and \<^verbatim>\<open>remove\<close> are the map
  operations.  The fields are grouped by the component that owns them.

  Every setter first computes \<^verbatim>\<open>get_ttl_lifetime\<close>, which multiplies the configured number of
  days by \<^verbatim>\<open>DAY_IN_LEDGERS\<close> under overflow checks, and then asks the host to extend the entry's
  time to live.  Both are modelled: the product can trap, and \<open>ttl\<close> records the lifetime last
  requested for a persistent key, \<open>instance_ttl\<close> that of the instance.  Archival of entries whose
  lifetime has run out is the host's and is not modelled.
\<close>

subsection \<open>Keys of the persistent entries\<close>

datatype (plugins only: code) storage_key =
    K_Issuer address | K_IssuerList | K_Bridge address | K_BridgeList
  | K_Attestation string | K_SubjectAttestations address | K_ValidAttestations address
  | K_IssuerAttestations address | K_SubjectAttestationChunk address u32
  | K_IssuerAttestationChunk address u32 | K_IssuerMetadata address
  | K_ClaimType string | K_ClaimTypeList | K_IssuerTier address | K_IssuerStats address
  | K_ExpirationHook address | K_Endorsements string | K_EndorserIndex address
  | K_LastIssuanceTime address | K_WhitelistEnabled address | K_Whitelist address address
  | K_Request string | K_PendingRequests address | K_CouncilProposal u32
  | K_MultisigProposal string | K_AuditLog string | K_AttestationTemplate address string
  | K_AttestationTemplateList address | K_Delegation address address string
  | K_DelegatorIndex address | K_ClaimTypeCount string

subsection \<open>Published events and calls to other contracts\<close>

datatype scval =
    SymV string | AddrV address | StrV string | U64V u64 | U32V u32
  | OptStrV "string option" | OptU64V "u64 option" | TierV issuer_tier

record event =
  ev_topics :: "scval list"
  ev_data :: "scval list"

text \<open>
  Calls the contract makes to other contracts, in order.  The callee cannot change the state
  above: Soroban does not allow re-entry into a contract that is on the call stack.
\<close>

datatype external_call =
    TokenTransfer address address address int
  | NotifyExpiring address address string u64

subsection \<open>The state\<close>

record instance_store =
  admin_council :: "address list option"
  version :: "string option"
  fee_config :: "fee_config option"
  ttl_config :: "ttl_config option"
  contract_config :: "contract_config option"
  paused :: "bool option"
  pause_reason :: "string option option"
  limits :: "storage_limits option"
  rate_limit_config :: "rate_limit_config option"
  claim_type_rate_limit :: "string \<rightharpoonup> u64"
  global_stats :: "global_stats option"
  multisig_ttl_days :: "u32 option"
  proposal_counter :: "u32 option"
  pending_admin_transfer :: "pending_admin_transfer option"
  require_registered_claim_type_flag :: "bool option"

record registry_store =
  issuer_flag :: "address \<rightharpoonup> bool"
  issuer_list :: "address list option"
  bridge_flag :: "address \<rightharpoonup> bool"
  bridge_list :: "address list option"
  issuer_metadata :: "address \<rightharpoonup> issuer_metadata"
  issuer_tier :: "address \<rightharpoonup> issuer_tier"
  issuer_stats :: "address \<rightharpoonup> issuer_stats"
  claim_type_entry :: "string \<rightharpoonup> claim_type_info"
  claim_type_list :: "string list option"
  claim_type_count :: "string \<rightharpoonup> u64"
  whitelist_enabled :: "address \<rightharpoonup> bool"
  whitelist_entry :: "address \<times> address \<rightharpoonup> bool"
  delegation_entry :: "address \<times> address \<times> string \<rightharpoonup> delegation"
  delegator_index :: "address \<rightharpoonup> (address \<times> string) list"
  hook_entry :: "address \<rightharpoonup> expiration_hook"
  last_issuance_time :: "address \<rightharpoonup> u64"
  template_entry :: "address \<times> string \<rightharpoonup> attestation_template"
  template_list :: "address \<rightharpoonup> string list"

record attestation_store =
  attestation_entry :: "string \<rightharpoonup> attestation"
  subject_ids :: "address \<rightharpoonup> string list"
  valid_ids :: "address \<rightharpoonup> string list"
  issuer_ids :: "address \<rightharpoonup> string list"
  subject_chunk :: "address \<Rightarrow> u32 \<Rightarrow> string list option"
  issuer_chunk :: "address \<Rightarrow> u32 \<Rightarrow> string list option"
  endorsements :: "string \<rightharpoonup> endorsement list"
  endorser_index :: "address \<rightharpoonup> endorsement list"
  audit_log :: "string \<rightharpoonup> audit_entry list"

record workflow_store =
  request_entry :: "string \<rightharpoonup> attestation_request"
  pending_requests :: "address \<rightharpoonup> string list"
  multisig_entry :: "string \<rightharpoonup> multisig_proposal"
  council_entry :: "u32 \<rightharpoonup> council_proposal"

record host_store =
  ttl :: "storage_key \<rightharpoonup> u32"
  instance_ttl :: "u32 option"
  events :: "event list"
  calls :: "external_call list"

record storage =
  inst :: instance_store
  reg :: registry_store
  atts :: attestation_store
  flow_st :: workflow_store
  host :: host_store

text \<open>The storage of a freshly deployed contract.\<close>

definition empty_storage :: storage where
  "empty_storage = \<lparr>
     inst = \<lparr>admin_council = None, version = None, fee_config = None, ttl_config = None,
       contract_config = None, paused = None, pause_reason = None, limits = None,
       rate_limit_config = None, claim_type_rate_limit = Map.empty, global_stats = None,
       multisig_ttl_days = None, proposal_counter = None, pending_admin_transfer = None,
       require_registered_claim_type_flag = None\<rparr>,
     reg = \<lparr>issuer_flag = Map.empty, issuer_list = None, bridge_flag = Map.empty,
       bridge_list = None, issuer_metadata = Map.empty, issuer_tier = Map.empty,
       issuer_stats = Map.empty, claim_type_entry = Map.empty, claim_type_list = None,
       claim_type_count = Map.empty, whitelist_enabled = Map.empty,
       whitelist_entry = Map.empty, delegation_entry = Map.empty,
       delegator_index = Map.empty, hook_entry = Map.empty,
       last_issuance_time = Map.empty, template_entry = Map.empty,
       template_list = Map.empty\<rparr>,
     atts = \<lparr>attestation_entry = Map.empty, subject_ids = Map.empty, valid_ids = Map.empty,
       issuer_ids = Map.empty, subject_chunk = (\<lambda>_. Map.empty), issuer_chunk = (\<lambda>_. Map.empty),
       endorsements = Map.empty, endorser_index = Map.empty, audit_log = Map.empty\<rparr>,
     flow_st = \<lparr>request_entry = Map.empty, pending_requests = Map.empty,
       multisig_entry = Map.empty, council_entry = Map.empty\<rparr>,
     host = \<lparr>ttl = Map.empty, instance_ttl = None, events = [], calls = []\<rparr>\<rparr>"

subsection \<open>Lifetimes\<close>

definition get_ttl_lifetime :: "storage \<Rightarrow> u32 res" where
  "get_ttl_lifetime s =
     (case ttl_config (inst s) of
        Some config \<Rightarrow> checked_mul DAY_IN_LEDGERS (ttl_days config)
      | None \<Rightarrow> Inr DEFAULT_INSTANCE_LIFETIME)"

definition extend_persistent :: "storage_key \<Rightarrow> u32 \<Rightarrow> storage \<Rightarrow> storage" where
  "extend_persistent k t = host_update (ttl_update (\<lambda>m. m(k \<mapsto> t)))"

definition extend_instance :: "u32 \<Rightarrow> storage \<Rightarrow> storage" where
  "extend_instance t = host_update (instance_ttl_update (\<lambda>_. Some t))"

definition drop_persistent :: "storage_key \<Rightarrow> storage \<Rightarrow> storage" where
  "drop_persistent k = host_update (ttl_update (\<lambda>m. m(k := None)))"

definition with_ttl :: "(u32 \<Rightarrow> storage \<Rightarrow> storage) \<Rightarrow> storage \<Rightarrow> storage res" where
  "with_ttl f s = and_then (get_ttl_lifetime s) (\<lambda>t. Inr (f t s))"

definition set_instance :: "(instance_store \<Rightarrow> instance_store) \<Rightarrow> storage \<Rightarrow> storage res" where
  "set_instance upd = with_ttl (\<lambda>t s. extend_instance t (inst_update upd s))"

definition set_registry ::
  "storage_key \<Rightarrow> (registry_store \<Rightarrow> registry_store) \<Rightarrow> storage \<Rightarrow> storage res" where
  "set_registry k upd = with_ttl (\<lambda>t s. extend_persistent k t (reg_update upd s))"

definition set_atts ::
  "storage_key \<Rightarrow> (attestation_store \<Rightarrow> attestation_store) \<Rightarrow> storage \<Rightarrow> storage res" where
  "set_atts k upd = with_ttl (\<lambda>t s. extend_persistent k t (atts_update upd s))"

definition set_flow ::
  "storage_key \<Rightarrow> (workflow_store \<Rightarrow> workflow_store) \<Rightarrow> storage \<Rightarrow> storage res" where
  "set_flow k upd = with_ttl (\<lambda>t s. extend_persistent k t (flow_st_update upd s))"

text \<open>The configured lifetime fits the ledger arithmetic.\<close>

definition ttl_ok :: "storage \<Rightarrow> bool" where
  "ttl_ok s =
     (case ttl_config (inst s) of
        Some config \<Rightarrow> 17280 * unat (ttl_days config) < 2 ^ 32
      | None \<Rightarrow> True)"

definition lifetime :: "storage \<Rightarrow> u32" where
  "lifetime s =
     (case ttl_config (inst s) of
        Some config \<Rightarrow> DAY_IN_LEDGERS * ttl_days config
      | None \<Rightarrow> DEFAULT_INSTANCE_LIFETIME)"

lemma get_ttl_lifetime_eq:
  "get_ttl_lifetime s = (if ttl_ok s then Inr (lifetime s) else Inl Trap)"
  by (simp add: get_ttl_lifetime_def ttl_ok_def lifetime_def checked_mul_def DAY_IN_LEDGERS_def
      split: option.splits)

lemma with_ttl_eq: "with_ttl f s = (if ttl_ok s then Inr (f (lifetime s) s) else Inl Trap)"
  by (simp add: with_ttl_def get_ttl_lifetime_eq)

lemma with_ttl_Inr [flow]: "with_ttl f s = Inr s' \<longleftrightarrow> ttl_ok s \<and> s' = f (lifetime s) s"
  by (auto simp: with_ttl_eq)

lemmas store_defs [spec_defs] =
  set_instance_def set_registry_def set_atts_def set_flow_def
  extend_persistent_def extend_instance_def drop_persistent_def

lemma ttl_ok_component [simp]:
  "ttl_ok (reg_update f s) = ttl_ok s"
  "ttl_ok (atts_update g s) = ttl_ok s"
  "ttl_ok (flow_st_update h s) = ttl_ok s"
  "ttl_ok (host_update k s) = ttl_ok s"
  by (simp_all add: ttl_ok_def)

lemma lifetime_component [simp]:
  "lifetime (reg_update f s) = lifetime s"
  "lifetime (atts_update g s) = lifetime s"
  "lifetime (flow_st_update h s) = lifetime s"
  "lifetime (host_update k s) = lifetime s"
  by (simp_all add: lifetime_def)

lemma ttl_ok_inst: "ttl_config (f (inst s)) = ttl_config (inst s) \<Longrightarrow>
    ttl_ok (inst_update f s) = ttl_ok s"
  by (simp add: ttl_ok_def)

lemma lifetime_inst: "ttl_config (f (inst s)) = ttl_config (inst s) \<Longrightarrow>
    lifetime (inst_update f s) = lifetime s"
  by (simp add: lifetime_def)

lemma ttl_ok_inst_fields [simp]:
  "ttl_ok (inst_update (admin_council_update a) s) = ttl_ok s"
  "ttl_ok (inst_update (version_update b) s) = ttl_ok s"
  "ttl_ok (inst_update (fee_config_update c) s) = ttl_ok s"
  "ttl_ok (inst_update (contract_config_update d) s) = ttl_ok s"
  "ttl_ok (inst_update (paused_update e) s) = ttl_ok s"
  "ttl_ok (inst_update (pause_reason_update f) s) = ttl_ok s"
  "ttl_ok (inst_update (limits_update g) s) = ttl_ok s"
  "ttl_ok (inst_update (rate_limit_config_update h) s) = ttl_ok s"
  "ttl_ok (inst_update (claim_type_rate_limit_update i) s) = ttl_ok s"
  "ttl_ok (inst_update (global_stats_update j) s) = ttl_ok s"
  "ttl_ok (inst_update (proposal_counter_update k) s) = ttl_ok s"
  "ttl_ok (inst_update (pending_admin_transfer_update l) s) = ttl_ok s"
  "ttl_ok (inst_update (require_registered_claim_type_flag_update m) s) = ttl_ok s"
  by (simp_all add: ttl_ok_inst)

lemma lifetime_inst_fields [simp]:
  "lifetime (inst_update (admin_council_update a) s) = lifetime s"
  "lifetime (inst_update (version_update b) s) = lifetime s"
  "lifetime (inst_update (fee_config_update c) s) = lifetime s"
  "lifetime (inst_update (global_stats_update j) s) = lifetime s"
  by (simp_all add: lifetime_inst)

subsection \<open>Writes, seen from the components\<close>

text \<open>
  Component proofs never unfold the lifetime bookkeeping: a write is its field update wrapped in
  an extension of a lifetime, and the wrapper is invisible to every component but the host's.
\<close>

lemma extend_persistent_components [simp]:
  "inst (extend_persistent k t s) = inst s"
  "reg (extend_persistent k t s) = reg s"
  "atts (extend_persistent k t s) = atts s"
  "flow_st (extend_persistent k t s) = flow_st s"
  "events (host (extend_persistent k t s)) = events (host s)"
  "calls (host (extend_persistent k t s)) = calls (host s)"
  "ttl_ok (extend_persistent k t s) = ttl_ok s"
  "lifetime (extend_persistent k t s) = lifetime s"
  by (simp_all add: extend_persistent_def)

lemma extend_instance_components [simp]:
  "inst (extend_instance t s) = inst s"
  "reg (extend_instance t s) = reg s"
  "atts (extend_instance t s) = atts s"
  "flow_st (extend_instance t s) = flow_st s"
  "events (host (extend_instance t s)) = events (host s)"
  "calls (host (extend_instance t s)) = calls (host s)"
  "ttl_ok (extend_instance t s) = ttl_ok s"
  "lifetime (extend_instance t s) = lifetime s"
  by (simp_all add: extend_instance_def)

lemma drop_persistent_components [simp]:
  "inst (drop_persistent k s) = inst s"
  "reg (drop_persistent k s) = reg s"
  "atts (drop_persistent k s) = atts s"
  "flow_st (drop_persistent k s) = flow_st s"
  "events (host (drop_persistent k s)) = events (host s)"
  "calls (host (drop_persistent k s)) = calls (host s)"
  "ttl_ok (drop_persistent k s) = ttl_ok s"
  "lifetime (drop_persistent k s) = lifetime s"
  by (simp_all add: drop_persistent_def)

lemma set_instance_Inr:
  "set_instance u s = Inr s' \<longleftrightarrow> ttl_ok s \<and> s' = extend_instance (lifetime s) (inst_update u s)"
  by (simp add: set_instance_def flow)

lemma set_registry_Inr:
  "set_registry k u s = Inr s' \<longleftrightarrow>
     ttl_ok s \<and> s' = extend_persistent k (lifetime s) (reg_update u s)"
  by (simp add: set_registry_def flow)

lemma set_atts_Inr:
  "set_atts k u s = Inr s' \<longleftrightarrow>
     ttl_ok s \<and> s' = extend_persistent k (lifetime s) (atts_update u s)"
  by (simp add: set_atts_def flow)

lemma set_flow_Inr:
  "set_flow k u s = Inr s' \<longleftrightarrow>
     ttl_ok s \<and> s' = extend_persistent k (lifetime s) (flow_st_update u s)"
  by (simp add: set_flow_def flow)

text \<open>What a write does, component by component, without naming the new state.\<close>

lemma set_instanceE [steps]:
  assumes "set_instance u s = Inr s'"
  obtains "ttl_ok s" "inst s' = u (inst s)" "reg s' = reg s" "atts s' = atts s" "flow_st s' = flow_st s"
    "events (host s') = events (host s)" "calls (host s') = calls (host s)"
  using assms by (auto simp: set_instance_Inr)

lemma set_registryE [steps]:
  assumes "set_registry k u s = Inr s'"
  obtains "ttl_ok s" "inst s' = inst s" "reg s' = u (reg s)" "atts s' = atts s" "flow_st s' = flow_st s"
    "events (host s') = events (host s)" "calls (host s') = calls (host s)"
  using assms by (auto simp: set_registry_Inr)

lemma set_attsE [steps]:
  assumes "set_atts k u s = Inr s'"
  obtains "ttl_ok s" "inst s' = inst s" "reg s' = reg s" "atts s' = u (atts s)" "flow_st s' = flow_st s"
    "events (host s') = events (host s)" "calls (host s') = calls (host s)"
  using assms by (auto simp: set_atts_Inr)

lemma set_flowE [steps]:
  assumes "set_flow k u s = Inr s'"
  obtains "ttl_ok s" "inst s' = inst s" "reg s' = reg s" "atts s' = atts s" "flow_st s' = u (flow_st s)"
    "events (host s') = events (host s)" "calls (host s') = calls (host s)"
  using assms by (auto simp: set_flow_Inr)

lemma with_ttlE [steps]:
  assumes "with_ttl f s = Inr s'" obtains "ttl_ok s" "s' = f (lifetime s) s"
  using assms by (auto simp: with_ttl_Inr)

lemma ttl_ok_cong: "inst s = inst t \<Longrightarrow> ttl_ok s = ttl_ok t"
  by (simp add: ttl_ok_def)

lemma lifetime_cong: "inst s = inst t \<Longrightarrow> lifetime s = lifetime t"
  by (simp add: lifetime_def)

end
