(* ===== verification/TL_Storage.thy ===== *)
theory TL_Storage
  imports TL_State
begin

section \<open>Storage helpers\<close>

text \<open>
  One definition per \<^verbatim>\<open>Storage::\<close> helper of \<^verbatim>\<open>src/src/storage.rs\<close>, named \<open>Storage_\<close> followed by the
  source name.  A getter is a function of the state; a setter returns the new state or traps when
  the configured lifetime overflows.

  \<^verbatim>\<open>storage.rs\<close> repeats many helpers, some of them cut off in the middle (an unfinished merge).
  Of each helper the model takes one complete copy whose key agrees between getter and setter;
  the manifest names its lines.
\<close>

subsection \<open>Admin council\<close>

definition Storage_get_admin_council :: "storage \<Rightarrow> address list res" where
  "Storage_get_admin_council s = ok_or (admin_council (inst s)) (Err E_NotInitialized)"

definition Storage_has_admin :: "storage \<Rightarrow> bool" where
  "Storage_has_admin s =
     (case Storage_get_admin_council s of Inr council \<Rightarrow> council \<noteq> [] | Inl _ \<Rightarrow> False)"

definition Storage_set_admin_council :: "address list \<Rightarrow> storage \<Rightarrow> storage res" where
  "Storage_set_admin_council council = set_instance (admin_council_update (\<lambda>_. Some council))"

definition Storage_is_admin :: "address \<Rightarrow> storage \<Rightarrow> bool" where
  "Storage_is_admin a s =
     (case Storage_get_admin_council s of Inr council \<Rightarrow> a \<in> set council | Inl _ \<Rightarrow> False)"

definition Storage_add_admin :: "address \<Rightarrow> storage \<Rightarrow> storage res" where
  "Storage_add_admin a s =
     (let council = unwrap_or (admin_council (inst s)) []
      in if a \<in> set council then Inr s else Storage_set_admin_council (council @ [a]) s)"

definition Storage_remove_admin :: "address \<Rightarrow> storage \<Rightarrow> storage res" where
  "Storage_remove_admin a s =
     Storage_set_admin_council (without a (unwrap_or (admin_council (inst s)) [])) s"

definition Storage_get_admin :: "storage \<Rightarrow> address res" where
  "Storage_get_admin s =
     and_then (Storage_get_admin_council s)
       (\<lambda>council. ok_or (vec_get council 0) (Err E_NotInitialized))"

definition Storage_get_pending_admin_transfer :: "storage \<Rightarrow> pending_admin_transfer option" where
  "Storage_get_pending_admin_transfer s = pending_admin_transfer (inst s)"

definition Storage_set_pending_admin_transfer ::
  "pending_admin_transfer \<Rightarrow> storage \<Rightarrow> storage res" where
  "Storage_set_pending_admin_transfer p =
     set_instance (pending_admin_transfer_update (\<lambda>_. Some p))"

definition Storage_remove_pending_admin_transfer :: "storage \<Rightarrow> storage" where
  "Storage_remove_pending_admin_transfer =
     inst_update (pending_admin_transfer_update (\<lambda>_. None))"

subsection \<open>Instance configuration\<close>

definition Storage_set_version :: "string \<Rightarrow> storage \<Rightarrow> storage" where
  "Storage_set_version v = inst_update (version_update (\<lambda>_. Some v))"

definition Storage_get_version :: "storage \<Rightarrow> string option" where
  "Storage_get_version s = version (inst s)"

definition Storage_set_fee_config :: "fee_config \<Rightarrow> storage \<Rightarrow> storage res" where
  "Storage_set_fee_config c = set_instance (fee_config_update (\<lambda>_. Some c))"

definition Storage_get_fee_config :: "storage \<Rightarrow> fee_config option" where
  "Storage_get_fee_config s = fee_config (inst s)"

definition Storage_set_ttl_config :: "ttl_config \<Rightarrow> storage \<Rightarrow> storage res" where
  "Storage_set_ttl_config c = set_instance (ttl_config_update (\<lambda>_. Some c))"

definition Storage_get_ttl_config :: "storage \<Rightarrow> ttl_config option" where
  "Storage_get_ttl_config s = ttl_config (inst s)"

definition Storage_set_contract_config :: "contract_config \<Rightarrow> storage \<Rightarrow> storage res" where
  "Storage_set_contract_config c = set_instance (contract_config_update (\<lambda>_. Some c))"

definition Storage_get_contract_config :: "storage \<Rightarrow> contract_config option" where
  "Storage_get_contract_config s = contract_config (inst s)"

definition Storage_is_paused :: "storage \<Rightarrow> bool" where
  "Storage_is_paused s = unwrap_or (paused (inst s)) False"

definition Storage_set_paused :: "bool \<Rightarrow> storage \<Rightarrow> storage res" where
  "Storage_set_paused b = set_instance (paused_update (\<lambda>_. Some b))"

definition Storage_set_pause_reason :: "string option \<Rightarrow> storage \<Rightarrow> storage res" where
  "Storage_set_pause_reason r = set_instance (pause_reason_update (\<lambda>_. Some r))"

definition Storage_get_pause_reason :: "storage \<Rightarrow> string option" where
  "Storage_get_pause_reason s = unwrap_or (pause_reason (inst s)) None"

definition Storage_clear_pause_reason :: "storage \<Rightarrow> storage" where
  "Storage_clear_pause_reason = inst_update (pause_reason_update (\<lambda>_. None))"

definition Storage_get_limits :: "storage \<Rightarrow> storage_limits" where
  "Storage_get_limits s = unwrap_or (limits (inst s)) default_limits"

definition Storage_set_limits :: "storage_limits \<Rightarrow> storage \<Rightarrow> storage res" where
  "Storage_set_limits l = set_instance (limits_update (\<lambda>_. Some l))"

definition Storage_get_rate_limit_config :: "storage \<Rightarrow> rate_limit_config option" where
  "Storage_get_rate_limit_config s = rate_limit_config (inst s)"

definition Storage_set_rate_limit_config :: "rate_limit_config \<Rightarrow> storage \<Rightarrow> storage res" where
  "Storage_set_rate_limit_config c = set_instance (rate_limit_config_update (\<lambda>_. Some c))"

definition Storage_get_claim_type_rate_limit :: "string \<Rightarrow> storage \<Rightarrow> u64 option" where
  "Storage_get_claim_type_rate_limit c s = claim_type_rate_limit (inst s) c"

definition Storage_set_claim_type_rate_limit :: "string \<Rightarrow> u64 \<Rightarrow> storage \<Rightarrow> storage res" where
  "Storage_set_claim_type_rate_limit c n =
     set_instance (claim_type_rate_limit_update (\<lambda>m. m(c \<mapsto> n)))"

definition Storage_set_require_registered_claim_type :: "bool \<Rightarrow> storage \<Rightarrow> storage res" where
  "Storage_set_require_registered_claim_type b =
     set_instance (require_registered_claim_type_flag_update (\<lambda>_. Some b))"

definition Storage_get_require_registered_claim_type :: "storage \<Rightarrow> bool" where
  "Storage_get_require_registered_claim_type s =
     unwrap_or (require_registered_claim_type_flag (inst s)) False"

definition Storage_get_multisig_ttl_days :: "storage \<Rightarrow> u32" where
  "Storage_get_multisig_ttl_days s = unwrap_or (multisig_ttl_days (inst s)) 7"

subsection \<open>Statistics\<close>

definition Storage_get_global_stats :: "storage \<Rightarrow> global_stats" where
  "Storage_get_global_stats s =
     unwrap_or (global_stats (inst s))
       \<lparr>total_attestations = 0, total_revocations = 0, total_issuers = 0\<rparr>"

definition Storage_set_global_stats :: "global_stats \<Rightarrow> storage \<Rightarrow> storage res" where
  "Storage_set_global_stats g = set_instance (global_stats_update (\<lambda>_. Some g))"

definition Storage_increment_total_attestations :: "u64 \<Rightarrow> storage \<Rightarrow> storage res" where
  "Storage_increment_total_attestations by_n s =
     (let g = Storage_get_global_stats s
      in Storage_set_global_stats
           (g\<lparr>total_attestations := saturating_add (total_attestations g) by_n\<rparr>) s)"

definition Storage_increment_total_revocations :: "u64 \<Rightarrow> storage \<Rightarrow> storage res" where
  "Storage_increment_total_revocations by_n s =
     (let g = Storage_get_global_stats s
      in Storage_set_global_stats
           (g\<lparr>total_revocations := saturating_add (total_revocations g) by_n\<rparr>) s)"

definition Storage_increment_total_issuers :: "storage \<Rightarrow> storage res" where
  "Storage_increment_total_issuers s =
     (let g = Storage_get_global_stats s
      in Storage_set_global_stats (g\<lparr>total_issuers := saturating_add (total_issuers g) 1\<rparr>) s)"

definition Storage_decrement_total_issuers :: "storage \<Rightarrow> storage res" where
  "Storage_decrement_total_issuers s =
     (let g = Storage_get_global_stats s
      in Storage_set_global_stats (g\<lparr>total_issuers := saturating_sub (total_issuers g) 1\<rparr>) s)"

definition Storage_get_issuer_stats :: "address \<Rightarrow> storage \<Rightarrow> issuer_stats" where
  "Storage_get_issuer_stats a s = unwrap_or (issuer_stats (reg s) a) \<lparr>total_issued = 0\<rparr>"

definition Storage_set_issuer_stats :: "address \<Rightarrow> issuer_stats \<Rightarrow> storage \<Rightarrow> storage res" where
  "Storage_set_issuer_stats a st =
     set_registry (K_IssuerStats a) (issuer_stats_update (\<lambda>m. m(a \<mapsto> st)))"

definition Storage_increment_issuer_stats :: "address \<Rightarrow> u64 \<Rightarrow> storage \<Rightarrow> storage res" where
  "Storage_increment_issuer_stats a n s =
     (let st = Storage_get_issuer_stats a s
      in Storage_set_issuer_stats a (st\<lparr>total_issued := saturating_add (total_issued st) n\<rparr>) s)"

subsection \<open>Issuer and bridge registries\<close>

definition Storage_is_issuer :: "address \<Rightarrow> storage \<Rightarrow> bool" where
  "Storage_is_issuer a s = (issuer_flag (reg s) a \<noteq> None)"

definition Storage_get_issuer_list :: "storage \<Rightarrow> address list" where
  "Storage_get_issuer_list s = unwrap_or (issuer_list (reg s)) []"

definition Storage_add_issuer :: "address \<Rightarrow> storage \<Rightarrow> storage res" where
  "Storage_add_issuer a =
     with_ttl (\<lambda>tm s.
       let s = extend_persistent (K_Issuer a) tm
                 (reg_update (issuer_flag_update (\<lambda>m. m(a \<mapsto> True))) s);
           l = Storage_get_issuer_list s
       in if a \<in> set l then s
          else extend_persistent K_IssuerList tm
                 (reg_update (issuer_list_update (\<lambda>_. Some (l @ [a]))) s))"

definition Storage_remove_issuer :: "address \<Rightarrow> storage \<Rightarrow> storage" where
  "Storage_remove_issuer a s =
     drop_persistent (K_Issuer a) (reg_update (issuer_flag_update (\<lambda>m. m(a := None))) s)"

definition Storage_is_bridge :: "address \<Rightarrow> storage \<Rightarrow> bool" where
  "Storage_is_bridge a s = (bridge_flag (reg s) a \<noteq> None)"

definition Storage_get_bridge_list :: "storage \<Rightarrow> address list" where
  "Storage_get_bridge_list s = unwrap_or (bridge_list (reg s)) []"

definition Storage_add_bridge :: "address \<Rightarrow> storage \<Rightarrow> storage res" where
  "Storage_add_bridge a =
     with_ttl (\<lambda>tm s.
       let s = extend_persistent (K_Bridge a) tm
                 (reg_update (bridge_flag_update (\<lambda>m. m(a \<mapsto> True))) s);
           l = Storage_get_bridge_list s
       in if a \<in> set l then s
          else extend_persistent K_BridgeList tm
                 (reg_update (bridge_list_update (\<lambda>_. Some (l @ [a]))) s))"

definition Storage_set_issuer_metadata :: "address \<Rightarrow> issuer_metadata \<Rightarrow> storage \<Rightarrow> storage res" where
  "Storage_set_issuer_metadata a d =
     set_registry (K_IssuerMetadata a) (issuer_metadata_update (\<lambda>m. m(a \<mapsto> d)))"

definition Storage_get_issuer_metadata :: "address \<Rightarrow> storage \<Rightarrow> issuer_metadata option" where
  "Storage_get_issuer_metadata a s = issuer_metadata (reg s) a"

definition Storage_set_issuer_tier :: "address \<Rightarrow> issuer_tier \<Rightarrow> storage \<Rightarrow> storage res" where
  "Storage_set_issuer_tier a t =
     set_registry (K_IssuerTier a) (issuer_tier_update (\<lambda>m. m(a \<mapsto> t)))"

definition Storage_get_issuer_tier :: "address \<Rightarrow> storage \<Rightarrow> issuer_tier option" where
  "Storage_get_issuer_tier a s = issuer_tier (reg s) a"

definition Storage_get_last_issuance_time :: "address \<Rightarrow> storage \<Rightarrow> u64 option" where
  "Storage_get_last_issuance_time a s = last_issuance_time (reg s) a"

definition Storage_set_last_issuance_time :: "address \<Rightarrow> u64 \<Rightarrow> storage \<Rightarrow> storage res" where
  "Storage_set_last_issuance_time a t =
     set_registry (K_LastIssuanceTime a) (last_issuance_time_update (\<lambda>m. m(a \<mapsto> t)))"

subsection \<open>Claim types\<close>

definition Storage_get_claim_type :: "string \<Rightarrow> storage \<Rightarrow> claim_type_info option" where
  "Storage_get_claim_type c s = claim_type_entry (reg s) c"

definition Storage_get_claim_type_list :: "storage \<Rightarrow> string list" where
  "Storage_get_claim_type_list s = unwrap_or (claim_type_list (reg s)) []"

definition Storage_set_claim_type :: "claim_type_info \<Rightarrow> storage \<Rightarrow> storage res" where
  "Storage_set_claim_type info s =
     (let c = ct_claim_type info; is_new = (claim_type_entry (reg s) c = None)
      in with_ttl (\<lambda>tm s.
           let s = extend_persistent (K_ClaimType c) tm
                     (reg_update (claim_type_entry_update (\<lambda>m. m(c \<mapsto> info))) s)
           in if is_new
              then extend_persistent K_ClaimTypeList tm
                     (reg_update (claim_type_list_update
                        (\<lambda>_. Some (Storage_get_claim_type_list s @ [c]))) s)
              else s) s)"

definition Storage_get_claim_type_count :: "string \<Rightarrow> storage \<Rightarrow> u64" where
  "Storage_get_claim_type_count c s = unwrap_or (claim_type_count (reg s) c) 0"

definition Storage_increment_claim_type_count :: "string \<Rightarrow> storage \<Rightarrow> storage res" where
  "Storage_increment_claim_type_count c s =
     (let n = saturating_add (Storage_get_claim_type_count c s) 1
      in set_registry (K_ClaimTypeCount c) (claim_type_count_update (\<lambda>m. m(c \<mapsto> n))) s)"

definition Storage_decrement_claim_type_count :: "string \<Rightarrow> storage \<Rightarrow> storage res" where
  "Storage_decrement_claim_type_count c s =
     (let n = saturating_sub (Storage_get_claim_type_count c s) 1
      in set_registry (K_ClaimTypeCount c) (claim_type_count_update (\<lambda>m. m(c \<mapsto> n))) s)"

subsection \<open>Whitelists\<close>

definition Storage_is_whitelist_enabled :: "address \<Rightarrow> storage \<Rightarrow> bool" where
  "Storage_is_whitelist_enabled a s = unwrap_or (whitelist_enabled (reg s) a) False"

definition Storage_set_whitelist_enabled :: "address \<Rightarrow> bool \<Rightarrow> storage \<Rightarrow> storage res" where
  "Storage_set_whitelist_enabled a b =
     set_registry (K_WhitelistEnabled a) (whitelist_enabled_update (\<lambda>m. m(a \<mapsto> b)))"

text \<open>The aliases some call sites use: \<^verbatim>\<open>is_whitelist_mode\<close> and \<^verbatim>\<open>set_whitelist_mode\<close> forward to the two above.\<close>

abbreviation Storage_is_whitelist_mode :: "address \<Rightarrow> storage \<Rightarrow> bool" where
  "Storage_is_whitelist_mode \<equiv> Storage_is_whitelist_enabled"

abbreviation Storage_set_whitelist_mode :: "address \<Rightarrow> bool \<Rightarrow> storage \<Rightarrow> storage res" where
  "Storage_set_whitelist_mode \<equiv> Storage_set_whitelist_enabled"

definition Storage_is_whitelisted :: "address \<Rightarrow> address \<Rightarrow> storage \<Rightarrow> bool" where
  "Storage_is_whitelisted i a s = (whitelist_entry (reg s) (i, a) \<noteq> None)"

definition Storage_add_to_whitelist :: "address \<Rightarrow> address \<Rightarrow> storage \<Rightarrow> storage res" where
  "Storage_add_to_whitelist i a =
     set_registry (K_Whitelist i a) (whitelist_entry_update (\<lambda>m. m((i, a) \<mapsto> True)))"

definition Storage_remove_from_whitelist :: "address \<Rightarrow> address \<Rightarrow> storage \<Rightarrow> storage" where
  "Storage_remove_from_whitelist i a s =
     drop_persistent (K_Whitelist i a)
       (reg_update (whitelist_entry_update (\<lambda>m. m((i, a) := None))) s)"

subsection \<open>Delegations\<close>

definition Storage_get_delegation ::
  "address \<Rightarrow> address \<Rightarrow> string \<Rightarrow> storage \<Rightarrow> delegation option" where
  "Storage_get_delegation i d c s = delegation_entry (reg s) (i, d, c)"

definition Storage_get_delegator_index :: "address \<Rightarrow> storage \<Rightarrow> (address \<times> string) list" where
  "Storage_get_delegator_index i s = unwrap_or (delegator_index (reg s) i) []"

definition Storage_set_delegation :: "delegation \<Rightarrow> storage \<Rightarrow> storage res" where
  "Storage_set_delegation g =
     (let i = dg_delegator g; d = dg_delegate g; c = dg_claim_type g
      in with_ttl (\<lambda>tm s.
           let s = extend_persistent (K_Delegation i d c) tm
                     (reg_update (delegation_entry_update (\<lambda>m. m((i, d, c) \<mapsto> g))) s);
               ix = Storage_get_delegator_index i s
           in if (d, c) \<in> set ix then s
              else extend_persistent (K_DelegatorIndex i) tm
                     (reg_update (delegator_index_update (\<lambda>m. m(i \<mapsto> ix @ [(d, c)]))) s)))"

definition Storage_remove_delegation ::
  "address \<Rightarrow> address \<Rightarrow> string \<Rightarrow> storage \<Rightarrow> storage res" where
  "Storage_remove_delegation i d c s =
     (let s = drop_persistent (K_Delegation i d c)
                (reg_update (delegation_entry_update (\<lambda>m. m((i, d, c) := None))) s);
          updated = without (d, c) (Storage_get_delegator_index i s)
      in set_registry (K_DelegatorIndex i) (delegator_index_update (\<lambda>m. m(i \<mapsto> updated))) s)"

subsection \<open>Expiration hooks and templates\<close>

definition Storage_get_expiration_hook :: "address \<Rightarrow> storage \<Rightarrow> expiration_hook option" where
  "Storage_get_expiration_hook a s = hook_entry (reg s) a"

definition Storage_set_expiration_hook :: "address \<Rightarrow> expiration_hook \<Rightarrow> storage \<Rightarrow> storage res" where
  "Storage_set_expiration_hook a h =
     set_registry (K_ExpirationHook a) (hook_entry_update (\<lambda>m. m(a \<mapsto> h)))"

definition Storage_remove_expiration_hook :: "address \<Rightarrow> storage \<Rightarrow> storage" where
  "Storage_remove_expiration_hook a s =
     drop_persistent (K_ExpirationHook a) (reg_update (hook_entry_update (\<lambda>m. m(a := None))) s)"

definition Storage_get_template :: "address \<Rightarrow> string \<Rightarrow> storage \<Rightarrow> attestation_template res" where
  "Storage_get_template i t s = ok_or (template_entry (reg s) (i, t)) (Err E_NotFound)"

definition Storage_get_template_registry :: "address \<Rightarrow> storage \<Rightarrow> string list" where
  "Storage_get_template_registry i s = unwrap_or (template_list (reg s) i) []"

definition Storage_set_template :: "attestation_template \<Rightarrow> storage \<Rightarrow> storage res" where
  "Storage_set_template t s =
     (let i = tp_issuer t; n = tp_template_id t; is_new = (template_entry (reg s) (i, n) = None)
      in with_ttl (\<lambda>tm s.
           let s = extend_persistent (K_AttestationTemplate i n) tm
                     (reg_update (template_entry_update (\<lambda>m. m((i, n) \<mapsto> t))) s)
           in if is_new
              then extend_persistent (K_AttestationTemplateList i) tm
                     (reg_update (template_list_update
                        (\<lambda>m. m(i \<mapsto> Storage_get_template_registry i s @ [n]))) s)
              else s) s)"

definition Storage_remove_template :: "address \<Rightarrow> string \<Rightarrow> storage \<Rightarrow> storage res" where
  "Storage_remove_template i n s =
     (let s = drop_persistent (K_AttestationTemplate i n)
                (reg_update (template_entry_update (\<lambda>m. m((i, n) := None))) s);
          updated = without n (Storage_get_template_registry i s)
      in set_registry (K_AttestationTemplateList i)
           (template_list_update (\<lambda>m. m(i \<mapsto> updated))) s)"

subsection \<open>Attestations and their flat indexes\<close>

definition Storage_has_attestation :: "string \<Rightarrow> storage \<Rightarrow> bool" where
  "Storage_has_attestation i s = (attestation_entry (atts s) i \<noteq> None)"

definition Storage_set_attestation :: "attestation \<Rightarrow> storage \<Rightarrow> storage res" where
  "Storage_set_attestation a =
     set_atts (K_Attestation (att_id a)) (attestation_entry_update (\<lambda>m. m(att_id a \<mapsto> a)))"

definition Storage_get_attestation :: "string \<Rightarrow> storage \<Rightarrow> attestation res" where
  "Storage_get_attestation i s = ok_or (attestation_entry (atts s) i) (Err E_NotFound)"

definition Storage_get_subject_attestations :: "address \<Rightarrow> storage \<Rightarrow> string list" where
  "Storage_get_subject_attestations a s = unwrap_or (subject_ids (atts s) a) []"

definition Storage_add_subject_attestation :: "address \<Rightarrow> string \<Rightarrow> storage \<Rightarrow> storage res" where
  "Storage_add_subject_attestation a i s =
     (let l = Storage_get_subject_attestations a s @ [i]
      in set_atts (K_SubjectAttestations a) (subject_ids_update (\<lambda>m. m(a \<mapsto> l))) s)"

definition Storage_remove_subject_attestation :: "address \<Rightarrow> string \<Rightarrow> storage \<Rightarrow> storage res" where
  "Storage_remove_subject_attestation a i s =
     (let l = without i (Storage_get_subject_attestations a s)
      in set_atts (K_SubjectAttestations a) (subject_ids_update (\<lambda>m. m(a \<mapsto> l))) s)"

definition Storage_get_issuer_attestations :: "address \<Rightarrow> storage \<Rightarrow> string list" where
  "Storage_get_issuer_attestations a s = unwrap_or (issuer_ids (atts s) a) []"

definition Storage_add_issuer_attestation :: "address \<Rightarrow> string \<Rightarrow> storage \<Rightarrow> storage res" where
  "Storage_add_issuer_attestation a i s =
     (let l = Storage_get_issuer_attestations a s @ [i]
      in set_atts (K_IssuerAttestations a) (issuer_ids_update (\<lambda>m. m(a \<mapsto> l))) s)"

definition Storage_add_issuer_attestations_bulk ::
  "address \<Rightarrow> string list \<Rightarrow> storage \<Rightarrow> storage res" where
  "Storage_add_issuer_attestations_bulk a ids s =
     (if ids = [] then Inr s
      else (let l = Storage_get_issuer_attestations a s @ ids
            in set_atts (K_IssuerAttestations a) (issuer_ids_update (\<lambda>m. m(a \<mapsto> l))) s))"

definition Storage_remove_issuer_attestation :: "address \<Rightarrow> string \<Rightarrow> storage \<Rightarrow> storage res" where
  "Storage_remove_issuer_attestation a i s =
     (let l = without i (Storage_get_issuer_attestations a s)
      in set_atts (K_IssuerAttestations a) (issuer_ids_update (\<lambda>m. m(a \<mapsto> l))) s)"

definition Storage_get_valid_attestations :: "address \<Rightarrow> storage \<Rightarrow> string list" where
  "Storage_get_valid_attestations a s = unwrap_or (valid_ids (atts s) a) []"

definition Storage_add_valid_attestation :: "address \<Rightarrow> string \<Rightarrow> storage \<Rightarrow> storage res" where
  "Storage_add_valid_attestation a i s =
     (let l = Storage_get_valid_attestations a s @ [i]
      in set_atts (K_ValidAttestations a) (valid_ids_update (\<lambda>m. m(a \<mapsto> l))) s)"

definition Storage_remove_valid_attestation :: "address \<Rightarrow> string \<Rightarrow> storage \<Rightarrow> storage res" where
  "Storage_remove_valid_attestation a i s =
     (let l = without i (Storage_get_valid_attestations a s)
      in set_atts (K_ValidAttestations a) (valid_ids_update (\<lambda>m. m(a \<mapsto> l))) s)"

subsection \<open>Audit log and endorsements\<close>

definition Storage_get_audit_log :: "string \<Rightarrow> storage \<Rightarrow> audit_entry list" where
  "Storage_get_audit_log i s = unwrap_or (audit_log (atts s) i) []"

definition Storage_append_audit_entry :: "string \<Rightarrow> audit_entry \<Rightarrow> storage \<Rightarrow> storage res" where
  "Storage_append_audit_entry i entry s =
     (let l = Storage_get_audit_log i s @ [entry]
      in set_atts (K_AuditLog i) (audit_log_update (\<lambda>m. m(i \<mapsto> l))) s)"

definition Storage_get_endorsements :: "string \<Rightarrow> storage \<Rightarrow> endorsement list" where
  "Storage_get_endorsements i s = unwrap_or (endorsements (atts s) i) []"

definition Storage_get_endorsements_by_endorser :: "address \<Rightarrow> storage \<Rightarrow> endorsement list" where
  "Storage_get_endorsements_by_endorser a s = unwrap_or (endorser_index (atts s) a) []"

text \<open>The source writes the endorsement under the attestation and then under the endorser, with the same
  lifetime; a fragment of another function stands between the two parts.\<close>

definition Storage_index_endorsement :: "u32 \<Rightarrow> endorsement \<Rightarrow> storage \<Rightarrow> storage" where
  "Storage_index_endorsement tm en s =
     (let l = Storage_get_endorsements_by_endorser (en_endorser en) s @ [en]
      in extend_persistent (K_EndorserIndex (en_endorser en)) tm
           (atts_update (endorser_index_update (\<lambda>m. m(en_endorser en \<mapsto> l))) s))"

definition Storage_add_endorsement :: "string \<Rightarrow> endorsement \<Rightarrow> storage \<Rightarrow> storage res" where
  "Storage_add_endorsement i en =
     with_ttl (\<lambda>tm s.
       let l = Storage_get_endorsements i s @ [en]
       in Storage_index_endorsement tm en
            (extend_persistent (K_Endorsements i) tm
              (atts_update (endorsements_update (\<lambda>m. m(i \<mapsto> l))) s)))"

subsection \<open>Requests, multi-signature proposals, council proposals\<close>

definition Storage_get_request :: "string \<Rightarrow> storage \<Rightarrow> attestation_request res" where
  "Storage_get_request i s = ok_or (request_entry (flow_st s) i) (Err E_NotFound)"

definition Storage_set_request :: "attestation_request \<Rightarrow> storage \<Rightarrow> storage res" where
  "Storage_set_request r =
     set_flow (K_Request (req_id r)) (request_entry_update (\<lambda>m. m(req_id r \<mapsto> r)))"

definition Storage_get_pending_request_ids :: "address \<Rightarrow> storage \<Rightarrow> string list" where
  "Storage_get_pending_request_ids a s = unwrap_or (pending_requests (flow_st s) a) []"

definition Storage_add_pending_request :: "address \<Rightarrow> string \<Rightarrow> storage \<Rightarrow> storage res" where
  "Storage_add_pending_request a i s =
     (let l = Storage_get_pending_request_ids a s @ [i]
      in set_flow (K_PendingRequests a) (pending_requests_update (\<lambda>m. m(a \<mapsto> l))) s)"

definition Storage_remove_pending_request :: "address \<Rightarrow> string \<Rightarrow> storage \<Rightarrow> storage res" where
  "Storage_remove_pending_request a i s =
     (let l = without i (Storage_get_pending_request_ids a s)
      in set_flow (K_PendingRequests a) (pending_requests_update (\<lambda>m. m(a \<mapsto> l))) s)"

definition Storage_get_multisig_proposal :: "string \<Rightarrow> storage \<Rightarrow> multisig_proposal res" where
  "Storage_get_multisig_proposal i s = ok_or (multisig_entry (flow_st s) i) (Err E_NotFound)"

definition Storage_set_multisig_proposal :: "multisig_proposal \<Rightarrow> storage \<Rightarrow> storage res" where
  "Storage_set_multisig_proposal p =
     set_flow (K_MultisigProposal (ms_id p)) (multisig_entry_update (\<lambda>m. m(ms_id p \<mapsto> p)))"

definition Storage_get_council :: "storage \<Rightarrow> address list option" where
  "Storage_get_council s = admin_council (inst s)"

definition Storage_set_council :: "address list \<Rightarrow> storage \<Rightarrow> storage res" where
  "Storage_set_council = Storage_set_admin_council"

definition Storage_get_proposal :: "u32 \<Rightarrow> storage \<Rightarrow> council_proposal option" where
  "Storage_get_proposal i s = council_entry (flow_st s) i"

definition Storage_set_proposal :: "council_proposal \<Rightarrow> storage \<Rightarrow> storage res" where
  "Storage_set_proposal p =
     set_flow (K_CouncilProposal (cp_id p)) (council_entry_update (\<lambda>m. m(cp_id p \<mapsto> p)))"

definition Storage_next_proposal_id :: "storage \<Rightarrow> (u32 \<times> storage) res" where
  "Storage_next_proposal_id s =
     and_then (checked_add (unwrap_or (proposal_counter (inst s)) 0) 1)
       (\<lambda>n. Inr (n, inst_update (proposal_counter_update (\<lambda>_. Some n)) s))"

subsection \<open>Automation\<close>

text \<open>Readers: unfolding them turns a statement about the state into one about its fields.\<close>

lemmas readers =
  Storage_get_admin_council_def Storage_has_admin_def Storage_is_admin_def
  Storage_get_pending_admin_transfer_def Storage_get_version_def Storage_get_fee_config_def
  Storage_get_ttl_config_def Storage_get_contract_config_def Storage_is_paused_def
  Storage_get_pause_reason_def Storage_get_limits_def Storage_get_rate_limit_config_def
  Storage_get_claim_type_rate_limit_def Storage_get_require_registered_claim_type_def
  Storage_get_global_stats_def Storage_get_issuer_stats_def Storage_is_issuer_def
  Storage_get_issuer_list_def Storage_is_bridge_def Storage_get_bridge_list_def
  Storage_get_issuer_metadata_def Storage_get_issuer_tier_def
  Storage_get_last_issuance_time_def Storage_get_claim_type_def
  Storage_get_claim_type_list_def Storage_get_claim_type_count_def
  Storage_is_whitelist_enabled_def Storage_is_whitelisted_def Storage_get_delegation_def
  Storage_get_delegator_index_def Storage_get_expiration_hook_def Storage_get_template_def
  Storage_get_template_registry_def Storage_has_attestation_def Storage_get_attestation_def
  Storage_get_subject_attestations_def Storage_get_issuer_attestations_def
  Storage_get_valid_attestations_def Storage_get_audit_log_def Storage_get_endorsements_def
  Storage_get_endorsements_by_endorser_def Storage_get_request_def
  Storage_get_pending_request_ids_def Storage_get_multisig_proposal_def
  Storage_get_council_def Storage_get_proposal_def

text \<open>Writers, down to the field updates.\<close>

lemmas writers =
  Storage_set_admin_council_def Storage_add_admin_def Storage_remove_admin_def
  Storage_set_pending_admin_transfer_def Storage_remove_pending_admin_transfer_def
  Storage_set_version_def Storage_set_fee_config_def Storage_set_ttl_config_def
  Storage_set_contract_config_def Storage_set_paused_def Storage_set_pause_reason_def
  Storage_clear_pause_reason_def Storage_set_limits_def Storage_set_rate_limit_config_def
  Storage_set_claim_type_rate_limit_def Storage_set_require_registered_claim_type_def
  Storage_set_global_stats_def Storage_increment_total_attestations_def
  Storage_increment_total_revocations_def Storage_increment_total_issuers_def
  Storage_decrement_total_issuers_def Storage_set_issuer_stats_def
  Storage_increment_issuer_stats_def Storage_add_issuer_def Storage_remove_issuer_def
  Storage_add_bridge_def Storage_set_issuer_metadata_def Storage_set_issuer_tier_def
  Storage_set_last_issuance_time_def Storage_set_claim_type_def
  Storage_increment_claim_type_count_def Storage_decrement_claim_type_count_def
  Storage_set_whitelist_enabled_def Storage_add_to_whitelist_def
  Storage_remove_from_whitelist_def Storage_set_delegation_def Storage_remove_delegation_def
  Storage_set_expiration_hook_def Storage_remove_expiration_hook_def
  Storage_set_template_def Storage_remove_template_def Storage_set_attestation_def
  Storage_add_subject_attestation_def Storage_remove_subject_attestation_def
  Storage_add_issuer_attestation_def Storage_add_issuer_attestations_bulk_def
  Storage_remove_issuer_attestation_def Storage_add_valid_attestation_def
  Storage_remove_valid_attestation_def Storage_append_audit_entry_def
  Storage_add_endorsement_def Storage_index_endorsement_def Storage_set_request_def Storage_add_pending_request_def
  Storage_remove_pending_request_def Storage_set_multisig_proposal_def
  Storage_set_council_def Storage_set_proposal_def Storage_next_proposal_id_def
  Let_def

lemma get_attestation_entry:
  "Storage_get_attestation i s =
     (case attestation_entry (atts s) i of Some a \<Rightarrow> Inr a | None \<Rightarrow> Inl (Err E_NotFound))"
  by (simp add: Storage_get_attestation_def split: option.splits)

end
