(* ===== verification/TL_Events.thy ===== *)
theory TL_Events
  imports TL_Storage
begin

section \<open>Events\<close>

text \<open>
  Models \<^verbatim>\<open>src/src/events.rs\<close>: one definition per \<^verbatim>\<open>Events::\<close> function that the contract calls.  An event
  is the pair of its topics and its data, as handed to \<^verbatim>\<open>env.events().publish\<close>, and publishing
  appends it to the log of the invocation.  Where the file declares a topic symbol twice the
  model takes the one the README documents (\<^verbatim>\<open>created\<close>, \<^verbatim>\<open>revoked\<close>, ...), for requests the one the
  indexer listens to (\<^verbatim>\<open>att_req\<close>).
\<close>

definition publish :: "scval list \<Rightarrow> scval list \<Rightarrow> storage \<Rightarrow> storage" where
  "publish topics data =
     host_update (events_update (\<lambda>l. l @ [\<lparr>ev_topics = topics, ev_data = data\<rparr>]))"

definition Events_admin_initialized :: "address \<Rightarrow> u64 \<Rightarrow> storage \<Rightarrow> storage" where
  "Events_admin_initialized admin ts = publish [SymV ''adm_init''] [AddrV admin, U64V ts]"

definition Events_attestation_created :: "attestation \<Rightarrow> storage \<Rightarrow> storage" where
  "Events_attestation_created a =
     publish [SymV ''created'', AddrV (att_subject a)]
       [StrV (att_id a), AddrV (att_issuer a), StrV (att_claim_type a), U64V (att_timestamp a),
        OptStrV (att_metadata a)]"

definition Events_attestation_imported :: "attestation \<Rightarrow> storage \<Rightarrow> storage" where
  "Events_attestation_imported a =
     publish [SymV ''imported'', AddrV (att_subject a)]
       [StrV (att_id a), AddrV (att_issuer a), StrV (att_claim_type a), U64V (att_timestamp a),
        OptU64V (att_expiration a)]"

definition Events_attestation_bridged :: "attestation \<Rightarrow> storage \<Rightarrow> storage" where
  "Events_attestation_bridged a =
     publish [SymV ''bridged'', AddrV (att_subject a)]
       [StrV (att_id a), AddrV (att_issuer a), StrV (att_claim_type a),
        StrV (unwrap_or (att_source_chain a) ''''), StrV (unwrap_or (att_source_tx a) '''')]"

definition Events_attestation_revoked ::
  "string \<Rightarrow> address \<Rightarrow> string option \<Rightarrow> storage \<Rightarrow> storage" where
  "Events_attestation_revoked i issuer reason =
     publish [SymV ''revoked'', AddrV issuer] [StrV i, OptStrV reason]"

definition Events_attestation_revoked_with_reason ::
  "string \<Rightarrow> address \<Rightarrow> string option \<Rightarrow> storage \<Rightarrow> storage" where
  "Events_attestation_revoked_with_reason i issuer reason =
     publish [SymV ''revoked'', AddrV issuer] [StrV i, OptStrV reason]"

definition Events_attestation_renewed ::
  "string \<Rightarrow> address \<Rightarrow> u64 option \<Rightarrow> storage \<Rightarrow> storage" where
  "Events_attestation_renewed i issuer new_expiration =
     publish [SymV ''renewed'', AddrV issuer] [StrV i, OptU64V new_expiration]"

definition Events_attestation_expired :: "string \<Rightarrow> address \<Rightarrow> storage \<Rightarrow> storage" where
  "Events_attestation_expired i subject = publish [SymV ''expired'', AddrV subject] [StrV i]"

definition Events_deletion_requested :: "address \<Rightarrow> string \<Rightarrow> u64 \<Rightarrow> storage \<Rightarrow> storage" where
  "Events_deletion_requested subject i ts =
     publish [SymV ''del_req'', AddrV subject] [StrV i, U64V ts]"

definition Events_issuer_registered :: "address \<Rightarrow> address \<Rightarrow> u64 \<Rightarrow> storage \<Rightarrow> storage" where
  "Events_issuer_registered issuer admin ts =
     publish [SymV ''iss_reg'', AddrV issuer] [AddrV admin, U64V ts]"

definition Events_issuer_removed :: "address \<Rightarrow> address \<Rightarrow> u64 \<Rightarrow> storage \<Rightarrow> storage" where
  "Events_issuer_removed issuer admin ts =
     publish [SymV ''iss_rem'', AddrV issuer] [AddrV admin, U64V ts]"

definition Events_claim_type_registered :: "string \<Rightarrow> string \<Rightarrow> storage \<Rightarrow> storage" where
  "Events_claim_type_registered c description = publish [SymV ''clm_type'', StrV c] [StrV description]"

definition Events_multisig_proposed ::
  "string \<Rightarrow> address \<Rightarrow> address \<Rightarrow> u32 \<Rightarrow> storage \<Rightarrow> storage" where
  "Events_multisig_proposed p proposer subject threshold =
     publish [SymV ''ms_prop'', AddrV subject] [StrV p, AddrV proposer, U32V threshold]"

definition Events_multisig_cosigned ::
  "string \<Rightarrow> address \<Rightarrow> u32 \<Rightarrow> u32 \<Rightarrow> storage \<Rightarrow> storage" where
  "Events_multisig_cosigned p signer signatures_so_far threshold =
     publish [SymV ''ms_sign'', AddrV signer] [StrV p, U32V signatures_so_far, U32V threshold]"

definition Events_multisig_activated :: "string \<Rightarrow> string \<Rightarrow> storage \<Rightarrow> storage" where
  "Events_multisig_activated p i = publish [SymV ''ms_actv''] [StrV p, StrV i]"

definition Events_admin_transferred :: "address \<Rightarrow> address \<Rightarrow> storage \<Rightarrow> storage" where
  "Events_admin_transferred old_a new_a = publish [SymV ''adm_xfer''] [AddrV old_a, AddrV new_a]"

definition Events_admin_transfer_proposed :: "address \<Rightarrow> address \<Rightarrow> storage \<Rightarrow> storage" where
  "Events_admin_transfer_proposed current new_a =
     publish [SymV ''adm_prop'', AddrV current] [AddrV new_a]"

definition Events_admin_added :: "address \<Rightarrow> address \<Rightarrow> u64 \<Rightarrow> storage \<Rightarrow> storage" where
  "Events_admin_added by_admin new_a ts =
     publish [SymV ''adm_add'', AddrV by_admin] [AddrV new_a, U64V ts]"

definition Events_admin_removed :: "address \<Rightarrow> address \<Rightarrow> u64 \<Rightarrow> storage \<Rightarrow> storage" where
  "Events_admin_removed by_admin removed ts =
     publish [SymV ''adm_rem'', AddrV by_admin] [AddrV removed, U64V ts]"

definition Events_attestation_transferred :: "string \<Rightarrow> address \<Rightarrow> address \<Rightarrow> storage \<Rightarrow> storage" where
  "Events_attestation_transferred i old_issuer new_issuer =
     publish [SymV ''att_xfer'', AddrV old_issuer] [StrV i, AddrV new_issuer]"

definition Events_expiration_hook_triggered :: "address \<Rightarrow> string \<Rightarrow> u64 \<Rightarrow> storage \<Rightarrow> storage" where
  "Events_expiration_hook_triggered subject i ex =
     publish [SymV ''exp_hook'', AddrV subject] [StrV i, U64V ex]"

definition Events_contract_paused :: "address \<Rightarrow> u64 \<Rightarrow> storage \<Rightarrow> storage" where
  "Events_contract_paused admin ts = publish [SymV ''paused''] [AddrV admin, U64V ts]"

definition Events_contract_unpaused :: "address \<Rightarrow> u64 \<Rightarrow> storage \<Rightarrow> storage" where
  "Events_contract_unpaused admin ts = publish [SymV ''unpaused''] [AddrV admin, U64V ts]"

definition Events_attestation_requested ::
  "string \<Rightarrow> address \<Rightarrow> address \<Rightarrow> string \<Rightarrow> u64 \<Rightarrow> storage \<Rightarrow> storage" where
  "Events_attestation_requested r subject issuer c expires_at =
     publish [SymV ''att_req'', AddrV issuer] [StrV r, AddrV subject, StrV c, U64V expires_at]"

definition Events_request_fulfilled :: "string \<Rightarrow> address \<Rightarrow> string \<Rightarrow> storage \<Rightarrow> storage" where
  "Events_request_fulfilled r issuer i = publish [SymV ''req_ok'', AddrV issuer] [StrV r, StrV i]"

definition Events_request_rejected ::
  "string \<Rightarrow> address \<Rightarrow> string option \<Rightarrow> storage \<Rightarrow> storage" where
  "Events_request_rejected r issuer reason =
     publish [SymV ''req_no'', AddrV issuer] [StrV r, OptStrV reason]"

definition Events_request_cancelled :: "string \<Rightarrow> address \<Rightarrow> storage \<Rightarrow> storage" where
  "Events_request_cancelled r subject = publish [SymV ''req_cncl'', AddrV subject] [StrV r]"

definition Events_delegation_created ::
  "address \<Rightarrow> address \<Rightarrow> string \<Rightarrow> u64 option \<Rightarrow> storage \<Rightarrow> storage" where
  "Events_delegation_created delegator delegate c ex =
     publish [SymV ''del_crtd'', AddrV delegator] [AddrV delegate, StrV c, OptU64V ex]"

definition Events_delegation_revoked :: "address \<Rightarrow> address \<Rightarrow> string \<Rightarrow> storage \<Rightarrow> storage" where
  "Events_delegation_revoked delegator delegate c =
     publish [SymV ''del_rvkd'', AddrV delegator] [AddrV delegate, StrV c]"

definition Events_whitelist_mode_enabled :: "address \<Rightarrow> storage \<Rightarrow> storage" where
  "Events_whitelist_mode_enabled issuer = publish [SymV ''wl_on'', AddrV issuer] []"

definition Events_council_initialized :: "u32 \<Rightarrow> u32 \<Rightarrow> storage \<Rightarrow> storage" where
  "Events_council_initialized quorum member_count =
     publish [SymV ''cncl_ini''] [U32V quorum, U32V member_count]"

definition Events_proposal_created :: "u32 \<Rightarrow> address \<Rightarrow> storage \<Rightarrow> storage" where
  "Events_proposal_created p proposer = publish [SymV ''prop_new'', AddrV proposer] [U32V p]"

definition Events_proposal_approved :: "u32 \<Rightarrow> address \<Rightarrow> storage \<Rightarrow> storage" where
  "Events_proposal_approved p approver = publish [SymV ''prop_ok'', AddrV approver] [U32V p]"

definition Events_proposal_executed :: "u32 \<Rightarrow> storage \<Rightarrow> storage" where
  "Events_proposal_executed p = publish [SymV ''prop_exe''] [U32V p]"

definition Events_template_deleted :: "address \<Rightarrow> string \<Rightarrow> storage \<Rightarrow> storage" where
  "Events_template_deleted issuer t = publish [SymV ''tpl_del'', AddrV issuer] [StrV t]"

text \<open>
  \<^verbatim>\<open>issuer_tier_updated\<close> is declared with the new tier only but publishes two undeclared variables
  \<^verbatim>\<open>(old_tier, new_tier)\<close>; the model publishes the tier it is given.
\<close>

definition Events_issuer_tier_updated :: "address \<Rightarrow> issuer_tier \<Rightarrow> storage \<Rightarrow> storage" where
  "Events_issuer_tier_updated issuer t = publish [SymV ''iss_tier'', AddrV issuer] [TierV t]"

text \<open>
  Proofs unfold the \<^verbatim>\<open>Events::\<close> functions to \<^const>\<open>publish\<close> and then use that publishing
  leaves every component but the host log alone.
\<close>

text \<open>Constructors that no handler uses.\<close>

definition Events_attestation_endorsed :: "string \<Rightarrow> address \<Rightarrow> u64 \<Rightarrow> storage \<Rightarrow> storage" where
  "Events_attestation_endorsed i endorser ts =
     publish [SymV ''endorsed'', AddrV endorser] [StrV i, U64V ts]"

definition Events_whitelist_updated :: "address \<Rightarrow> address \<Rightarrow> bool \<Rightarrow> storage \<Rightarrow> storage" where
  "Events_whitelist_updated issuer subject added =
     publish [SymV (if added then ''wl_add'' else ''wl_rem''), AddrV issuer] [AddrV subject]"

definition Events_template_created :: "address \<Rightarrow> string \<Rightarrow> storage \<Rightarrow> storage" where
  "Events_template_created issuer template_id =
     publish [SymV ''tmpl_crt'', AddrV issuer] [StrV template_id]"

lemmas event_defs =
  Events_admin_initialized_def Events_attestation_created_def Events_attestation_imported_def
  Events_attestation_bridged_def Events_attestation_revoked_def
  Events_attestation_revoked_with_reason_def Events_attestation_renewed_def
  Events_attestation_expired_def Events_deletion_requested_def Events_issuer_registered_def
  Events_issuer_removed_def Events_claim_type_registered_def Events_multisig_proposed_def
  Events_multisig_cosigned_def Events_multisig_activated_def Events_admin_transferred_def
  Events_admin_transfer_proposed_def Events_admin_added_def Events_admin_removed_def
  Events_attestation_transferred_def Events_expiration_hook_triggered_def
  Events_contract_paused_def Events_contract_unpaused_def Events_attestation_requested_def
  Events_request_fulfilled_def Events_request_rejected_def Events_request_cancelled_def
  Events_delegation_created_def Events_delegation_revoked_def
  Events_whitelist_mode_enabled_def Events_council_initialized_def
  Events_proposal_created_def Events_proposal_approved_def Events_proposal_executed_def
  Events_template_deleted_def Events_issuer_tier_updated_def Events_attestation_endorsed_def
  Events_whitelist_updated_def Events_template_created_def

lemma publish_components [simp]:
  "inst (publish t d s) = inst s"
  "reg (publish t d s) = reg s"
  "atts (publish t d s) = atts s"
  "flow_st (publish t d s) = flow_st s"
  "ttl (host (publish t d s)) = ttl (host s)"
  "calls (host (publish t d s)) = calls (host s)"
  "events (host (publish t d s)) = events (host s) @ [\<lparr>ev_topics = t, ev_data = d\<rparr>]"
  by (simp_all add: publish_def)

lemma publish_ttl_ok [simp]: "ttl_ok (publish t d s) = ttl_ok s"
  "lifetime (publish t d s) = lifetime s"
  by (simp_all add: publish_def)

end
