(* ===== verification/TL_Chunked.thy ===== *)
theory TL_Chunked
  imports TL_Events
begin

section \<open>Pagination and the chunked index\<close>

text \<open>
  Models \<^verbatim>\<open>paginate\<close>, \<^verbatim>\<open>paginate_addresses\<close> and \<^verbatim>\<open>ChunkedIndex\<close> of \<^verbatim>\<open>src/src/storage.rs\<close>.  The chunked
  index keeps the attestation ids of a subject and of an issuer as a sequence of persistent entries
  of at most fifty ids.  The chunk number is a \<^verbatim>\<open>u32\<close> counter under overflow checks, so every loop
  over chunks is a terminating recursion that may trap.

  The two families (subject, issuer) share their code up to the key, so the loops are written once,
  over the accessors of a family, and the locale \<open>chunk_family\<close> states what they need of them.  Its
  main result is that writing a list and reading it back gives the list, whatever was stored
  before.  The locale \<open>id_index\<close> is the contract of an index as its clients see it: adding appends,
  removing filters, and other owners are untouched; the flat indexes of \<open>TL_Storage\<close> and both
  chunked ones are instances.
\<close>

subsection \<open>Pagination\<close>

definition paginate :: "'a list \<Rightarrow> u32 \<Rightarrow> u32 \<Rightarrow> 'a list res" where
  "paginate l start limit =
     (if length l \<le> unat start then Inr []
      else and_then (checked_add start limit)
             (\<lambda>e. Inr (List.map_filter (vec_get l) [unat start..<min (unat e) (length l)])))"

lemma paginate_eq:
  "paginate l start limit =
     (if length l \<le> unat start then Inr []
      else if unat start + unat limit < 2 ^ 32
      then Inr (take (unat limit) (drop (unat start) l))
      else Inl Trap)"
proof (cases "unat start < length l \<and> unat start + unat limit < 2 ^ 32")
  case True
  then have "unat (start + limit) = unat start + unat limit"
    by (simp add: unat_add_exact)
  then show ?thesis
    using True
    by (simp add: paginate_def checked_add_def map_filter_nth_upt min_def)
next
  case False
  then show ?thesis by (auto simp: paginate_def checked_add_def)
qed

text \<open>The source of the second is cut off behind its loop; it returns what the loop has collected, as the first
  does.\<close>

definition paginate_addresses :: "address list \<Rightarrow> u32 \<Rightarrow> u32 \<Rightarrow> address list res" where
  "paginate_addresses l start limit =
     (if length l \<le> unat start then Inr []
      else and_then (checked_add start limit)
             (\<lambda>e. Inr (List.map_filter (vec_get l) [unat start..<min (unat e) (length l)])))"

lemma paginate_addresses_eq: "paginate_addresses = paginate"
  by (intro ext) (simp add: paginate_addresses_def paginate_def)

subsection \<open>The chunk loops\<close>

lemma unat_u32 [simp]: "n < 2 ^ 32 \<Longrightarrow> unat (of_nat n :: u32) = n"
  by (simp add: unat_of_nat take_bit_nat_eq_self)

lemma of_nat_u32_eq [simp]:
  "m < 2 ^ 32 \<Longrightarrow> n < 2 ^ 32 \<Longrightarrow> (of_nat m :: u32) = of_nat n \<longleftrightarrow> m = n"
  using unat_u32 by metis

lemma checked_succ: "Suc n < 2 ^ 32 \<Longrightarrow> checked_add (of_nat n :: u32) 1 = Inr (of_nat (Suc n))"
  by (simp add: checked_add_def)

definition CHUNKED_INDEX_CHUNK_SIZE :: nat where
  "CHUNKED_INDEX_CHUNK_SIZE = 50"

text \<open>The loop of \<^verbatim>\<open>get_subject_ids\<close> and \<^verbatim>\<open>get_issuer_ids\<close>: concatenate chunks up to the first empty
  one.\<close>

function read_chunks :: "(u32 \<Rightarrow> string list option) \<Rightarrow> u32 \<Rightarrow> string list \<Rightarrow> string list res" where
  "read_chunks f ci acc =
     (let chunk = unwrap_or (f ci) []
      in if chunk = [] then Inr acc
         else and_then (checked_add ci 1) (\<lambda>cj. read_chunks f cj (acc @ chunk)))"
  by pat_completeness auto
termination
  by (relation "measure (\<lambda>(f, ci, acc). 2 ^ 32 - unat ci)") (auto simp: flow unat_add_exact)

text \<open>The first loop of \<^verbatim>\<open>write_subject_chunks\<close> and \<^verbatim>\<open>write_issuer_chunks\<close>: store the ids in
  chunks of fifty; the result is the number of chunks written.\<close>

function put_chunks ::
  "((string list option) \<Rightarrow> u32 \<Rightarrow> storage \<Rightarrow> storage) \<Rightarrow> (u32 \<Rightarrow> storage_key) \<Rightarrow> u32 \<Rightarrow>
   string list \<Rightarrow> u32 \<Rightarrow> storage \<Rightarrow> (u32 \<times> storage) res" where
  "put_chunks upd key tm ids ci s =
     (if ids = [] then Inr (ci, s)
      else and_then (checked_add ci 1)
        (\<lambda>cj. put_chunks upd key tm (drop CHUNKED_INDEX_CHUNK_SIZE ids) cj
           (extend_persistent (key ci) tm (upd (Some (take CHUNKED_INDEX_CHUNK_SIZE ids)) ci s))))"
  by pat_completeness auto
termination
  by (relation "measure (\<lambda>(upd, key, tm, ids, ci, s). length ids)") (auto simp: CHUNKED_INDEX_CHUNK_SIZE_def)

text \<open>The second loop: remove the chunks of the former contents that are left behind.\<close>

function trim_chunks ::
  "(storage \<Rightarrow> u32 \<Rightarrow> string list option) \<Rightarrow> ((string list option) \<Rightarrow> u32 \<Rightarrow> storage \<Rightarrow> storage) \<Rightarrow>
   (u32 \<Rightarrow> storage_key) \<Rightarrow> u32 \<Rightarrow> storage \<Rightarrow> storage res" where
  "trim_chunks get upd key ci s =
     (if get s ci = None then Inr s
      else and_then (checked_add ci 1)
        (\<lambda>cj. trim_chunks get upd key cj (drop_persistent (key ci) (upd None ci s))))"
  by pat_completeness auto
termination
  by (relation "measure (\<lambda>(get, upd, key, ci, s). 2 ^ 32 - unat ci)") (auto simp: flow unat_add_exact)

definition write_chunks ::
  "(storage \<Rightarrow> u32 \<Rightarrow> string list option) \<Rightarrow> (string list option \<Rightarrow> u32 \<Rightarrow> storage \<Rightarrow> storage) \<Rightarrow>
   (u32 \<Rightarrow> storage_key) \<Rightarrow> string list \<Rightarrow> storage \<Rightarrow> storage res" where
  "write_chunks get upd key ids s =
     and_then (get_ttl_lifetime s) (\<lambda>tm.
     and_then (put_chunks upd key tm ids 0 s) (\<lambda>(ci, s).
       trim_chunks get upd key ci s))"

declare read_chunks.simps [simp del] put_chunks.simps [simp del] trim_chunks.simps [simp del]

subsection \<open>Representation of a list by chunks\<close>

definition chunk_repr :: "(u32 \<Rightarrow> string list option) \<Rightarrow> string list \<Rightarrow> bool" where
  "chunk_repr f ids \<longleftrightarrow> length ids < 2 ^ 32 \<and>
     (\<forall>n < 2 ^ 32. f (of_nat n) =
        (if 50 * n < length ids then Some (take 50 (drop (50 * n) ids)) else None))"

definition chunk_count :: "string list \<Rightarrow> nat" where
  "chunk_count ids = (length ids + 49) div 50"

text \<open>The same without the bound on the length: only the number of chunks has to fit its counter.\<close>

definition chunk_shape :: "(u32 \<Rightarrow> string list option) \<Rightarrow> string list \<Rightarrow> bool" where
  "chunk_shape f ids \<longleftrightarrow> chunk_count ids < 2 ^ 32 \<and>
     (\<forall>n < 2 ^ 32. f (of_nat n) =
        (if 50 * n < length ids then Some (take 50 (drop (50 * n) ids)) else None))"

lemma less_chunk_count: "m < chunk_count ids \<longleftrightarrow> 50 * m < length ids"
  by (auto simp: chunk_count_def)

lemma chunk_count_bound: "length ids < 2 ^ 32 \<Longrightarrow> chunk_count ids < 2 ^ 31"
  by (simp add: chunk_count_def)

lemma chunk_count_drop: "ids \<noteq> [] \<Longrightarrow> chunk_count ids = Suc (chunk_count (drop 50 ids))"
proof -
  assume "ids \<noteq> []"
  then have pos: "0 < length ids" by simp
  show ?thesis
  proof (cases "length ids \<le> 50")
    case True
    with pos have "(length ids + 49) div 50 = 1" by (intro div_nat_eqI) (auto simp: Suc_le_eq)
    with True show ?thesis by (simp add: chunk_count_def)
  next
    case False
    then obtain k where "length ids = 50 + k" by (metis le_iff_add nat_le_linear)
    then show ?thesis by (simp add: chunk_count_def)
  qed
qed

lemma chunk_repr_shape: "chunk_repr f ids \<longleftrightarrow> length ids < 2 ^ 32 \<and> chunk_shape f ids"
  using chunk_count_bound [of ids] by (auto simp: chunk_repr_def chunk_shape_def)

text \<open>Reading depends on the chunks of the list and the gap behind them, and on nothing further up.\<close>

lemma read_chunks_prefix:
  assumes count: "chunk_count ids < 2 ^ 32" and gap: "f (of_nat (chunk_count ids)) = None"
    and chunks: "\<And>m. 50 * m < length ids \<Longrightarrow> f (of_nat m) = Some (take 50 (drop (50 * m) ids))"
    and "n \<le> chunk_count ids"
  shows "read_chunks f (of_nat n) acc = Inr (acc @ drop (50 * n) ids)"
  using assms(4)
proof (induction "chunk_count ids - n" arbitrary: n acc)
  case 0
  then have n: "n = chunk_count ids" by simp
  then have "length ids \<le> 50 * n" using less_chunk_count [of n ids] by simp
  then show ?case using gap n by (subst read_chunks.simps) simp
next
  case (Suc k)
  then have n: "n < chunk_count ids" by simp
  then have len: "50 * n < length ids" by (simp add: less_chunk_count)
  have "read_chunks f (of_nat n) acc =
      read_chunks f (of_nat (Suc n)) (acc @ take 50 (drop (50 * n) ids))"
    using len n count by (subst read_chunks.simps) (simp add: chunks checked_succ)
  also have "\<dots> = Inr ((acc @ take 50 (drop (50 * n) ids)) @ drop (50 * Suc n) ids)"
    using Suc n by (intro Suc.hyps(1)) auto
  also have "take 50 (drop (50 * n) ids) @ drop (50 * Suc n) ids = drop (50 * n) ids"
    using append_take_drop_id [of 50 "drop (50 * n) ids"] by (simp add: add.commute)
  ultimately show ?case by (simp only: append_assoc)
qed

lemma read_chunks_shape:
  assumes "chunk_shape f ids" and "n \<le> chunk_count ids"
  shows "read_chunks f (of_nat n) acc = Inr (acc @ drop (50 * n) ids)"
proof (rule read_chunks_prefix [OF _ _ _ assms(2)])
  show "chunk_count ids < 2 ^ 32" using assms(1) by (simp add: chunk_shape_def)
  then show "f (of_nat (chunk_count ids)) = None"
    using assms(1) less_chunk_count [of "chunk_count ids" ids] by (simp add: chunk_shape_def)
  show "f (of_nat m) = Some (take 50 (drop (50 * m) ids))" if "50 * m < length ids" for m
    using that assms(1) less_chunk_count [of m ids] by (simp add: chunk_shape_def)
qed

corollary read_chunks_shape_0: "chunk_shape f ids \<Longrightarrow> read_chunks f 0 [] = Inr ids"
  using read_chunks_shape [of f ids 0 "[]"] by simp

corollary read_chunks_from_0: "chunk_repr f ids \<Longrightarrow> read_chunks f 0 [] = Inr ids"
  by (simp add: chunk_repr_shape read_chunks_shape_0)

text \<open>A write that returns has counted its chunks.\<close>

lemma put_chunks_bound:
  "put_chunks upd key tm ids ci s = Inr (cj, s') \<Longrightarrow> unat ci + chunk_count ids < 2 ^ 32"
proof (induction upd key tm ids ci s rule: put_chunks.induct)
  case (1 upd key tm ids ci s)
  show ?case
  proof (cases "ids = []")
    case True
    then show ?thesis using unsigned_less [of ci, where ?'a = nat] by (simp add: chunk_count_def)
  next
    case False
    with 1(2) obtain c where c: "(checked_add ci 1 :: u32 res) = Inr c"
      and rest: "put_chunks upd key tm (drop CHUNKED_INDEX_CHUNK_SIZE ids) c (extend_persistent (key ci) tm
        (upd (Some (take CHUNKED_INDEX_CHUNK_SIZE ids)) ci s)) = Inr (cj, s')"
      by (subst (asm) put_chunks.simps) (auto simp: flow)
    from c have "unat c = Suc (unat ci)" by (auto simp: checked_add_Inr unat_add_exact)
    moreover have "unat c + chunk_count (drop CHUNKED_INDEX_CHUNK_SIZE ids) < 2 ^ 32"
      using 1(1) False c rest by blast
    ultimately show ?thesis
      using chunk_count_drop [OF False] by (simp add: CHUNKED_INDEX_CHUNK_SIZE_def)
  qed
qed

subsection \<open>A family of chunks\<close>

locale chunk_family =
  fixes get :: "storage \<Rightarrow> u32 \<Rightarrow> string list option"
    and upd :: "string list option \<Rightarrow> u32 \<Rightarrow> storage \<Rightarrow> storage"
    and key :: "u32 \<Rightarrow> storage_key"
  assumes get_upd: "get (upd v ci s) = (get s)(ci := v)"
    and get_host: "get (host_update h s) = get s"
begin

lemma get_extend: "get (extend_persistent k t s) = get s"
  by (simp add: extend_persistent_def get_host)

lemma get_drop: "get (drop_persistent k s) = get s"
  by (simp add: drop_persistent_def get_host)

lemma put_chunks_get:
  assumes "n + chunk_count ids < 2 ^ 32"
  shows "\<exists>s'. put_chunks upd key tm ids (of_nat n) s = Inr (of_nat (n + chunk_count ids), s') \<and>
    (\<forall>m < 2 ^ 32. get s' (of_nat m) =
       (if n \<le> m \<and> 50 * (m - n) < length ids then Some (take 50 (drop (50 * (m - n)) ids))
        else get s (of_nat m)))"
  using assms
proof (induction "length ids" arbitrary: ids n s rule: less_induct)
  case less
  show ?case
  proof (cases "ids = []")
    case True
    then show ?thesis by (subst put_chunks.simps) (simp add: chunk_count_def)
  next
    case False
    let ?s = "extend_persistent (key (of_nat n)) tm (upd (Some (take 50 ids)) (of_nat n) s)"
    have cc: "chunk_count ids = Suc (chunk_count (drop 50 ids))"
      using False by (rule chunk_count_drop)
    have bnd: "Suc n + chunk_count (drop 50 ids) < 2 ^ 32" using less.prems cc by simp
    obtain s' where s': "put_chunks upd key tm (drop 50 ids) (of_nat (Suc n)) ?s =
        Inr (of_nat (Suc n + chunk_count (drop 50 ids)), s')"
      and g: "\<forall>m < 2 ^ 32. get s' (of_nat m) =
         (if Suc n \<le> m \<and> 50 * (m - Suc n) < length (drop 50 ids)
          then Some (take 50 (drop (50 * (m - Suc n)) (drop 50 ids)))
          else get ?s (of_nat m))"
      using less.hyps [OF _ bnd, of ?s] False by fastforce
    have put: "put_chunks upd key tm ids (of_nat n) s = Inr (of_nat (n + chunk_count ids), s')"
      using False s' cc bnd
      by (subst put_chunks.simps) (simp add: CHUNKED_INDEX_CHUNK_SIZE_def checked_succ)
    have "get s' (of_nat m) =
        (if n \<le> m \<and> 50 * (m - n) < length ids then Some (take 50 (drop (50 * (m - n)) ids))
         else get s (of_nat m))" if m: "m < 2 ^ 32" for m
    proof -
      note gm = g [rule_format, OF m]
      consider "m < n" | "m = n" | "n < m" by (rule linorder_cases)
      then show ?thesis
      proof cases
        case 3
        then have d: "m - n = Suc (m - Suc n)" and "(of_nat m :: u32) \<noteq> of_nat n"
          using m by auto
        then show ?thesis
          using gm 3 by (simp add: get_extend get_upd less_diff_conv add.commute)
      qed (use gm m bnd False in \<open>auto simp: get_extend get_upd\<close>)
    qed
    with put show ?thesis by blast
  qed
qed

lemma trim_chunks_get:
  assumes "N < 2 ^ 32" and "n \<le> N" and "get s (of_nat N) = None"
    and "\<And>m. n \<le> m \<Longrightarrow> m < N \<Longrightarrow> get s (of_nat m) \<noteq> None"
  shows "\<exists>s'. trim_chunks get upd key (of_nat n) s = Inr s' \<and>
    (\<forall>m < 2 ^ 32. get s' (of_nat m) = (if n \<le> m \<and> m < N then None else get s (of_nat m)))"
  using assms(2-4)
proof (induction "N - n" arbitrary: n s)
  case 0
  then show ?case using assms(1) by (subst trim_chunks.simps) auto
next
  case (Suc k)
  let ?s = "drop_persistent (key (of_nat n)) (upd None (of_nat n) s)"
  have n: "n < N" using Suc by simp
  have b: "Suc n < 2 ^ 32" using n assms(1) by simp
  have gs: "get ?s = (get s)(of_nat n := None)" by (simp add: get_drop get_upd)
  have gm: "get ?s (of_nat m) = get s (of_nat m)" if "m \<noteq> n" "m < 2 ^ 32" for m
    using that b by (simp add: gs)
  have "\<exists>s'. trim_chunks get upd key (of_nat (Suc n)) ?s = Inr s' \<and>
      (\<forall>m < 2 ^ 32. get s' (of_nat m) =
         (if Suc n \<le> m \<and> m < N then None else get ?s (of_nat m)))"
  proof (rule Suc.hyps(1))
    show "k = N - Suc n" "Suc n \<le> N" using Suc.hyps(2) n by auto
    show "get ?s (of_nat N) = None" using gm [of N] n assms(1) Suc.prems(2) by simp
    show "get ?s (of_nat m) \<noteq> None" if "Suc n \<le> m" "m < N" for m
      using that gm [of m] assms(1) Suc.prems(3) [of m] by simp
  qed
  then obtain s' where s': "trim_chunks get upd key (of_nat (Suc n)) ?s = Inr s'"
    and g: "\<forall>m < 2 ^ 32. get s' (of_nat m) =
       (if Suc n \<le> m \<and> m < N then None else get ?s (of_nat m))"
    by blast
  have "trim_chunks get upd key (of_nat n) s = Inr s'"
    using Suc.prems(3) [of n] n s' b by (subst trim_chunks.simps) (auto simp: checked_succ)
  moreover have "\<forall>m < 2 ^ 32. get s' (of_nat m) =
      (if n \<le> m \<and> m < N then None else get s (of_nat m))"
    using g n b by (auto simp: gs)
  ultimately show ?case by blast
qed

lemma write_chunks_shape:
  assumes "get_ttl_lifetime s = Inr tm" and "chunk_shape (get s) old" and n: "chunk_count ids < 2 ^ 32"
  shows "\<exists>s'. write_chunks get upd key ids s = Inr s' \<and> chunk_shape (get s') ids"
proof -
  let ?n = "chunk_count ids" and ?N = "max (chunk_count ids) (chunk_count old)"
  have N: "?N < 2 ^ 32" using assms(2) n by (simp add: chunk_shape_def)
  obtain s1 where s1: "put_chunks upd key tm ids 0 s = Inr (of_nat ?n, s1)"
    and "\<forall>m < 2 ^ 32. get s1 (of_nat m) =
       (if 50 * m < length ids then Some (take 50 (drop (50 * m) ids)) else get s (of_nat m))"
    using put_chunks_get [of 0 ids tm s] n by auto
  then have g1: "get s1 (of_nat m) =
       (if m < ?n then Some (take 50 (drop (50 * m) ids))
        else if m < chunk_count old then Some (take 50 (drop (50 * m) old)) else None)"
    if "m < 2 ^ 32" for m
    using that assms(2) by (simp add: chunk_shape_def less_chunk_count)
  have "\<exists>s2. trim_chunks get upd key (of_nat ?n) s1 = Inr s2 \<and>
      (\<forall>m < 2 ^ 32. get s2 (of_nat m) = (if ?n \<le> m \<and> m < ?N then None else get s1 (of_nat m)))"
    using g1 N by (intro trim_chunks_get) auto
  then obtain s2 where s2: "trim_chunks get upd key (of_nat ?n) s1 = Inr s2"
    and g2: "\<forall>m < 2 ^ 32. get s2 (of_nat m) =
       (if ?n \<le> m \<and> m < ?N then None else get s1 (of_nat m))" by blast
  have "chunk_shape (get s2) ids"
    using g1 g2 n by (auto simp: chunk_shape_def simp flip: less_chunk_count)
  then show ?thesis using s1 s2 assms(1) by (simp add: write_chunks_def)
qed

lemma write_chunks_repr:
  assumes "ttl_ok s" and "chunk_repr (get s) old" and "length ids < 2 ^ 32"
  shows "\<exists>s'. write_chunks get upd key ids s = Inr s' \<and> chunk_repr (get s') ids"
proof -
  have "chunk_count ids < 2 ^ 32" using chunk_count_bound [OF assms(3)] by simp
  with assms show ?thesis
    using write_chunks_shape [of s "lifetime s" old ids] by (simp add: chunk_repr_shape get_ttl_lifetime_eq)
qed

lemma write_chunks_returns:
  assumes "write_chunks get upd key ids s = Inr s'" and "chunk_shape (get s) old"
  shows "chunk_shape (get s') ids"
proof -
  from assms(1) obtain tm c t where "get_ttl_lifetime s = Inr tm" and "put_chunks upd key tm ids 0 s = Inr (c, t)"
    by (auto simp: write_chunks_def flow)
  with write_chunks_shape [OF _ assms(2), of tm ids] put_chunks_bound assms(1) show ?thesis by fastforce
qed

text \<open>A write that returns is read back, whatever the chunks held before.\<close>

lemma trim_chunks_returns:
  assumes "trim_chunks get upd key ci s = Inr s'"
  shows "get s' ci = None \<and> (\<forall>cj. unat cj < unat ci \<longrightarrow> get s' cj = get s cj)"
  using assms
proof (induction "2 ^ 32 - unat ci" arbitrary: ci s rule: less_induct)
  case less
  show ?case
  proof (cases "get s ci = None")
    case True
    with less.prems show ?thesis by (subst (asm) trim_chunks.simps) simp
  next
    case False
    let ?s = "drop_persistent (key ci) (upd None ci s)"
    obtain cj where cj: "(checked_add ci 1 :: u32 res) = Inr cj" and rest: "trim_chunks get upd key cj ?s = Inr s'"
      using less.prems False by (subst (asm) trim_chunks.simps) (auto simp: flow)
    then have u: "unat cj = Suc (unat ci)" and "unat cj < 2 ^ 32" by (auto simp: checked_add_Inr unat_add_exact)
    then have low: "get s' ck = get ?s ck" if "unat ck < unat cj" for ck
      using less.hyps [OF _ rest] that by simp
    have "get ?s = (get s)(ci := None)" by (simp add: get_drop get_upd)
    then show ?thesis using low u by auto
  qed
qed

lemma write_chunks_read:
  assumes "write_chunks get upd key ids s = Inr s'"
  shows "read_chunks (get s') 0 [] = Inr ids"
proof -
  let ?n = "chunk_count ids"
  obtain tm c t where put: "put_chunks upd key tm ids 0 s = Inr (c, t)"
    and trim: "trim_chunks get upd key c t = Inr s'"
    using assms by (auto simp: write_chunks_def flow)
  have n: "?n < 2 ^ 32" using put_chunks_bound [OF put] by simp
  then have c: "c = of_nat ?n" and g: "\<forall>m < 2 ^ 32. 50 * m < length ids \<longrightarrow>
      get t (of_nat m) = Some (take 50 (drop (50 * m) ids))"
    using put_chunks_get [of 0 ids tm s] put by auto
  have "get s' (of_nat m) = Some (take 50 (drop (50 * m) ids))" if "50 * m < length ids" for m
  proof -
    have "m < ?n" using that by (simp add: less_chunk_count)
    then show ?thesis using trim_chunks_returns [OF trim] g that n by (simp add: c)
  qed
  then show ?thesis
    using read_chunks_prefix [of ids "get s'" 0 "[]"] trim_chunks_returns [OF trim] n by (simp add: c)
qed

text \<open>Whatever storing one chunk and removing one chunk keep, writing the list keeps.\<close>

lemma put_chunks_keeps:
  assumes "\<And>v ci t. R t \<Longrightarrow> R (extend_persistent (key ci) tm (upd (Some v) ci t))"
  shows "put_chunks upd key tm ids ci t = Inr (cj, t') \<Longrightarrow> R t \<Longrightarrow> R t'"
  using assms
  by (induction upd key tm ids ci t rule: put_chunks.induct)
    (subst (asm) (2) put_chunks.simps, auto simp: flow split: if_splits)

lemma trim_chunks_keeps:
  assumes "\<And>ci t. R t \<Longrightarrow> R (drop_persistent (key ci) (upd None ci t))"
  shows "trim_chunks get upd key ci t = Inr t' \<Longrightarrow> R t \<Longrightarrow> R t'"
  using assms
  by (induction get upd key ci t rule: trim_chunks.induct)
    (subst (asm) (2) trim_chunks.simps, auto simp: flow split: if_splits)

lemma write_chunks_keeps:
  assumes "write_chunks get upd key ids s = Inr s'" and "R s"
    and "\<And>v ci t. R t \<Longrightarrow> R (extend_persistent (key ci) (lifetime s) (upd (Some v) ci t))"
    and "\<And>ci t. R t \<Longrightarrow> R (drop_persistent (key ci) (upd None ci t))"
  shows "R s'"
proof -
  from assms(1) obtain ci t where "put_chunks upd key (lifetime s) ids 0 s = Inr (ci, t)"
    and "trim_chunks get upd key ci t = Inr s'"
    by (auto simp: write_chunks_def get_ttl_lifetime_eq flow split: if_splits)
  with assms(2) show ?thesis
    using put_chunks_keeps [of R, OF assms(3)] trim_chunks_keeps [of R, OF assms(4)] by blast
qed

text \<open>Writing chunks only touches the chunks and the lifetimes.\<close>

lemma write_chunks_frame:
  assumes "write_chunks get upd key ids s = Inr s'" and "R s s"
    and "\<And>v ci h t. R s t \<Longrightarrow> R s (host_update (ttl_update h) (upd v ci t))"
  shows "R s s'"
  using write_chunks_keeps [of ids s s' "R s", OF assms(1,2)] assms(3)
  by (simp add: extend_persistent_def drop_persistent_def)

end

subsection \<open>The operations of \<open>ChunkedIndex\<close>\<close>

definition subject_chunk_upd :: "address \<Rightarrow> string list option \<Rightarrow> u32 \<Rightarrow> storage \<Rightarrow> storage" where
  "subject_chunk_upd a v ci = atts_update (subject_chunk_update (\<lambda>f. f(a := (f a)(ci := v))))"

definition issuer_chunk_upd :: "address \<Rightarrow> string list option \<Rightarrow> u32 \<Rightarrow> storage \<Rightarrow> storage" where
  "issuer_chunk_upd a v ci = atts_update (issuer_chunk_update (\<lambda>f. f(a := (f a)(ci := v))))"

definition ChunkedIndex_write_subject_chunks :: "address \<Rightarrow> string list \<Rightarrow> storage \<Rightarrow> storage res" where
  "ChunkedIndex_write_subject_chunks a =
     write_chunks (\<lambda>s. subject_chunk (atts s) a) (subject_chunk_upd a)
       (K_SubjectAttestationChunk a)"

definition ChunkedIndex_write_issuer_chunks :: "address \<Rightarrow> string list \<Rightarrow> storage \<Rightarrow> storage res" where
  "ChunkedIndex_write_issuer_chunks a =
     write_chunks (\<lambda>s. issuer_chunk (atts s) a) (issuer_chunk_upd a)
       (K_IssuerAttestationChunk a)"

definition ChunkedIndex_get_subject_ids :: "address \<Rightarrow> storage \<Rightarrow> string list res" where
  "ChunkedIndex_get_subject_ids a s = read_chunks (subject_chunk (atts s) a) 0 []"

definition ChunkedIndex_get_issuer_ids :: "address \<Rightarrow> storage \<Rightarrow> string list res" where
  "ChunkedIndex_get_issuer_ids a s = read_chunks (issuer_chunk (atts s) a) 0 []"

definition ChunkedIndex_add_subject :: "address \<Rightarrow> string \<Rightarrow> storage \<Rightarrow> storage res" where
  "ChunkedIndex_add_subject a i s =
     and_then (ChunkedIndex_get_subject_ids a s)
       (\<lambda>ids. ChunkedIndex_write_subject_chunks a (ids @ [i]) s)"

definition ChunkedIndex_add_issuer :: "address \<Rightarrow> string \<Rightarrow> storage \<Rightarrow> storage res" where
  "ChunkedIndex_add_issuer a i s =
     and_then (ChunkedIndex_get_issuer_ids a s)
       (\<lambda>ids. ChunkedIndex_write_issuer_chunks a (ids @ [i]) s)"

definition ChunkedIndex_add_issuer_bulk :: "address \<Rightarrow> string list \<Rightarrow> storage \<Rightarrow> storage res" where
  "ChunkedIndex_add_issuer_bulk a new_ids s =
     and_then (ChunkedIndex_get_issuer_ids a s)
       (\<lambda>existing. ChunkedIndex_write_issuer_chunks a (existing @ new_ids) s)"

definition ChunkedIndex_remove_subject :: "address \<Rightarrow> string \<Rightarrow> storage \<Rightarrow> storage res" where
  "ChunkedIndex_remove_subject a i s =
     and_then (ChunkedIndex_get_subject_ids a s)
       (\<lambda>ids. ChunkedIndex_write_subject_chunks a (without i ids) s)"

definition ChunkedIndex_remove_issuer :: "address \<Rightarrow> string \<Rightarrow> storage \<Rightarrow> storage res" where
  "ChunkedIndex_remove_issuer a i s =
     and_then (ChunkedIndex_get_issuer_ids a s)
       (\<lambda>ids. ChunkedIndex_write_issuer_chunks a (without i ids) s)"

definition ChunkedIndex_subject_count :: "address \<Rightarrow> storage \<Rightarrow> u32 res" where
  "ChunkedIndex_subject_count a s =
     and_then (ChunkedIndex_get_subject_ids a s) (\<lambda>ids. Inr (of_nat (length ids)))"

definition ChunkedIndex_issuer_count :: "address \<Rightarrow> storage \<Rightarrow> u32 res" where
  "ChunkedIndex_issuer_count a s =
     and_then (ChunkedIndex_get_issuer_ids a s) (\<lambda>ids. Inr (of_nat (length ids)))"

definition ChunkedIndex_get_subject_page :: "address \<Rightarrow> u32 \<Rightarrow> u32 \<Rightarrow> storage \<Rightarrow> string list res" where
  "ChunkedIndex_get_subject_page a start limit s =
     and_then (ChunkedIndex_get_subject_ids a s) (\<lambda>ids. paginate ids start limit)"

definition ChunkedIndex_get_issuer_page :: "address \<Rightarrow> u32 \<Rightarrow> u32 \<Rightarrow> storage \<Rightarrow> string list res" where
  "ChunkedIndex_get_issuer_page a start limit s =
     and_then (ChunkedIndex_get_issuer_ids a s) (\<lambda>ids. paginate ids start limit)"

definition ChunkedIndex_get_subject_all :: "address \<Rightarrow> storage \<Rightarrow> string list res" where
  "ChunkedIndex_get_subject_all = ChunkedIndex_get_subject_ids"

definition ChunkedIndex_get_issuer_all :: "address \<Rightarrow> storage \<Rightarrow> string list res" where
  "ChunkedIndex_get_issuer_all = ChunkedIndex_get_issuer_ids"

interpretation subject_family: chunk_family
  "\<lambda>s. subject_chunk (atts s) a" "subject_chunk_upd a" "K_SubjectAttestationChunk a" for a
  by unfold_locales (simp_all add: subject_chunk_upd_def)

interpretation issuer_family: chunk_family
  "\<lambda>s. issuer_chunk (atts s) a" "issuer_chunk_upd a" "K_IssuerAttestationChunk a" for a
  by unfold_locales (simp_all add: issuer_chunk_upd_def)

text \<open>The shape of a state after a chunk write: the owner's chunks and some lifetimes changed.\<close>

lemma write_subject_chunks_shape:
  assumes "ChunkedIndex_write_subject_chunks a ids s = Inr s'"
  shows "\<exists>c m. s' = s\<lparr>atts := (atts s)\<lparr>subject_chunk := (subject_chunk (atts s))(a := c)\<rparr>,
                      host := (host s)\<lparr>ttl := m\<rparr>\<rparr>"
    (is "?R s s'")
proof (rule subject_family.write_chunks_frame [of a ids s s' ?R])
  show "?R s s"
    by (intro exI [of _ "subject_chunk (atts s) a"] exI [of _ "ttl (host s)"]) simp
  show "?R s (host_update (ttl_update h) (subject_chunk_upd a v ci t))" if "?R s t" for v ci h t
  proof -
    from that obtain c m where "t = s\<lparr>atts := (atts s)\<lparr>subject_chunk := (subject_chunk (atts s))(a := c)\<rparr>,
        host := (host s)\<lparr>ttl := m\<rparr>\<rparr>" by blast
    then show ?thesis
      by (intro exI [of _ "c(ci := v)"] exI [of _ "h m"]) (simp add: subject_chunk_upd_def comp_def fun_upd_def cong: if_cong)
  qed
qed (use assms in \<open>simp add: ChunkedIndex_write_subject_chunks_def\<close>)

lemma write_issuer_chunks_shape:
  assumes "ChunkedIndex_write_issuer_chunks a ids s = Inr s'"
  shows "\<exists>c m. s' = s\<lparr>atts := (atts s)\<lparr>issuer_chunk := (issuer_chunk (atts s))(a := c)\<rparr>,
                      host := (host s)\<lparr>ttl := m\<rparr>\<rparr>"
    (is "?R s s'")
proof (rule issuer_family.write_chunks_frame [of a ids s s' ?R])
  show "?R s s"
    by (intro exI [of _ "issuer_chunk (atts s) a"] exI [of _ "ttl (host s)"]) simp
  show "?R s (host_update (ttl_update h) (issuer_chunk_upd a v ci t))" if "?R s t" for v ci h t
  proof -
    from that obtain c m where "t = s\<lparr>atts := (atts s)\<lparr>issuer_chunk := (issuer_chunk (atts s))(a := c)\<rparr>,
        host := (host s)\<lparr>ttl := m\<rparr>\<rparr>" by blast
    then show ?thesis
      by (intro exI [of _ "c(ci := v)"] exI [of _ "h m"]) (simp add: issuer_chunk_upd_def comp_def fun_upd_def cong: if_cong)
  qed
qed (use assms in \<open>simp add: ChunkedIndex_write_issuer_chunks_def\<close>)

definition chunk_frame :: "(attestation_store \<Rightarrow> attestation_store) \<Rightarrow> storage \<Rightarrow> storage \<Rightarrow> bool" where
  "chunk_frame upd s s' \<longleftrightarrow>
     inst s' = inst s \<and> reg s' = reg s \<and> atts s' = upd (atts s) \<and> flow_st s' = flow_st s \<and>
     events (host s') = events (host s) \<and> calls (host s') = calls (host s)"

lemma chunk_frameE:
  assumes "\<exists>c. chunk_frame (upd c) s s'"
  obtains c where "inst s' = inst s" "reg s' = reg s" "atts s' = upd c (atts s)"
    "flow_st s' = flow_st s" "events (host s') = events (host s)" "calls (host s') = calls (host s)"
  using assms unfolding chunk_frame_def by blast

lemma write_subject_chunks_frame:
  "ChunkedIndex_write_subject_chunks a ids s = Inr s' \<Longrightarrow>
     \<exists>c. chunk_frame (\<lambda>t. t\<lparr>subject_chunk := (subject_chunk t)(a := c)\<rparr>) s s'"
  using write_subject_chunks_shape [of a ids s s'] by (auto simp: chunk_frame_def)

lemma write_issuer_chunks_frame:
  "ChunkedIndex_write_issuer_chunks a ids s = Inr s' \<Longrightarrow>
     \<exists>c. chunk_frame (\<lambda>t. t\<lparr>issuer_chunk := (issuer_chunk t)(a := c)\<rparr>) s s'"
  using write_issuer_chunks_shape [of a ids s s'] by (auto simp: chunk_frame_def)

lemma ChunkedIndex_add_subject_frame:
  "ChunkedIndex_add_subject a i s = Inr s' \<Longrightarrow>
     \<exists>c. chunk_frame (\<lambda>t. t\<lparr>subject_chunk := (subject_chunk t)(a := c)\<rparr>) s s'"
  unfolding ChunkedIndex_add_subject_def by (elim and_thenE write_subject_chunks_frame)

lemma ChunkedIndex_remove_subject_frame:
  "ChunkedIndex_remove_subject a i s = Inr s' \<Longrightarrow>
     \<exists>c. chunk_frame (\<lambda>t. t\<lparr>subject_chunk := (subject_chunk t)(a := c)\<rparr>) s s'"
  unfolding ChunkedIndex_remove_subject_def by (elim and_thenE write_subject_chunks_frame)

lemma ChunkedIndex_add_issuer_frame:
  "ChunkedIndex_add_issuer a i s = Inr s' \<Longrightarrow>
     \<exists>c. chunk_frame (\<lambda>t. t\<lparr>issuer_chunk := (issuer_chunk t)(a := c)\<rparr>) s s'"
  unfolding ChunkedIndex_add_issuer_def by (elim and_thenE write_issuer_chunks_frame)

lemma ChunkedIndex_remove_issuer_frame:
  "ChunkedIndex_remove_issuer a i s = Inr s' \<Longrightarrow>
     \<exists>c. chunk_frame (\<lambda>t. t\<lparr>issuer_chunk := (issuer_chunk t)(a := c)\<rparr>) s s'"
  unfolding ChunkedIndex_remove_issuer_def by (elim and_thenE write_issuer_chunks_frame)

lemma ChunkedIndex_add_issuer_bulk_frame:
  "ChunkedIndex_add_issuer_bulk a xs s = Inr s' \<Longrightarrow>
     \<exists>c. chunk_frame (\<lambda>t. t\<lparr>issuer_chunk := (issuer_chunk t)(a := c)\<rparr>) s s'"
  unfolding ChunkedIndex_add_issuer_bulk_def by (elim and_thenE write_issuer_chunks_frame)

text \<open>What the operations leave to be read, in any state.\<close>

lemma chunked_subject_read:
  "ChunkedIndex_add_subject a i s = Inr s' \<Longrightarrow> \<exists>l. ChunkedIndex_get_subject_ids a s = Inr l \<and>
     ChunkedIndex_get_subject_ids a s' = Inr (l @ [i])"
  "ChunkedIndex_remove_subject a i s = Inr s' \<Longrightarrow> \<exists>l. ChunkedIndex_get_subject_ids a s = Inr l \<and>
     ChunkedIndex_get_subject_ids a s' = Inr (without i l)"
  unfolding ChunkedIndex_add_subject_def ChunkedIndex_remove_subject_def ChunkedIndex_write_subject_chunks_def
  by (auto simp: flow ChunkedIndex_get_subject_ids_def dest: subject_family.write_chunks_read)

lemma chunked_issuer_read:
  "ChunkedIndex_add_issuer a i s = Inr s' \<Longrightarrow> \<exists>l. ChunkedIndex_get_issuer_ids a s = Inr l \<and>
     ChunkedIndex_get_issuer_ids a s' = Inr (l @ [i])"
  "ChunkedIndex_remove_issuer a i s = Inr s' \<Longrightarrow> \<exists>l. ChunkedIndex_get_issuer_ids a s = Inr l \<and>
     ChunkedIndex_get_issuer_ids a s' = Inr (without i l)"
  unfolding ChunkedIndex_add_issuer_def ChunkedIndex_remove_issuer_def ChunkedIndex_write_issuer_chunks_def
  by (auto simp: flow ChunkedIndex_get_issuer_ids_def dest: issuer_family.write_chunks_read)

lemmas ChunkedIndex_elims [steps] =
  ChunkedIndex_add_subject_frame [THEN chunk_frameE]
  ChunkedIndex_remove_subject_frame [THEN chunk_frameE]
  ChunkedIndex_add_issuer_frame [THEN chunk_frameE]
  ChunkedIndex_remove_issuer_frame [THEN chunk_frameE]
  ChunkedIndex_add_issuer_bulk_frame [THEN chunk_frameE]

lemma chunk_add_subjectE:
  assumes "ChunkedIndex_add_subject a i s = Inr s'"
  obtains c l where "inst s' = inst s" "reg s' = reg s"
    "atts s' = (atts s)\<lparr>subject_chunk := (subject_chunk (atts s))(a := c)\<rparr>"
    "flow_st s' = flow_st s" "events (host s') = events (host s)" "calls (host s') = calls (host s)"
    "read_chunks (subject_chunk (atts s) a) 0 [] = Inr l" "read_chunks c 0 [] = Inr (l @ [i])"
  using ChunkedIndex_add_subject_frame [OF assms] chunked_subject_read(1) [OF assms]
  by (auto simp: chunk_frame_def ChunkedIndex_get_subject_ids_def)

lemma chunk_remove_subjectE:
  assumes "ChunkedIndex_remove_subject a i s = Inr s'"
  obtains c l where "inst s' = inst s" "reg s' = reg s"
    "atts s' = (atts s)\<lparr>subject_chunk := (subject_chunk (atts s))(a := c)\<rparr>"
    "flow_st s' = flow_st s" "events (host s') = events (host s)" "calls (host s') = calls (host s)"
    "read_chunks (subject_chunk (atts s) a) 0 [] = Inr l" "read_chunks c 0 [] = Inr (without i l)"
  using ChunkedIndex_remove_subject_frame [OF assms] chunked_subject_read(2) [OF assms]
  by (auto simp: chunk_frame_def ChunkedIndex_get_subject_ids_def)

lemma chunk_add_issuerE:
  assumes "ChunkedIndex_add_issuer a i s = Inr s'"
  obtains c l where "inst s' = inst s" "reg s' = reg s"
    "atts s' = (atts s)\<lparr>issuer_chunk := (issuer_chunk (atts s))(a := c)\<rparr>"
    "flow_st s' = flow_st s" "events (host s') = events (host s)" "calls (host s') = calls (host s)"
    "read_chunks (issuer_chunk (atts s) a) 0 [] = Inr l" "read_chunks c 0 [] = Inr (l @ [i])"
  using ChunkedIndex_add_issuer_frame [OF assms] chunked_issuer_read(1) [OF assms]
  by (auto simp: chunk_frame_def ChunkedIndex_get_issuer_ids_def)

lemma chunk_remove_issuerE:
  assumes "ChunkedIndex_remove_issuer a i s = Inr s'"
  obtains c l where "inst s' = inst s" "reg s' = reg s"
    "atts s' = (atts s)\<lparr>issuer_chunk := (issuer_chunk (atts s))(a := c)\<rparr>"
    "flow_st s' = flow_st s" "events (host s') = events (host s)" "calls (host s') = calls (host s)"
    "read_chunks (issuer_chunk (atts s) a) 0 [] = Inr l" "read_chunks c 0 [] = Inr (without i l)"
  using ChunkedIndex_remove_issuer_frame [OF assms] chunked_issuer_read(2) [OF assms]
  by (auto simp: chunk_frame_def ChunkedIndex_get_issuer_ids_def)

lemmas chunk_reads = chunk_add_subjectE chunk_remove_subjectE chunk_add_issuerE chunk_remove_issuerE

subsection \<open>The contract of an index\<close>

text \<open>
  What the contract's handlers rely on: in a well-formed state with room for one more id, adding
  appends the id to its owner's list and removing drops it, both return, both keep the state
  well formed, and no other owner's list changes.
\<close>

locale id_index =
  fixes ids :: "'o \<Rightarrow> storage \<Rightarrow> string list"
    and wf :: "storage \<Rightarrow> bool"
    and add :: "'o \<Rightarrow> string \<Rightarrow> storage \<Rightarrow> storage res"
    and remove :: "'o \<Rightarrow> string \<Rightarrow> storage \<Rightarrow> storage res"
  assumes add_law: "wf s \<Longrightarrow> Suc (length (ids a s)) < 2 ^ 32 \<Longrightarrow>
      \<exists>s'. add a i s = Inr s' \<and> wf s' \<and> ids a s' = ids a s @ [i] \<and>
           (\<forall>b. b \<noteq> a \<longrightarrow> ids b s' = ids b s)"
    and remove_law: "wf s \<Longrightarrow>
      \<exists>s'. remove a i s = Inr s' \<and> wf s' \<and> ids a s' = without i (ids a s) \<and>
           (\<forall>b. b \<noteq> a \<longrightarrow> ids b s' = ids b s)"
begin

lemma remove_undoes_add:
  assumes "wf s" and "Suc (length (ids a s)) < 2 ^ 32" and "i \<notin> set (ids a s)"
  shows "\<exists>s'. and_then (add a i s) (remove a i) = Inr s' \<and> wf s' \<and> (\<forall>b. ids b s' = ids b s)"
proof -
  obtain s1 where s1: "add a i s = Inr s1" "wf s1" "ids a s1 = ids a s @ [i]"
    "\<forall>b. b \<noteq> a \<longrightarrow> ids b s1 = ids b s"
    using add_law [OF assms(1,2), of i] by blast
  obtain s2 where s2: "remove a i s1 = Inr s2" "wf s2" "ids a s2 = without i (ids a s1)"
    "\<forall>b. b \<noteq> a \<longrightarrow> ids b s2 = ids b s1"
    using remove_law [OF s1(2), of a i] by blast
  have "ids b s2 = ids b s" for b
    using s1(3,4) s2(3,4) assms(3) by (cases "b = a") simp_all
  then show ?thesis using s1(1) s2(1,2) by simp
qed

lemma iterated_add:
  assumes "wf s" and "length (ids a s) + length xs < 2 ^ 32"
  shows "\<exists>s'. for_each (add a) xs s = Inr s' \<and> wf s' \<and> ids a s' = ids a s @ xs \<and>
    (\<forall>b. b \<noteq> a \<longrightarrow> ids b s' = ids b s)"
  using assms
proof (induction xs arbitrary: s)
  case (Cons x xs)
  obtain s1 where s1: "add a x s = Inr s1" "wf s1" "ids a s1 = ids a s @ [x]"
    "\<forall>b. b \<noteq> a \<longrightarrow> ids b s1 = ids b s"
    using add_law [OF Cons.prems(1), of a x] Cons.prems(2) by auto
  obtain s2 where "for_each (add a) xs s1 = Inr s2" "wf s2" "ids a s2 = ids a s1 @ xs"
    "\<forall>b. b \<noteq> a \<longrightarrow> ids b s2 = ids b s1"
    using Cons.IH [OF s1(2)] s1(3) Cons.prems(2) by auto
  then show ?case using s1 by auto
qed simp

lemma remove_twice:
  assumes "wf s"
  shows "\<exists>s'. and_then (remove a i s) (remove a i) = Inr s' \<and> ids a s' = without i (ids a s) \<and>
    i \<notin> set (ids a s')"
proof -
  obtain s1 where s1: "remove a i s = Inr s1" "wf s1" "ids a s1 = without i (ids a s)"
    using remove_law [OF assms, of a i] by blast
  then show ?thesis using remove_law [OF s1(2), of a i] by auto
qed

end

text \<open>An index that also takes many ids at once.\<close>

locale id_index_bulk = id_index +
  fixes add_bulk :: "'a \<Rightarrow> string list \<Rightarrow> storage \<Rightarrow> storage res"
  assumes bulk_law: "wf s \<Longrightarrow> length (ids a s) + length xs < 2 ^ 32 \<Longrightarrow>
      \<exists>s'. add_bulk a xs s = Inr s' \<and> wf s' \<and> ids a s' = ids a s @ xs \<and>
           (\<forall>b. b \<noteq> a \<longrightarrow> ids b s' = ids b s)"
begin

lemma bulk_is_iterated_add:
  assumes "wf s" and "length (ids a s) + length xs < 2 ^ 32"
  shows "\<exists>s1 s2. add_bulk a xs s = Inr s1 \<and> for_each (add a) xs s = Inr s2 \<and>
    (\<forall>b. ids b s1 = ids b s2)"
  using bulk_law [OF assms] iterated_add [OF assms] by metis

end

subsection \<open>The indexes of the contract\<close>

lemmas index_defs =
  Storage_get_subject_attestations_def Storage_add_subject_attestation_def
  Storage_remove_subject_attestation_def Storage_get_issuer_attestations_def
  Storage_add_issuer_attestation_def Storage_remove_issuer_attestation_def
  Storage_add_issuer_attestations_bulk_def Storage_get_valid_attestations_def
  Storage_add_valid_attestation_def Storage_remove_valid_attestation_def
  Storage_get_pending_request_ids_def Storage_add_pending_request_def
  Storage_remove_pending_request_def store_defs with_ttl_eq Let_def

interpretation flat_subject: id_index
  Storage_get_subject_attestations ttl_ok
  Storage_add_subject_attestation Storage_remove_subject_attestation
  by unfold_locales (simp_all add: index_defs)

interpretation flat_issuer: id_index_bulk
  Storage_get_issuer_attestations ttl_ok
  Storage_add_issuer_attestation Storage_remove_issuer_attestation
  Storage_add_issuer_attestations_bulk
  by unfold_locales (simp_all add: index_defs)

interpretation flat_valid: id_index
  Storage_get_valid_attestations ttl_ok
  Storage_add_valid_attestation Storage_remove_valid_attestation
  by unfold_locales (simp_all add: index_defs)

interpretation pending: id_index
  Storage_get_pending_request_ids ttl_ok
  Storage_add_pending_request Storage_remove_pending_request
  by unfold_locales (simp_all add: index_defs)

text \<open>The list a chunked index stands for, and when its chunks represent one.\<close>

definition chunked_subject_list :: "address \<Rightarrow> storage \<Rightarrow> string list" where
  "chunked_subject_list a s =
     (case ChunkedIndex_get_subject_ids a s of Inr l \<Rightarrow> l | Inl _ \<Rightarrow> [])"

definition chunked_issuer_list :: "address \<Rightarrow> storage \<Rightarrow> string list" where
  "chunked_issuer_list a s =
     (case ChunkedIndex_get_issuer_ids a s of Inr l \<Rightarrow> l | Inl _ \<Rightarrow> [])"

definition subject_chunks_ok :: "storage \<Rightarrow> bool" where
  "subject_chunks_ok s \<longleftrightarrow> ttl_ok s \<and>
     (\<forall>a. chunk_repr (subject_chunk (atts s) a) (chunked_subject_list a s))"

definition issuer_chunks_ok :: "storage \<Rightarrow> bool" where
  "issuer_chunks_ok s \<longleftrightarrow> ttl_ok s \<and>
     (\<forall>a. chunk_repr (issuer_chunk (atts s) a) (chunked_issuer_list a s))"

lemma chunked_subject_list_repr:
  "chunk_repr (subject_chunk (atts s) a) l \<Longrightarrow>
     ChunkedIndex_get_subject_ids a s = Inr l \<and> chunked_subject_list a s = l"
  by (simp add: chunked_subject_list_def ChunkedIndex_get_subject_ids_def read_chunks_from_0)

lemma chunked_issuer_list_repr:
  "chunk_repr (issuer_chunk (atts s) a) l \<Longrightarrow>
     ChunkedIndex_get_issuer_ids a s = Inr l \<and> chunked_issuer_list a s = l"
  by (simp add: chunked_issuer_list_def ChunkedIndex_get_issuer_ids_def read_chunks_from_0)

lemma chunk_repr_empty [simp]: "chunk_repr Map.empty []"
  by (simp add: chunk_repr_def)

lemma chunk_shape_empty [simp]: "chunk_shape Map.empty []"
  using chunk_repr_empty by (simp only: chunk_repr_shape)

lemma write_subject_chunks_returns:
  assumes "ChunkedIndex_write_subject_chunks a ids s = Inr s'" and "chunk_shape (subject_chunk (atts s) a) old"
  shows "chunk_shape (subject_chunk (atts s') a) ids"
  using subject_family.write_chunks_returns [of a ids s s' old] assms
  by (simp add: ChunkedIndex_write_subject_chunks_def)

text \<open>An insertion or a removal that returns has done its work, whatever the size of the list.\<close>

lemma ChunkedIndex_subject_returns:
  assumes "chunk_shape (subject_chunk (atts s) a) l"
  shows "ChunkedIndex_add_subject a i s = Inr s' \<Longrightarrow> chunk_shape (subject_chunk (atts s') a) (l @ [i])"
    and "ChunkedIndex_remove_subject a i s = Inr s' \<Longrightarrow> chunk_shape (subject_chunk (atts s') a) (without i l)"
  using assms write_subject_chunks_returns [OF _ assms]
  by (simp_all add: ChunkedIndex_add_subject_def ChunkedIndex_remove_subject_def
      ChunkedIndex_get_subject_ids_def read_chunks_shape_0)

lemma write_subject_chunks_law:
  assumes ok: "subject_chunks_ok s" and len: "length xs < 2 ^ 32"
  shows "\<exists>s'. ChunkedIndex_write_subject_chunks a xs s = Inr s' \<and> subject_chunks_ok s' \<and>
    chunked_subject_list a s' = xs \<and>
    (\<forall>b. b \<noteq> a \<longrightarrow> chunked_subject_list b s' = chunked_subject_list b s)"
proof -
  have ttl: "ttl_ok s" and rep: "\<And>b. chunk_repr (subject_chunk (atts s) b) (chunked_subject_list b s)"
    using ok by (simp_all add: subject_chunks_ok_def)
  obtain s' where w: "ChunkedIndex_write_subject_chunks a xs s = Inr s'"
    and r: "chunk_repr (subject_chunk (atts s') a) xs"
    using subject_family.write_chunks_repr [OF ttl rep len]
    by (auto simp: ChunkedIndex_write_subject_chunks_def)
  obtain c m where s': "s' = s\<lparr>atts := (atts s)\<lparr>subject_chunk := (subject_chunk (atts s))(a := c)\<rparr>,
      host := (host s)\<lparr>ttl := m\<rparr>\<rparr>"
    using write_subject_chunks_shape [OF w] by blast
  have other: "chunked_subject_list b s' = chunked_subject_list b s" if "b \<noteq> a" for b
    using that by (simp add: s' chunked_subject_list_def ChunkedIndex_get_subject_ids_def)
  have "chunk_repr (subject_chunk (atts s') b) (chunked_subject_list b s')" for b
    using r rep [of b] other [of b] chunked_subject_list_repr [OF r]
    by (cases "b = a") (simp_all add: s')
  moreover have "ttl_ok s'" using ttl by (simp add: s' ttl_ok_def)
  ultimately show ?thesis
    using w other chunked_subject_list_repr [OF r] by (simp add: subject_chunks_ok_def)
qed

lemma write_issuer_chunks_law:
  assumes ok: "issuer_chunks_ok s" and len: "length xs < 2 ^ 32"
  shows "\<exists>s'. ChunkedIndex_write_issuer_chunks a xs s = Inr s' \<and> issuer_chunks_ok s' \<and>
    chunked_issuer_list a s' = xs \<and>
    (\<forall>b. b \<noteq> a \<longrightarrow> chunked_issuer_list b s' = chunked_issuer_list b s)"
proof -
  have ttl: "ttl_ok s" and rep: "\<And>b. chunk_repr (issuer_chunk (atts s) b) (chunked_issuer_list b s)"
    using ok by (simp_all add: issuer_chunks_ok_def)
  obtain s' where w: "ChunkedIndex_write_issuer_chunks a xs s = Inr s'"
    and r: "chunk_repr (issuer_chunk (atts s') a) xs"
    using issuer_family.write_chunks_repr [OF ttl rep len]
    by (auto simp: ChunkedIndex_write_issuer_chunks_def)
  obtain c m where s': "s' = s\<lparr>atts := (atts s)\<lparr>issuer_chunk := (issuer_chunk (atts s))(a := c)\<rparr>,
      host := (host s)\<lparr>ttl := m\<rparr>\<rparr>"
    using write_issuer_chunks_shape [OF w] by blast
  have other: "chunked_issuer_list b s' = chunked_issuer_list b s" if "b \<noteq> a" for b
    using that by (simp add: s' chunked_issuer_list_def ChunkedIndex_get_issuer_ids_def)
  have "chunk_repr (issuer_chunk (atts s') b) (chunked_issuer_list b s')" for b
    using r rep [of b] other [of b] chunked_issuer_list_repr [OF r]
    by (cases "b = a") (simp_all add: s')
  moreover have "ttl_ok s'" using ttl by (simp add: s' ttl_ok_def)
  ultimately show ?thesis
    using w other chunked_issuer_list_repr [OF r] by (simp add: issuer_chunks_ok_def)
qed

lemma subject_chunks_ok_read:
  "subject_chunks_ok s \<Longrightarrow> ChunkedIndex_get_subject_ids a s = Inr (chunked_subject_list a s) \<and>
     length (chunked_subject_list a s) < 2 ^ 32"
  unfolding subject_chunks_ok_def
  by (metis chunked_subject_list_repr chunk_repr_def)

lemma subject_chunks_ok_without:
  "subject_chunks_ok s \<Longrightarrow> length (without i (chunked_subject_list a s)) < 4294967296"
  using subject_chunks_ok_read [of s a] length_without_le [of i "chunked_subject_list a s"] by simp

lemma issuer_chunks_ok_read:
  "issuer_chunks_ok s \<Longrightarrow> ChunkedIndex_get_issuer_ids a s = Inr (chunked_issuer_list a s) \<and>
     length (chunked_issuer_list a s) < 2 ^ 32"
  unfolding issuer_chunks_ok_def
  by (metis chunked_issuer_list_repr chunk_repr_def)

lemma issuer_chunks_ok_without:
  "issuer_chunks_ok s \<Longrightarrow> length (without i (chunked_issuer_list a s)) < 4294967296"
  using issuer_chunks_ok_read [of s a] length_without_le [of i "chunked_issuer_list a s"] by simp

interpretation chunked_subject: id_index
  chunked_subject_list subject_chunks_ok ChunkedIndex_add_subject ChunkedIndex_remove_subject
  by unfold_locales
    (simp_all add: ChunkedIndex_add_subject_def ChunkedIndex_remove_subject_def
        subject_chunks_ok_read subject_chunks_ok_without write_subject_chunks_law)

interpretation chunked_issuer: id_index_bulk
  chunked_issuer_list issuer_chunks_ok ChunkedIndex_add_issuer ChunkedIndex_remove_issuer
  ChunkedIndex_add_issuer_bulk
  by unfold_locales
    (simp_all add: ChunkedIndex_add_issuer_def ChunkedIndex_remove_issuer_def
        ChunkedIndex_add_issuer_bulk_def issuer_chunks_ok_read issuer_chunks_ok_without write_issuer_chunks_law)

end
