(* ===== verification/TL_Validation.thy ===== *)
theory TL_Validation
  imports TL_Chunked
begin

section \<open>Guards and validators\<close>

text \<open>
  Models \<^verbatim>\<open>src/src/validation.rs\<close> and the validators at the head of \<^verbatim>\<open>src/src/attestation.rs\<close>.
  A guard returns \<open>Inr ()\<close> or the error the source returns.  Host strings are byte strings; a
  character stands for a byte.  \<^verbatim>\<open>u64_to_string\<close> is the decimal printer used in audit entries; it
  is shown to be a right inverse of decimal parsing.
\<close>

subsection \<open>Authorisation guards\<close>

definition require_admin :: "address \<Rightarrow> storage \<Rightarrow> unit res" where
  "require_admin caller s =
     and_then (Storage_get_admin_council s)
       (\<lambda>council. ensure (caller \<in> set council) (Err E_Unauthorized))"

definition require_issuer :: "address \<Rightarrow> storage \<Rightarrow> unit res" where
  "require_issuer caller s = ensure (Storage_is_issuer caller s) (Err E_Unauthorized)"

definition require_bridge :: "address \<Rightarrow> storage \<Rightarrow> unit res" where
  "require_bridge caller s = ensure (Storage_is_bridge caller s) (Err E_Unauthorized)"

definition require_authorized_creator :: "address \<Rightarrow> storage \<Rightarrow> unit res" where
  "require_authorized_creator caller s =
     ensure (Storage_is_issuer caller s \<or> Storage_is_bridge caller s) (Err E_Unauthorized)"

definition require_not_paused :: "storage \<Rightarrow> unit res" where
  "require_not_paused s = ensure (\<not> Storage_is_paused s) (Err E_ContractPaused)"

subsection \<open>Claim types and metadata\<close>

definition is_ascii_alphabetic :: "u8 \<Rightarrow> bool" where
  "is_ascii_alphabetic b \<longleftrightarrow> (65 \<le> b \<and> b \<le> 90) \<or> (97 \<le> b \<and> b \<le> 122)"

definition is_ascii_digit :: "u8 \<Rightarrow> bool" where
  "is_ascii_digit b \<longleftrightarrow> 48 \<le> b \<and> b \<le> 57"

definition claim_type_byte :: "u8 \<Rightarrow> bool" where
  "claim_type_byte b \<longleftrightarrow> is_ascii_alphabetic b \<or> is_ascii_digit b \<or> b = 95"

definition validate_claim_type :: "string \<Rightarrow> unit res" where
  "validate_claim_type claim_type =
     and_then (ensure (\<not> (length claim_type = 0 \<or> 64 < length claim_type)) (Err E_InvalidClaimType))
       (\<lambda>_. for_each (\<lambda>b _. ensure (claim_type_byte b) (Err E_InvalidClaimType))
              (ascii_bytes claim_type) ())"

definition validate_metadata :: "string option \<Rightarrow> unit res" where
  "validate_metadata metadata =
     (case metadata of
        Some v \<Rightarrow> ensure (\<not> 256 < length v) (Err E_MetadataTooLong)
      | None \<Rightarrow> Inr ())"

definition require_registered_claim_type :: "string \<Rightarrow> storage \<Rightarrow> unit res" where
  "require_registered_claim_type claim_type s =
     (case Storage_get_contract_config s of
        Some config \<Rightarrow>
          if cc_require_registered_claim_type config
          then ensure (Storage_get_claim_type claim_type s \<noteq> None) (Err E_InvalidClaimType)
          else Inr ()
      | None \<Rightarrow> Inr ())"

subsection \<open>Times\<close>

definition validate_native_expiration :: "env \<Rightarrow> u64 option \<Rightarrow> unit res" where
  "validate_native_expiration e expiration =
     (case expiration of
        Some v \<Rightarrow> ensure (\<not> v \<le> timestamp e) (Err E_InvalidExpiration)
      | None \<Rightarrow> Inr ())"

definition validate_valid_from :: "env \<Rightarrow> u64 option \<Rightarrow> unit res" where
  "validate_valid_from e valid_from =
     (case valid_from of
        Some vf \<Rightarrow> ensure (\<not> vf \<le> timestamp e) (Err E_InvalidValidFrom)
      | None \<Rightarrow> Inr ())"

definition validate_import_timestamps :: "env \<Rightarrow> u64 \<Rightarrow> u64 option \<Rightarrow> unit res" where
  "validate_import_timestamps e ts expiration =
     and_then (ensure (\<not> timestamp e < ts) (Err E_InvalidTimestamp))
       (\<lambda>_. case expiration of
              Some v \<Rightarrow> ensure (\<not> v \<le> ts) (Err E_InvalidExpiration)
            | None \<Rightarrow> Inr ())"

subsection \<open>Texts\<close>

definition validate_reason :: "string option \<Rightarrow> unit res" where
  "validate_reason reason =
     (case reason of
        Some r \<Rightarrow> ensure (\<not> 128 < length r) (Err E_ReasonTooLong)
      | None \<Rightarrow> Inr ())"

definition MAX_SOURCE_CHAIN_LEN :: nat where
  "MAX_SOURCE_CHAIN_LEN = 32"

definition MAX_SOURCE_TX_LEN :: nat where
  "MAX_SOURCE_TX_LEN = 128"

definition validate_source_reference :: "string \<Rightarrow> string \<Rightarrow> unit res" where
  "validate_source_reference source_chain source_tx =
     and_then (ensure (\<not> (source_chain = [] \<or> source_tx = [])) (Err E_InvalidSourceReference))
       (\<lambda>_. ensure (\<not> (MAX_SOURCE_CHAIN_LEN < length source_chain \<or>
                        MAX_SOURCE_TX_LEN < length source_tx)) (Err E_MetadataTooLong))"

definition validate_tags :: "string list option \<Rightarrow> unit res" where
  "validate_tags tags =
     (case tags of
        Some t \<Rightarrow>
          and_then (ensure (\<not> 5 < length t) (Err E_TooManyTags))
            (\<lambda>_. for_each (\<lambda>tag _. ensure (\<not> 32 < length tag) (Err E_TagTooLong)) t ())
      | None \<Rightarrow> Inr ())"

definition valid_codes :: "string list" where
  "valid_codes = [
    ''AF'', ''AX'', ''AL'', ''DZ'', ''AS'', ''AD'', ''AO'', ''AI'', ''AQ'', ''AG'', ''AR'', ''AM'',
    ''AW'', ''AU'', ''AT'', ''AZ'', ''BS'', ''BH'', ''BD'', ''BB'', ''BY'', ''BE'', ''BZ'', ''BJ'',
    ''BM'', ''BT'', ''BO'', ''BQ'', ''BA'', ''BW'', ''BV'', ''BR'', ''IO'', ''BN'', ''BG'', ''BF'',
    ''BI'', ''CV'', ''KH'', ''CM'', ''CA'', ''KY'', ''CF'', ''TD'', ''CL'', ''CN'', ''CX'', ''CC'',
    ''CO'', ''KM'', ''CG'', ''CD'', ''CK'', ''CR'', ''CI'', ''HR'', ''CU'', ''CW'', ''CY'', ''CZ'',
    ''DK'', ''DJ'', ''DM'', ''DO'', ''EC'', ''EG'', ''SV'', ''GQ'', ''ER'', ''EE'', ''SZ'', ''ET'',
    ''FK'', ''FO'', ''FJ'', ''FI'', ''FR'', ''GF'', ''PF'', ''TF'', ''GA'', ''GM'', ''GE'', ''DE'',
    ''GH'', ''GI'', ''GR'', ''GL'', ''GD'', ''GP'', ''GU'', ''GT'', ''GG'', ''GN'', ''GW'', ''GY'',
    ''HT'', ''HM'', ''VA'', ''HN'', ''HK'', ''HU'', ''IS'', ''IN'', ''ID'', ''IR'', ''IQ'', ''IE'',
    ''IM'', ''IL'', ''IT'', ''JM'', ''JP'', ''JE'', ''JO'', ''KZ'', ''KE'', ''KI'', ''KP'', ''KR'',
    ''KW'', ''KG'', ''LA'', ''LV'', ''LB'', ''LS'', ''LR'', ''LY'', ''LI'', ''LT'', ''LU'', ''MO'',
    ''MK'', ''MG'', ''MW'', ''MY'', ''MV'', ''ML'', ''MT'', ''MH'', ''MQ'', ''MR'', ''MU'', ''YT'',
    ''MX'', ''FM'', ''MD'', ''MC'', ''MN'', ''ME'', ''MS'', ''MA'', ''MZ'', ''MM'', ''NA'', ''NR'',
    ''NP'', ''NL'', ''NC'', ''NZ'', ''NI'', ''NE'', ''NG'', ''NU'', ''NF'', ''MP'', ''NO'', ''OM'',
    ''PK'', ''PW'', ''PS'', ''PA'', ''PG'', ''PY'', ''PE'', ''PH'', ''PN'', ''PL'', ''PT'', ''PR'',
    ''QA'', ''RE'', ''RO'', ''RU'', ''RW'', ''BL'', ''SH'', ''KN'', ''LC'', ''MF'', ''PM'', ''VC'',
    ''WS'', ''SM'', ''ST'', ''SA'', ''SN'', ''RS'', ''SC'', ''SL'', ''SG'', ''SX'', ''SK'', ''SI'',
    ''SB'', ''SO'', ''ZA'', ''GS'', ''SS'', ''ES'', ''LK'', ''SD'', ''SR'', ''SJ'', ''SE'', ''CH'',
    ''SY'', ''TW'', ''TJ'', ''TZ'', ''TH'', ''TL'', ''TG'', ''TK'', ''TO'', ''TT'', ''TN'', ''TR'',
    ''TM'', ''TC'', ''TV'', ''UG'', ''UA'', ''AE'', ''GB'', ''US'', ''UM'', ''UY'', ''UZ'', ''VU'',
    ''VE'', ''VN'', ''VG'', ''VI'', ''WF'', ''EH'', ''YE'', ''ZM'', ''ZW'']"

definition validate_jurisdiction :: "string option \<Rightarrow> unit res" where
  "validate_jurisdiction jurisdiction =
     (case jurisdiction of
        Some code \<Rightarrow>
          and_then (ensure (length code = 2) (Err E_InvalidJurisdiction)) (\<lambda>_.
          and_then (ensure (list_all (\<lambda>b. 65 \<le> b \<and> b \<le> 90) (ascii_bytes code))
                      (Err E_InvalidJurisdiction)) (\<lambda>_.
            ensure (code \<in> set valid_codes) (Err E_InvalidJurisdiction)))
      | None \<Rightarrow> Inr ())"

subsection \<open>Decimal rendering\<close>

text \<open>The digit loop fills its buffer from the right, least significant digit first.\<close>

fun u64_digits :: "nat \<Rightarrow> string \<Rightarrow> string" where
  "u64_digits val buf =
     (if val = 0 then buf else u64_digits (val div 10) (char_of (48 + val mod 10) # buf))"

declare u64_digits.simps [simp del]

definition u64_to_string :: "u64 \<Rightarrow> string" where
  "u64_to_string n = (if n = 0 then ''0'' else u64_digits (unat n) [])"

subsection \<open>Behaviour of the guards\<close>

lemma require_admin_Inr [flow]:
  "require_admin a s = Inr u \<longleftrightarrow> (\<exists>c. admin_council (inst s) = Some c \<and> a \<in> set c)"
  by (auto simp: require_admin_def flow Storage_get_admin_council_def)

lemma require_issuer_Inr [flow]: "require_issuer a s = Inr u \<longleftrightarrow> Storage_is_issuer a s"
  by (simp add: require_issuer_def flow)

lemma require_bridge_Inr [flow]: "require_bridge a s = Inr u \<longleftrightarrow> Storage_is_bridge a s"
  by (simp add: require_bridge_def flow)

lemma require_authorized_creator_Inr [flow]:
  "require_authorized_creator a s = Inr u \<longleftrightarrow> Storage_is_issuer a s \<or> Storage_is_bridge a s"
  by (simp add: require_authorized_creator_def flow)

lemma require_not_paused_Inr [flow]: "require_not_paused s = Inr u \<longleftrightarrow> \<not> Storage_is_paused s"
  by (simp add: require_not_paused_def flow)

lemma for_each_ensure:
  "for_each (\<lambda>x _. ensure (P x) err) xs () = ensure (list_all P xs) err"
  by (induction xs) (simp_all add: ensure_def)

lemma validate_claim_type_Inr [flow]:
  "validate_claim_type c = Inr u \<longleftrightarrow>
     0 < length c \<and> length c \<le> 64 \<and> list_all claim_type_byte (ascii_bytes c)"
  by (auto simp: validate_claim_type_def for_each_ensure flow)

lemma validate_metadata_Inr [flow]:
  "validate_metadata m = Inr u \<longleftrightarrow> (\<forall>v. m = Some v \<longrightarrow> length v \<le> 256)"
  by (auto simp: validate_metadata_def flow split: option.splits)

lemma validate_native_expiration_Inr [flow]:
  "validate_native_expiration e x = Inr u \<longleftrightarrow> (\<forall>v. x = Some v \<longrightarrow> timestamp e < v)"
  by (auto simp: validate_native_expiration_def flow not_le split: option.splits)

lemma validate_valid_from_Inr [flow]:
  "validate_valid_from e x = Inr u \<longleftrightarrow> (\<forall>v. x = Some v \<longrightarrow> timestamp e < v)"
  by (auto simp: validate_valid_from_def flow not_le split: option.splits)

lemma validate_import_timestamps_Inr [flow]:
  "validate_import_timestamps e ts x = Inr u \<longleftrightarrow>
     ts \<le> timestamp e \<and> (\<forall>v. x = Some v \<longrightarrow> ts < v)"
  by (auto simp: validate_import_timestamps_def flow not_le not_less split: option.splits)

lemma validate_reason_Inr [flow]:
  "validate_reason r = Inr u \<longleftrightarrow> (\<forall>v. r = Some v \<longrightarrow> length v \<le> 128)"
  by (auto simp: validate_reason_def flow split: option.splits)

lemma validate_source_reference_Inr [flow]:
  "validate_source_reference c t = Inr u \<longleftrightarrow>
     c \<noteq> [] \<and> t \<noteq> [] \<and> length c \<le> 32 \<and> length t \<le> 128"
  by (auto simp: validate_source_reference_def MAX_SOURCE_CHAIN_LEN_def MAX_SOURCE_TX_LEN_def flow)

lemma validate_tags_Inr [flow]:
  "validate_tags t = Inr u \<longleftrightarrow>
     (\<forall>l. t = Some l \<longrightarrow> length l \<le> 5 \<and> (\<forall>tag \<in> set l. length tag \<le> 32))"
  by (auto simp: validate_tags_def for_each_ensure flow list_all_iff not_less split: option.splits)

lemma valid_codes_format:
  "list_all (\<lambda>c. length c = 2 \<and> list_all (\<lambda>b. 65 \<le> b \<and> b \<le> 90) (ascii_bytes c)) valid_codes"
  by code_simp

lemma validate_jurisdiction_eq:
  "validate_jurisdiction j =
     ensure (case j of None \<Rightarrow> True | Some c \<Rightarrow> c \<in> set valid_codes) (Err E_InvalidJurisdiction)"
  using valid_codes_format
  by (auto simp: validate_jurisdiction_def ensure_def list_all_iff split: option.splits)

lemma validate_jurisdiction_Inr [flow]:
  "validate_jurisdiction j = Inr u \<longleftrightarrow> (\<forall>c. j = Some c \<longrightarrow> c \<in> set valid_codes)"
  by (auto simp: validate_jurisdiction_eq flow split: option.splits)

text \<open>Elimination forms of the guards the handlers share.\<close>

lemma require_adminE [steps]:
  assumes "require_admin a s = Inr u" obtains "\<exists>c. admin_council (inst s) = Some c \<and> a \<in> set c"
  using assms by (auto simp: flow)

lemma require_issuerE [steps]:
  assumes "require_issuer a s = Inr u" obtains "Storage_is_issuer a s"
  using assms by (auto simp: flow)

lemma require_bridgeE [steps]:
  assumes "require_bridge a s = Inr u" obtains "Storage_is_bridge a s"
  using assms by (auto simp: flow)

lemma require_not_pausedE [steps]:
  assumes "require_not_paused s = Inr u" obtains "\<not> Storage_is_paused s"
  using assms by (auto simp: flow)

lemma validate_native_expirationE [steps]:
  assumes "validate_native_expiration e x = Inr u" obtains "\<forall>v. x = Some v \<longrightarrow> timestamp e < v"
  using assms by (auto simp: flow)

lemma validate_valid_fromE [steps]:
  assumes "validate_valid_from e x = Inr u" obtains "\<forall>v. x = Some v \<longrightarrow> timestamp e < v"
  using assms by (auto simp: flow)

lemma validate_import_timestampsE [steps]:
  assumes "validate_import_timestamps e ts x = Inr u" obtains "ts \<le> timestamp e" "\<forall>v. x = Some v \<longrightarrow> ts < v"
  using assms by (auto simp: flow)

subsection \<open>The decimal printer\<close>

definition parse_decimal :: "string \<Rightarrow> nat" where
  "parse_decimal cs = foldl (\<lambda>n c. 10 * n + (of_char c - 48)) 0 cs"

lemma u64_digits_acc: "u64_digits n buf = u64_digits n [] @ buf"
proof (induction n arbitrary: buf rule: less_induct)
  case (less n)
  show ?case
  proof (cases "n = 0")
    case False
    then have "n div 10 < n" by simp
    note IH = less.IH [OF this, of "char_of (48 + n mod 10) # buf"]
      less.IH [OF this, of "[char_of (48 + n mod 10)]"]
    show ?thesis
      using False by (subst (1 2) u64_digits.simps) (simp add: IH)
  qed (simp add: u64_digits.simps)
qed

lemma parse_decimal_snoc: "parse_decimal (cs @ [c]) = 10 * parse_decimal cs + (of_char c - 48)"
  by (simp add: parse_decimal_def)

lemma u64_digits_step:
  "n \<noteq> 0 \<Longrightarrow> u64_digits n [] = u64_digits (n div 10) [] @ [char_of (48 + n mod 10)]"
  by (subst u64_digits.simps) (simp add: u64_digits_acc [of "n div 10" "[_]"])

lemma parse_u64_digits: "parse_decimal (u64_digits n []) = n"
proof (induction n rule: less_induct)
  case (less n)
  show ?case
  proof (cases "n = 0")
    case True
    then show ?thesis by (simp add: u64_digits.simps parse_decimal_def)
  next
    case False
    then have "n div 10 < n" by simp
    from less.IH [OF this] show ?thesis
      by (simp add: u64_digits_step [OF False] parse_decimal_snoc take_bit_eq_mod)
  qed
qed

lemma length_u64_digits: "n < 10 ^ k \<Longrightarrow> length (u64_digits n []) \<le> k"
proof (induction k arbitrary: n)
  case (Suc k)
  show ?case
  proof (cases "n = 0")
    case False
    have "n div 10 < 10 ^ k" using Suc.prems by (simp add: less_mult_imp_div_less mult.commute)
    from Suc.IH [OF this] show ?thesis by (simp add: u64_digits_step [OF False])
  qed (simp add: u64_digits.simps)
qed (simp add: u64_digits.simps)

end
