(* ===== verification/TL_Admin.thy ===== *)
theory TL_Admin
  imports TL_Validation
begin

section \<open>Administration\<close>

text \<open>
  Models \<^verbatim>\<open>src/src/admin.rs\<close>: initialisation, the admin council, the issuer and bridge registries,
  whitelists, tiers, fees, rate limits, pausing, limits, claim types, delegations and expiration
  hooks.  \<^verbatim>\<open>set_require_registered_claim_type\<close> is left out: its default value names a field
  \<^verbatim>\<open>limits\<close> that \<^verbatim>\<open>ContractConfig\<close> does not have and omits three that it has, so the source does
  not say what is stored.
\<close>

subsection \<open>Initialisation and admin council\<close>

definition initialize :: "env \<Rightarrow> address \<Rightarrow> u32 option \<Rightarrow> storage \<Rightarrow> (unit \<times> storage) res" where
  "initialize e admin days s =
     and_then (require_auth e admin) (\<lambda>_.
     and_then (ensure (\<not> Storage_has_admin s) (Err E_AlreadyInitialized)) (\<lambda>_.
     and_then (Storage_set_admin_council [admin] s) (\<lambda>s.
     let s = Storage_set_version ''1.0.0'' s in
     and_then (Storage_set_fee_config
                 \<lparr>attestation_fee = 0, fee_collector = admin, fee_token = None\<rparr> s) (\<lambda>s.
     and_then (Storage_set_ttl_config \<lparr>ttl_days = unwrap_or days 30\<rparr> s) (\<lambda>s.
     Inr ((), Events_admin_initialized admin (timestamp e) s))))))"

definition transfer_admin :: "env \<Rightarrow> address \<Rightarrow> address \<Rightarrow> storage \<Rightarrow> (unit \<times> storage) res" where
  "transfer_admin e current_admin new_a s =
     and_then (require_auth e current_admin) (\<lambda>_.
     and_then (require_admin current_admin s) (\<lambda>_.
     and_then (Storage_add_admin new_a s) (\<lambda>s.
     and_then (Storage_remove_admin current_admin s) (\<lambda>s.
     Inr ((), Events_admin_transferred current_admin new_a s)))))"

definition propose_admin_transfer :: "env \<Rightarrow> address \<Rightarrow> address \<Rightarrow> storage \<Rightarrow> (unit \<times> storage) res" where
  "propose_admin_transfer e current_admin new_a s =
     and_then (require_auth e current_admin) (\<lambda>_.
     and_then (require_admin current_admin s) (\<lambda>_.
     and_then (Storage_set_pending_admin_transfer
                 \<lparr>proposed_by = current_admin, new_admin = new_a\<rparr> s) (\<lambda>s.
     Inr ((), Events_admin_transfer_proposed current_admin new_a s))))"

definition cancel_admin_transfer :: "env \<Rightarrow> address \<Rightarrow> storage \<Rightarrow> (unit \<times> storage) res" where
  "cancel_admin_transfer e current_admin s =
     and_then (require_auth e current_admin) (\<lambda>_.
     and_then (require_admin current_admin s) (\<lambda>_.
     and_then (ok_or (Storage_get_pending_admin_transfer s) (Err E_NotFound)) (\<lambda>pending.
     and_then (ensure (proposed_by pending = current_admin) (Err E_Unauthorized)) (\<lambda>_.
     Inr ((), Storage_remove_pending_admin_transfer s)))))"

definition accept_admin_transfer :: "env \<Rightarrow> address \<Rightarrow> storage \<Rightarrow> (unit \<times> storage) res" where
  "accept_admin_transfer e new_a s =
     and_then (require_auth e new_a) (\<lambda>_.
     and_then (ok_or (Storage_get_pending_admin_transfer s) (Err E_NotFound)) (\<lambda>pending.
     and_then (ensure (new_admin pending = new_a) (Err E_Unauthorized)) (\<lambda>_.
     and_then (Storage_add_admin new_a s) (\<lambda>s.
     and_then (Storage_remove_admin (proposed_by pending) s) (\<lambda>s.
     let s = Storage_remove_pending_admin_transfer s in
     Inr ((), Events_admin_transferred (proposed_by pending) new_a s))))))"

definition get_pending_admin_transfer :: "storage \<Rightarrow> pending_admin_transfer option" where
  "get_pending_admin_transfer = Storage_get_pending_admin_transfer"

definition add_admin :: "env \<Rightarrow> address \<Rightarrow> address \<Rightarrow> storage \<Rightarrow> (unit \<times> storage) res" where
  "add_admin e existing_admin new_a s =
     and_then (require_auth e existing_admin) (\<lambda>_.
     and_then (require_admin existing_admin s) (\<lambda>_.
     if Storage_is_admin new_a s then Inr ((), s)
     else
     and_then (Storage_add_admin new_a s) (\<lambda>s.
     Inr ((), Events_admin_added existing_admin new_a (timestamp e) s))))"

definition remove_admin :: "env \<Rightarrow> address \<Rightarrow> address \<Rightarrow> storage \<Rightarrow> (unit \<times> storage) res" where
  "remove_admin e existing_admin admin_to_remove s =
     and_then (require_auth e existing_admin) (\<lambda>_.
     and_then (require_admin existing_admin s) (\<lambda>_.
     and_then (Storage_get_admin_council s) (\<lambda>council.
     and_then (ensure (\<not> length council \<le> 1) (Err E_LastAdminCannotBeRemoved)) (\<lambda>_.
     if \<not> Storage_is_admin admin_to_remove s then Inr ((), s)
     else
     and_then (Storage_remove_admin admin_to_remove s) (\<lambda>s.
     Inr ((), Events_admin_removed existing_admin admin_to_remove (timestamp e) s))))))"

definition get_admin :: "storage \<Rightarrow> address res" where
  "get_admin = Storage_get_admin"

definition get_admin_council :: "storage \<Rightarrow> address list res" where
  "get_admin_council = Storage_get_admin_council"

subsection \<open>Issuers\<close>

definition register_issuer :: "env \<Rightarrow> address \<Rightarrow> address \<Rightarrow> storage \<Rightarrow> (unit \<times> storage) res" where
  "register_issuer e admin issuer s =
     and_then (require_auth e admin) (\<lambda>_.
     and_then (require_admin admin s) (\<lambda>_.
     and_then (require_not_paused s) (\<lambda>_.
     and_then (ensure (\<not> Storage_is_bridge issuer s) (Err E_Unauthorized)) (\<lambda>_.
     and_then (Storage_add_issuer issuer s) (\<lambda>s.
     and_then (Storage_increment_total_issuers s) (\<lambda>s.
     Inr ((), Events_issuer_registered issuer admin (timestamp e) s)))))))"

definition remove_issuer :: "env \<Rightarrow> address \<Rightarrow> address \<Rightarrow> storage \<Rightarrow> (unit \<times> storage) res" where
  "remove_issuer e admin issuer s =
     and_then (require_auth e admin) (\<lambda>_.
     and_then (require_admin admin s) (\<lambda>_.
     let s = Storage_remove_issuer issuer s in
     and_then (Storage_decrement_total_issuers s) (\<lambda>s.
     Inr ((), Events_issuer_removed issuer admin (timestamp e) s))))"

definition get_issuer_list :: "u32 \<Rightarrow> u32 \<Rightarrow> storage \<Rightarrow> address list res" where
  "get_issuer_list start limit s = paginate_addresses (Storage_get_issuer_list s) start limit"

definition add_to_whitelist :: "env \<Rightarrow> address \<Rightarrow> address \<Rightarrow> storage \<Rightarrow> (unit \<times> storage) res" where
  "add_to_whitelist e issuer subject s =
     and_then (require_auth e issuer) (\<lambda>_.
     and_then (require_issuer issuer s) (\<lambda>_.
     and_then (Storage_add_to_whitelist issuer subject s) (\<lambda>s. Inr ((), s))))"

definition WHITELIST_MAX_BATCH :: nat where
  "WHITELIST_MAX_BATCH = 50"

definition bulk_add_to_whitelist ::
  "env \<Rightarrow> address \<Rightarrow> address list \<Rightarrow> storage \<Rightarrow> (unit \<times> storage) res" where
  "bulk_add_to_whitelist e issuer subjects s =
     and_then (require_auth e issuer) (\<lambda>_.
     and_then (require_issuer issuer s) (\<lambda>_.
     and_then (ensure (\<not> WHITELIST_MAX_BATCH < length subjects) (Err E_LimitExceeded)) (\<lambda>_.
     and_then (for_each (Storage_add_to_whitelist issuer) subjects s) (\<lambda>s. Inr ((), s)))))"

definition remove_from_whitelist :: "env \<Rightarrow> address \<Rightarrow> address \<Rightarrow> storage \<Rightarrow> (unit \<times> storage) res" where
  "remove_from_whitelist e issuer subject s =
     and_then (require_auth e issuer) (\<lambda>_.
     and_then (require_issuer issuer s) (\<lambda>_.
     Inr ((), Storage_remove_from_whitelist issuer subject s)))"

definition is_whitelisted :: "address \<Rightarrow> address \<Rightarrow> storage \<Rightarrow> bool" where
  "is_whitelisted = Storage_is_whitelisted"

definition is_whitelist_enabled :: "address \<Rightarrow> storage \<Rightarrow> bool" where
  "is_whitelist_enabled = Storage_is_whitelist_enabled"

definition set_issuer_tier ::
  "env \<Rightarrow> address \<Rightarrow> address \<Rightarrow> issuer_tier \<Rightarrow> storage \<Rightarrow> (unit \<times> storage) res" where
  "set_issuer_tier e admin issuer tier s =
     and_then (require_auth e admin) (\<lambda>_.
     and_then (require_admin admin s) (\<lambda>_.
     and_then (require_issuer issuer s) (\<lambda>_.
     and_then (Storage_set_issuer_tier issuer tier s) (\<lambda>s.
     Inr ((), Events_issuer_tier_updated issuer tier s)))))"

definition get_confidence_score :: "string \<Rightarrow> storage \<Rightarrow> u32 option res" where
  "get_confidence_score i s =
     (case Storage_get_attestation i s of
        Inl _ \<Rightarrow> Inr None
      | Inr a \<Rightarrow>
          (let tier_score = (case Storage_get_issuer_tier (att_issuer a) s of
                               Some Tier_Premium \<Rightarrow> 90
                             | Some Tier_Verified \<Rightarrow> 60
                             | Some Tier_Basic \<Rightarrow> 30
                             | None \<Rightarrow> 30)
           in and_then (checked_mul (of_nat (length (Storage_get_endorsements i s))) 2) (\<lambda>n.
              and_then (checked_add tier_score (min n 10)) (\<lambda>score.
              Inr (Some score)))))"

definition get_issuer_metadata :: "address \<Rightarrow> storage \<Rightarrow> issuer_metadata option" where
  "get_issuer_metadata = Storage_get_issuer_metadata"

definition set_issuer_metadata ::
  "env \<Rightarrow> address \<Rightarrow> issuer_metadata \<Rightarrow> storage \<Rightarrow> (unit \<times> storage) res" where
  "set_issuer_metadata e issuer metadata s =
     and_then (require_auth e issuer) (\<lambda>_.
     and_then (require_issuer issuer s) (\<lambda>_.
     and_then (Storage_set_issuer_metadata issuer metadata s) (\<lambda>s. Inr ((), s))))"

definition get_issuer_stats :: "address \<Rightarrow> storage \<Rightarrow> issuer_stats" where
  "get_issuer_stats = Storage_get_issuer_stats"

definition is_issuer :: "address \<Rightarrow> storage \<Rightarrow> bool" where
  "is_issuer = Storage_is_issuer"

definition get_issuer_tier :: "address \<Rightarrow> storage \<Rightarrow> issuer_tier option" where
  "get_issuer_tier = Storage_get_issuer_tier"

subsection \<open>Bridges and whitelist mode\<close>

definition register_bridge :: "env \<Rightarrow> address \<Rightarrow> address \<Rightarrow> storage \<Rightarrow> (unit \<times> storage) res" where
  "register_bridge e admin bridge_contract s =
     and_then (require_auth e admin) (\<lambda>_.
     and_then (require_admin admin s) (\<lambda>_.
     and_then (ensure (\<not> Storage_is_issuer bridge_contract s) (Err E_Unauthorized)) (\<lambda>_.
     and_then (Storage_add_bridge bridge_contract s) (\<lambda>s. Inr ((), s)))))"

definition is_bridge :: "address \<Rightarrow> storage \<Rightarrow> bool" where
  "is_bridge = Storage_is_bridge"

definition get_bridge_list :: "u32 \<Rightarrow> u32 \<Rightarrow> storage \<Rightarrow> address list res" where
  "get_bridge_list start limit s = paginate_addresses (Storage_get_bridge_list s) start limit"

definition set_whitelist_enabled :: "env \<Rightarrow> address \<Rightarrow> bool \<Rightarrow> storage \<Rightarrow> (unit \<times> storage) res" where
  "set_whitelist_enabled e issuer enabled s =
     and_then (require_auth e issuer) (\<lambda>_.
     and_then (require_issuer issuer s) (\<lambda>_.
     and_then (Storage_set_whitelist_enabled issuer enabled s) (\<lambda>s. Inr ((), s))))"

definition enable_whitelist_mode :: "env \<Rightarrow> address \<Rightarrow> storage \<Rightarrow> (unit \<times> storage) res" where
  "enable_whitelist_mode e issuer s =
     and_then (require_auth e issuer) (\<lambda>_.
     and_then (require_issuer issuer s) (\<lambda>_.
     and_then (Storage_set_whitelist_mode issuer True s) (\<lambda>s.
     Inr ((), Events_whitelist_mode_enabled issuer s))))"

subsection \<open>Fees, rate limits, pausing, limits\<close>

definition get_fee_config :: "storage \<Rightarrow> fee_config res" where
  "get_fee_config s = ok_or (Storage_get_fee_config s) (Err E_NotInitialized)"

definition validate_fee_config :: "env \<Rightarrow> int \<Rightarrow> address option \<Rightarrow> unit res" where
  "validate_fee_config e fee token =
     and_then (ensure (\<not> fee < 0) (Err E_InvalidFee)) (\<lambda>_.
     and_then (ensure (\<not> (0 < fee \<and> token = None)) (Err E_FeeTokenRequired)) (\<lambda>_.
     case token of
       Some token_addr \<Rightarrow>
         ensure (token_balance_ok e token_addr (current_contract_address e)) (Err E_InvalidFeeToken)
     | None \<Rightarrow> Inr ()))"

definition set_fee ::
  "env \<Rightarrow> address \<Rightarrow> int \<Rightarrow> address \<Rightarrow> address option \<Rightarrow> storage \<Rightarrow> (unit \<times> storage) res" where
  "set_fee e admin fee collector token s =
     and_then (require_auth e admin) (\<lambda>_.
     and_then (require_admin admin s) (\<lambda>_.
     and_then (validate_fee_config e fee token) (\<lambda>_.
     and_then (ensure (admin \<noteq> collector) (Err E_Unauthorized)) (\<lambda>_.
     and_then (Storage_set_fee_config
                 \<lparr>attestation_fee = fee, fee_collector = collector, fee_token = token\<rparr> s) (\<lambda>s.
     Inr ((), s))))))"

definition set_rate_limit :: "env \<Rightarrow> address \<Rightarrow> u64 \<Rightarrow> storage \<Rightarrow> (unit \<times> storage) res" where
  "set_rate_limit e admin interval s =
     and_then (require_auth e admin) (\<lambda>_.
     and_then (require_admin admin s) (\<lambda>_.
     and_then (Storage_set_rate_limit_config \<lparr>min_issuance_interval = interval\<rparr> s) (\<lambda>s.
     Inr ((), s))))"

definition get_rate_limit :: "storage \<Rightarrow> rate_limit_config option" where
  "get_rate_limit = Storage_get_rate_limit_config"

definition set_rate_limit_for_claim_type ::
  "env \<Rightarrow> address \<Rightarrow> string \<Rightarrow> u64 \<Rightarrow> storage \<Rightarrow> (unit \<times> storage) res" where
  "set_rate_limit_for_claim_type e admin claim_type interval_secs s =
     and_then (require_auth e admin) (\<lambda>_.
     and_then (require_admin admin s) (\<lambda>_.
     and_then (validate_claim_type claim_type) (\<lambda>_.
     and_then (Storage_set_claim_type_rate_limit claim_type interval_secs s) (\<lambda>s.
     Inr ((), s)))))"

definition get_rate_limit_for_claim_type :: "string \<Rightarrow> storage \<Rightarrow> u64 option" where
  "get_rate_limit_for_claim_type = Storage_get_claim_type_rate_limit"

definition pause :: "env \<Rightarrow> address \<Rightarrow> storage \<Rightarrow> (unit \<times> storage) res" where
  "pause e admin s =
     and_then (require_auth e admin) (\<lambda>_.
     and_then (require_admin admin s) (\<lambda>_.
     and_then (Storage_set_paused True s) (\<lambda>s.
     Inr ((), Events_contract_paused admin (timestamp e) s))))"

definition unpause :: "env \<Rightarrow> address \<Rightarrow> storage \<Rightarrow> (unit \<times> storage) res" where
  "unpause e admin s =
     and_then (require_auth e admin) (\<lambda>_.
     and_then (require_admin admin s) (\<lambda>_.
     and_then (Storage_set_paused False s) (\<lambda>s.
     Inr ((), Events_contract_unpaused admin (timestamp e) s))))"

definition is_paused :: "storage \<Rightarrow> bool" where
  "is_paused = Storage_is_paused"

definition get_require_registered_claim_type :: "storage \<Rightarrow> bool" where
  "get_require_registered_claim_type s =
     unwrap_or (map_option cc_require_registered_claim_type (Storage_get_contract_config s)) False"

definition get_limits :: "storage \<Rightarrow> storage_limits" where
  "get_limits = Storage_get_limits"

definition set_limits :: "env \<Rightarrow> address \<Rightarrow> u32 \<Rightarrow> u32 \<Rightarrow> storage \<Rightarrow> (unit \<times> storage) res" where
  "set_limits e admin per_issuer per_subject s =
     and_then (require_auth e admin) (\<lambda>_.
     and_then (require_admin admin s) (\<lambda>_.
     and_then (Storage_set_limits \<lparr>max_attestations_per_issuer = per_issuer,
                 max_attestations_per_subject = per_subject\<rparr> s) (\<lambda>s.
     Inr ((), s))))"

subsection \<open>Claim types\<close>

definition register_claim_type ::
  "env \<Rightarrow> address \<Rightarrow> string \<Rightarrow> string \<Rightarrow> storage \<Rightarrow> (unit \<times> storage) res" where
  "register_claim_type e admin claim_type description s =
     and_then (require_auth e admin) (\<lambda>_.
     and_then (require_admin admin s) (\<lambda>_.
     and_then (validate_claim_type claim_type) (\<lambda>_.
     and_then (Storage_set_claim_type
                 \<lparr>ct_claim_type = claim_type, ct_description = description\<rparr> s) (\<lambda>s.
     Inr ((), Events_claim_type_registered claim_type description s)))))"

definition get_claim_type_description :: "string \<Rightarrow> storage \<Rightarrow> string option" where
  "get_claim_type_description claim_type s =
     map_option ct_description (Storage_get_claim_type claim_type s)"

definition list_claim_types :: "u32 \<Rightarrow> u32 \<Rightarrow> storage \<Rightarrow> string list res" where
  "list_claim_types start limit s = paginate (Storage_get_claim_type_list s) start limit"

subsection \<open>Delegation\<close>

definition delegate_claim_type ::
  "env \<Rightarrow> address \<Rightarrow> address \<Rightarrow> string \<Rightarrow> u64 option \<Rightarrow> storage \<Rightarrow> (unit \<times> storage) res" where
  "delegate_claim_type e issuer delegate claim_type expiration s =
     and_then (require_auth e issuer) (\<lambda>_.
     and_then (require_issuer issuer s) (\<lambda>_.
     and_then (ensure (issuer \<noteq> delegate) (Err E_CannotDelegateToSelf)) (\<lambda>_.
     and_then (validate_native_expiration e expiration) (\<lambda>_.
     and_then (Storage_set_delegation
                 \<lparr>dg_delegator = issuer, dg_delegate = delegate, dg_claim_type = claim_type,
                  dg_expiration = expiration\<rparr> s) (\<lambda>s.
     Inr ((), Events_delegation_created issuer delegate claim_type expiration s))))))"

definition revoke_delegation ::
  "env \<Rightarrow> address \<Rightarrow> address \<Rightarrow> string \<Rightarrow> storage \<Rightarrow> (unit \<times> storage) res" where
  "revoke_delegation e issuer delegate claim_type s =
     and_then (require_auth e issuer) (\<lambda>_.
     and_then (require_issuer issuer s) (\<lambda>_.
     and_then (ensure (Storage_get_delegation issuer delegate claim_type s \<noteq> None)
                 (Err E_NotFound)) (\<lambda>_.
     and_then (Storage_remove_delegation issuer delegate claim_type s) (\<lambda>s.
     Inr ((), Events_delegation_revoked issuer delegate claim_type s)))))"

text \<open>The loop of \<^verbatim>\<open>list_delegations_by_delegator\<close> with its two counters.  Neither counter can
  overflow: each stays at most \<^verbatim>\<open>start\<close> or \<^verbatim>\<open>limit\<close>.\<close>

fun list_delegations_loop ::
  "env \<Rightarrow> address \<Rightarrow> u32 \<Rightarrow> u32 \<Rightarrow> storage \<Rightarrow> (address \<times> string) list \<Rightarrow> nat \<Rightarrow> nat \<Rightarrow>
   delegation list \<Rightarrow> delegation list" where
  "list_delegations_loop e delegator start limit s [] skipped count result = result"
| "list_delegations_loop e delegator start limit s ((d, c) # ix) skipped count result =
     (case Storage_get_delegation delegator d c s of
        None \<Rightarrow> list_delegations_loop e delegator start limit s ix skipped count result
      | Some g \<Rightarrow>
          if (case dg_expiration g of None \<Rightarrow> True | Some ex \<Rightarrow> timestamp e < ex)
          then
            if skipped < unat start
            then list_delegations_loop e delegator start limit s ix (Suc skipped) count result
            else if unat limit \<le> count then result
            else list_delegations_loop e delegator start limit s ix skipped (Suc count)
                   (result @ [g])
          else list_delegations_loop e delegator start limit s ix skipped count result)"

definition list_delegations_by_delegator ::
  "env \<Rightarrow> address \<Rightarrow> u32 \<Rightarrow> u32 \<Rightarrow> storage \<Rightarrow> delegation list" where
  "list_delegations_by_delegator e delegator start limit s =
     list_delegations_loop e delegator start limit s (Storage_get_delegator_index delegator s) 0 0 []"

subsection \<open>Expiration hooks, version, health\<close>

definition register_expiration_hook ::
  "env \<Rightarrow> address \<Rightarrow> address \<Rightarrow> u32 \<Rightarrow> storage \<Rightarrow> (unit \<times> storage) res" where
  "register_expiration_hook e subject callback days_before s =
     and_then (ensure (days_before \<noteq> 0) (Err E_InvalidExpiration)) (\<lambda>_.
     and_then (require_auth e subject) (\<lambda>_.
     and_then (Storage_set_expiration_hook subject
                 \<lparr>callback_contract = callback, notify_days_before = days_before\<rparr> s) (\<lambda>s.
     Inr ((), s))))"

definition get_expiration_hook :: "address \<Rightarrow> storage \<Rightarrow> expiration_hook option" where
  "get_expiration_hook = Storage_get_expiration_hook"

definition remove_expiration_hook :: "env \<Rightarrow> address \<Rightarrow> storage \<Rightarrow> (unit \<times> storage) res" where
  "remove_expiration_hook e subject s =
     and_then (require_auth e subject) (\<lambda>_. Inr ((), Storage_remove_expiration_hook subject s))"

definition get_version :: "storage \<Rightarrow> string res" where
  "get_version s = ok_or (Storage_get_version s) (Err E_NotInitialized)"

definition health_check :: "storage \<Rightarrow> health_status" where
  "health_check s =
     (let initialized = Storage_has_admin s; stats = Storage_get_global_stats s
      in \<lparr>hs_initialized = initialized, hs_admin_set = initialized,
          hs_issuer_count = total_issuers stats,
          hs_total_attestations = total_attestations stats\<rparr>)"

end
