(* ===== verification/TL_Attestation.thy ===== *)
theory TL_Attestation
  imports TL_Validation
begin

section \<open>Attestations\<close>

text \<open>
  Models \<^verbatim>\<open>src/src/attestation.rs\<close>: creating, importing, bridging, batching, revoking, renewing,
  transferring, deleting and endorsing attestations, and creation by a delegate.  An operation takes
  the environment, its arguments and the state, and returns its result with the new state, or the
  error or trap that aborts the invocation; the steps are in the order of the source.
\<close>

subsection \<open>Shared helpers\<close>

definition check_rate_limit :: "env \<Rightarrow> address \<Rightarrow> string \<Rightarrow> storage \<Rightarrow> unit res" where
  "check_rate_limit e issuer claim_type s =
     (let interval = (case Storage_get_claim_type_rate_limit claim_type s of
                        Some claim_limit \<Rightarrow> Some claim_limit
                      | None \<Rightarrow> map_option min_issuance_interval (Storage_get_rate_limit_config s))
      in case interval of
           None \<Rightarrow> Inr ()
         | Some iv \<Rightarrow>
             if iv = 0 then Inr ()
             else (case Storage_get_last_issuance_time issuer s of
                     Some lst \<Rightarrow> ensure (\<not> saturating_sub (timestamp e) lst < iv) (Err E_RateLimited)
                   | None \<Rightarrow> Inr ()))"

definition load_fee_config :: "storage \<Rightarrow> fee_config res" where
  "load_fee_config s = ok_or (Storage_get_fee_config s) (Err E_NotInitialized)"

definition charge_attestation_fee :: "env \<Rightarrow> address \<Rightarrow> storage \<Rightarrow> storage res" where
  "charge_attestation_fee e issuer s =
     and_then (load_fee_config s) (\<lambda>fc.
     if attestation_fee fc = 0 then Inr s
     else
       and_then (ok_or (fee_token fc) (Err E_FeeTokenRequired)) (\<lambda>tok.
       and_then (ensure (token_transfer_ok e tok issuer (fee_collector fc) (attestation_fee fc)) Trap)
         (\<lambda>_. Inr (host_update (calls_update
            (\<lambda>l. l @ [TokenTransfer tok issuer (fee_collector fc) (attestation_fee fc)])) s))))"

definition store_attestation :: "attestation \<Rightarrow> storage \<Rightarrow> storage res" where
  "store_attestation a s =
     and_then (Storage_set_attestation a s) (\<lambda>s.
     and_then (Storage_add_subject_attestation (att_subject a) (att_id a) s) (\<lambda>s.
     and_then (Storage_add_issuer_attestation (att_issuer a) (att_id a) s) (\<lambda>s.
     and_then (Storage_add_valid_attestation (att_subject a) (att_id a) s) (\<lambda>s.
     and_then (ChunkedIndex_add_subject (att_subject a) (att_id a) s) (\<lambda>s.
     and_then (ChunkedIndex_add_issuer (att_issuer a) (att_id a) s) (\<lambda>s.
     let stats = Storage_get_issuer_stats (att_issuer a) s in
     and_then (checked_add (total_issued stats) 1) (\<lambda>n.
     and_then (Storage_set_issuer_stats (att_issuer a) (stats\<lparr>total_issued := n\<rparr>) s)
       (Storage_increment_total_attestations 1))))))))"

text \<open>The notification window cannot overflow: \<open>(2 ^ 32 - 1) * 86400 < 2 ^ 64\<close>.  The result of the
  callback is ignored by the source, the call itself is recorded.\<close>

definition maybe_trigger_expiration_hook ::
  "address \<Rightarrow> string \<Rightarrow> u64 \<Rightarrow> u64 \<Rightarrow> storage \<Rightarrow> storage" where
  "maybe_trigger_expiration_hook subject i expiration current_time s =
     (case Storage_get_expiration_hook subject s of
        None \<Rightarrow> s
      | Some hook \<Rightarrow>
          (let notify_window = ucast (notify_days_before hook) * SECS_PER_DAY;
               notify_from = saturating_sub expiration notify_window
           in if notify_from \<le> current_time \<and> current_time < expiration
              then host_update (calls_update
                     (\<lambda>l. l @ [NotifyExpiring (callback_contract hook) subject i expiration]))
                     (Events_expiration_hook_triggered subject i expiration s)
              else s))"

subsection \<open>Creation\<close>

definition create_attestation_internal ::
  "env \<Rightarrow> address \<Rightarrow> address \<Rightarrow> string \<Rightarrow> u64 option \<Rightarrow> string option \<Rightarrow> string option \<Rightarrow>
   string list option \<Rightarrow> u64 option \<Rightarrow> storage \<Rightarrow> (string \<times> storage) res" where
  "create_attestation_internal e issuer subject claim_type expiration metadata jurisdiction tags
       valid_from s =
     and_then (require_auth e issuer) (\<lambda>_.
     and_then (require_not_paused s) (\<lambda>_.
     and_then (require_issuer issuer s) (\<lambda>_.
     and_then (validate_claim_type claim_type) (\<lambda>_.
     and_then (require_registered_claim_type claim_type s) (\<lambda>_.
     and_then (validate_metadata metadata) (\<lambda>_.
     and_then (validate_jurisdiction jurisdiction) (\<lambda>_.
     and_then (validate_tags tags) (\<lambda>_.
     and_then (validate_native_expiration e expiration) (\<lambda>_.
     and_then (validate_valid_from e valid_from) (\<lambda>_.
     and_then (ensure (issuer \<noteq> subject) (Err E_Unauthorized)) (\<lambda>_.
     and_then (ensure (\<not> (Storage_is_whitelist_mode issuer s \<and>
                 \<not> Storage_is_whitelisted issuer subject s)) (Err E_SubjectNotWhitelisted)) (\<lambda>_.
     and_then (check_rate_limit e issuer claim_type s) (\<lambda>_.
     let lim = Storage_get_limits s in
     and_then (ensure (\<not> unat (max_attestations_per_issuer lim)
                 \<le> length (Storage_get_issuer_attestations issuer s)) (Err E_LimitExceeded)) (\<lambda>_.
     and_then (ensure (\<not> unat (max_attestations_per_subject lim)
                 \<le> length (Storage_get_subject_attestations subject s)) (Err E_LimitExceeded)) (\<lambda>_.
     let ts = timestamp e;
         i = generate_id e issuer subject claim_type ts in
     and_then (ensure (\<not> Storage_has_attestation i s) (Err E_DuplicateAttestation)) (\<lambda>_.
     let a = \<lparr>att_id = i, att_issuer = issuer, att_subject = subject,
              att_claim_type = claim_type, att_timestamp = ts, att_expiration = expiration,
              att_revoked = False, att_metadata = metadata, att_jurisdiction = jurisdiction,
              att_valid_from = valid_from, att_origin = Origin_Native, att_source_chain = None,
              att_source_tx = None, att_tags = tags, att_revocation_reason = None,
              att_deleted = False\<rparr> in
     and_then (store_attestation a s) (\<lambda>s.
     and_then (Storage_append_audit_entry i
                 \<lparr>ae_action = Audit_Created, ae_actor = issuer, ae_timestamp = ts,
                  ae_details = None\<rparr> s) (\<lambda>s.
     and_then (Storage_set_last_issuance_time issuer ts s) (\<lambda>s.
     and_then (charge_attestation_fee e issuer s) (\<lambda>s.
     Inr (i, Events_attestation_created a s)))))))))))))))))))))"

definition create_attestation ::
  "env \<Rightarrow> address \<Rightarrow> address \<Rightarrow> string \<Rightarrow> u64 option \<Rightarrow> string option \<Rightarrow> string list option \<Rightarrow>
   storage \<Rightarrow> (string \<times> storage) res" where
  "create_attestation e issuer subject claim_type expiration metadata tags =
     create_attestation_internal e issuer subject claim_type expiration metadata None tags None"

definition create_attestation_valid_from ::
  "env \<Rightarrow> address \<Rightarrow> address \<Rightarrow> string \<Rightarrow> u64 option \<Rightarrow> string option \<Rightarrow> string list option \<Rightarrow>
   u64 \<Rightarrow> storage \<Rightarrow> (string \<times> storage) res" where
  "create_attestation_valid_from e issuer subject claim_type expiration metadata tags vf =
     create_attestation_internal e issuer subject claim_type expiration metadata None tags (Some vf)"

definition create_attestation_jurisdiction ::
  "env \<Rightarrow> address \<Rightarrow> address \<Rightarrow> string \<Rightarrow> u64 option \<Rightarrow> string option \<Rightarrow> string option \<Rightarrow>
   string list option \<Rightarrow> storage \<Rightarrow> (string \<times> storage) res" where
  "create_attestation_jurisdiction e issuer subject claim_type expiration metadata jurisdiction tags =
     create_attestation_internal e issuer subject claim_type expiration metadata jurisdiction tags
       None"

definition import_attestation ::
  "env \<Rightarrow> address \<Rightarrow> address \<Rightarrow> address \<Rightarrow> string \<Rightarrow> u64 \<Rightarrow> u64 option \<Rightarrow> storage \<Rightarrow>
   (string \<times> storage) res" where
  "import_attestation e admin issuer subject claim_type ts expiration s =
     and_then (require_auth e admin) (\<lambda>_.
     and_then (require_admin admin s) (\<lambda>_.
     and_then (require_not_paused s) (\<lambda>_.
     and_then (require_issuer issuer s) (\<lambda>_.
     and_then (validate_import_timestamps e ts expiration) (\<lambda>_.
     let i = generate_id e issuer subject claim_type ts in
     and_then (ensure (\<not> Storage_has_attestation i s) (Err E_DuplicateAttestation)) (\<lambda>_.
     let a = \<lparr>att_id = i, att_issuer = issuer, att_subject = subject,
              att_claim_type = claim_type, att_timestamp = ts, att_expiration = expiration,
              att_revoked = False, att_metadata = None, att_jurisdiction = None,
              att_valid_from = None, att_origin = Origin_Imported, att_source_chain = None,
              att_source_tx = None, att_tags = None, att_revocation_reason = None,
              att_deleted = False\<rparr> in
     and_then (store_attestation a s) (\<lambda>s.
     let s = Events_attestation_imported a s in
     and_then (Storage_append_audit_entry i
                 \<lparr>ae_action = Audit_Created, ae_actor = admin, ae_timestamp = ts,
                  ae_details = None\<rparr> s) (\<lambda>s.
     Inr (i, s)))))))))"

definition bridge_attestation ::
  "env \<Rightarrow> address \<Rightarrow> address \<Rightarrow> string \<Rightarrow> string \<Rightarrow> string \<Rightarrow> storage \<Rightarrow> (string \<times> storage) res" where
  "bridge_attestation e bridge subject claim_type source_chain source_tx s =
     and_then (require_auth e bridge) (\<lambda>_.
     and_then (require_bridge bridge s) (\<lambda>_.
     and_then (require_not_paused s) (\<lambda>_.
     and_then (validate_source_reference source_chain source_tx) (\<lambda>_.
     let ts = timestamp e;
         i = generate_bridge_id e bridge subject claim_type source_chain source_tx ts in
     and_then (ensure (\<not> Storage_has_attestation i s) (Err E_DuplicateAttestation)) (\<lambda>_.
     let a = \<lparr>att_id = i, att_issuer = bridge, att_subject = subject,
              att_claim_type = claim_type, att_timestamp = ts, att_expiration = None,
              att_revoked = False, att_metadata = None, att_jurisdiction = None,
              att_valid_from = None, att_origin = Origin_Bridged,
              att_source_chain = Some source_chain, att_source_tx = Some source_tx,
              att_tags = None, att_revocation_reason = None, att_deleted = False\<rparr> in
     and_then (store_attestation a s) (\<lambda>s.
     let s = Events_attestation_bridged a s in
     and_then (Storage_append_audit_entry i
                 \<lparr>ae_action = Audit_Created, ae_actor = bridge, ae_timestamp = ts,
                  ae_details = None\<rparr> s) (\<lambda>s.
     Inr (i, s))))))))"

text \<open>The body of the loop over the subjects of a batch; the accumulator holds the ids so far.\<close>

definition batch_create_one ::
  "env \<Rightarrow> address \<Rightarrow> string \<Rightarrow> u64 option \<Rightarrow> storage_limits \<Rightarrow> address \<Rightarrow> string list \<times> storage \<Rightarrow>
   (string list \<times> storage) res" where
  "batch_create_one e issuer claim_type expiration lim subject = (\<lambda>(ids, s).
     let ts = timestamp e;
         i = generate_id e issuer subject claim_type ts in
     and_then (ensure (\<not> Storage_has_attestation i s) (Err E_DuplicateAttestation)) (\<lambda>_.
     and_then (ensure (\<not> unat (max_attestations_per_subject lim)
                 \<le> length (Storage_get_subject_attestations subject s)) (Err E_LimitExceeded)) (\<lambda>_.
     let a = \<lparr>att_id = i, att_issuer = issuer, att_subject = subject,
              att_claim_type = claim_type, att_timestamp = ts, att_expiration = expiration,
              att_revoked = False, att_metadata = None, att_jurisdiction = None,
              att_valid_from = None, att_origin = Origin_Native, att_source_chain = None,
              att_source_tx = None, att_tags = None, att_revocation_reason = None,
              att_deleted = False\<rparr> in
     and_then (Storage_set_attestation a s) (\<lambda>s.
     and_then (Storage_add_subject_attestation subject i s) (\<lambda>s.
     and_then (Storage_add_valid_attestation subject i s) (\<lambda>s.
     and_then (ChunkedIndex_add_subject subject i s) (\<lambda>s.
     and_then (Storage_append_audit_entry i
                 \<lparr>ae_action = Audit_Created, ae_actor = issuer, ae_timestamp = ts,
                  ae_details = None\<rparr> s) (\<lambda>s.
     Inr (ids @ [i], Events_attestation_created a s)))))))))"

definition create_attestations_batch ::
  "env \<Rightarrow> address \<Rightarrow> address list \<Rightarrow> string \<Rightarrow> u64 option \<Rightarrow> storage \<Rightarrow> (string list \<times> storage) res" where
  "create_attestations_batch e issuer subjects claim_type expiration s =
     and_then (require_auth e issuer) (\<lambda>_.
     and_then (require_issuer issuer s) (\<lambda>_.
     and_then (require_not_paused s) (\<lambda>_.
     and_then (validate_claim_type claim_type) (\<lambda>_.
     and_then (validate_native_expiration e expiration) (\<lambda>_.
     and_then (check_rate_limit e issuer claim_type s) (\<lambda>_.
     let lim = Storage_get_limits s;
         issuer_count = of_nat (length (Storage_get_issuer_attestations issuer s)) in
     and_then (ensure (\<not> max_attestations_per_issuer lim
                 < saturating_add issuer_count (of_nat (length subjects))) (Err E_LimitExceeded)) (\<lambda>_.
     and_then (for_each (batch_create_one e issuer claim_type expiration lim) subjects ([], s))
       (\<lambda>(ids, s).
     let batch_len = of_nat (length ids) in
     and_then (Storage_add_issuer_attestations_bulk issuer ids s) (\<lambda>s.
     and_then (ChunkedIndex_add_issuer_bulk issuer ids s) (\<lambda>s.
     and_then (Storage_increment_issuer_stats issuer batch_len s) (\<lambda>s.
     and_then (Storage_increment_total_attestations batch_len s) (\<lambda>s.
     and_then (Storage_set_last_issuance_time issuer (timestamp e) s) (\<lambda>s.
     Inr (ids, s))))))))))))))"

definition create_attestation_as_delegate ::
  "env \<Rightarrow> address \<Rightarrow> address \<Rightarrow> address \<Rightarrow> string \<Rightarrow> u64 option \<Rightarrow> string option \<Rightarrow> storage \<Rightarrow>
   (string \<times> storage) res" where
  "create_attestation_as_delegate e delegate delegator subject claim_type expiration metadata s =
     and_then (require_auth e delegate) (\<lambda>_.
     and_then (require_not_paused s) (\<lambda>_.
     and_then (require_issuer delegator s) (\<lambda>_.
     and_then (validate_claim_type claim_type) (\<lambda>_.
     and_then (validate_metadata metadata) (\<lambda>_.
     and_then (validate_native_expiration e expiration) (\<lambda>_.
     and_then (ok_or (Storage_get_delegation delegator delegate claim_type s) (Err E_Unauthorized))
       (\<lambda>g.
     and_then (case dg_expiration g of
                 Some ex \<Rightarrow> ensure (\<not> ex \<le> timestamp e) (Err E_Unauthorized)
               | None \<Rightarrow> Inr ()) (\<lambda>_.
     and_then (ensure (delegator \<noteq> subject) (Err E_Unauthorized)) (\<lambda>_.
     let lim = Storage_get_limits s in
     and_then (ensure (\<not> unat (max_attestations_per_issuer lim)
                 \<le> length (Storage_get_issuer_attestations delegator s)) (Err E_LimitExceeded)) (\<lambda>_.
     and_then (ensure (\<not> unat (max_attestations_per_subject lim)
                 \<le> length (Storage_get_subject_attestations subject s)) (Err E_LimitExceeded)) (\<lambda>_.
     let ts = timestamp e;
         i = generate_id e delegator subject claim_type ts in
     and_then (ensure (\<not> Storage_has_attestation i s) (Err E_DuplicateAttestation)) (\<lambda>_.
     let a = \<lparr>att_id = i, att_issuer = delegator, att_subject = subject,
              att_claim_type = claim_type, att_timestamp = ts, att_expiration = expiration,
              att_revoked = False, att_metadata = metadata, att_jurisdiction = None,
              att_valid_from = None, att_origin = Origin_Native, att_source_chain = None,
              att_source_tx = None, att_tags = None, att_revocation_reason = None,
              att_deleted = False\<rparr> in
     and_then (store_attestation a s) (\<lambda>s.
     and_then (Storage_append_audit_entry i
                 \<lparr>ae_action = Audit_Created, ae_actor = delegate, ae_timestamp = ts,
                  ae_details = None\<rparr> s) (\<lambda>s.
     Inr (i, Events_attestation_created a s)))))))))))))))"

subsection \<open>Revocation, renewal, transfer, deletion\<close>

definition revoke_attestation ::
  "env \<Rightarrow> address \<Rightarrow> string \<Rightarrow> string option \<Rightarrow> storage \<Rightarrow> (unit \<times> storage) res" where
  "revoke_attestation e issuer i reason s =
     and_then (require_auth e issuer) (\<lambda>_.
     and_then (require_not_paused s) (\<lambda>_.
     and_then (require_issuer issuer s) (\<lambda>_.
     and_then (validate_reason reason) (\<lambda>_.
     and_then (Storage_get_attestation i s) (\<lambda>a.
     and_then (ensure (att_issuer a = issuer) (Err E_Unauthorized)) (\<lambda>_.
     and_then (ensure (\<not> att_revoked a) (Err E_AlreadyRevoked)) (\<lambda>_.
     let a = a\<lparr>att_revoked := True, att_revocation_reason := reason\<rparr> in
     and_then (Storage_set_attestation a s) (\<lambda>s.
     and_then (Storage_remove_subject_attestation (att_subject a) i s) (\<lambda>s.
     and_then (Storage_remove_valid_attestation (att_subject a) i s) (\<lambda>s.
     and_then (Storage_remove_issuer_attestation issuer i s) (\<lambda>s.
     and_then (ChunkedIndex_remove_subject (att_subject a) i s) (\<lambda>s.
     and_then (ChunkedIndex_remove_issuer issuer i s) (\<lambda>s.
     let s = Events_attestation_revoked i issuer reason s in
     and_then (Storage_append_audit_entry i
                 \<lparr>ae_action = Audit_Revoked, ae_actor = issuer, ae_timestamp = timestamp e,
                  ae_details = reason\<rparr> s) (\<lambda>s.
     and_then (Storage_increment_total_revocations 1 s) (\<lambda>s.
     Inr ((), s))))))))))))))))"

definition renew_attestation ::
  "env \<Rightarrow> address \<Rightarrow> string \<Rightarrow> u64 option \<Rightarrow> storage \<Rightarrow> (unit \<times> storage) res" where
  "renew_attestation e issuer i new_expiration s =
     and_then (require_auth e issuer) (\<lambda>_.
     and_then (require_issuer issuer s) (\<lambda>_.
     and_then (require_not_paused s) (\<lambda>_.
     and_then (validate_native_expiration e new_expiration) (\<lambda>_.
     and_then (Storage_get_attestation i s) (\<lambda>a.
     and_then (ensure (att_issuer a = issuer) (Err E_Unauthorized)) (\<lambda>_.
     and_then (ensure (\<not> att_revoked a) (Err E_AlreadyRevoked)) (\<lambda>_.
     and_then (Storage_set_attestation (a\<lparr>att_expiration := new_expiration\<rparr>) s) (\<lambda>s.
     let s = Events_attestation_renewed i issuer new_expiration s in
     and_then (Storage_append_audit_entry i
                 \<lparr>ae_action = Audit_Renewed, ae_actor = issuer, ae_timestamp = timestamp e,
                  ae_details = map_option u64_to_string new_expiration\<rparr> s) (\<lambda>s.
     Inr ((), s))))))))))"

text \<open>The first pass of a batch revocation collects the attestations, the second revokes them.\<close>

definition MAX_BATCH :: nat where
  "MAX_BATCH = 50"

definition batch_revoke_check ::
  "address \<Rightarrow> storage \<Rightarrow> string \<Rightarrow> string list \<times> attestation list \<Rightarrow>
   (string list \<times> attestation list) res" where
  "batch_revoke_check issuer s i = (\<lambda>(seen_ids, attestations).
     and_then (ensure (i \<notin> set seen_ids) (Err E_DuplicateAttestation)) (\<lambda>_.
     and_then (Storage_get_attestation i s) (\<lambda>a.
     and_then (ensure (att_issuer a = issuer) (Err E_Unauthorized)) (\<lambda>_.
     and_then (ensure (\<not> att_revoked a) (Err E_AlreadyRevoked)) (\<lambda>_.
     Inr (seen_ids @ [i], attestations @ [a]))))))"

definition batch_revoke_one ::
  "env \<Rightarrow> address \<Rightarrow> string option \<Rightarrow> attestation \<Rightarrow> storage \<Rightarrow> storage res" where
  "batch_revoke_one e issuer reason a s =
     (let a = a\<lparr>att_revoked := True, att_revocation_reason := reason\<rparr> in
     and_then (Storage_set_attestation a s) (\<lambda>s.
     and_then (Storage_remove_subject_attestation (att_subject a) (att_id a) s) (\<lambda>s.
     and_then (Storage_remove_issuer_attestation issuer (att_id a) s) (\<lambda>s.
     let s = Events_attestation_revoked_with_reason (att_id a) issuer reason s in
     Storage_append_audit_entry (att_id a)
       \<lparr>ae_action = Audit_Revoked, ae_actor = issuer, ae_timestamp = timestamp e,
        ae_details = reason\<rparr> s))))"

definition revoke_attestations_batch ::
  "env \<Rightarrow> address \<Rightarrow> string list \<Rightarrow> string option \<Rightarrow> storage \<Rightarrow> (u32 \<times> storage) res" where
  "revoke_attestations_batch e issuer attestation_ids reason s =
     and_then (require_auth e issuer) (\<lambda>_.
     and_then (require_not_paused s) (\<lambda>_.
     and_then (require_issuer issuer s) (\<lambda>_.
     and_then (validate_reason reason) (\<lambda>_.
     and_then (ensure (\<not> MAX_BATCH < length attestation_ids) (Err E_LimitExceeded)) (\<lambda>_.
     and_then (for_each (batch_revoke_check issuer s) attestation_ids ([], []))
       (\<lambda>(seen_ids, attestations).
     and_then (for_each (batch_revoke_one e issuer reason) attestations s) (\<lambda>s.
     let count = of_nat (length attestations) :: u32 in
     and_then (if 0 < count then Storage_increment_total_revocations (ucast count) s else Inr s) (\<lambda>s.
     Inr (count, s)))))))))"

definition update_expiration ::
  "env \<Rightarrow> address \<Rightarrow> string \<Rightarrow> u64 option \<Rightarrow> storage \<Rightarrow> (unit \<times> storage) res" where
  "update_expiration e issuer i new_expiration s =
     and_then (require_auth e issuer) (\<lambda>_.
     and_then (require_issuer issuer s) (\<lambda>_.
     and_then (require_not_paused s) (\<lambda>_.
     and_then (validate_native_expiration e new_expiration) (\<lambda>_.
     and_then (Storage_get_attestation i s) (\<lambda>a.
     and_then (ensure (att_issuer a = issuer) (Err E_Unauthorized)) (\<lambda>_.
     and_then (ensure (\<not> att_revoked a) (Err E_AlreadyRevoked)) (\<lambda>_.
     and_then (Storage_set_attestation (a\<lparr>att_expiration := new_expiration\<rparr>) s) (\<lambda>s.
     let s = Events_attestation_renewed i issuer new_expiration s in
     and_then (Storage_append_audit_entry i
                 \<lparr>ae_action = Audit_Updated, ae_actor = issuer, ae_timestamp = timestamp e,
                  ae_details = None\<rparr> s) (\<lambda>s.
     Inr ((), s))))))))))"

definition transfer_attestation ::
  "env \<Rightarrow> address \<Rightarrow> string \<Rightarrow> address \<Rightarrow> storage \<Rightarrow> (unit \<times> storage) res" where
  "transfer_attestation e admin i new_issuer s =
     and_then (require_auth e admin) (\<lambda>_.
     and_then (require_admin admin s) (\<lambda>_.
     and_then (require_issuer new_issuer s) (\<lambda>_.
     and_then (Storage_get_attestation i s) (\<lambda>a.
     let old_issuer = att_issuer a in
     if old_issuer = new_issuer then Inr ((), s)
     else
     and_then (Storage_remove_issuer_attestation old_issuer i s) (\<lambda>s.
     and_then (Storage_add_issuer_attestation new_issuer i s) (\<lambda>s.
     let old_stats = Storage_get_issuer_stats old_issuer s in
     and_then (Storage_set_issuer_stats old_issuer
                 (old_stats\<lparr>total_issued := saturating_sub (total_issued old_stats) 1\<rparr>) s) (\<lambda>s.
     let new_stats = Storage_get_issuer_stats new_issuer s in
     and_then (Storage_set_issuer_stats new_issuer
                 (new_stats\<lparr>total_issued := saturating_add (total_issued new_stats) 1\<rparr>) s) (\<lambda>s.
     and_then (Storage_set_attestation (a\<lparr>att_issuer := new_issuer\<rparr>) s) (\<lambda>s.
     and_then (Storage_append_audit_entry i
                 \<lparr>ae_action = Audit_Transferred, ae_actor = admin, ae_timestamp = timestamp e,
                  ae_details = Some (address_to_string e new_issuer)\<rparr> s) (\<lambda>s.
     Inr ((), Events_attestation_transferred i old_issuer new_issuer s)))))))))))"

definition request_deletion :: "env \<Rightarrow> address \<Rightarrow> string \<Rightarrow> storage \<Rightarrow> (unit \<times> storage) res" where
  "request_deletion e subject i s =
     and_then (require_auth e subject) (\<lambda>_.
     and_then (Storage_get_attestation i s) (\<lambda>a.
     and_then (ensure (att_subject a = subject) (Err E_Unauthorized)) (\<lambda>_.
     and_then (Storage_set_attestation (a\<lparr>att_deleted := True\<rparr>) s) (\<lambda>s.
     and_then (Storage_remove_subject_attestation subject i s) (\<lambda>s.
     and_then (Storage_remove_valid_attestation subject i s) (\<lambda>s.
     and_then (ChunkedIndex_remove_subject subject i s) (\<lambda>s.
     let s = Events_deletion_requested subject i (timestamp e) s in
     and_then (Storage_append_audit_entry i
                 \<lparr>ae_action = Audit_Deleted, ae_actor = subject, ae_timestamp = timestamp e,
                  ae_details = None\<rparr> s) (\<lambda>s.
     Inr ((), s)))))))))"

subsection \<open>Endorsement\<close>

definition endorse_attestation :: "env \<Rightarrow> address \<Rightarrow> string \<Rightarrow> storage \<Rightarrow> (unit \<times> storage) res" where
  "endorse_attestation e endorser i s =
     and_then (require_auth e endorser) (\<lambda>_.
     and_then (require_issuer endorser s) (\<lambda>_.
     and_then (require_not_paused s) (\<lambda>_.
     and_then (Storage_get_attestation i s) (\<lambda>a.
     and_then (ensure (att_issuer a \<noteq> endorser) (Err E_CannotEndorseOwn)) (\<lambda>_.
     and_then (ensure (\<not> att_revoked a) (Err E_AlreadyRevoked)) (\<lambda>_.
     and_then (ensure (endorser \<notin> en_endorser ` set (Storage_get_endorsements i s))
                 (Err E_AlreadyEndorsed)) (\<lambda>_.
     and_then (Storage_add_endorsement i
                 \<lparr>en_attestation_id = i, en_endorser = endorser, en_timestamp = timestamp e\<rparr> s) (\<lambda>s.
     Inr ((), s)))))))))"

definition get_endorsement_count :: "string \<Rightarrow> storage \<Rightarrow> u32" where
  "get_endorsement_count i s = of_nat (length (Storage_get_endorsements i s))"

definition list_endorsements_by_endorser ::
  "address \<Rightarrow> u32 \<Rightarrow> u32 \<Rightarrow> storage \<Rightarrow> endorsement list res" where
  "list_endorsements_by_endorser endorser start limit s =
     (let all = Storage_get_endorsements_by_endorser endorser s;
          total = of_nat (length all);
          start = min start total
      in and_then (checked_add start limit) (\<lambda>e.
           Inr (map (\<lambda>k. all ! k) [unat start..<unat (min e total)])))"

subsection \<open>Effects of the shared helpers\<close>

lemma store_attestation_effect:
  assumes "store_attestation a s = Inr s'"
  shows "attestation_entry (atts s') = (attestation_entry (atts s))(att_id a \<mapsto> a) \<and>
    subject_ids (atts s') = add_to (att_subject a) (att_id a) (subject_ids (atts s)) \<and>
    valid_ids (atts s') = add_to (att_subject a) (att_id a) (valid_ids (atts s)) \<and>
    issuer_ids (atts s') = add_to (att_issuer a) (att_id a) (issuer_ids (atts s)) \<and>
    endorsements (atts s') = endorsements (atts s) \<and>
    endorser_index (atts s') = endorser_index (atts s) \<and>
    audit_log (atts s') = audit_log (atts s) \<and>
    flow_st s' = flow_st s \<and>
    inst s' = (inst s)\<lparr>global_stats := global_stats (inst s')\<rparr> \<and>
    reg s' = (reg s)\<lparr>issuer_stats := issuer_stats (reg s')\<rparr> \<and>
    events (host s') = events (host s) \<and> calls (host s') = calls (host s)"
  using assms unfolding store_attestation_def Let_def writers
  by (elim steps) (simp add: readers index_ops)

lemma charge_attestation_fee_frame:
  "charge_attestation_fee e issuer s = Inr s' \<Longrightarrow>
     inst s' = inst s \<and> reg s' = reg s \<and> atts s' = atts s \<and> flow_st s' = flow_st s \<and>
     events (host s') = events (host s)"
  unfolding charge_attestation_fee_def load_fee_config_def by (elim steps) auto

lemma charge_attestation_feeE [steps]:
  assumes "charge_attestation_fee e issuer s = Inr s'"
  obtains "inst s' = inst s" "reg s' = reg s" "atts s' = atts s" "flow_st s' = flow_st s"
    "events (host s') = events (host s)"
  using charge_attestation_fee_frame [OF assms] by blast

subsection \<open>What attestation calls leave alone\<close>

text \<open>
  The requests and proposals, the issuer and bridge registries, the admin council and the pause
  flag.
\<close>

definition core :: "storage \<Rightarrow> workflow_store \<times> (address \<rightharpoonup> bool) \<times> (address \<rightharpoonup> bool) \<times>
    address list option \<times> bool option" where
  "core s = (flow_st s, issuer_flag (reg s), bridge_flag (reg s), admin_council (inst s),
             paused (inst s))"

lemma store_attestation_core:
  "store_attestation a s = Inr s' \<Longrightarrow> core s' = core s"
  unfolding store_attestation_def Let_def writers by (elim steps) (simp add: core_def)

lemma batch_revoke_one_core:
  "batch_revoke_one e i r a s = Inr s' \<Longrightarrow> core s' = core s"
  unfolding batch_revoke_one_def Let_def writers by (elim steps) (simp add: core_def event_defs)

lemma for_each_core:
  assumes "for_each f xs s = Inr s'" and "\<And>x t t'. f x t = Inr t' \<Longrightarrow> core t' = core t"
  shows "core s' = core s"
  by (rule for_each_invariant [OF assms(1)]) (auto dest: assms(2))

lemma for_each_snd_core:
  assumes "for_each f xs p = Inr q" and "\<And>x p q. f x p = Inr q \<Longrightarrow> core (snd q) = core (snd p)"
  shows "core (snd q) = core (snd p)"
  by (rule for_each_invariant [OF assms(1)]) (auto dest: assms(2))

lemma coreE:
  assumes "core s' = core s"
  obtains "flow_st s' = flow_st s" "issuer_flag (reg s') = issuer_flag (reg s)"
    "bridge_flag (reg s') = bridge_flag (reg s)" "admin_council (inst s') = admin_council (inst s)"
    "paused (inst s') = paused (inst s)"
  using assms by (simp add: core_def)

end
