(* ===== verification/TL_Multisig.thy ===== *)
theory TL_Multisig
  imports TL_Attestation
begin

section \<open>Multi-signature attestations\<close>

text \<open>
  Models \<^verbatim>\<open>src/src/multisig.rs\<close>.  A proposal collects the signatures of required signers (the
  proposer's is counted from the start) and turns into an attestation when the threshold is
  reached.  Premium issuers skip the collection for one claim type.
\<close>

definition propose_attestation ::
  "env \<Rightarrow> address \<Rightarrow> address \<Rightarrow> string \<Rightarrow> address list \<Rightarrow> u32 \<Rightarrow> storage \<Rightarrow> (string \<times> storage) res" where
  "propose_attestation e proposer subject claim_type required_signers threshold s =
     and_then (require_auth e proposer) (\<lambda>_.
     and_then (require_issuer proposer s) (\<lambda>_.
     and_then (require_not_paused s) (\<lambda>_.
     if claim_type = ''ACCREDITED_INVESTOR'' \<and> Storage_get_issuer_tier proposer s = Some Tier_Premium
     then
       let ts = timestamp e;
           i = generate_id e proposer subject claim_type ts;
           a = \<lparr>att_id = i, att_issuer = proposer, att_subject = subject,
                att_claim_type = claim_type, att_timestamp = ts, att_expiration = None,
                att_revoked = False, att_metadata = None, att_jurisdiction = None,
                att_valid_from = None, att_origin = Origin_Native, att_source_chain = None,
                att_source_tx = None, att_tags = None, att_revocation_reason = None,
                att_deleted = False\<rparr> in
       and_then (store_attestation a s) (\<lambda>s.
       Inr (i, Events_attestation_created a s))
     else
       and_then (for_each (\<lambda>signer _. require_issuer signer s) required_signers ()) (\<lambda>_.
       and_then (ensure (\<not> (threshold = 0 \<or> length required_signers < unat threshold))
                   (Err E_InvalidThreshold)) (\<lambda>_.
       let ts = timestamp e;
           pid = generate_multisig_id e proposer subject claim_type ts in
       and_then (checked_add ts MULTISIG_PROPOSAL_TTL_SECS) (\<lambda>expires_at.
       let p = \<lparr>ms_id = pid, ms_proposer = proposer, ms_subject = subject,
                ms_claim_type = claim_type, ms_required_signers = required_signers,
                ms_threshold = threshold, ms_signers = [proposer], ms_created_at = ts,
                ms_expires_at = expires_at, ms_finalized = False\<rparr> in
       and_then (Storage_set_multisig_proposal p s) (\<lambda>s.
       Inr (pid, Events_multisig_proposed pid proposer subject threshold s))))))))"

definition multisig_attestation :: "env \<Rightarrow> multisig_proposal \<Rightarrow> attestation" where
  "multisig_attestation e p =
     \<lparr>att_id = generate_id e (ms_proposer p) (ms_subject p) (ms_claim_type p) (ms_created_at p),
      att_issuer = ms_proposer p, att_subject = ms_subject p,
      att_claim_type = ms_claim_type p, att_timestamp = ms_created_at p, att_expiration = None,
      att_revoked = False, att_metadata = None, att_jurisdiction = None,
      att_valid_from = None, att_origin = Origin_Native, att_source_chain = None,
      att_source_tx = None, att_tags = None, att_revocation_reason = None,
      att_deleted = False\<rparr>"

definition cosign_attestation :: "env \<Rightarrow> address \<Rightarrow> string \<Rightarrow> storage \<Rightarrow> (unit \<times> storage) res" where
  "cosign_attestation e issuer pid s =
     and_then (require_auth e issuer) (\<lambda>_.
     and_then (require_issuer issuer s) (\<lambda>_.
     and_then (require_not_paused s) (\<lambda>_.
     and_then (Storage_get_multisig_proposal pid s) (\<lambda>p.
     and_then (ensure (\<not> ms_finalized p) (Err E_ProposalFinalized)) (\<lambda>_.
     and_then (ensure (\<not> ms_expires_at p \<le> timestamp e) (Err E_ProposalExpired)) (\<lambda>_.
     and_then (ensure (issuer \<in> set (ms_required_signers p)) (Err E_NotRequiredSigner)) (\<lambda>_.
     and_then (ensure (issuer \<notin> set (ms_signers p)) (Err E_AlreadySigned)) (\<lambda>_.
     let p = p\<lparr>ms_signers := ms_signers p @ [issuer]\<rparr>;
         sig_count = length (ms_signers p);
         s = Events_multisig_cosigned pid issuer (of_nat sig_count) (ms_threshold p) s in
     if unat (ms_threshold p) \<le> sig_count
     then
       let p = p\<lparr>ms_finalized := True\<rparr>;
           a = multisig_attestation e p in
       and_then (Storage_set_multisig_proposal p s) (\<lambda>s.
       and_then (store_attestation a s) (\<lambda>s.
       Inr ((), Events_multisig_activated pid (att_id a) (Events_attestation_created a s))))
     else
       and_then (Storage_set_multisig_proposal p s) (\<lambda>s. Inr ((), s))))))))))"

definition get_multisig_proposal :: "string \<Rightarrow> storage \<Rightarrow> multisig_proposal res" where
  "get_multisig_proposal = Storage_get_multisig_proposal"

definition get_multisig_ttl :: "storage \<Rightarrow> u32" where
  "get_multisig_ttl = Storage_get_multisig_ttl_days"

subsection \<open>The life of a proposal\<close>

definition new_proposal :: "env \<Rightarrow> address \<Rightarrow> address \<Rightarrow> string \<Rightarrow> address list \<Rightarrow> u32 \<Rightarrow> multisig_proposal" where
  "new_proposal e i x c rs n =
     \<lparr>ms_id = generate_multisig_id e i x c (timestamp e), ms_proposer = i, ms_subject = x,
      ms_claim_type = c, ms_required_signers = rs, ms_threshold = n, ms_signers = [i],
      ms_created_at = timestamp e, ms_expires_at = timestamp e + MULTISIG_PROPOSAL_TTL_SECS,
      ms_finalized = False\<rparr>"

lemma propose_attestation_effect:
  assumes "propose_attestation e i x c rs n s = Inr (p, s')"
  shows "request_entry (flow_st s') = request_entry (flow_st s) \<and>
    pending_requests (flow_st s') = pending_requests (flow_st s) \<and>
    council_entry (flow_st s') = council_entry (flow_st s) \<and>
    (multisig_entry (flow_st s') = multisig_entry (flow_st s) \<or>
     0 < unat n \<and> unat n \<le> length rs \<and> p = ms_id (new_proposal e i x c rs n) \<and>
     multisig_entry (flow_st s') = (multisig_entry (flow_st s))(p \<mapsto> new_proposal e i x c rs n))"
  using assms unfolding propose_attestation_def Let_def writers
  by (elim steps store_attestation_core [THEN coreE])
    (simp_all add: event_defs new_proposal_def unat_gt_0 not_less)

lemma not_finalized_update:
  "\<not> ms_finalized q \<Longrightarrow> q\<lparr>ms_signers := l, ms_finalized := False\<rparr> = q\<lparr>ms_signers := l\<rparr>"
  by (cases q) simp

lemma cosign_attestation_effect:
  assumes "cosign_attestation e i p s = Inr (u, s')"
  shows "\<exists>q. multisig_entry (flow_st s) p = Some q \<and> \<not> ms_finalized q \<and>
    timestamp e < ms_expires_at q \<and> i \<in> set (ms_required_signers q) \<and> i \<notin> set (ms_signers q) \<and>
    request_entry (flow_st s') = request_entry (flow_st s) \<and>
    pending_requests (flow_st s') = pending_requests (flow_st s) \<and>
    council_entry (flow_st s') = council_entry (flow_st s) \<and>
    multisig_entry (flow_st s') = (multisig_entry (flow_st s))
      (ms_id q \<mapsto> q\<lparr>ms_signers := ms_signers q @ [i],
         ms_finalized := unat (ms_threshold q) \<le> Suc (length (ms_signers q))\<rparr>)"
  using assms unfolding cosign_attestation_def Let_def writers Storage_get_multisig_proposal_def
  by (elim steps store_attestation_core [THEN coreE])
    (simp_all add: event_defs not_le not_finalized_update)

definition proposal_ok :: "multisig_proposal \<Rightarrow> bool" where
  "proposal_ok q \<longleftrightarrow>
     distinct (ms_signers q) \<and> ms_proposer q \<in> set (ms_signers q) \<and>
     set (ms_signers q) \<subseteq> insert (ms_proposer q) (set (ms_required_signers q)) \<and>
     0 < unat (ms_threshold q) \<and> unat (ms_threshold q) \<le> length (ms_required_signers q) \<and>
     (ms_finalized q \<longleftrightarrow>
        2 \<le> length (ms_signers q) \<and> unat (ms_threshold q) \<le> length (ms_signers q))"

definition proposals_ok :: "workflow_store \<Rightarrow> bool" where
  "proposals_ok w \<longleftrightarrow> (\<forall>p q. multisig_entry w p = Some q \<longrightarrow> ms_id q = p \<and> proposal_ok q)"

lemma new_proposal_ok:
  "0 < unat n \<Longrightarrow> unat n \<le> length rs \<Longrightarrow> proposal_ok (new_proposal e i x c rs n)"
  by (simp add: proposal_ok_def new_proposal_def)

lemma cosigned_ok:
  assumes "proposal_ok q" and "\<not> ms_finalized q" and "i \<in> set (ms_required_signers q)"
    and "i \<notin> set (ms_signers q)"
  shows "proposal_ok (q\<lparr>ms_signers := ms_signers q @ [i],
    ms_finalized := unat (ms_threshold q) \<le> Suc (length (ms_signers q))\<rparr>)"
proof -
  have "ms_signers q \<noteq> []" using assms(1) by (auto simp: proposal_ok_def)
  with assms show ?thesis by (auto simp: proposal_ok_def Suc_le_eq)
qed

end
