(* ===== verification/TL_Council.thy ===== *)
theory TL_Council
  imports TL_Admin TL_Multisig
begin

section \<open>Handlers written out in \<open>lib.rs\<close>\<close>

text \<open>
  \<^verbatim>\<open>src/src/lib.rs\<close> forwards most entry points to the modules.  This theory models the ones it
  implements itself: pausing with a reason, the admin council's proposals, attestation templates,
  the tier query, and its own copies of some attestation handlers (prefix \<open>lib_\<close>), which differ from
  those of \<^verbatim>\<open>attestation.rs\<close> in the indexes they maintain.

  Not modelled: \<^verbatim>\<open>create_template\<close>, \<^verbatim>\<open>create_attestation_from_template\<close>, the second \<^verbatim>\<open>fulfill_request\<close>
  and \<^verbatim>\<open>get_config\<close>, whose bodies use variables or struct fields that do not exist.
\<close>

subsection \<open>Pausing and flags\<close>

definition lib_pause :: "env \<Rightarrow> address \<Rightarrow> string option \<Rightarrow> storage \<Rightarrow> (unit \<times> storage) res" where
  "lib_pause e admin reason s =
     and_then (require_auth e admin) (\<lambda>_.
     and_then (require_admin admin s) (\<lambda>_.
     and_then (case reason of Some r \<Rightarrow> ensure (\<not> 256 < length r) (Err E_ReasonTooLong)
               | None \<Rightarrow> Inr ()) (\<lambda>_.
     and_then (Storage_set_paused True s) (\<lambda>s.
     and_then (Storage_set_pause_reason reason s) (\<lambda>s.
     Inr ((), Events_contract_paused admin (timestamp e) s))))))"

definition lib_unpause :: "env \<Rightarrow> address \<Rightarrow> storage \<Rightarrow> (unit \<times> storage) res" where
  "lib_unpause e admin s =
     and_then (require_auth e admin) (\<lambda>_.
     and_then (require_admin admin s) (\<lambda>_.
     and_then (Storage_set_paused False s) (\<lambda>s.
     let s = Storage_clear_pause_reason s in
     Inr ((), Events_contract_unpaused admin (timestamp e) s))))"

definition get_pause_reason :: "storage \<Rightarrow> string option" where
  "get_pause_reason = Storage_get_pause_reason"

definition lib_set_require_registered_claim_type ::
  "env \<Rightarrow> address \<Rightarrow> bool \<Rightarrow> storage \<Rightarrow> (unit \<times> storage) res" where
  "lib_set_require_registered_claim_type e admin required s =
     and_then (require_auth e admin) (\<lambda>_.
     and_then (require_admin admin s) (\<lambda>_.
     and_then (Storage_set_require_registered_claim_type required s) (\<lambda>s.
     Inr ((), s))))"

definition lib_register_expiration_hook ::
  "env \<Rightarrow> address \<Rightarrow> address \<Rightarrow> u32 \<Rightarrow> storage \<Rightarrow> (unit \<times> storage) res" where
  "lib_register_expiration_hook e subject callback days_before s =
     and_then (require_auth e subject) (\<lambda>_.
     and_then (Storage_set_expiration_hook subject
                 \<lparr>callback_contract = callback, notify_days_before = days_before\<rparr> s) (\<lambda>s.
     Inr ((), s)))"

definition get_contract_metadata :: "storage \<Rightarrow> contract_metadata res" where
  "get_contract_metadata s =
     and_then (ok_or (Storage_get_version s) (Err E_NotInitialized)) (\<lambda>v.
     Inr \<lparr>cm_name = ''TrustLink'', cm_version = v,
          cm_description = ''On-chain attestation and verification system for the Stellar blockchain.''\<rparr>)"

subsection \<open>Tier query\<close>

fun scan_claim_from_tier ::
  "env \<Rightarrow> string \<Rightarrow> u32 \<Rightarrow> string list \<Rightarrow> storage \<Rightarrow> bool" where
  "scan_claim_from_tier e claim_type min_rank [] s = False"
| "scan_claim_from_tier e claim_type min_rank (i # is) s =
     (case Storage_get_attestation i s of
        Inr a \<Rightarrow>
          if att_deleted a then scan_claim_from_tier e claim_type min_rank is s
          else if att_claim_type a \<noteq> claim_type then scan_claim_from_tier e claim_type min_rank is s
          else if get_status a (timestamp e) \<noteq> St_Valid
          then scan_claim_from_tier e claim_type min_rank is s
          else (case Storage_get_issuer_tier (att_issuer a) s of
                  Some tier \<Rightarrow> if min_rank \<le> tier_rank tier then True
                               else scan_claim_from_tier e claim_type min_rank is s
                | None \<Rightarrow> scan_claim_from_tier e claim_type min_rank is s)
      | Inl _ \<Rightarrow> scan_claim_from_tier e claim_type min_rank is s)"

definition has_valid_claim_from_tier ::
  "env \<Rightarrow> address \<Rightarrow> string \<Rightarrow> issuer_tier \<Rightarrow> storage \<Rightarrow> bool" where
  "has_valid_claim_from_tier e subject claim_type min_tier s =
     scan_claim_from_tier e claim_type (tier_rank min_tier)
       (Storage_get_subject_attestations subject s) s"

subsection \<open>Council\<close>

definition init_council :: "env \<Rightarrow> address \<Rightarrow> address list \<Rightarrow> u32 \<Rightarrow> storage \<Rightarrow> (unit \<times> storage) res" where
  "init_council e admin members quorum s =
     and_then (require_auth e admin) (\<lambda>_.
     and_then (require_admin admin s) (\<lambda>_.
     and_then (ensure (\<not> (quorum = 0 \<or> length members < unat quorum)) (Err E_InvalidThreshold)) (\<lambda>_.
     and_then (Storage_set_council members s) (\<lambda>s.
     Inr ((), Events_council_initialized quorum (of_nat (length members)) s)))))"

definition propose_council_action ::
  "env \<Rightarrow> address \<Rightarrow> council_operation \<Rightarrow> storage \<Rightarrow> (u32 \<times> storage) res" where
  "propose_council_action e proposer operation s =
     and_then (require_auth e proposer) (\<lambda>_.
     and_then (ok_or (Storage_get_council s) (Err E_NotInitialized)) (\<lambda>council.
     and_then (ensure (proposer \<in> set council) (Err E_Unauthorized)) (\<lambda>_.
     and_then (Storage_next_proposal_id s) (\<lambda>(pid, s).
     and_then (Storage_set_proposal
                 \<lparr>cp_id = pid, cp_operation = operation, cp_proposer = proposer,
                  cp_approvals = [proposer], cp_executed = False\<rparr> s) (\<lambda>s.
     Inr (pid, Events_proposal_created pid proposer s))))))"

definition approve_council_action :: "env \<Rightarrow> address \<Rightarrow> u32 \<Rightarrow> storage \<Rightarrow> (unit \<times> storage) res" where
  "approve_council_action e approver pid s =
     and_then (require_auth e approver) (\<lambda>_.
     and_then (ok_or (Storage_get_council s) (Err E_NotInitialized)) (\<lambda>council.
     and_then (ok_or (Storage_get_proposal pid s) (Err E_NotFound)) (\<lambda>p.
     and_then (ensure (\<not> cp_executed p) (Err E_AlreadyRevoked)) (\<lambda>_.
     and_then (ensure (approver \<in> set council) (Err E_Unauthorized)) (\<lambda>_.
     and_then (ensure (approver \<notin> set (cp_approvals p)) (Err E_AlreadySigned)) (\<lambda>_.
     and_then (Storage_set_proposal (p\<lparr>cp_approvals := cp_approvals p @ [approver]\<rparr>) s) (\<lambda>s.
     Inr ((), Events_proposal_approved pid approver s))))))))"

definition execute_council_action :: "env \<Rightarrow> address \<Rightarrow> u32 \<Rightarrow> storage \<Rightarrow> (unit \<times> storage) res" where
  "execute_council_action e executor pid s =
     and_then (require_auth e executor) (\<lambda>_.
     and_then (ok_or (Storage_get_council s) (Err E_NotInitialized)) (\<lambda>council.
     and_then (ok_or (Storage_get_proposal pid s) (Err E_NotFound)) (\<lambda>p.
     and_then (ensure (\<not> cp_executed p) (Err E_AlreadyRevoked)) (\<lambda>_.
     and_then (ensure (executor \<in> set council) (Err E_Unauthorized)) (\<lambda>_.
     and_then (ensure (\<not> length (cp_approvals p) < 1) (Err E_Unauthorized)) (\<lambda>_.
     and_then (case cp_operation p of
                 Op_RemoveIssuer issuer \<Rightarrow>
                   (let s = Storage_remove_issuer issuer s in
                    case vec_get council 0 of
                      Some member0 \<Rightarrow> Inr (Events_issuer_removed issuer member0 (timestamp e) s)
                    | None \<Rightarrow> Inr s)
               | Op_PauseContract \<Rightarrow> Storage_set_paused True s) (\<lambda>s.
     and_then (Storage_set_proposal (p\<lparr>cp_executed := True\<rparr>) s) (\<lambda>s.
     Inr ((), Events_proposal_executed pid s)))))))))"

definition get_council :: "storage \<Rightarrow> address list option" where
  "get_council = Storage_get_council"

definition get_council_proposal :: "u32 \<Rightarrow> storage \<Rightarrow> council_proposal option" where
  "get_council_proposal = Storage_get_proposal"

subsection \<open>Templates and analytics\<close>

definition save_template ::
  "env \<Rightarrow> address \<Rightarrow> string \<Rightarrow> string \<Rightarrow> string option \<Rightarrow> storage \<Rightarrow> (unit \<times> storage) res" where
  "save_template e issuer template_id claim_type metadata s =
     and_then (require_auth e issuer) (\<lambda>_.
     and_then (require_issuer issuer s) (\<lambda>_.
     and_then (validate_claim_type claim_type) (\<lambda>_.
     and_then (validate_metadata metadata) (\<lambda>_.
     and_then (Storage_set_template
                 \<lparr>tp_issuer = issuer, tp_template_id = template_id, tp_claim_type = claim_type,
                  tp_metadata = metadata\<rparr> s) (\<lambda>s.
     Inr ((), s))))))"

definition get_template :: "address \<Rightarrow> string \<Rightarrow> storage \<Rightarrow> attestation_template res" where
  "get_template = Storage_get_template"

definition list_templates :: "address \<Rightarrow> storage \<Rightarrow> string list" where
  "list_templates = Storage_get_template_registry"

definition delete_template :: "env \<Rightarrow> address \<Rightarrow> string \<Rightarrow> storage \<Rightarrow> (unit \<times> storage) res" where
  "delete_template e issuer template_id s =
     and_then (require_auth e issuer) (\<lambda>_.
     and_then (Storage_get_template issuer template_id s) (\<lambda>t.
     and_then (ensure (tp_issuer t = issuer) (Err E_Unauthorized)) (\<lambda>_.
     and_then (Storage_remove_template issuer template_id s) (\<lambda>s.
     Inr ((), Events_template_deleted issuer template_id s)))))"

definition get_claim_type_count :: "string \<Rightarrow> storage \<Rightarrow> u64" where
  "get_claim_type_count = Storage_get_claim_type_count"

subsection \<open>The copies of attestation handlers\<close>

definition lib_check_rate_limit :: "env \<Rightarrow> address \<Rightarrow> storage \<Rightarrow> unit res" where
  "lib_check_rate_limit e issuer s =
     (case Storage_get_rate_limit_config s of
        None \<Rightarrow> Inr ()
      | Some config \<Rightarrow>
          if min_issuance_interval config = 0 then Inr ()
          else (case Storage_get_last_issuance_time issuer s of
                  Some lst \<Rightarrow> ensure (\<not> saturating_sub (timestamp e) lst < min_issuance_interval config)
                               (Err E_RateLimited)
                | None \<Rightarrow> Inr ()))"

definition lib_store_attestation :: "attestation \<Rightarrow> storage \<Rightarrow> storage res" where
  "lib_store_attestation a s =
     and_then (Storage_set_attestation a s) (\<lambda>s.
     and_then (Storage_add_subject_attestation (att_subject a) (att_id a) s) (\<lambda>s.
     and_then (Storage_add_issuer_attestation (att_issuer a) (att_id a) s) (\<lambda>s.
     let stats = Storage_get_issuer_stats (att_issuer a) s in
     and_then (checked_add (total_issued stats) 1) (\<lambda>n.
     and_then (Storage_set_issuer_stats (att_issuer a) (stats\<lparr>total_issued := n\<rparr>) s) (\<lambda>s.
     and_then (Storage_increment_total_attestations 1 s)
       (Storage_increment_claim_type_count (att_claim_type a)))))))"

definition lib_bridge_attestation ::
  "env \<Rightarrow> address \<Rightarrow> address \<Rightarrow> string \<Rightarrow> string \<Rightarrow> string \<Rightarrow> storage \<Rightarrow> (string \<times> storage) res" where
  "lib_bridge_attestation e bridge subject claim_type source_chain source_tx s =
     and_then (require_auth e bridge) (\<lambda>_.
     and_then (require_bridge bridge s) (\<lambda>_.
     and_then (require_not_paused s) (\<lambda>_.
     and_then (validate_source_reference source_chain source_tx) (\<lambda>_.
     let ts = timestamp e;
         i = generate_bridge_id e bridge subject claim_type source_chain source_tx ts in
     and_then (ensure (\<not> Storage_has_attestation i s) (Err E_DuplicateAttestation)) (\<lambda>_.
     let a = \<lparr>att_id = i, att_issuer = bridge, att_subject = subject,
              att_claim_type = claim_type, att_timestamp = ts, att_expiration = None,
              att_revoked = False, att_metadata = None, att_jurisdiction = None,
              att_valid_from = None, att_origin = Origin_Bridged,
              att_source_chain = Some source_chain, att_source_tx = Some source_tx,
              att_tags = None, att_revocation_reason = None, att_deleted = False\<rparr> in
     and_then (lib_store_attestation a s) (\<lambda>s.
     let s = Events_attestation_bridged a s in
     and_then (Storage_append_audit_entry i
                 \<lparr>ae_action = Audit_Created, ae_actor = bridge, ae_timestamp = ts,
                  ae_details = None\<rparr> s) (\<lambda>s.
     Inr (i, s))))))))"

definition lib_batch_create_one ::
  "env \<Rightarrow> address \<Rightarrow> string \<Rightarrow> u64 option \<Rightarrow> storage_limits \<Rightarrow> address \<Rightarrow> string list \<times> storage \<Rightarrow>
   (string list \<times> storage) res" where
  "lib_batch_create_one e issuer claim_type expiration lim subject = (\<lambda>(ids, s).
     let ts = timestamp e;
         i = generate_id e issuer subject claim_type ts in
     and_then (ensure (\<not> Storage_has_attestation i s) (Err E_DuplicateAttestation)) (\<lambda>_.
     and_then (ensure (\<not> unat (max_attestations_per_subject lim)
                 \<le> length (Storage_get_subject_attestations subject s)) (Err E_LimitExceeded)) (\<lambda>_.
     let a = \<lparr>att_id = i, att_issuer = issuer, att_subject = subject,
              att_claim_type = claim_type, att_timestamp = ts, att_expiration = expiration,
              att_revoked = False, att_metadata = None, att_jurisdiction = None,
              att_valid_from = None, att_origin = Origin_Native, att_source_chain = None,
              att_source_tx = None, att_tags = None, att_revocation_reason = None,
              att_deleted = False\<rparr> in
     and_then (lib_store_attestation a s) (\<lambda>s.
     let s = Events_attestation_created a s in
     and_then (Storage_append_audit_entry i
                 \<lparr>ae_action = Audit_Created, ae_actor = issuer, ae_timestamp = ts,
                  ae_details = None\<rparr> s) (\<lambda>s.
     Inr (ids @ [i], s))))))"

definition lib_create_attestations_batch ::
  "env \<Rightarrow> address \<Rightarrow> address list \<Rightarrow> string \<Rightarrow> u64 option \<Rightarrow> storage \<Rightarrow> (string list \<times> storage) res" where
  "lib_create_attestations_batch e issuer subjects claim_type expiration s =
     and_then (require_auth e issuer) (\<lambda>_.
     and_then (require_issuer issuer s) (\<lambda>_.
     and_then (require_not_paused s) (\<lambda>_.
     and_then (validate_claim_type claim_type) (\<lambda>_.
     and_then (validate_native_expiration e expiration) (\<lambda>_.
     and_then (lib_check_rate_limit e issuer s) (\<lambda>_.
     let lim = Storage_get_limits s;
         issuer_count = of_nat (length (Storage_get_issuer_attestations issuer s)) in
     and_then (ensure (\<not> max_attestations_per_issuer lim
                 < saturating_add issuer_count (of_nat (length subjects))) (Err E_LimitExceeded)) (\<lambda>_.
     and_then (for_each (lib_batch_create_one e issuer claim_type expiration lim) subjects ([], s))
       (\<lambda>(ids, s).
     and_then (Storage_set_last_issuance_time issuer (timestamp e) s) (\<lambda>s.
     Inr (ids, s))))))))))"

definition lib_revoke_attestation ::
  "env \<Rightarrow> address \<Rightarrow> string \<Rightarrow> string option \<Rightarrow> storage \<Rightarrow> (unit \<times> storage) res" where
  "lib_revoke_attestation e issuer i reason s =
     and_then (require_auth e issuer) (\<lambda>_.
     and_then (require_not_paused s) (\<lambda>_.
     and_then (require_issuer issuer s) (\<lambda>_.
     and_then (validate_reason reason) (\<lambda>_.
     and_then (Storage_get_attestation i s) (\<lambda>a.
     and_then (ensure (att_issuer a = issuer) (Err E_Unauthorized)) (\<lambda>_.
     and_then (ensure (\<not> att_revoked a) (Err E_AlreadyRevoked)) (\<lambda>_.
     let a = a\<lparr>att_revoked := True, att_revocation_reason := reason\<rparr> in
     and_then (Storage_set_attestation a s) (\<lambda>s.
     and_then (Storage_remove_subject_attestation (att_subject a) i s) (\<lambda>s.
     and_then (Storage_remove_valid_attestation (att_subject a) i s) (\<lambda>s.
     and_then (Storage_remove_issuer_attestation issuer i s) (\<lambda>s.
     and_then (Storage_decrement_claim_type_count (att_claim_type a) s) (\<lambda>s.
     let s = Events_attestation_revoked i issuer reason s in
     and_then (Storage_append_audit_entry i
                 \<lparr>ae_action = Audit_Revoked, ae_actor = issuer, ae_timestamp = timestamp e,
                  ae_details = reason\<rparr> s) (\<lambda>s.
     and_then (Storage_increment_total_revocations 1 s) (\<lambda>s.
     Inr ((), s)))))))))))))))"

definition lib_revoke_check :: "address \<Rightarrow> storage \<Rightarrow> string \<Rightarrow> unit \<Rightarrow> unit res" where
  "lib_revoke_check issuer s i _ =
     and_then (Storage_get_attestation i s) (\<lambda>a.
     and_then (ensure (att_issuer a = issuer) (Err E_Unauthorized)) (\<lambda>_.
     ensure (\<not> att_revoked a) (Err E_AlreadyRevoked)))"

definition lib_revoke_one ::
  "env \<Rightarrow> address \<Rightarrow> string option \<Rightarrow> string \<Rightarrow> storage \<Rightarrow> storage res" where
  "lib_revoke_one e issuer reason i s =
     and_then (Storage_get_attestation i s) (\<lambda>a.
     let a = a\<lparr>att_revoked := True, att_revocation_reason := reason\<rparr> in
     and_then (Storage_set_attestation a s) (\<lambda>s.
     and_then (Storage_remove_subject_attestation (att_subject a) i s) (\<lambda>s.
     and_then (Storage_remove_issuer_attestation issuer i s) (\<lambda>s.
     and_then (Storage_decrement_claim_type_count (att_claim_type a) s) (\<lambda>s.
     let s = Events_attestation_revoked_with_reason i issuer reason s in
     Storage_append_audit_entry i
       \<lparr>ae_action = Audit_Revoked, ae_actor = issuer, ae_timestamp = timestamp e,
        ae_details = reason\<rparr> s)))))"

definition LIB_MAX_BATCH :: nat where
  "LIB_MAX_BATCH = 50"

definition lib_revoke_attestations_batch ::
  "env \<Rightarrow> address \<Rightarrow> string list \<Rightarrow> string option \<Rightarrow> storage \<Rightarrow> (u32 \<times> storage) res" where
  "lib_revoke_attestations_batch e issuer attestation_ids reason s =
     and_then (require_auth e issuer) (\<lambda>_.
     and_then (require_issuer issuer s) (\<lambda>_.
     and_then (validate_reason reason) (\<lambda>_.
     and_then (ensure (\<not> LIB_MAX_BATCH < length attestation_ids) (Err E_LimitExceeded)) (\<lambda>_.
     and_then (for_each (lib_revoke_check issuer s) attestation_ids ()) (\<lambda>_.
     and_then (for_each (lib_revoke_one e issuer reason) attestation_ids s) (\<lambda>s.
     Inr (of_nat (length attestation_ids), s)))))))"

definition lib_request_deletion :: "env \<Rightarrow> address \<Rightarrow> string \<Rightarrow> storage \<Rightarrow> (unit \<times> storage) res" where
  "lib_request_deletion e subject i s =
     and_then (require_auth e subject) (\<lambda>_.
     and_then (Storage_get_attestation i s) (\<lambda>a.
     and_then (ensure (att_subject a = subject) (Err E_Unauthorized)) (\<lambda>_.
     and_then (Storage_set_attestation (a\<lparr>att_deleted := True\<rparr>) s) (\<lambda>s.
     and_then (Storage_remove_subject_attestation subject i s) (\<lambda>s.
     Inr ((), Events_deletion_requested subject i (timestamp e) s))))))"

text \<open>Its multi-signature handlers differ from those of \<^verbatim>\<open>multisig.rs\<close> in the function that stores the
  attestation.\<close>

definition lib_propose_attestation ::
  "env \<Rightarrow> address \<Rightarrow> address \<Rightarrow> string \<Rightarrow> address list \<Rightarrow> u32 \<Rightarrow> storage \<Rightarrow> (string \<times> storage) res" where
  "lib_propose_attestation e proposer subject claim_type required_signers threshold s =
     and_then (require_auth e proposer) (\<lambda>_.
     and_then (require_issuer proposer s) (\<lambda>_.
     and_then (require_not_paused s) (\<lambda>_.
     if claim_type = ''ACCREDITED_INVESTOR'' \<and> Storage_get_issuer_tier proposer s = Some Tier_Premium
     then
       let ts = timestamp e;
           i = generate_id e proposer subject claim_type ts;
           a = \<lparr>att_id = i, att_issuer = proposer, att_subject = subject,
                att_claim_type = claim_type, att_timestamp = ts, att_expiration = None,
                att_revoked = False, att_metadata = None, att_jurisdiction = None,
                att_valid_from = None, att_origin = Origin_Native, att_source_chain = None,
                att_source_tx = None, att_tags = None, att_revocation_reason = None,
                att_deleted = False\<rparr> in
       and_then (lib_store_attestation a s) (\<lambda>s.
       Inr (i, Events_attestation_created a s))
     else
       and_then (for_each (\<lambda>signer _. require_issuer signer s) required_signers ()) (\<lambda>_.
       and_then (ensure (\<not> (threshold = 0 \<or> length required_signers < unat threshold))
                   (Err E_InvalidThreshold)) (\<lambda>_.
       let ts = timestamp e;
           pid = generate_multisig_id e proposer subject claim_type ts in
       and_then (checked_add ts MULTISIG_PROPOSAL_TTL_SECS) (\<lambda>expires_at.
       let p = \<lparr>ms_id = pid, ms_proposer = proposer, ms_subject = subject,
                ms_claim_type = claim_type, ms_required_signers = required_signers,
                ms_threshold = threshold, ms_signers = [proposer], ms_created_at = ts,
                ms_expires_at = expires_at, ms_finalized = False\<rparr> in
       and_then (Storage_set_multisig_proposal p s) (\<lambda>s.
       Inr (pid, Events_multisig_proposed pid proposer subject threshold s))))))))"

definition lib_cosign_attestation :: "env \<Rightarrow> address \<Rightarrow> string \<Rightarrow> storage \<Rightarrow> (unit \<times> storage) res" where
  "lib_cosign_attestation e issuer pid s =
     and_then (require_auth e issuer) (\<lambda>_.
     and_then (require_issuer issuer s) (\<lambda>_.
     and_then (require_not_paused s) (\<lambda>_.
     and_then (Storage_get_multisig_proposal pid s) (\<lambda>p.
     and_then (ensure (\<not> ms_finalized p) (Err E_ProposalFinalized)) (\<lambda>_.
     and_then (ensure (\<not> ms_expires_at p \<le> timestamp e) (Err E_ProposalExpired)) (\<lambda>_.
     and_then (ensure (issuer \<in> set (ms_required_signers p)) (Err E_NotRequiredSigner)) (\<lambda>_.
     and_then (ensure (issuer \<notin> set (ms_signers p)) (Err E_AlreadySigned)) (\<lambda>_.
     let p = p\<lparr>ms_signers := ms_signers p @ [issuer]\<rparr>;
         sig_count = length (ms_signers p);
         s = Events_multisig_cosigned pid issuer (of_nat sig_count) (ms_threshold p) s in
     if unat (ms_threshold p) \<le> sig_count
     then
       let p = p\<lparr>ms_finalized := True\<rparr>;
           a = multisig_attestation e p in
       and_then (Storage_set_multisig_proposal p s) (\<lambda>s.
       and_then (lib_store_attestation a s) (\<lambda>s.
       Inr ((), Events_multisig_activated pid (att_id a) (Events_attestation_created a s))))
     else
       and_then (Storage_set_multisig_proposal p s) (\<lambda>s. Inr ((), s))))))))))"

lemma scan_claim_from_tier_iff:
  "scan_claim_from_tier e c r ids s \<longleftrightarrow>
     (\<exists>i \<in> set ids. \<exists>a t. attestation_entry (atts s) i = Some a \<and> \<not> att_deleted a \<and>
        att_claim_type a = c \<and> get_status a (timestamp e) = St_Valid \<and>
        issuer_tier (reg s) (att_issuer a) = Some t \<and> r \<le> tier_rank t)"
  by (induction ids)
    (auto simp: get_attestation_entry Storage_get_issuer_tier_def split: option.splits)

subsection \<open>Effects\<close>

lemma case_option_stepE [steps]:
  assumes "(case x of None \<Rightarrow> a | Some y \<Rightarrow> f y) = Inr b"
  obtains "x = None" "a = Inr b" | y where "x = Some y" "f y = Inr b"
  using assms by (cases x) auto

lemma execute_council_operationE [steps]:
  assumes "(case op of Op_RemoveIssuer issuer \<Rightarrow> f issuer | Op_PauseContract \<Rightarrow> g) = Inr s'"
  obtains issuer where "op = Op_RemoveIssuer issuer" "f issuer = Inr s'"
    | "op = Op_PauseContract" "g = Inr s'"
  using assms by (cases op) auto

lemma lib_store_attestation_core:
  "lib_store_attestation a s = Inr s' \<Longrightarrow> core s' = core s"
  unfolding lib_store_attestation_def Let_def writers by (elim steps) (simp add: core_def)

lemma lib_batch_create_one_core:
  "lib_batch_create_one e i c x l y p = Inr q \<Longrightarrow> core (snd q) = core (snd p)"
  unfolding lib_batch_create_one_def Let_def writers
  by (elim steps, drule lib_store_attestation_core) (simp add: core_def event_defs)

lemma lib_revoke_one_core:
  "lib_revoke_one e i r k s = Inr s' \<Longrightarrow> core s' = core s"
  unfolding lib_revoke_one_def Let_def writers by (elim steps) (simp add: core_def event_defs)

subsection \<open>Proposals through the copies\<close>

lemma lib_propose_attestation_effect:
  assumes "lib_propose_attestation e i x c rs n s = Inr (p, s')"
  shows "request_entry (flow_st s') = request_entry (flow_st s) \<and>
    pending_requests (flow_st s') = pending_requests (flow_st s) \<and>
    council_entry (flow_st s') = council_entry (flow_st s) \<and>
    (multisig_entry (flow_st s') = multisig_entry (flow_st s) \<or>
     0 < unat n \<and> unat n \<le> length rs \<and> p = ms_id (new_proposal e i x c rs n) \<and>
     multisig_entry (flow_st s') = (multisig_entry (flow_st s))(p \<mapsto> new_proposal e i x c rs n))"
  using assms unfolding lib_propose_attestation_def Let_def writers
  by (elim steps lib_store_attestation_core [THEN coreE])
    (simp_all add: event_defs new_proposal_def unat_gt_0 not_less)

lemma lib_cosign_attestation_effect:
  assumes "lib_cosign_attestation e i p s = Inr (u, s')"
  shows "\<exists>q. multisig_entry (flow_st s) p = Some q \<and> \<not> ms_finalized q \<and>
    timestamp e < ms_expires_at q \<and> i \<in> set (ms_required_signers q) \<and> i \<notin> set (ms_signers q) \<and>
    request_entry (flow_st s') = request_entry (flow_st s) \<and>
    pending_requests (flow_st s') = pending_requests (flow_st s) \<and>
    council_entry (flow_st s') = council_entry (flow_st s) \<and>
    multisig_entry (flow_st s') = (multisig_entry (flow_st s))
      (ms_id q \<mapsto> q\<lparr>ms_signers := ms_signers q @ [i],
         ms_finalized := unat (ms_threshold q) \<le> Suc (length (ms_signers q))\<rparr>)"
  using assms unfolding lib_cosign_attestation_def Let_def writers Storage_get_multisig_proposal_def
  by (elim steps lib_store_attestation_core [THEN coreE])
    (simp_all add: event_defs not_le not_finalized_update)

subsection \<open>Council proposals\<close>

lemma init_council_effect:
  "init_council e a ms q s = Inr (u, s') \<Longrightarrow>
     flow_st s' = flow_st s \<and> admin_council (inst s') = Some ms \<and>
     0 < unat q \<and> unat q \<le> length ms \<and>
     proposal_counter (inst s') = proposal_counter (inst s)"
  unfolding init_council_def Let_def writers
  by (elim steps) (simp add: event_defs unat_gt_0 not_less)

lemma propose_council_action_effect:
  assumes "propose_council_action e a op s = Inr (n, s')"
  shows "request_entry (flow_st s') = request_entry (flow_st s) \<and>
    pending_requests (flow_st s') = pending_requests (flow_st s) \<and>
    multisig_entry (flow_st s') = multisig_entry (flow_st s) \<and>
    unat n = Suc (unat (unwrap_or (proposal_counter (inst s)) 0)) \<and>
    proposal_counter (inst s') = Some n \<and>
    council_entry (flow_st s') = (council_entry (flow_st s))
      (n \<mapsto> \<lparr>cp_id = n, cp_operation = op, cp_proposer = a, cp_approvals = [a], cp_executed = False\<rparr>)"
  using assms unfolding propose_council_action_def Let_def writers
  by (elim steps) (auto simp: event_defs unat_add_exact)

lemma approve_council_action_effect:
  assumes "approve_council_action e a n s = Inr (u, s')"
  shows "\<exists>p council. council_entry (flow_st s) n = Some p \<and> admin_council (inst s) = Some council \<and>
    a \<in> set council \<and> \<not> cp_executed p \<and> a \<notin> set (cp_approvals p) \<and>
    request_entry (flow_st s') = request_entry (flow_st s) \<and>
    pending_requests (flow_st s') = pending_requests (flow_st s) \<and>
    multisig_entry (flow_st s') = multisig_entry (flow_st s) \<and> inst s' = inst s \<and>
    council_entry (flow_st s') = (council_entry (flow_st s))
      (cp_id p \<mapsto> p\<lparr>cp_approvals := cp_approvals p @ [a]\<rparr>)"
  using assms unfolding approve_council_action_def Let_def writers readers
  by (elim steps) (simp add: event_defs)

lemma execute_council_action_effect:
  assumes "execute_council_action e a n s = Inr (u, s')"
  shows "\<exists>p council. council_entry (flow_st s) n = Some p \<and> admin_council (inst s) = Some council \<and>
    a \<in> set council \<and> \<not> cp_executed p \<and> cp_approvals p \<noteq> [] \<and>
    request_entry (flow_st s') = request_entry (flow_st s) \<and>
    pending_requests (flow_st s') = pending_requests (flow_st s) \<and>
    multisig_entry (flow_st s') = multisig_entry (flow_st s) \<and>
    admin_council (inst s') = admin_council (inst s) \<and>
    proposal_counter (inst s') = proposal_counter (inst s) \<and>
    bridge_flag (reg s') = bridge_flag (reg s) \<and>
    (case cp_operation p of
       Op_RemoveIssuer i \<Rightarrow> issuer_flag (reg s') = (issuer_flag (reg s))(i := None) \<and>
         paused (inst s') = paused (inst s)
     | Op_PauseContract \<Rightarrow> issuer_flag (reg s') = issuer_flag (reg s) \<and>
         paused (inst s') = Some True) \<and>
    council_entry (flow_st s') = (council_entry (flow_st s))(cp_id p \<mapsto> p\<lparr>cp_executed := True\<rparr>)"
  using assms unfolding execute_council_action_def Let_def writers readers
  by (elim steps) (simp_all add: event_defs)

end
