(* ===== verification/TL_Index.thy ===== *)
theory TL_Index
  imports TL_Attestation
begin

section \<open>Consistency of the attestation indexes\<close>

text \<open>
  The contract keeps, beside the attestation records, a list of ids per subject
  (\<^verbatim>\<open>SubjectAttestations\<close>) and a list of ids that may answer a claim query
  (\<^verbatim>\<open>ValidAttestations\<close>).  This theory abstracts the state to those three maps, gives an abstract
  machine for the changes the handlers make to them, shows that its steps keep the indexes
  consistent with the records, and shows of every handler of \<^verbatim>\<open>attestation.rs\<close> that it
  implements a sequence of such steps.
\<close>

subsection \<open>The abstract registry\<close>

record att_view =
  vw_entry :: "string \<rightharpoonup> attestation"
  vw_subject :: "address \<rightharpoonup> string list"
  vw_valid :: "address \<rightharpoonup> string list"

definition view :: "storage \<Rightarrow> att_view" where
  "view s = \<lparr>vw_entry = attestation_entry (atts s), vw_subject = subject_ids (atts s),
             vw_valid = valid_ids (atts s)\<rparr>"

text \<open>
  The steps.  The first flag tells the steps of the modules (\<open>True\<close>) from those of the copies in
  \<^verbatim>\<open>lib.rs\<close>, which leave the second index alone.  The second flag tells whether a new record may
  replace an old one, which then has to be for the same subject.
\<close>

inductive vstep :: "bool \<Rightarrow> bool \<Rightarrow> att_view \<Rightarrow> att_view \<Rightarrow> bool" where
  put: "\<lbrakk>\<forall>b. vw_entry v (att_id a) = Some b \<longrightarrow> rw \<and> att_subject b = att_subject a;
     \<not> att_revoked a; \<not> att_deleted a\<rbrakk> \<Longrightarrow>
   vstep m rw v (v\<lparr>vw_entry := (vw_entry v)(att_id a \<mapsto> a),
     vw_subject := add_to (att_subject a) (att_id a) (vw_subject v),
     vw_valid := add_to (att_subject a) (att_id a) (vw_valid v)\<rparr>)"
| put_unlisted: "\<lbrakk>\<forall>b. vw_entry v (att_id a) = Some b \<longrightarrow> rw \<and> att_subject b = att_subject a;
     \<not> att_revoked a; \<not> att_deleted a\<rbrakk> \<Longrightarrow>
   vstep False rw v (v\<lparr>vw_entry := (vw_entry v)(att_id a \<mapsto> a),
     vw_subject := add_to (att_subject a) (att_id a) (vw_subject v)\<rparr>)"
| update: "\<lbrakk>vw_entry v i = Some a\<rbrakk> \<Longrightarrow>
   vstep m rw v (v\<lparr>vw_entry := (vw_entry v)(i \<mapsto> a\<lparr>att_issuer := k, att_expiration := x\<rparr>)\<rparr>)"
| revoke: "\<lbrakk>vw_entry v i = Some a\<rbrakk> \<Longrightarrow>
   vstep m rw v (v\<lparr>vw_entry := (vw_entry v)(i \<mapsto> a\<lparr>att_revoked := True, att_revocation_reason := r\<rparr>),
     vw_subject := drop_from (att_subject a) i (vw_subject v),
     vw_valid := drop_from (att_subject a) i (vw_valid v)\<rparr>)"
| revoke_listed: "\<lbrakk>vw_entry v i = Some a\<rbrakk> \<Longrightarrow>
   vstep m rw v (v\<lparr>vw_entry := (vw_entry v)(i \<mapsto> a\<lparr>att_revoked := True, att_revocation_reason := r\<rparr>),
     vw_subject := drop_from (att_subject a) i (vw_subject v)\<rparr>)"
| delete: "\<lbrakk>vw_entry v i = Some a\<rbrakk> \<Longrightarrow>
   vstep m rw v (v\<lparr>vw_entry := (vw_entry v)(i \<mapsto> a\<lparr>att_deleted := True\<rparr>),
     vw_subject := drop_from (att_subject a) i (vw_subject v),
     vw_valid := drop_from (att_subject a) i (vw_valid v)\<rparr>)"
| delete_listed: "\<lbrakk>vw_entry v i = Some a\<rbrakk> \<Longrightarrow>
   vstep False rw v (v\<lparr>vw_entry := (vw_entry v)(i \<mapsto> a\<lparr>att_deleted := True\<rparr>),
     vw_subject := drop_from (att_subject a) i (vw_subject v)\<rparr>)"

subsection \<open>Consistency\<close>

text \<open>Records are filed under their own id.\<close>

definition ids_ok :: "att_view \<Rightarrow> bool" where
  "ids_ok v \<longleftrightarrow> (\<forall>i a. vw_entry v i = Some a \<longrightarrow> att_id a = i)"

text \<open>The subject index lists exactly the live attestations of the subject.\<close>

definition subject_index_ok :: "att_view \<Rightarrow> bool" where
  "subject_index_ok v \<longleftrightarrow>
     (\<forall>x i. i \<in> set (list_of (vw_subject v) x) \<longleftrightarrow>
        (\<exists>a. vw_entry v i = Some a \<and> att_subject a = x \<and> \<not> att_revoked a \<and> \<not> att_deleted a))"

text \<open>The second index lists every live attestation of the subject, and no deleted one.\<close>

definition valid_index_ok :: "att_view \<Rightarrow> bool" where
  "valid_index_ok v \<longleftrightarrow>
     (\<forall>x i. i \<in> set (list_of (vw_valid v) x) \<longrightarrow>
        (\<exists>a. vw_entry v i = Some a \<and> att_subject a = x \<and> \<not> att_deleted a)) \<and>
     (\<forall>i a. vw_entry v i = Some a \<longrightarrow> \<not> att_revoked a \<longrightarrow> \<not> att_deleted a \<longrightarrow>
        i \<in> set (list_of (vw_valid v) (att_subject a)))"

text \<open>Which of it holds at each level.\<close>

definition view_ok :: "bool \<Rightarrow> att_view \<Rightarrow> bool" where
  "view_ok m v \<longleftrightarrow> ids_ok v \<and> subject_index_ok v \<and> (m \<longrightarrow> valid_index_ok v)"

lemma vstep_ids_ok: "vstep m rw v w \<Longrightarrow> ids_ok v \<Longrightarrow> ids_ok w"
  by (induction rule: vstep.induct) (auto simp: ids_ok_def split: if_splits)

lemma vstep_subject_index_ok: "vstep m rw v w \<Longrightarrow> subject_index_ok v \<Longrightarrow> subject_index_ok w"
  by (induction rule: vstep.induct) (auto simp: subject_index_ok_def)

lemma vstep_valid_index_ok: "vstep m rw v w \<Longrightarrow> m \<Longrightarrow> valid_index_ok v \<Longrightarrow> valid_index_ok w"
  by (induction rule: vstep.induct) (fastforce simp: valid_index_ok_def)+

lemma vstep_view_ok: "vstep m rw v w \<Longrightarrow> view_ok m v \<Longrightarrow> view_ok m w"
  using vstep_ids_ok vstep_subject_index_ok vstep_valid_index_ok unfolding view_ok_def by blast

lemma vstep_vsteps: "vstep m rw v w \<Longrightarrow> (vstep m rw)\<^sup>*\<^sup>* v w"
  by (rule r_into_rtranclp)

lemma vsteps_view_ok: "(vstep m rw)\<^sup>*\<^sup>* v w \<Longrightarrow> view_ok m v \<Longrightarrow> view_ok m w"
  by (induction rule: rtranclp_induct) (auto intro: vstep_view_ok)

text \<open>
  How a record may evolve while it is not replaced: what was attested, by its identity, never
  changes, and revocation and deletion are final.
\<close>

definition evolves :: "attestation \<Rightarrow> attestation \<Rightarrow> bool" where
  "evolves a b \<longleftrightarrow>
     att_id b = att_id a \<and> att_subject b = att_subject a \<and> att_claim_type b = att_claim_type a \<and>
     att_timestamp b = att_timestamp a \<and> att_metadata b = att_metadata a \<and>
     att_jurisdiction b = att_jurisdiction a \<and> att_valid_from b = att_valid_from a \<and>
     att_origin b = att_origin a \<and> att_source_chain b = att_source_chain a \<and>
     att_source_tx b = att_source_tx a \<and> att_tags b = att_tags a \<and>
     (att_revoked a \<longrightarrow> att_revoked b) \<and> (att_deleted a \<longrightarrow> att_deleted b)"

lemma evolves_refl: "evolves a a"
  by (simp add: evolves_def)

lemma evolves_trans: "evolves a b \<Longrightarrow> evolves b c \<Longrightarrow> evolves a c"
  by (simp add: evolves_def)

lemma vstep_evolves:
  "vstep m rw v w \<Longrightarrow> \<not> rw \<Longrightarrow> vw_entry v i = Some a \<Longrightarrow> \<exists>b. vw_entry w i = Some b \<and> evolves a b"
  by (induction rule: vstep.induct) (auto simp: evolves_def)

lemma vsteps_evolves:
  assumes "(vstep m False)\<^sup>*\<^sup>* v w" and "vw_entry v i = Some a"
  shows "\<exists>b. vw_entry w i = Some b \<and> evolves a b"
  using assms
proof (induction rule: rtranclp_induct)
  case (step w u)
  then obtain b where "vw_entry w i = Some b" "evolves a b" by blast
  with vstep_evolves [OF step.hyps(2)] show ?case by (blast intro: evolves_trans)
qed (auto intro: evolves_refl)

subsection \<open>The handlers implement the abstract steps\<close>

lemma view_components:
  "vw_entry (view s) = attestation_entry (atts s)"
  "vw_subject (view s) = subject_ids (atts s)"
  "vw_valid (view s) = valid_ids (atts s)"
  by (simp_all add: view_def)

lemma store_attestation_vstep:
  assumes "store_attestation a s = Inr s'" and "\<not> att_revoked a" "\<not> att_deleted a"
    and "\<forall>b. attestation_entry (atts s) (att_id a) = Some b \<longrightarrow> rw \<and> att_subject b = att_subject a"
  shows "vstep m rw (view s) (view s')"
proof -
  have "view s' = (view s)\<lparr>vw_entry := (vw_entry (view s))(att_id a \<mapsto> a),
      vw_subject := add_to (att_subject a) (att_id a) (vw_subject (view s)),
      vw_valid := add_to (att_subject a) (att_id a) (vw_valid (view s))\<rparr>"
    using store_attestation_effect [OF assms(1)] by (simp add: view_def)
  then show ?thesis
    using vstep.put [where v = "view s" and a = a and m = m and rw = rw] assms(2-4) by (simp add: view_components)
qed

text \<open>A handler that stores one fresh attestation and otherwise leaves the registry alone.\<close>

definition stores_fresh :: "storage \<Rightarrow> storage \<Rightarrow> bool" where
  "stores_fresh s s' \<longleftrightarrow>
     (\<exists>a t. store_attestation a s = Inr t \<and> view s' = view t \<and> \<not> att_revoked a \<and>
        \<not> att_deleted a \<and> \<not> Storage_has_attestation (att_id a) s)"

lemma stores_freshI:
  "store_attestation a s = Inr t \<Longrightarrow> view s' = view t \<Longrightarrow> \<not> att_revoked a \<Longrightarrow> \<not> att_deleted a \<Longrightarrow>
     \<not> Storage_has_attestation (att_id a) s \<Longrightarrow> stores_fresh s s'"
  by (auto simp: stores_fresh_def)

lemma stores_fresh_vstep: "stores_fresh s s' \<Longrightarrow> vstep m rw (view s) (view s')"
  unfolding stores_fresh_def Storage_has_attestation_def
  using store_attestation_vstep by fastforce

lemma create_attestation_internal_stores:
  "create_attestation_internal e issuer subject c x md j tg vf s = Inr (i, s') \<Longrightarrow> stores_fresh s s'"
  unfolding create_attestation_internal_def Let_def writers
  by (elim steps, rule stores_freshI, assumption) (simp_all add: view_def event_defs)

lemma import_attestation_stores:
  "import_attestation e admin issuer subject c ts x s = Inr (i, s') \<Longrightarrow> stores_fresh s s'"
  unfolding import_attestation_def Let_def writers
  by (elim steps, rule stores_freshI, assumption) (simp_all add: view_def event_defs)

lemma bridge_attestation_stores:
  "bridge_attestation e bridge subject c sc stx s = Inr (i, s') \<Longrightarrow> stores_fresh s s'"
  unfolding bridge_attestation_def Let_def writers
  by (elim steps, rule stores_freshI, assumption) (simp_all add: view_def event_defs)

lemma create_attestation_as_delegate_stores:
  "create_attestation_as_delegate e d g subject c x md s = Inr (i, s') \<Longrightarrow> stores_fresh s s'"
  unfolding create_attestation_as_delegate_def Let_def writers
  by (elim steps, rule stores_freshI, assumption) (simp_all add: view_def event_defs)

subsubsection \<open>Batch creation\<close>

lemma batch_create_one_effect:
  assumes "batch_create_one e issuer c x lim subject (ids, s) = Inr (ids', s')"
  defines "i \<equiv> generate_id e issuer subject c (timestamp e)"
  defines "a \<equiv> \<lparr>att_id = i, att_issuer = issuer, att_subject = subject, att_claim_type = c,
      att_timestamp = timestamp e, att_expiration = x, att_revoked = False, att_metadata = None,
      att_jurisdiction = None, att_valid_from = None, att_origin = Origin_Native,
      att_source_chain = None, att_source_tx = None, att_tags = None,
      att_revocation_reason = None, att_deleted = False\<rparr>"
  shows "\<not> Storage_has_attestation i s \<and> ids' = ids @ [i] \<and>
    attestation_entry (atts s') = (attestation_entry (atts s))(i \<mapsto> a) \<and>
    subject_ids (atts s') = add_to subject i (subject_ids (atts s)) \<and>
    valid_ids (atts s') = add_to subject i (valid_ids (atts s)) \<and>
    issuer_ids (atts s') = issuer_ids (atts s) \<and>
    inst s' = inst s \<and> reg s' = reg s \<and> flow_st s' = flow_st s \<and> calls (host s') = calls (host s)"
  using assms(1) unfolding batch_create_one_def Let_def writers prod.case
  by (elim steps) (simp add: readers index_ops event_defs a_def i_def)

lemma batch_create_one_vstep:
  assumes "batch_create_one e issuer c x lim subject (ids, s) = Inr (ids', s')"
  shows "vstep m rw (view s) (view s')"
proof -
  note eff = batch_create_one_effect [OF assms]
  then obtain a where "\<not> att_revoked a" "\<not> att_deleted a"
    and "attestation_entry (atts s) (att_id a) = None"
    and "view s' = (view s)\<lparr>vw_entry := (vw_entry (view s))(att_id a \<mapsto> a),
      vw_subject := add_to (att_subject a) (att_id a) (vw_subject (view s)),
      vw_valid := add_to (att_subject a) (att_id a) (vw_valid (view s))\<rparr>"
    by (force simp: view_def Storage_has_attestation_def)
  then show ?thesis
    using vstep.put [where v = "view s" and a = a and m = m and rw = rw] by (simp add: view_components)
qed

lemma create_attestations_batch_vsteps:
  assumes "create_attestations_batch e issuer subjects c x s = Inr (ids, s')"
  shows "(vstep m rw)\<^sup>*\<^sup>* (view s) (view s')"
proof -
  from assms obtain t where loop: "for_each (batch_create_one e issuer c x (Storage_get_limits s))
      subjects ([], s) = Inr (ids, t)" and v: "view s' = view t"
    unfolding create_attestations_batch_def Let_def writers
    by (elim steps) (simp_all add: view_def readers)
  have "(\<lambda>(ids, t). (vstep m rw)\<^sup>*\<^sup>* (view s) (view t)) (ids, t)"
    by (rule for_each_invariant [OF loop])
      (auto dest: batch_create_one_vstep intro: rtranclp.rtrancl_into_rtrancl)
  then show ?thesis by (simp add: v)
qed

subsubsection \<open>Revocation, deletion and updates\<close>

lemma revoke_attestation_vstep:
  assumes "revoke_attestation e issuer i r s = Inr (u, s')" and ids: "ids_ok (view s)"
  shows "vstep m rw (view s) (view s')"
proof -
  from assms(1) obtain a where a: "vw_entry (view s) i = Some a"
    and v: "att_id a = i \<Longrightarrow> view s' = (view s)\<lparr>
      vw_entry := (vw_entry (view s))(i \<mapsto> a\<lparr>att_revoked := True, att_revocation_reason := r\<rparr>),
      vw_subject := drop_from (att_subject a) i (vw_subject (view s)),
      vw_valid := drop_from (att_subject a) i (vw_valid (view s))\<rparr>"
    unfolding revoke_attestation_def Let_def writers Storage_get_attestation_def
    by (elim steps) (simp_all add: view_def readers index_ops event_defs)
  have "att_id a = i" using a ids by (simp add: ids_ok_def)
  then show ?thesis using vstep.revoke [OF a, where m = m and r = r and rw = rw] by (simp add: v)
qed

lemma request_deletion_vstep:
  assumes "request_deletion e subject i s = Inr (u, s')" and ids: "ids_ok (view s)"
  shows "vstep m rw (view s) (view s')"
proof -
  from assms(1) obtain a where a: "vw_entry (view s) i = Some a"
    and v: "att_id a = i \<Longrightarrow> view s' = (view s)\<lparr>
      vw_entry := (vw_entry (view s))(i \<mapsto> a\<lparr>att_deleted := True\<rparr>),
      vw_subject := drop_from (att_subject a) i (vw_subject (view s)),
      vw_valid := drop_from (att_subject a) i (vw_valid (view s))\<rparr>"
    unfolding request_deletion_def Let_def writers Storage_get_attestation_def
    by (elim steps) (simp_all add: view_def readers index_ops event_defs)
  have "att_id a = i" using a ids by (simp add: ids_ok_def)
  then show ?thesis using vstep.delete [OF a, where m = m and rw = rw] by (simp add: v)
qed

lemma entry_update_vstep:
  assumes "attestation_entry (atts s) i = Some a" and "ids_ok (view s)"
    and "view s' = (view s)\<lparr>vw_entry :=
      (vw_entry (view s))(att_id a \<mapsto> a\<lparr>att_issuer := k, att_expiration := x\<rparr>)\<rparr>"
  shows "vstep m rw (view s) (view s')"
  using assms vstep.update [where v = "view s" and i = i and a = a and k = k and x = x
      and m = m and rw = rw]
  by (simp add: view_components ids_ok_def)

lemma renew_attestation_vstep:
  assumes "renew_attestation e issuer i x s = Inr (u, s')" and ids: "ids_ok (view s)"
  shows "vstep m rw (view s) (view s')"
proof -
  from assms(1) obtain a where a: "attestation_entry (atts s) i = Some a"
    and v: "view s' = (view s)\<lparr>vw_entry :=
      (vw_entry (view s))(att_id a \<mapsto> a\<lparr>att_issuer := att_issuer a, att_expiration := x\<rparr>)\<rparr>"
    unfolding renew_attestation_def Let_def writers Storage_get_attestation_def
    by (elim steps) (simp_all add: view_def event_defs)
  show ?thesis by (rule entry_update_vstep [OF a ids v])
qed

lemma update_expiration_vstep:
  assumes "update_expiration e issuer i x s = Inr (u, s')" and ids: "ids_ok (view s)"
  shows "vstep m rw (view s) (view s')"
proof -
  from assms(1) obtain a where a: "attestation_entry (atts s) i = Some a"
    and v: "view s' = (view s)\<lparr>vw_entry :=
      (vw_entry (view s))(att_id a \<mapsto> a\<lparr>att_issuer := att_issuer a, att_expiration := x\<rparr>)\<rparr>"
    unfolding update_expiration_def Let_def writers Storage_get_attestation_def
    by (elim steps) (simp_all add: view_def event_defs)
  show ?thesis by (rule entry_update_vstep [OF a ids v])
qed

lemma transfer_attestation_vstep:
  assumes "transfer_attestation e admin i x s = Inr (u, s')" and ids: "ids_ok (view s)"
  shows "(vstep m rw)\<^sup>*\<^sup>* (view s) (view s')"
proof (cases "s' = s")
  case False
  with assms(1) obtain a where a: "attestation_entry (atts s) i = Some a"
    and v: "view s' = (view s)\<lparr>vw_entry := (vw_entry (view s))
      (att_id a \<mapsto> a\<lparr>att_issuer := x, att_expiration := att_expiration a\<rparr>)\<rparr>"
    unfolding transfer_attestation_def Let_def writers Storage_get_attestation_def
    by (elim steps) (simp_all add: view_def event_defs)
  have "vstep m rw (view s) (view s')" by (rule entry_update_vstep [OF a ids v])
  then show ?thesis by (rule r_into_rtranclp)
qed simp

lemma endorse_attestation_view:
  "endorse_attestation e endorser i s = Inr (u, s') \<Longrightarrow> view s' = view s"
  unfolding endorse_attestation_def Let_def writers
  by (elim steps) (simp add: view_def)

subsubsection \<open>Batch revocation\<close>

lemma batch_revoke_check_Inr:
  "batch_revoke_check issuer s x (seen, as) = Inr p \<longleftrightarrow>
     (\<exists>a. attestation_entry (atts s) x = Some a \<and> x \<notin> set seen \<and> att_issuer a = issuer \<and>
        \<not> att_revoked a \<and> p = (seen @ [x], as @ [a]))"
  by (auto simp: batch_revoke_check_def Storage_get_attestation_def flow)

lemma batch_revoke_check_all:
  assumes "for_each (batch_revoke_check issuer s) xs (seen, as) = Inr (seen', as')"
    and "distinct seen" and "list_all2 (\<lambda>i a. attestation_entry (atts s) i = Some a) seen as"
  shows "seen' = seen @ xs \<and> distinct seen' \<and>
    list_all2 (\<lambda>i a. attestation_entry (atts s) i = Some a) seen' as'"
  using assms
proof (induction xs arbitrary: seen as)
  case (Cons x xs)
  from Cons.prems(1) obtain a where a: "attestation_entry (atts s) x = Some a" "x \<notin> set seen"
    and rest: "for_each (batch_revoke_check issuer s) xs (seen @ [x], as @ [a]) = Inr (seen', as')"
    by (auto simp: batch_revoke_check_Inr flow)
  have "distinct (seen @ [x])"
    and "list_all2 (\<lambda>i a. attestation_entry (atts s) i = Some a) (seen @ [x]) (as @ [a])"
    using Cons.prems(2,3) a by (simp_all add: list_all2_appendI)
  with rest have "seen' = (seen @ [x]) @ xs \<and> distinct seen' \<and>
      list_all2 (\<lambda>i a. attestation_entry (atts s) i = Some a) seen' as'"
    by (rule Cons.IH)
  then show ?case unfolding append_assoc append_Cons append_Nil .
qed simp

lemma batch_revoke_one_effect:
  assumes "batch_revoke_one e issuer r a s = Inr s'"
  shows "view s' = (view s)\<lparr>
    vw_entry := (vw_entry (view s))(att_id a \<mapsto> a\<lparr>att_revoked := True, att_revocation_reason := r\<rparr>),
    vw_subject := drop_from (att_subject a) (att_id a) (vw_subject (view s))\<rparr>"
  using assms unfolding batch_revoke_one_def Let_def writers
  by (elim steps) (simp add: view_def readers index_ops event_defs)

lemma batch_revoke_loop_vsteps:
  assumes "for_each (batch_revoke_one e issuer r) as s = Inr s'"
    and "distinct (map att_id as)" and "\<forall>a \<in> set as. attestation_entry (atts s) (att_id a) = Some a"
  shows "(vstep m rw)\<^sup>*\<^sup>* (view s) (view s')"
  using assms
proof (induction as arbitrary: s)
  case (Cons a as)
  from Cons.prems(1) obtain t where one: "batch_revoke_one e issuer r a s = Inr t"
    and rest: "for_each (batch_revoke_one e issuer r) as t = Inr s'" by (auto simp: flow)
  have a: "vw_entry (view s) (att_id a) = Some a" using Cons.prems(3) by (simp add: view_def)
  have "vstep m rw (view s) (view t)"
    using vstep.revoke_listed [OF a, where m = m and r = r and rw = rw] by (simp add: batch_revoke_one_effect [OF one])
  moreover have "attestation_entry (atts t) = (attestation_entry (atts s))
      (att_id a \<mapsto> a\<lparr>att_revoked := True, att_revocation_reason := r\<rparr>)"
    using arg_cong [OF batch_revoke_one_effect [OF one], of vw_entry] by (simp add: view_components)
  then have "attestation_entry (atts t) (att_id b) = Some b" if "b \<in> set as" for b
    using that Cons.prems(2,3)
    by (metis fun_upd_apply imageI distinct.simps(2) list.set_intros(2) list.simps(9) set_map)
  then have "(vstep m rw)\<^sup>*\<^sup>* (view t) (view s')"
    using Cons.IH [OF rest] Cons.prems(2) by simp
  ultimately show ?case by (rule converse_rtranclp_into_rtranclp)
qed simp

lemma revoke_attestations_batch_vsteps:
  assumes "revoke_attestations_batch e issuer xs r s = Inr (n, s')" and ids: "ids_ok (view s)"
  shows "(vstep m rw)\<^sup>*\<^sup>* (view s) (view s')"
proof -
  from assms(1) obtain seen as t
    where check: "for_each (batch_revoke_check issuer s) xs ([], []) = Inr (seen, as)"
      and loop: "for_each (batch_revoke_one e issuer r) as s = Inr t" and v: "view s' = view t"
    unfolding revoke_attestations_batch_def Let_def writers
    by (elim steps) (simp_all add: view_def)
  from batch_revoke_check_all [OF check] have d: "distinct seen"
    and l: "list_all2 (\<lambda>i a. attestation_entry (atts s) i = Some a) seen as" by auto
  have "map att_id as = seen"
    using l ids by (intro nth_equalityI) (auto simp: list_all2_conv_all_nth ids_ok_def view_components)
  moreover have "attestation_entry (atts s) (att_id a) = Some a" if "a \<in> set as" for a
    using that l ids by (auto simp: in_set_conv_nth list_all2_conv_all_nth ids_ok_def view_components)
  ultimately have "(vstep m rw)\<^sup>*\<^sup>* (view s) (view t)"
    using d by (intro batch_revoke_loop_vsteps [OF loop]) simp_all
  then show ?thesis by (simp add: v)
qed

lemma batch_create_one_core:
  "batch_create_one e i c x l y p = Inr q \<Longrightarrow> core (snd q) = core (snd p)"
  by (cases p; cases q) (auto dest!: batch_create_one_effect simp: core_def)

end
