(* ===== verification/TL_Request.thy ===== *)
theory TL_Request
  imports TL_Attestation
begin

section \<open>Attestation requests\<close>

text \<open>
  Models \<^verbatim>\<open>src/src/request.rs\<close>: a subject asks a registered issuer for an attestation; the issuer
  fulfils or rejects the request before it expires, the subject may cancel it.  A per-issuer list
  holds the ids of the requests still pending.
\<close>

definition request_attestation ::
  "env \<Rightarrow> address \<Rightarrow> address \<Rightarrow> string \<Rightarrow> storage \<Rightarrow> (string \<times> storage) res" where
  "request_attestation e subject issuer claim_type s =
     and_then (require_auth e subject) (\<lambda>_.
     and_then (require_not_paused s) (\<lambda>_.
     and_then (require_issuer issuer s) (\<lambda>_.
     and_then (validate_claim_type claim_type) (\<lambda>_.
     let ts = timestamp e;
         rid = generate_request_id e subject issuer claim_type ts in
     and_then (ensure (\<not> (case Storage_get_request rid s of Inr _ \<Rightarrow> True | Inl _ \<Rightarrow> False))
                 (Err E_DuplicateRequest)) (\<lambda>_.
     and_then (checked_add ts ATTESTATION_REQUEST_TTL_SECS) (\<lambda>expires_at.
     let r = \<lparr>req_id = rid, req_subject = subject, req_issuer = issuer,
              req_claim_type = claim_type, req_timestamp = ts, req_expires_at = expires_at,
              req_status = Req_Pending, req_rejection_reason = None\<rparr> in
     and_then (Storage_set_request r s) (\<lambda>s.
     and_then (Storage_add_pending_request issuer rid s) (\<lambda>s.
     Inr (rid, Events_attestation_requested rid subject issuer claim_type expires_at s)))))))))"

definition fulfill_request ::
  "env \<Rightarrow> address \<Rightarrow> string \<Rightarrow> u64 option \<Rightarrow> storage \<Rightarrow> (string \<times> storage) res" where
  "fulfill_request e issuer rid expiration s =
     and_then (require_auth e issuer) (\<lambda>_.
     and_then (require_not_paused s) (\<lambda>_.
     and_then (require_issuer issuer s) (\<lambda>_.
     and_then (Storage_get_request rid s) (\<lambda>r.
     and_then (ensure (req_issuer r = issuer) (Err E_Unauthorized)) (\<lambda>_.
     and_then (ensure (req_status r = Req_Pending) (Err E_RequestAlreadyProcessed)) (\<lambda>_.
     let now = timestamp e in
     and_then (ensure (\<not> req_expires_at r \<le> now) (Err E_RequestExpired)) (\<lambda>_.
     and_then (validate_native_expiration e expiration) (\<lambda>_.
     let i = generate_id e issuer (req_subject r) (req_claim_type r) now in
     and_then (ensure (\<not> Storage_has_attestation i s) (Err E_DuplicateAttestation)) (\<lambda>_.
     let lim = Storage_get_limits s in
     and_then (ensure (\<not> unat (max_attestations_per_issuer lim)
                 \<le> length (Storage_get_issuer_attestations issuer s)) (Err E_LimitExceeded)) (\<lambda>_.
     and_then (ensure (\<not> unat (max_attestations_per_subject lim)
                 \<le> length (Storage_get_subject_attestations (req_subject r) s))
                 (Err E_LimitExceeded)) (\<lambda>_.
     let a = \<lparr>att_id = i, att_issuer = issuer, att_subject = req_subject r,
              att_claim_type = req_claim_type r, att_timestamp = now,
              att_expiration = expiration, att_revoked = False, att_metadata = None,
              att_jurisdiction = None, att_valid_from = None, att_origin = Origin_Native,
              att_source_chain = None, att_source_tx = None, att_tags = None,
              att_revocation_reason = None, att_deleted = False\<rparr> in
     and_then (store_attestation a s) (\<lambda>s.
     let s = Events_attestation_created a s in
     and_then (Storage_set_request (r\<lparr>req_status := Req_Fulfilled\<rparr>) s) (\<lambda>s.
     and_then (Storage_remove_pending_request issuer rid s) (\<lambda>s.
     Inr (i, Events_request_fulfilled rid issuer i s)))))))))))))))"

definition reject_request ::
  "env \<Rightarrow> address \<Rightarrow> string \<Rightarrow> string option \<Rightarrow> storage \<Rightarrow> (unit \<times> storage) res" where
  "reject_request e issuer rid reason s =
     and_then (require_auth e issuer) (\<lambda>_.
     and_then (require_not_paused s) (\<lambda>_.
     and_then (require_issuer issuer s) (\<lambda>_.
     and_then (validate_reason reason) (\<lambda>_.
     and_then (Storage_get_request rid s) (\<lambda>r.
     and_then (ensure (req_issuer r = issuer) (Err E_Unauthorized)) (\<lambda>_.
     and_then (ensure (req_status r = Req_Pending) (Err E_RequestAlreadyProcessed)) (\<lambda>_.
     and_then (ensure (\<not> req_expires_at r \<le> timestamp e) (Err E_RequestExpired)) (\<lambda>_.
     and_then (Storage_set_request
                 (r\<lparr>req_status := Req_Rejected, req_rejection_reason := reason\<rparr>) s) (\<lambda>s.
     and_then (Storage_remove_pending_request issuer rid s) (\<lambda>s.
     Inr ((), Events_request_rejected rid issuer reason s)))))))))))"

definition cancel_request :: "env \<Rightarrow> address \<Rightarrow> string \<Rightarrow> storage \<Rightarrow> (unit \<times> storage) res" where
  "cancel_request e subject rid s =
     and_then (require_auth e subject) (\<lambda>_.
     and_then (require_not_paused s) (\<lambda>_.
     and_then (Storage_get_request rid s) (\<lambda>r.
     and_then (ensure (req_subject r = subject) (Err E_Unauthorized)) (\<lambda>_.
     and_then (ensure (req_status r = Req_Pending) (Err E_RequestAlreadyProcessed)) (\<lambda>_.
     and_then (Storage_set_request (r\<lparr>req_status := Req_Cancelled\<rparr>) s) (\<lambda>s.
     and_then (Storage_remove_pending_request (req_issuer r) rid s) (\<lambda>s.
     Inr ((), Events_request_cancelled rid subject s))))))))"

definition get_pending_requests ::
  "env \<Rightarrow> address \<Rightarrow> u32 \<Rightarrow> u32 \<Rightarrow> storage \<Rightarrow> attestation_request list res" where
  "get_pending_requests e issuer start limit s =
     (let pending = List.map_filter (\<lambda>i.
            case Storage_get_request i s of
              Inr r \<Rightarrow> if req_status r = Req_Pending \<and> timestamp e < req_expires_at r
                       then Some r else None
            | Inl _ \<Rightarrow> None) (Storage_get_pending_request_ids issuer s);
          total = of_nat (length pending);
          start = min start total
      in and_then (checked_add start limit) (\<lambda>e.
           Inr (List.map_filter (vec_get pending) [unat start..<unat (min e total)])))"

definition get_request :: "string \<Rightarrow> storage \<Rightarrow> attestation_request res" where
  "get_request = Storage_get_request"

subsection \<open>The pending lists\<close>

text \<open>Requests are filed under their own id, and an issuer's pending list holds, once each, exactly
  the requests addressed to the issuer that are still pending.\<close>

definition requests_ok :: "workflow_store \<Rightarrow> bool" where
  "requests_ok w \<longleftrightarrow>
     (\<forall>r q. request_entry w r = Some q \<longrightarrow> req_id q = r) \<and>
     (\<forall>x. distinct (list_of (pending_requests w) x)) \<and>
     (\<forall>x r. r \<in> set (list_of (pending_requests w) x) \<longleftrightarrow>
        (\<exists>q. request_entry w r = Some q \<and> req_issuer q = x \<and> req_status q = Req_Pending))"

lemma requests_ok_cong:
  "request_entry w' = request_entry w \<Longrightarrow> pending_requests w' = pending_requests w \<Longrightarrow>
     requests_ok w' = requests_ok w"
  by (simp add: requests_ok_def)

lemma requests_ok_new:
  assumes "requests_ok w" and "request_entry w (req_id q) = None" and "req_status q = Req_Pending"
    and "request_entry w' = (request_entry w)(req_id q \<mapsto> q)"
    and "pending_requests w' = add_to (req_issuer q) (req_id q) (pending_requests w)"
  shows "requests_ok w'"
  using assms by (auto simp: requests_ok_def)

lemma requests_ok_closed:
  assumes "requests_ok w" and "request_entry w r = Some q" and "req_status q' \<noteq> Req_Pending"
    and "req_id q' = r" and "request_entry w' = (request_entry w)(r \<mapsto> q')"
    and "pending_requests w' = drop_from (req_issuer q) r (pending_requests w)"
  shows "requests_ok w'"
  using assms by (auto simp: requests_ok_def)

definition new_request :: "env \<Rightarrow> address \<Rightarrow> address \<Rightarrow> string \<Rightarrow> attestation_request" where
  "new_request e x i c =
     \<lparr>req_id = generate_request_id e x i c (timestamp e), req_subject = x, req_issuer = i,
      req_claim_type = c, req_timestamp = timestamp e,
      req_expires_at = timestamp e + ATTESTATION_REQUEST_TTL_SECS, req_status = Req_Pending,
      req_rejection_reason = None\<rparr>"

lemma request_attestation_effect:
  assumes "request_attestation e x i c s = Inr (r, s')"
  shows "r = req_id (new_request e x i c) \<and> request_entry (flow_st s) r = None \<and>
    request_entry (flow_st s') = (request_entry (flow_st s))(r \<mapsto> new_request e x i c) \<and>
    pending_requests (flow_st s') = add_to i r (pending_requests (flow_st s)) \<and>
    multisig_entry (flow_st s') = multisig_entry (flow_st s) \<and>
    council_entry (flow_st s') = council_entry (flow_st s) \<and> inst s' = inst s \<and> reg s' = reg s"
  using assms unfolding request_attestation_def Let_def writers
  by (elim steps)
    (simp add: event_defs new_request_def readers index_ops ok_or_def split: option.splits)

lemma fulfill_request_effect:
  assumes "fulfill_request e i r x s = Inr (k, s')"
  shows "\<exists>q. request_entry (flow_st s) r = Some q \<and> req_issuer q = i \<and> req_status q = Req_Pending \<and>
    timestamp e < req_expires_at q \<and>
    request_entry (flow_st s') = (request_entry (flow_st s))(req_id q \<mapsto> q\<lparr>req_status := Req_Fulfilled\<rparr>) \<and>
    pending_requests (flow_st s') = drop_from i r (pending_requests (flow_st s)) \<and>
    multisig_entry (flow_st s') = multisig_entry (flow_st s) \<and>
    council_entry (flow_st s') = council_entry (flow_st s)"
  using assms unfolding fulfill_request_def Let_def writers Storage_get_request_def
  by (elim steps store_attestation_core [THEN coreE])
    (simp add: event_defs readers index_ops not_le)

lemma reject_request_effect:
  assumes "reject_request e i r t s = Inr (u, s')"
  shows "\<exists>q. request_entry (flow_st s) r = Some q \<and> req_issuer q = i \<and> req_status q = Req_Pending \<and>
    timestamp e < req_expires_at q \<and>
    request_entry (flow_st s') = (request_entry (flow_st s))
      (req_id q \<mapsto> q\<lparr>req_status := Req_Rejected, req_rejection_reason := t\<rparr>) \<and>
    pending_requests (flow_st s') = drop_from i r (pending_requests (flow_st s)) \<and>
    multisig_entry (flow_st s') = multisig_entry (flow_st s) \<and>
    council_entry (flow_st s') = council_entry (flow_st s)"
  using assms unfolding reject_request_def Let_def writers Storage_get_request_def
  by (elim steps) (simp add: event_defs readers index_ops not_le)

lemma cancel_request_effect:
  assumes "cancel_request e x r s = Inr (u, s')"
  shows "\<exists>q. request_entry (flow_st s) r = Some q \<and> req_subject q = x \<and> req_status q = Req_Pending \<and>
    request_entry (flow_st s') = (request_entry (flow_st s))(req_id q \<mapsto> q\<lparr>req_status := Req_Cancelled\<rparr>) \<and>
    pending_requests (flow_st s') = drop_from (req_issuer q) r (pending_requests (flow_st s)) \<and>
    multisig_entry (flow_st s') = multisig_entry (flow_st s) \<and>
    council_entry (flow_st s') = council_entry (flow_st s)"
  using assms unfolding cancel_request_def Let_def writers Storage_get_request_def
  by (elim steps) (simp add: event_defs readers index_ops)

end
