(* ===== verification/TL_Query.thy ===== *)
theory TL_Query
  imports TL_Attestation "HOL-Library.Char_ord" "HOL-Library.List_Lexorder"
begin

section \<open>Queries\<close>

text \<open>
  Models \<^verbatim>\<open>src/src/query.rs\<close>.  A query that may publish an event or call an expiration callback
  returns the new state with its answer.  The loops over attestation ids are recursions over the
  id list that stop where the source returns.
\<close>

subsection \<open>Claim checks\<close>

fun scan_valid_claim :: "env \<Rightarrow> address \<Rightarrow> string \<Rightarrow> string list \<Rightarrow> storage \<Rightarrow> bool \<times> storage" where
  "scan_valid_claim e subject claim_type [] s = (False, s)"
| "scan_valid_claim e subject claim_type (i # is) s =
     (case Storage_get_attestation i s of
        Inr a \<Rightarrow>
          if att_claim_type a \<noteq> claim_type then scan_valid_claim e subject claim_type is s
          else if get_status a (timestamp e) = St_Valid
          then (True, maybe_trigger_expiration_hook subject i (unwrap_or (att_expiration a) (- 1))
                        (timestamp e) s)
          else scan_valid_claim e subject claim_type is s
      | Inl _ \<Rightarrow> scan_valid_claim e subject claim_type is s)"

definition has_valid_claim :: "env \<Rightarrow> address \<Rightarrow> string \<Rightarrow> storage \<Rightarrow> bool \<times> storage" where
  "has_valid_claim e subject claim_type s =
     scan_valid_claim e subject claim_type (Storage_get_valid_attestations subject s) s"

fun scan_claim_from_issuer ::
  "env \<Rightarrow> address \<Rightarrow> string \<Rightarrow> address \<Rightarrow> string list \<Rightarrow> storage \<Rightarrow> bool \<times> storage" where
  "scan_claim_from_issuer e subject claim_type issuer [] s = (False, s)"
| "scan_claim_from_issuer e subject claim_type issuer (i # is) s =
     (case Storage_get_attestation i s of
        Inr a \<Rightarrow>
          if att_deleted a then scan_claim_from_issuer e subject claim_type issuer is s
          else if att_claim_type a = claim_type \<and> att_issuer a = issuer
          then (case get_status a (timestamp e) of
                  St_Valid \<Rightarrow>
                    (True, maybe_trigger_expiration_hook subject i
                             (unwrap_or (att_expiration a) (- 1)) (timestamp e) s)
                | St_Expired \<Rightarrow>
                    scan_claim_from_issuer e subject claim_type issuer is
                      (Events_attestation_expired i subject s)
                | _ \<Rightarrow> scan_claim_from_issuer e subject claim_type issuer is s)
          else scan_claim_from_issuer e subject claim_type issuer is s
      | Inl _ \<Rightarrow> scan_claim_from_issuer e subject claim_type issuer is s)"

definition has_valid_claim_from_issuer ::
  "env \<Rightarrow> address \<Rightarrow> string \<Rightarrow> address \<Rightarrow> storage \<Rightarrow> bool \<times> storage" where
  "has_valid_claim_from_issuer e subject claim_type issuer s =
     scan_claim_from_issuer e subject claim_type issuer (Storage_get_subject_attestations subject s) s"

fun scan_any_inner :: "env \<Rightarrow> address \<Rightarrow> string \<Rightarrow> string list \<Rightarrow> storage \<Rightarrow> storage option" where
  "scan_any_inner e subject claim_type [] s = None"
| "scan_any_inner e subject claim_type (i # is) s =
     (case Storage_get_attestation i s of
        Inr a \<Rightarrow>
          if \<not> att_deleted a \<and> att_claim_type a = claim_type \<and> get_status a (timestamp e) = St_Valid
          then Some (maybe_trigger_expiration_hook subject i (unwrap_or (att_expiration a) (- 1))
                       (timestamp e) s)
          else scan_any_inner e subject claim_type is s
      | Inl _ \<Rightarrow> scan_any_inner e subject claim_type is s)"

fun scan_any_claim :: "env \<Rightarrow> address \<Rightarrow> string list \<Rightarrow> string list \<Rightarrow> storage \<Rightarrow> bool \<times> storage" where
  "scan_any_claim e subject ids [] s = (False, s)"
| "scan_any_claim e subject ids (c # cs) s =
     (case scan_any_inner e subject c ids s of
        Some s' \<Rightarrow> (True, s')
      | None \<Rightarrow> scan_any_claim e subject ids cs s)"

definition has_any_claim :: "env \<Rightarrow> address \<Rightarrow> string list \<Rightarrow> storage \<Rightarrow> bool \<times> storage" where
  "has_any_claim e subject claim_types s =
     (if claim_types = [] then (False, s)
      else scan_any_claim e subject (Storage_get_subject_attestations subject s) claim_types s)"

text \<open>The test of the inner loop of \<^verbatim>\<open>has_all_claims\<close>.\<close>

definition holds_claim :: "env \<Rightarrow> string \<Rightarrow> storage \<Rightarrow> string \<Rightarrow> bool" where
  "holds_claim e claim_type s i =
     (case Storage_get_attestation i s of
        Inr a \<Rightarrow> \<not> att_deleted a \<and> att_claim_type a = claim_type \<and>
                 get_status a (timestamp e) = St_Valid
      | Inl _ \<Rightarrow> False)"

definition has_all_claims :: "env \<Rightarrow> address \<Rightarrow> string list \<Rightarrow> storage \<Rightarrow> bool" where
  "has_all_claims e subject claim_types s =
     (if claim_types = [] then True
      else list_all (\<lambda>c. list_ex (holds_claim e c s) (Storage_get_subject_attestations subject s))
             claim_types)"

subsection \<open>Single records\<close>

definition get_attestation :: "string \<Rightarrow> storage \<Rightarrow> attestation res" where
  "get_attestation i s =
     and_then (Storage_get_attestation i s) (\<lambda>a.
     and_then (ensure (\<not> att_deleted a) (Err E_NotFound)) (\<lambda>_. Inr a))"

definition get_audit_log :: "string \<Rightarrow> storage \<Rightarrow> audit_entry list" where
  "get_audit_log = Storage_get_audit_log"

definition get_delegation :: "address \<Rightarrow> address \<Rightarrow> string \<Rightarrow> storage \<Rightarrow> delegation option" where
  "get_delegation = Storage_get_delegation"

definition get_attestation_status ::
  "env \<Rightarrow> string \<Rightarrow> storage \<Rightarrow> (attestation_status \<times> storage) res" where
  "get_attestation_status e i s =
     and_then (Storage_get_attestation i s) (\<lambda>a.
     and_then (ensure (\<not> att_deleted a) (Err E_NotFound)) (\<lambda>_.
     let status = get_status a (timestamp e) in
     Inr (status, if status = St_Expired then Events_attestation_expired i (att_subject a) s
                  else s)))"

subsection \<open>Listings\<close>

text \<open>The stored, not deleted attestations among a list of ids, in order.\<close>

definition live :: "storage \<Rightarrow> (attestation \<Rightarrow> bool) \<Rightarrow> string \<Rightarrow> bool" where
  "live s P i =
     (case Storage_get_attestation i s of Inr a \<Rightarrow> \<not> att_deleted a \<and> P a | Inl _ \<Rightarrow> False)"

definition load :: "storage \<Rightarrow> string list \<Rightarrow> attestation list" where
  "load s ids =
     List.map_filter (\<lambda>i. case Storage_get_attestation i s of Inr a \<Rightarrow> Some a | Inl _ \<Rightarrow> None) ids"

definition get_subject_attestations :: "address \<Rightarrow> u32 \<Rightarrow> u32 \<Rightarrow> storage \<Rightarrow> string list res" where
  "get_subject_attestations subject start limit s =
     and_then (ChunkedIndex_get_subject_page subject start limit s) (\<lambda>ids.
     Inr (filter (live s (\<lambda>_. True)) ids))"

definition get_issuer_attestations :: "address \<Rightarrow> u32 \<Rightarrow> u32 \<Rightarrow> storage \<Rightarrow> string list res" where
  "get_issuer_attestations issuer start limit s =
     and_then (ChunkedIndex_get_issuer_page issuer start limit s) (\<lambda>ids.
     Inr (filter (live s (\<lambda>_. True)) ids))"

definition get_attestations_in_range ::
  "address \<Rightarrow> u64 \<Rightarrow> u64 \<Rightarrow> u32 \<Rightarrow> u32 \<Rightarrow> storage \<Rightarrow> attestation list res" where
  "get_attestations_in_range subject from_ts to_ts start limit s =
     (let filtered_ids = filter (live s (\<lambda>a. from_ts \<le> att_timestamp a \<and> att_timestamp a \<le> to_ts))
                           (Storage_get_subject_attestations subject s)
      in and_then (paginate filtered_ids start limit) (\<lambda>ids. Inr (load s ids)))"

text \<open>\<^verbatim>\<open>for i in 0..len\<close> with a break: the first position that satisfies the test.\<close>

fun position :: "('a \<Rightarrow> bool) \<Rightarrow> nat \<Rightarrow> 'a list \<Rightarrow> nat option" where
  "position P k [] = None"
| "position P k (x # xs) = (if P x then Some k else position P (Suc k) xs)"

definition get_attestations_in_range_after ::
  "address \<Rightarrow> u64 \<Rightarrow> u64 \<Rightarrow> string option \<Rightarrow> u32 \<Rightarrow> storage \<Rightarrow> attestation list res" where
  "get_attestations_in_range_after subject from_ts to_ts after limit s =
     (if to_ts < from_ts then Inr []
      else
        let filtered = load s
              (filter (live s (\<lambda>a. from_ts \<le> att_timestamp a \<and> att_timestamp a \<le> to_ts))
                 (Storage_get_subject_attestations subject s));
            start_index =
              (case after of
                 None \<Rightarrow> Some 0
               | Some cursor_id \<Rightarrow>
                   (case Storage_get_attestation cursor_id s of
                      Inl _ \<Rightarrow> None
                    | Inr c \<Rightarrow>
                        (case position (\<lambda>a. att_id a = att_id c) 0 filtered of
                           Some k \<Rightarrow> Some (k + 1)
                         | None \<Rightarrow> position (\<lambda>a. att_timestamp c < att_timestamp a \<or>
                                     (att_timestamp a = att_timestamp c \<and> cursor_id < att_id a))
                                     0 filtered)))
        in case start_index of
             None \<Rightarrow> Inr []
           | Some k \<Rightarrow>
               and_then (checked_add (of_nat k) limit) (\<lambda>e.
               Inr (List.map_filter (vec_get filtered) [k..<min (unat e) (length filtered)])))"

definition get_attestations_by_tag :: "address \<Rightarrow> string \<Rightarrow> storage \<Rightarrow> string list" where
  "get_attestations_by_tag subject tag s =
     filter (live s (\<lambda>a. case att_tags a of Some tags \<Rightarrow> tag \<in> set tags | None \<Rightarrow> False))
       (Storage_get_subject_attestations subject s)"

definition get_attestations_by_jurisdiction ::
  "address \<Rightarrow> string \<Rightarrow> u32 \<Rightarrow> u32 \<Rightarrow> storage \<Rightarrow> string list res" where
  "get_attestations_by_jurisdiction subject jurisdiction start limit s =
     paginate (filter (live s (\<lambda>a. att_jurisdiction a = Some jurisdiction))
                 (Storage_get_subject_attestations subject s)) start limit"

definition get_issuer_attestation_count :: "address \<Rightarrow> storage \<Rightarrow> u32" where
  "get_issuer_attestation_count issuer s = of_nat (length (Storage_get_issuer_attestations issuer s))"

fun collect_valid_claims :: "env \<Rightarrow> storage \<Rightarrow> string list \<Rightarrow> string list \<Rightarrow> string list" where
  "collect_valid_claims e s [] result = result"
| "collect_valid_claims e s (i # is) result =
     collect_valid_claims e s is
       (case Storage_get_attestation i s of
          Inr a \<Rightarrow>
            if \<not> att_deleted a \<and> get_status a (timestamp e) = St_Valid \<and>
               att_claim_type a \<notin> set result
            then result @ [att_claim_type a] else result
        | Inl _ \<Rightarrow> result)"

definition get_valid_claims :: "env \<Rightarrow> address \<Rightarrow> storage \<Rightarrow> string list" where
  "get_valid_claims e subject s =
     collect_valid_claims e s (Storage_get_subject_attestations subject s) []"

text \<open>The source walks the index from its end.\<close>

fun scan_by_type :: "env \<Rightarrow> string \<Rightarrow> storage \<Rightarrow> string list \<Rightarrow> nat \<Rightarrow> attestation option" where
  "scan_by_type e claim_type s ids 0 = None"
| "scan_by_type e claim_type s ids (Suc k) =
     (case vec_get ids k of
        None \<Rightarrow> scan_by_type e claim_type s ids k
      | Some i \<Rightarrow>
          (case Storage_get_attestation i s of
             Inr a \<Rightarrow> if \<not> att_deleted a \<and> att_claim_type a = claim_type \<and>
                        get_status a (timestamp e) = St_Valid
                     then Some a else scan_by_type e claim_type s ids k
           | Inl _ \<Rightarrow> scan_by_type e claim_type s ids k))"

definition get_attestation_by_type :: "env \<Rightarrow> address \<Rightarrow> string \<Rightarrow> storage \<Rightarrow> attestation option" where
  "get_attestation_by_type e subject claim_type s =
     (let ids = Storage_get_subject_attestations subject s
      in scan_by_type e claim_type s ids (length ids))"

definition get_subject_attestation_count :: "address \<Rightarrow> storage \<Rightarrow> u32 res" where
  "get_subject_attestation_count = ChunkedIndex_subject_count"

definition get_valid_claim_count :: "env \<Rightarrow> address \<Rightarrow> storage \<Rightarrow> u32" where
  "get_valid_claim_count e subject s =
     of_nat (length (filter (live s (\<lambda>a. get_status a (timestamp e) = St_Valid))
       (Storage_get_subject_attestations subject s)))"

definition get_global_stats :: "storage \<Rightarrow> global_stats" where
  "get_global_stats = Storage_get_global_stats"

subsection \<open>What the queries answer\<close>

text \<open>Queries leave the contract's storage alone; they only publish events and notify callbacks.\<close>

definition same_storage :: "storage \<Rightarrow> storage \<Rightarrow> bool" where
  "same_storage s t \<longleftrightarrow> inst t = inst s \<and> reg t = reg s \<and> atts t = atts s \<and> flow_st t = flow_st s"

lemma same_storage_refl [simp]: "same_storage s s"
  by (simp add: same_storage_def)

lemma maybe_trigger_expiration_hook_same [simp]:
  "same_storage s (maybe_trigger_expiration_hook x i ex t s)"
  by (simp add: same_storage_def maybe_trigger_expiration_hook_def Let_def event_defs
      split: option.splits)

lemma scan_valid_claim_iff:
  "fst (scan_valid_claim e x c ids s) \<longleftrightarrow>
     (\<exists>i \<in> set ids. \<exists>a. attestation_entry (atts s) i = Some a \<and> att_claim_type a = c \<and>
        get_status a (timestamp e) = St_Valid)"
  by (induction ids) (auto simp: get_attestation_entry split: option.splits)

lemma scan_valid_claim_same: "same_storage s (snd (scan_valid_claim e x c ids s))"
  by (induction ids) (auto simp: get_attestation_entry split: option.splits)

lemma scan_claim_from_issuer_iff:
  "attestation_entry (atts t) = attestation_entry (atts s) \<Longrightarrow>
   fst (scan_claim_from_issuer e x c k ids t) \<longleftrightarrow>
     (\<exists>i \<in> set ids. \<exists>a. attestation_entry (atts s) i = Some a \<and> \<not> att_deleted a \<and>
        att_claim_type a = c \<and> att_issuer a = k \<and> get_status a (timestamp e) = St_Valid)"
  by (induction ids arbitrary: t)
    (auto simp: get_attestation_entry event_defs split: option.splits attestation_status.splits)

lemma scan_any_inner_iff:
  "scan_any_inner e x c ids s \<noteq> None \<longleftrightarrow> list_ex (holds_claim e c s) ids"
  by (induction ids) (auto simp: holds_claim_def get_attestation_entry split: option.splits)

lemma scan_any_claim_iff:
  "fst (scan_any_claim e x ids cs s) \<longleftrightarrow> (\<exists>c \<in> set cs. list_ex (holds_claim e c s) ids)"
proof (induction cs)
  case (Cons c cs)
  then show ?case
    using scan_any_inner_iff [of e x c ids s] by (auto split: option.splits)
qed simp

lemma holds_claim_iff:
  "holds_claim e c s i \<longleftrightarrow>
     (\<exists>a. attestation_entry (atts s) i = Some a \<and> \<not> att_deleted a \<and> att_claim_type a = c \<and>
        get_status a (timestamp e) = St_Valid)"
  by (simp add: holds_claim_def get_attestation_entry split: option.splits)

lemma set_collect_valid_claims:
  "set (collect_valid_claims e s ids r) = set r \<union> {c. list_ex (holds_claim e c s) ids}"
  by (induction ids arbitrary: r)
    (auto simp: holds_claim_def get_attestation_entry split: option.splits)

lemma distinct_collect_valid_claims:
  "distinct r \<Longrightarrow> distinct (collect_valid_claims e s ids r)"
  by (induction ids arbitrary: r) (auto split: sum.splits)

lemma scan_by_type_eq:
  "k \<le> length ids \<Longrightarrow> scan_by_type e c s ids k =
     (case List.find (holds_claim e c s) (rev (take k ids)) of
        None \<Rightarrow> None | Some i \<Rightarrow> attestation_entry (atts s) i)"
  by (induction k)
    (auto simp: vec_get_def take_Suc_conv_app_nth holds_claim_def get_attestation_entry
      split: option.splits)

end
