(* ===== verification/TL_Contract.thy ===== *)
theory TL_Contract
  imports TL_Council TL_Index TL_Multisig TL_Request TL_Query
begin

section \<open>The contract as a state machine\<close>

text \<open>
  The entry points of \<^verbatim>\<open>TrustLinkContract\<close> (\<^verbatim>\<open>src/src/lib.rs\<close>) that change the state, as one datatype
  per group, and the dispatcher \<open>exec\<close> that runs one invocation.  An invocation that returns an
  error or traps leaves no trace, so a history of the contract is a sequence of successful ones,
  each in its own environment.

  Where \<^verbatim>\<open>lib.rs\<close> has a body of its own for a handler that \<^verbatim>\<open>attestation.rs\<close> implements too, both are
  calls (\<open>Lib\<close> for the former); results that need the module's version say so.
\<close>

subsection \<open>Calls\<close>

datatype (plugins only: code) admin_call =
    C_initialize address "u32 option"
  | C_transfer_admin address address
  | C_propose_admin_transfer address address
  | C_cancel_admin_transfer address
  | C_accept_admin_transfer address
  | C_add_admin address address
  | C_remove_admin address address
  | C_set_fee address int address "address option"
  | C_set_rate_limit address u64
  | C_set_rate_limit_for_claim_type address string u64
  | C_pause address "string option"
  | C_unpause address
  | C_set_limits address u32 u32
  | C_register_claim_type address string string
  | C_set_require_registered_claim_type address bool

datatype (plugins only: code) registry_call =
    C_register_issuer address address
  | C_remove_issuer address address
  | C_register_bridge address address
  | C_set_issuer_tier address address issuer_tier
  | C_set_issuer_metadata address issuer_metadata
  | C_add_to_whitelist address address
  | C_bulk_add_to_whitelist address "address list"
  | C_remove_from_whitelist address address
  | C_set_whitelist_enabled address bool
  | C_enable_whitelist_mode address
  | C_delegate_claim_type address address string "u64 option"
  | C_revoke_delegation address address string
  | C_register_expiration_hook address address u32
  | C_remove_expiration_hook address
  | C_save_template address string string "string option"
  | C_delete_template address string

datatype (plugins only: code) att_call =
    C_create_attestation address address string "u64 option" "string option" "string list option"
  | C_create_attestation_valid_from address address string "u64 option" "string option"
      "string list option" u64
  | C_create_attestation_jurisdiction address address string "u64 option" "string option"
      "string option" "string list option"
  | C_import_attestation address address address string u64 "u64 option"
  | C_bridge_attestation address address string string string
  | C_create_attestations_batch address "address list" string "u64 option"
  | C_create_attestation_as_delegate address address address string "u64 option" "string option"
  | C_revoke_attestation address string "string option"
  | C_revoke_attestations_batch address "string list" "string option"
  | C_renew_attestation address string "u64 option"
  | C_update_expiration address string "u64 option"
  | C_transfer_attestation address string address
  | C_request_deletion address string
  | C_endorse_attestation address string

datatype (plugins only: code) flow_call =
    C_propose_attestation address address string "address list" u32
  | C_cosign_attestation address string
  | C_request_attestation address address string
  | C_fulfill_request address string "u64 option"
  | C_reject_request address string "string option"
  | C_cancel_request address string
  | C_init_council address "address list" u32
  | C_propose_council_action address council_operation
  | C_approve_council_action address u32
  | C_execute_council_action address u32
  | L_propose_attestation address address string "address list" u32
  | L_cosign_attestation address string

datatype (plugins only: code) lib_call =
    L_bridge_attestation address address string string string
  | L_create_attestations_batch address "address list" string "u64 option"
  | L_revoke_attestation address string "string option"
  | L_revoke_attestations_batch address "string list" "string option"
  | L_request_deletion address string
  | L_register_expiration_hook address address u32

datatype (plugins only: code) call =
  Admin admin_call | Registry registry_call | Att att_call | Flow flow_call | Lib lib_call

subsection \<open>Dispatch\<close>

text \<open>The state a handler leaves behind.\<close>

definition post :: "('a \<times> storage) res \<Rightarrow> storage res" where
  "post r = and_then r (\<lambda>(_, s). Inr s)"

primrec exec_admin :: "env \<Rightarrow> admin_call \<Rightarrow> storage \<Rightarrow> storage res" where
  "exec_admin e (C_initialize a d) s = post (initialize e a d s)"
| "exec_admin e (C_transfer_admin a b) s = post (transfer_admin e a b s)"
| "exec_admin e (C_propose_admin_transfer a b) s = post (propose_admin_transfer e a b s)"
| "exec_admin e (C_cancel_admin_transfer a) s = post (cancel_admin_transfer e a s)"
| "exec_admin e (C_accept_admin_transfer a) s = post (accept_admin_transfer e a s)"
| "exec_admin e (C_add_admin a b) s = post (add_admin e a b s)"
| "exec_admin e (C_remove_admin a b) s = post (remove_admin e a b s)"
| "exec_admin e (C_set_fee a f c t) s = post (set_fee e a f c t s)"
| "exec_admin e (C_set_rate_limit a n) s = post (set_rate_limit e a n s)"
| "exec_admin e (C_set_rate_limit_for_claim_type a c n) s =
     post (set_rate_limit_for_claim_type e a c n s)"
| "exec_admin e (C_pause a r) s = post (lib_pause e a r s)"
| "exec_admin e (C_unpause a) s = post (lib_unpause e a s)"
| "exec_admin e (C_set_limits a m n) s = post (set_limits e a m n s)"
| "exec_admin e (C_register_claim_type a c d) s = post (register_claim_type e a c d s)"
| "exec_admin e (C_set_require_registered_claim_type a b) s =
     post (lib_set_require_registered_claim_type e a b s)"

primrec exec_registry :: "env \<Rightarrow> registry_call \<Rightarrow> storage \<Rightarrow> storage res" where
  "exec_registry e (C_register_issuer a i) s = post (register_issuer e a i s)"
| "exec_registry e (C_remove_issuer a i) s = post (remove_issuer e a i s)"
| "exec_registry e (C_register_bridge a b) s = post (register_bridge e a b s)"
| "exec_registry e (C_set_issuer_tier a i t) s = post (set_issuer_tier e a i t s)"
| "exec_registry e (C_set_issuer_metadata i m) s = post (set_issuer_metadata e i m s)"
| "exec_registry e (C_add_to_whitelist i x) s = post (add_to_whitelist e i x s)"
| "exec_registry e (C_bulk_add_to_whitelist i xs) s = post (bulk_add_to_whitelist e i xs s)"
| "exec_registry e (C_remove_from_whitelist i x) s = post (remove_from_whitelist e i x s)"
| "exec_registry e (C_set_whitelist_enabled i b) s = post (set_whitelist_enabled e i b s)"
| "exec_registry e (C_enable_whitelist_mode i) s = post (enable_whitelist_mode e i s)"
| "exec_registry e (C_delegate_claim_type i d c x) s = post (delegate_claim_type e i d c x s)"
| "exec_registry e (C_revoke_delegation i d c) s = post (revoke_delegation e i d c s)"
| "exec_registry e (C_register_expiration_hook x k n) s = post (register_expiration_hook e x k n s)"
| "exec_registry e (C_remove_expiration_hook x) s = post (remove_expiration_hook e x s)"
| "exec_registry e (C_save_template i t c m) s = post (save_template e i t c m s)"
| "exec_registry e (C_delete_template i t) s = post (delete_template e i t s)"

primrec exec_att :: "env \<Rightarrow> att_call \<Rightarrow> storage \<Rightarrow> storage res" where
  "exec_att e (C_create_attestation i x c ex m tg) s = post (create_attestation e i x c ex m tg s)"
| "exec_att e (C_create_attestation_valid_from i x c ex m tg vf) s =
     post (create_attestation_valid_from e i x c ex m tg vf s)"
| "exec_att e (C_create_attestation_jurisdiction i x c ex m j tg) s =
     post (create_attestation_jurisdiction e i x c ex m j tg s)"
| "exec_att e (C_import_attestation a i x c ts ex) s = post (import_attestation e a i x c ts ex s)"
| "exec_att e (C_bridge_attestation b x c sc st) s = post (bridge_attestation e b x c sc st s)"
| "exec_att e (C_create_attestations_batch i xs c ex) s =
     post (create_attestations_batch e i xs c ex s)"
| "exec_att e (C_create_attestation_as_delegate d i x c ex m) s =
     post (create_attestation_as_delegate e d i x c ex m s)"
| "exec_att e (C_revoke_attestation i k r) s = post (revoke_attestation e i k r s)"
| "exec_att e (C_revoke_attestations_batch i ks r) s = post (revoke_attestations_batch e i ks r s)"
| "exec_att e (C_renew_attestation i k ex) s = post (renew_attestation e i k ex s)"
| "exec_att e (C_update_expiration i k ex) s = post (update_expiration e i k ex s)"
| "exec_att e (C_transfer_attestation a k i) s = post (transfer_attestation e a k i s)"
| "exec_att e (C_request_deletion x k) s = post (request_deletion e x k s)"
| "exec_att e (C_endorse_attestation i k) s = post (endorse_attestation e i k s)"

primrec exec_flow :: "env \<Rightarrow> flow_call \<Rightarrow> storage \<Rightarrow> storage res" where
  "exec_flow e (C_propose_attestation i x c rs n) s = post (propose_attestation e i x c rs n s)"
| "exec_flow e (C_cosign_attestation i p) s = post (cosign_attestation e i p s)"
| "exec_flow e (C_request_attestation x i c) s = post (request_attestation e x i c s)"
| "exec_flow e (C_fulfill_request i r ex) s = post (fulfill_request e i r ex s)"
| "exec_flow e (C_reject_request i r t) s = post (reject_request e i r t s)"
| "exec_flow e (C_cancel_request x r) s = post (cancel_request e x r s)"
| "exec_flow e (C_init_council a ms q) s = post (init_council e a ms q s)"
| "exec_flow e (C_propose_council_action a op) s = post (propose_council_action e a op s)"
| "exec_flow e (C_approve_council_action a p) s = post (approve_council_action e a p s)"
| "exec_flow e (C_execute_council_action a p) s = post (execute_council_action e a p s)"
| "exec_flow e (L_propose_attestation i x c rs n) s = post (lib_propose_attestation e i x c rs n s)"
| "exec_flow e (L_cosign_attestation i p) s = post (lib_cosign_attestation e i p s)"

primrec exec_lib :: "env \<Rightarrow> lib_call \<Rightarrow> storage \<Rightarrow> storage res" where
  "exec_lib e (L_bridge_attestation b x c sc st) s = post (lib_bridge_attestation e b x c sc st s)"
| "exec_lib e (L_create_attestations_batch i xs c ex) s =
     post (lib_create_attestations_batch e i xs c ex s)"
| "exec_lib e (L_revoke_attestation i k r) s = post (lib_revoke_attestation e i k r s)"
| "exec_lib e (L_revoke_attestations_batch i ks r) s =
     post (lib_revoke_attestations_batch e i ks r s)"
| "exec_lib e (L_request_deletion x k) s = post (lib_request_deletion e x k s)"
| "exec_lib e (L_register_expiration_hook x k n) s =
     post (lib_register_expiration_hook e x k n s)"

primrec exec :: "env \<Rightarrow> call \<Rightarrow> storage \<Rightarrow> storage res" where
  "exec e (Admin c) s = exec_admin e c s"
| "exec e (Registry c) s = exec_registry e c s"
| "exec e (Att c) s = exec_att e c s"
| "exec e (Flow c) s = exec_flow e c s"
| "exec e (Lib c) s = exec_lib e c s"

lemma postE [steps]:
  assumes "post r = Inr s'" obtains x where "r = Inr (x, s')"
  using assms by (auto simp: post_def flow)

subsection \<open>Who must authorise a call\<close>

primrec admin_caller :: "admin_call \<Rightarrow> address" where
  "admin_caller (C_initialize a d) = a"
| "admin_caller (C_transfer_admin a b) = a"
| "admin_caller (C_propose_admin_transfer a b) = a"
| "admin_caller (C_cancel_admin_transfer a) = a"
| "admin_caller (C_accept_admin_transfer a) = a"
| "admin_caller (C_add_admin a b) = a"
| "admin_caller (C_remove_admin a b) = a"
| "admin_caller (C_set_fee a f c t) = a"
| "admin_caller (C_set_rate_limit a n) = a"
| "admin_caller (C_set_rate_limit_for_claim_type a c n) = a"
| "admin_caller (C_pause a r) = a"
| "admin_caller (C_unpause a) = a"
| "admin_caller (C_set_limits a m n) = a"
| "admin_caller (C_register_claim_type a c d) = a"
| "admin_caller (C_set_require_registered_claim_type a b) = a"

primrec registry_caller :: "registry_call \<Rightarrow> address" where
  "registry_caller (C_register_issuer a i) = a"
| "registry_caller (C_remove_issuer a i) = a"
| "registry_caller (C_register_bridge a b) = a"
| "registry_caller (C_set_issuer_tier a i t) = a"
| "registry_caller (C_set_issuer_metadata i m) = i"
| "registry_caller (C_add_to_whitelist i x) = i"
| "registry_caller (C_bulk_add_to_whitelist i xs) = i"
| "registry_caller (C_remove_from_whitelist i x) = i"
| "registry_caller (C_set_whitelist_enabled i b) = i"
| "registry_caller (C_enable_whitelist_mode i) = i"
| "registry_caller (C_delegate_claim_type i d c x) = i"
| "registry_caller (C_revoke_delegation i d c) = i"
| "registry_caller (C_register_expiration_hook x k n) = x"
| "registry_caller (C_remove_expiration_hook x) = x"
| "registry_caller (C_save_template i t c m) = i"
| "registry_caller (C_delete_template i t) = i"

primrec att_caller :: "att_call \<Rightarrow> address" where
  "att_caller (C_create_attestation i x c ex m tg) = i"
| "att_caller (C_create_attestation_valid_from i x c ex m tg vf) = i"
| "att_caller (C_create_attestation_jurisdiction i x c ex m j tg) = i"
| "att_caller (C_import_attestation a i x c ts ex) = a"
| "att_caller (C_bridge_attestation b x c sc st) = b"
| "att_caller (C_create_attestations_batch i xs c ex) = i"
| "att_caller (C_create_attestation_as_delegate d i x c ex m) = d"
| "att_caller (C_revoke_attestation i k r) = i"
| "att_caller (C_revoke_attestations_batch i ks r) = i"
| "att_caller (C_renew_attestation i k ex) = i"
| "att_caller (C_update_expiration i k ex) = i"
| "att_caller (C_transfer_attestation a k i) = a"
| "att_caller (C_request_deletion x k) = x"
| "att_caller (C_endorse_attestation i k) = i"

primrec flow_caller :: "flow_call \<Rightarrow> address" where
  "flow_caller (C_propose_attestation i x c rs n) = i"
| "flow_caller (C_cosign_attestation i p) = i"
| "flow_caller (C_request_attestation x i c) = x"
| "flow_caller (C_fulfill_request i r ex) = i"
| "flow_caller (C_reject_request i r t) = i"
| "flow_caller (C_cancel_request x r) = x"
| "flow_caller (C_init_council a ms q) = a"
| "flow_caller (C_propose_council_action a op) = a"
| "flow_caller (C_approve_council_action a p) = a"
| "flow_caller (C_execute_council_action a p) = a"
| "flow_caller (L_propose_attestation i x c rs n) = i"
| "flow_caller (L_cosign_attestation i p) = i"

primrec lib_caller :: "lib_call \<Rightarrow> address" where
  "lib_caller (L_bridge_attestation b x c sc st) = b"
| "lib_caller (L_create_attestations_batch i xs c ex) = i"
| "lib_caller (L_revoke_attestation i k r) = i"
| "lib_caller (L_revoke_attestations_batch i ks r) = i"
| "lib_caller (L_request_deletion x k) = x"
| "lib_caller (L_register_expiration_hook x k n) = x"

primrec caller :: "call \<Rightarrow> address" where
  "caller (Admin c) = admin_caller c"
| "caller (Registry c) = registry_caller c"
| "caller (Att c) = att_caller c"
| "caller (Flow c) = flow_caller c"
| "caller (Lib c) = lib_caller c"

lemmas admin_handlers =
  initialize_def transfer_admin_def propose_admin_transfer_def cancel_admin_transfer_def
  accept_admin_transfer_def add_admin_def remove_admin_def set_fee_def set_rate_limit_def
  set_rate_limit_for_claim_type_def lib_pause_def lib_unpause_def set_limits_def
  register_claim_type_def lib_set_require_registered_claim_type_def

lemmas registry_handlers =
  register_issuer_def remove_issuer_def register_bridge_def set_issuer_tier_def
  set_issuer_metadata_def add_to_whitelist_def bulk_add_to_whitelist_def
  remove_from_whitelist_def set_whitelist_enabled_def enable_whitelist_mode_def
  delegate_claim_type_def revoke_delegation_def register_expiration_hook_def
  remove_expiration_hook_def save_template_def delete_template_def

lemmas att_handlers =
  create_attestation_def create_attestation_valid_from_def create_attestation_jurisdiction_def
  create_attestation_internal_def import_attestation_def bridge_attestation_def
  create_attestations_batch_def create_attestation_as_delegate_def revoke_attestation_def
  revoke_attestations_batch_def renew_attestation_def update_expiration_def
  transfer_attestation_def request_deletion_def endorse_attestation_def

lemmas flow_handlers =
  propose_attestation_def cosign_attestation_def request_attestation_def fulfill_request_def
  reject_request_def cancel_request_def init_council_def propose_council_action_def
  approve_council_action_def execute_council_action_def lib_propose_attestation_def
  lib_cosign_attestation_def

lemmas lib_handlers =
  lib_bridge_attestation_def lib_create_attestations_batch_def lib_revoke_attestation_def
  lib_revoke_attestations_batch_def lib_request_deletion_def lib_register_expiration_hook_def

lemma and_then_require_auth:
  "and_then (require_auth e a) k = Inr b \<Longrightarrow> authorised e a"
  by (simp add: flow)

lemma admin_call_authorised: "exec_admin e c s = Inr s' \<Longrightarrow> authorised e (admin_caller c)"
  by (cases c) (auto simp: admin_handlers flow elim!: postE)

lemma registry_call_authorised: "exec_registry e c s = Inr s' \<Longrightarrow> authorised e (registry_caller c)"
  by (cases c) (auto simp: registry_handlers flow elim!: postE)

lemma att_call_authorised: "exec_att e c s = Inr s' \<Longrightarrow> authorised e (att_caller c)"
  by (cases c) (auto simp: att_handlers elim!: postE dest!: and_then_require_auth)

lemma flow_call_authorised: "exec_flow e c s = Inr s' \<Longrightarrow> authorised e (flow_caller c)"
  by (cases c) (auto simp: flow_handlers elim!: postE dest!: and_then_require_auth)

lemma lib_call_authorised: "exec_lib e c s = Inr s' \<Longrightarrow> authorised e (lib_caller c)"
  by (cases c) (auto simp: lib_handlers elim!: postE dest!: and_then_require_auth)

subsection \<open>Effect of every call on the attestation registry\<close>

text \<open>
  Neither path of \<^verbatim>\<open>multisig.rs\<close> that stores an attestation checks whether the id is taken.  A call
  is free of clashes when no attestation of another subject is stored under the id it would
  write; for every other call the handler checks more than that.
\<close>

definition owner_free :: "string \<Rightarrow> address \<Rightarrow> storage \<Rightarrow> bool" where
  "owner_free i x s =
     (case attestation_entry (atts s) i of None \<Rightarrow> True | Some b \<Rightarrow> att_subject b = x)"

definition proposal_clash_free :: "env \<Rightarrow> string \<Rightarrow> storage \<Rightarrow> bool" where
  "proposal_clash_free e p s =
     (case multisig_entry (flow_st s) p of
        Some q \<Rightarrow> owner_free (generate_id e (ms_proposer q) (ms_subject q) (ms_claim_type q)
                     (ms_created_at q)) (ms_subject q) s
      | None \<Rightarrow> True)"

definition no_clash :: "env \<Rightarrow> call \<Rightarrow> storage \<Rightarrow> bool" where
  "no_clash e c s =
     (case c of
        Flow (C_propose_attestation i x ct rs n) \<Rightarrow>
          owner_free (generate_id e i x ct (timestamp e)) x s
      | Flow (L_propose_attestation i x ct rs n) \<Rightarrow>
          owner_free (generate_id e i x ct (timestamp e)) x s
      | Flow (C_cosign_attestation i p) \<Rightarrow> proposal_clash_free e p s
      | Flow (L_cosign_attestation i p) \<Rightarrow> proposal_clash_free e p s
      | _ \<Rightarrow> True)"

definition module_call :: "call \<Rightarrow> bool" where
  "module_call c =
     (case c of
        Lib _ \<Rightarrow> False
      | Flow (L_propose_attestation i x ct rs n) \<Rightarrow> False
      | Flow (L_cosign_attestation i p) \<Rightarrow> False
      | _ \<Rightarrow> True)"

lemma view_atts: "atts s' = atts s \<Longrightarrow> view s' = view s"
  by (simp add: view_def)

lemma for_each_add_to_whitelist_atts:
  "for_each (Storage_add_to_whitelist i) xs s = Inr s' \<Longrightarrow> atts s' = atts s"
  by (rule for_each_invariant [where I = "\<lambda>t. atts t = atts s"])
    (auto simp: Storage_add_to_whitelist_def set_registry_Inr)

lemma admin_call_atts:
  assumes "exec_admin e c s = Inr s'" shows "atts s' = atts s"
  using assms
  by (cases c; simp only: exec_admin.simps admin_handlers Let_def writers;
      elim steps; simp add: event_defs writers)

lemma registry_call_atts:
  assumes "exec_registry e c s = Inr s'" shows "atts s' = atts s"
proof (cases c)
  case (C_bulk_add_to_whitelist i xs)
  with assms show ?thesis
    by (auto simp: bulk_add_to_whitelist_def flow elim!: postE dest: for_each_add_to_whitelist_atts)
qed (use assms in \<open>simp only: exec_registry.simps registry_handlers Let_def writers;
      elim steps; simp add: event_defs\<close>)+

lemma att_call_vsteps:
  assumes "exec_att e c s = Inr s'" and "ids_ok (view s)"
  shows "(vstep m rw)\<^sup>*\<^sup>* (view s) (view s')"
  using assms
  by (cases c)
    (auto simp: create_attestation_def create_attestation_valid_from_def
       create_attestation_jurisdiction_def elim!: postE
     dest: endorse_attestation_view
     intro: create_attestations_batch_vsteps revoke_attestations_batch_vsteps
       transfer_attestation_vstep
       create_attestation_internal_stores [THEN stores_fresh_vstep, THEN vstep_vsteps]
       import_attestation_stores [THEN stores_fresh_vstep, THEN vstep_vsteps]
       bridge_attestation_stores [THEN stores_fresh_vstep, THEN vstep_vsteps]
       create_attestation_as_delegate_stores [THEN stores_fresh_vstep, THEN vstep_vsteps]
       revoke_attestation_vstep [THEN vstep_vsteps] renew_attestation_vstep [THEN vstep_vsteps]
       update_expiration_vstep [THEN vstep_vsteps] request_deletion_vstep [THEN vstep_vsteps])

lemma propose_attestation_vsteps:
  assumes "propose_attestation e i x c rs n s = Inr (p, s')"
    and "owner_free (generate_id e i x c (timestamp e)) x s"
  shows "(vstep m True)\<^sup>*\<^sup>* (view s) (view s')"
proof (cases "atts s' = atts s")
  case False
  with assms(1) obtain a t where "store_attestation a s = Inr t" "view s' = view t"
    "att_id a = generate_id e i x c (timestamp e)" "att_subject a = x" "\<not> att_revoked a" "\<not> att_deleted a"
    unfolding propose_attestation_def Let_def writers
    by (elim steps) (simp_all add: view_def event_defs)
  then show ?thesis
    using assms(2) store_attestation_vstep [where a = a and s = s and s' = t and m = m and rw = True, THEN vstep_vsteps]
    by (auto simp: owner_free_def split: option.splits)
qed (simp add: view_def)

lemma multisig_attestation_fields:
  "att_id (multisig_attestation e p) =
     generate_id e (ms_proposer p) (ms_subject p) (ms_claim_type p) (ms_created_at p)"
  "att_subject (multisig_attestation e p) = ms_subject p"
  "\<not> att_revoked (multisig_attestation e p)" "\<not> att_deleted (multisig_attestation e p)"
  by (simp_all add: multisig_attestation_def)

lemma cosign_attestation_vsteps:
  assumes "cosign_attestation e i p s = Inr (u, s')" and "proposal_clash_free e p s"
  shows "(vstep m True)\<^sup>*\<^sup>* (view s) (view s')"
proof (cases "atts s' = atts s")
  case False
  with assms(1) obtain q t0 t where q: "multisig_entry (flow_st s) p = Some q"
    and st: "store_attestation (multisig_attestation e (q\<lparr>ms_signers := ms_signers q @ [i],
      ms_finalized := True\<rparr>)) t0 = Inr t" and v: "view s' = view t" and t0: "atts t0 = atts s"
    unfolding cosign_attestation_def Let_def writers Storage_get_multisig_proposal_def
    by (elim steps) (simp_all add: view_def event_defs)
  then show ?thesis
    using assms(2) store_attestation_vstep [OF st, where m = m and rw = True, THEN vstep_vsteps]
    by (auto simp: owner_free_def proposal_clash_free_def multisig_attestation_fields view_atts [OF t0]
        split: option.splits)
qed (simp add: view_def)

lemma fulfill_request_vsteps:
  assumes "fulfill_request e i r x s = Inr (k, s')"
  shows "(vstep m rw)\<^sup>*\<^sup>* (view s) (view s')"
proof -
  from assms obtain a t where "store_attestation a s = Inr t" "view s' = view t"
    "\<not> att_revoked a" "\<not> att_deleted a" "\<not> Storage_has_attestation (att_id a) s"
    unfolding fulfill_request_def Let_def writers
    by (elim steps) (simp add: view_def event_defs)
  then show ?thesis by (intro stores_freshI [THEN stores_fresh_vstep, THEN vstep_vsteps])
qed

lemma request_atts:
  "request_attestation e x i c s = Inr (r, s') \<Longrightarrow> atts s' = atts s"
  "reject_request e i k t s = Inr (u, s') \<Longrightarrow> atts s' = atts s"
  "cancel_request e x k s = Inr (u, s') \<Longrightarrow> atts s' = atts s"
  unfolding request_attestation_def reject_request_def cancel_request_def Let_def writers
  by (elim steps; simp add: event_defs)+

lemma council_atts:
  "init_council e a ms q s = Inr (u, s') \<Longrightarrow> atts s' = atts s"
  "propose_council_action e a op s = Inr (n, s') \<Longrightarrow> atts s' = atts s"
  "approve_council_action e a p s = Inr (u, s') \<Longrightarrow> atts s' = atts s"
  "execute_council_action e a p s = Inr (u, s') \<Longrightarrow> atts s' = atts s"
  unfolding init_council_def propose_council_action_def approve_council_action_def
    execute_council_action_def Let_def writers
  by (elim steps; simp add: event_defs)+

definition multisig_call :: "call \<Rightarrow> bool" where
  "multisig_call c =
     (case c of
        Flow (C_propose_attestation i x ct rs n) \<Rightarrow> True
      | Flow (C_cosign_attestation i p) \<Rightarrow> True
      | Flow (L_propose_attestation i x ct rs n) \<Rightarrow> True
      | Flow (L_cosign_attestation i p) \<Rightarrow> True
      | _ \<Rightarrow> False)"

lemma flow_call_vsteps_fresh:
  assumes "exec_flow e c s = Inr s'" and "\<not> multisig_call (Flow c)"
  shows "(vstep m rw)\<^sup>*\<^sup>* (view s) (view s')"
proof (cases c)
  case (C_fulfill_request i r x)
  with assms show ?thesis by (auto elim!: postE intro: fulfill_request_vsteps)
qed (use assms in \<open>auto simp: multisig_call_def elim!: postE
      dest!: request_atts [THEN view_atts] council_atts [THEN view_atts]\<close>)

subsubsection \<open>The copies in \<open>lib.rs\<close>\<close>

lemma lib_store_attestation_effect:
  assumes "lib_store_attestation a s = Inr s'"
  shows "attestation_entry (atts s') = (attestation_entry (atts s))(att_id a \<mapsto> a) \<and>
    subject_ids (atts s') = add_to (att_subject a) (att_id a) (subject_ids (atts s)) \<and>
    valid_ids (atts s') = valid_ids (atts s) \<and>
    issuer_ids (atts s') = add_to (att_issuer a) (att_id a) (issuer_ids (atts s)) \<and>
    subject_chunk (atts s') = subject_chunk (atts s) \<and>
    issuer_chunk (atts s') = issuer_chunk (atts s) \<and> flow_st s' = flow_st s"
  using assms unfolding lib_store_attestation_def Let_def writers
  by (elim steps) (simp add: readers index_ops)

lemma lib_store_attestation_vstep:
  assumes "lib_store_attestation a s = Inr t" and "view s' = view t" and "\<not> att_revoked a"
    "\<not> att_deleted a"
    and "\<forall>b. attestation_entry (atts s) (att_id a) = Some b \<longrightarrow> rw \<and> att_subject b = att_subject a"
  shows "vstep False rw (view s) (view s')"
proof -
  have "view t = (view s)\<lparr>vw_entry := (vw_entry (view s))(att_id a \<mapsto> a),
      vw_subject := add_to (att_subject a) (att_id a) (vw_subject (view s))\<rparr>"
    using lib_store_attestation_effect [OF assms(1)] by (simp add: view_def)
  then show ?thesis
    using vstep.put_unlisted [where v = "view s" and a = a and rw = rw] assms(2-5)
    by (simp add: view_components)
qed

lemma lib_bridge_attestation_vstep:
  "lib_bridge_attestation e b x c sc stx s = Inr (i, s') \<Longrightarrow> vstep False rw (view s) (view s')"
  unfolding lib_bridge_attestation_def Let_def writers
  by (elim steps, rule lib_store_attestation_vstep, assumption)
    (simp_all add: view_def event_defs Storage_has_attestation_def)

lemma lib_batch_create_one_vstep:
  "lib_batch_create_one e issuer c x lim subject (ids, s) = Inr (ids', s') \<Longrightarrow>
     vstep False rw (view s) (view s')"
  unfolding lib_batch_create_one_def Let_def writers prod.case
  by (elim steps, rule lib_store_attestation_vstep, assumption)
    (simp_all add: view_def event_defs Storage_has_attestation_def)

lemma lib_create_attestations_batch_vsteps:
  assumes "lib_create_attestations_batch e issuer subjects c x s = Inr (ids, s')"
  shows "(vstep False rw)\<^sup>*\<^sup>* (view s) (view s')"
proof -
  from assms obtain t where loop: "for_each (lib_batch_create_one e issuer c x (Storage_get_limits s))
      subjects ([], s) = Inr (ids, t)" and v: "view s' = view t"
    unfolding lib_create_attestations_batch_def Let_def writers
    by (elim steps) (simp_all add: view_def readers)
  have "(\<lambda>(ids, t). (vstep False rw)\<^sup>*\<^sup>* (view s) (view t)) (ids, t)"
    by (rule for_each_invariant [OF loop])
      (auto dest: lib_batch_create_one_vstep intro: rtranclp.rtrancl_into_rtrancl)
  then show ?thesis by (simp add: v)
qed

lemma lib_revoke_attestation_vstep:
  assumes "lib_revoke_attestation e issuer i r s = Inr (u, s')" and ids: "ids_ok (view s)"
  shows "vstep m rw (view s) (view s')"
proof -
  from assms(1) obtain a where a: "vw_entry (view s) i = Some a"
    and v: "att_id a = i \<Longrightarrow> view s' = (view s)\<lparr>
      vw_entry := (vw_entry (view s))(i \<mapsto> a\<lparr>att_revoked := True, att_revocation_reason := r\<rparr>),
      vw_subject := drop_from (att_subject a) i (vw_subject (view s)),
      vw_valid := drop_from (att_subject a) i (vw_valid (view s))\<rparr>"
    unfolding lib_revoke_attestation_def Let_def writers Storage_get_attestation_def
    by (elim steps) (simp_all add: view_def readers index_ops event_defs)
  have "att_id a = i" using a ids by (simp add: ids_ok_def)
  then show ?thesis using vstep.revoke [OF a, where m = m and r = r and rw = rw] by (simp add: v)
qed

lemma lib_revoke_one_vstep:
  assumes "lib_revoke_one e issuer r i s = Inr s'" and ids: "ids_ok (view s)"
  shows "vstep m rw (view s) (view s')"
proof -
  from assms(1) obtain a where a: "vw_entry (view s) i = Some a"
    and v: "att_id a = i \<Longrightarrow> view s' = (view s)\<lparr>
      vw_entry := (vw_entry (view s))(i \<mapsto> a\<lparr>att_revoked := True, att_revocation_reason := r\<rparr>),
      vw_subject := drop_from (att_subject a) i (vw_subject (view s))\<rparr>"
    unfolding lib_revoke_one_def Let_def writers Storage_get_attestation_def
    by (elim steps) (simp_all add: view_def readers index_ops event_defs)
  have "att_id a = i" using a ids by (simp add: ids_ok_def)
  then show ?thesis using vstep.revoke_listed [OF a, where m = m and r = r and rw = rw] by (simp add: v)
qed

lemma lib_revoke_attestations_batch_vsteps:
  assumes "lib_revoke_attestations_batch e issuer xs r s = Inr (n, s')" and ids: "ids_ok (view s)"
  shows "(vstep m rw)\<^sup>*\<^sup>* (view s) (view s')"
proof -
  from assms(1) have loop: "for_each (lib_revoke_one e issuer r) xs s = Inr s'"
    unfolding lib_revoke_attestations_batch_def by (elim steps) simp
  have "(vstep m rw)\<^sup>*\<^sup>* (view s) (view s') \<and> ids_ok (view s')"
    by (rule for_each_invariant [OF loop])
      (use ids in \<open>auto intro: rtranclp.rtrancl_into_rtrancl lib_revoke_one_vstep
        dest: lib_revoke_one_vstep [where m = m and rw = rw, THEN vstep_ids_ok]\<close>)
  then show ?thesis by simp
qed

lemma lib_request_deletion_vstep:
  assumes "lib_request_deletion e subject i s = Inr (u, s')" and ids: "ids_ok (view s)"
  shows "vstep False rw (view s) (view s')"
proof -
  from assms(1) obtain a where a: "vw_entry (view s) i = Some a"
    and v: "att_id a = i \<Longrightarrow> view s' = (view s)\<lparr>
      vw_entry := (vw_entry (view s))(i \<mapsto> a\<lparr>att_deleted := True\<rparr>),
      vw_subject := drop_from (att_subject a) i (vw_subject (view s))\<rparr>"
    unfolding lib_request_deletion_def Let_def writers Storage_get_attestation_def
    by (elim steps) (simp_all add: view_def readers index_ops event_defs)
  have "att_id a = i" using a ids by (simp add: ids_ok_def)
  then show ?thesis using vstep.delete_listed [OF a, where rw = rw] by (simp add: v)
qed

lemma lib_call_vsteps:
  assumes "exec_lib e c s = Inr s'" and "ids_ok (view s)"
  shows "(vstep False rw)\<^sup>*\<^sup>* (view s) (view s')"
proof (cases c)
  case (L_register_expiration_hook x k n)
  with assms have "view s' = view s"
    by (auto simp: lib_register_expiration_hook_def writers set_registry_Inr flow view_def elim!: postE)
  then show ?thesis by simp
qed (use assms in \<open>auto elim!: postE
      intro: lib_bridge_attestation_vstep [THEN vstep_vsteps] lib_create_attestations_batch_vsteps
        lib_revoke_attestation_vstep [THEN vstep_vsteps] lib_revoke_attestations_batch_vsteps
        lib_request_deletion_vstep [THEN vstep_vsteps]\<close>)

lemma lib_propose_attestation_vsteps:
  assumes "lib_propose_attestation e i x c rs n s = Inr (p, s')"
    and "owner_free (generate_id e i x c (timestamp e)) x s"
  shows "(vstep False True)\<^sup>*\<^sup>* (view s) (view s')"
proof (cases "atts s' = atts s")
  case False
  with assms(1) obtain a t where "lib_store_attestation a s = Inr t" "view s' = view t"
    "att_id a = generate_id e i x c (timestamp e)" "att_subject a = x" "\<not> att_revoked a" "\<not> att_deleted a"
    unfolding lib_propose_attestation_def Let_def writers
    by (elim steps) (simp_all add: view_def event_defs)
  then show ?thesis
    using assms(2) lib_store_attestation_vstep [where a = a and s = s and s' = s' and t = t and rw = True, THEN vstep_vsteps]
    by (auto simp: owner_free_def split: option.splits)
qed (simp add: view_def)

lemma lib_cosign_attestation_vsteps:
  assumes "lib_cosign_attestation e i p s = Inr (u, s')" and "proposal_clash_free e p s"
  shows "(vstep False True)\<^sup>*\<^sup>* (view s) (view s')"
proof (cases "atts s' = atts s")
  case False
  with assms(1) obtain q t0 t where q: "multisig_entry (flow_st s) p = Some q"
    and st: "lib_store_attestation (multisig_attestation e (q\<lparr>ms_signers := ms_signers q @ [i],
      ms_finalized := True\<rparr>)) t0 = Inr t" and v: "view s' = view t" and t0: "atts t0 = atts s"
    unfolding lib_cosign_attestation_def Let_def writers Storage_get_multisig_proposal_def
    by (elim steps) (simp_all add: view_def event_defs)
  then show ?thesis
    using assms(2) lib_store_attestation_vstep [OF st v, where rw = True, THEN vstep_vsteps]
    by (auto simp: owner_free_def proposal_clash_free_def multisig_attestation_fields view_atts [OF t0]
        split: option.splits)
qed (simp add: view_def)

lemma flow_call_vsteps:
  assumes "exec_flow e c s = Inr s'" and "no_clash e (Flow c) s" and "m \<Longrightarrow> module_call (Flow c)"
  shows "(vstep m True)\<^sup>*\<^sup>* (view s) (view s')"
proof (cases "multisig_call (Flow c)")
  case True
  with assms show ?thesis
    by (cases c; cases m) (auto simp: no_clash_def multisig_call_def module_call_def elim!: postE
        intro: propose_attestation_vsteps cosign_attestation_vsteps lib_propose_attestation_vsteps
          lib_cosign_attestation_vsteps)
qed (use assms flow_call_vsteps_fresh in auto)

subsection \<open>Reachable states\<close>

text \<open>
  \<open>reachable True\<close>: from deployment, by calls whose handlers are those of the modules;
  \<open>reachable False\<close>: by any call.
\<close>

inductive reachable :: "bool \<Rightarrow> storage \<Rightarrow> bool" for m where
  deployed: "reachable m empty_storage"
| invoked: "\<lbrakk>reachable m s; exec e c s = Inr s'; no_clash e c s; m \<Longrightarrow> module_call c\<rbrakk> \<Longrightarrow>
    reachable m s'"

lemma exec_vsteps_fresh:
  assumes "exec e c s = Inr s'" and "\<not> multisig_call c" and "m \<Longrightarrow> module_call c" and "ids_ok (view s)"
  shows "(vstep m rw)\<^sup>*\<^sup>* (view s) (view s')"
proof (cases c)
  case (Admin d)
  with assms have "view s' = view s" using view_atts [OF admin_call_atts] by simp
  then show ?thesis by simp
next
  case (Registry d)
  with assms have "view s' = view s" using view_atts [OF registry_call_atts] by simp
  then show ?thesis by simp
next
  case (Lib d)
  with assms have "\<not> m" by (auto simp: module_call_def)
  with Lib assms show ?thesis by (simp add: lib_call_vsteps)
qed (use assms att_call_vsteps flow_call_vsteps_fresh in auto)

lemma exec_vsteps:
  assumes "exec e c s = Inr s'" and "no_clash e c s" and "m \<Longrightarrow> module_call c" and "ids_ok (view s)"
  shows "(vstep m True)\<^sup>*\<^sup>* (view s) (view s')"
proof (cases "multisig_call c")
  case True
  then obtain d where "c = Flow d" by (auto simp: multisig_call_def split: call.splits)
  with assms show ?thesis by (auto intro: flow_call_vsteps)
qed (use assms exec_vsteps_fresh in auto)

lemma empty_view_ok: "view_ok m (view empty_storage)"
  by (simp add: view_ok_def ids_ok_def subject_index_ok_def valid_index_ok_def view_def
      empty_storage_def)

lemma reachable_view_ok: "reachable m s \<Longrightarrow> view_ok m (view s)"
proof (induction rule: reachable.induct)
  case deployed
  show ?case by (rule empty_view_ok)
next
  case (invoked s e c s')
  then have "ids_ok (view s)" by (simp add: view_ok_def)
  with invoked show ?case by (blast intro: vsteps_view_ok exec_vsteps)
qed

subsection \<open>What attestation calls leave alone\<close>

lemmas batch_core =
  for_each_snd_core [OF _ batch_create_one_core]
  for_each_snd_core [OF _ lib_batch_create_one_core]
  for_each_core [OF _ batch_revoke_one_core]
  for_each_core [OF _ lib_revoke_one_core]

lemma att_call_core:
  assumes "exec_att e c s = Inr s'" shows "core s' = core s"
  using assms
  by (cases c; simp only: exec_att.simps att_handlers Let_def writers;
      elim steps store_attestation_core [THEN coreE] batch_core [THEN coreE];
      simp add: core_def event_defs)

lemma lib_handlers_core:
  "lib_bridge_attestation e b x c sc st s = Inr (k, s') \<Longrightarrow> core s' = core s"
  "lib_create_attestations_batch e i xs c ex s = Inr (ks, s') \<Longrightarrow> core s' = core s"
  "lib_revoke_attestation e i k r s = Inr (u, s') \<Longrightarrow> core s' = core s"
  "lib_revoke_attestations_batch e i ks r s = Inr (n, s') \<Longrightarrow> core s' = core s"
  "lib_request_deletion e x k s = Inr (u, s') \<Longrightarrow> core s' = core s"
  "lib_register_expiration_hook e x cb d s = Inr (u, s') \<Longrightarrow> core s' = core s"
  unfolding lib_handlers Let_def writers
  by (elim steps lib_store_attestation_core [THEN coreE] batch_core [THEN coreE];
      simp add: core_def event_defs)+

lemma lib_call_core:
  assumes "exec_lib e c s = Inr s'" shows "core s' = core s"
  using assms by (cases c) (auto elim!: postE dest: lib_handlers_core)

end
