(* ===== verification/TL_Invariants.thy ===== *)
theory TL_Invariants
  imports TL_Contract
begin

section \<open>Invariants of the contract's histories\<close>

text \<open>
  Invariants that every call keeps, beyond the attestation indexes: the request workflow, the
  multi-signature proposals, the separation of issuers and bridges, and what no call can undo.
  Each is proved call group by call group from the effects of the handlers.
\<close>

subsection \<open>Frames\<close>

lemma for_each_add_to_whitelist_frame:
  "for_each (Storage_add_to_whitelist i) xs s = Inr s' \<Longrightarrow> core s' = core s"
  by (rule for_each_core) (auto simp: Storage_add_to_whitelist_def set_registry_Inr core_def)

lemma admin_call_frame:
  assumes "exec_admin e c s = Inr s'"
  shows "flow_st s' = flow_st s \<and> issuer_flag (reg s') = issuer_flag (reg s) \<and>
    bridge_flag (reg s') = bridge_flag (reg s)"
  using assms
  by (cases c; simp only: exec_admin.simps admin_handlers Let_def writers;
      elim steps; simp add: event_defs writers)

lemma registry_call_frame:
  assumes "exec_registry e c s = Inr s'"
  shows "flow_st s' = flow_st s \<and> admin_council (inst s') = admin_council (inst s) \<and>
    paused (inst s') = paused (inst s)"
proof (cases c)
  case (C_bulk_add_to_whitelist i xs)
  with assms show ?thesis
    by (auto simp: bulk_add_to_whitelist_def flow elim!: postE
        dest!: for_each_add_to_whitelist_frame elim: coreE)
qed (use assms in \<open>simp only: exec_registry.simps registry_handlers Let_def writers;
      elim steps; simp add: event_defs\<close>)+

text \<open>Only the workflow calls touch requests and proposals.\<close>

lemma exec_flow_st:
  assumes "exec e c s = Inr s'" and "\<And>d. c \<noteq> Flow d"
  shows "flow_st s' = flow_st s"
  using assms admin_call_frame registry_call_frame
  by (cases c) (auto dest!: att_call_core lib_call_core elim!: coreE)

subsection \<open>Requests\<close>

lemma flow_call_requests_ok:
  assumes "exec_flow e c s = Inr s'" and ok: "requests_ok (flow_st s)"
  shows "requests_ok (flow_st s')"
proof -
  have id: "req_id q = r" if "request_entry (flow_st s) r = Some q" for r q
    using ok that by (simp add: requests_ok_def)
  show ?thesis
  proof (cases c)
    case (C_request_attestation x i ct)
    then obtain r where "request_attestation e x i ct s = Inr (r, s')"
      using assms by (auto elim!: postE)
    from request_attestation_effect [OF this] show ?thesis
      by (intro requests_ok_new [OF ok, of "new_request e x i ct"]) (auto simp: new_request_def)
  next
    case (C_fulfill_request i r x)
    then obtain k where "fulfill_request e i r x s = Inr (k, s')"
      using assms by (auto elim!: postE)
    from fulfill_request_effect [OF this] id obtain q where "request_entry (flow_st s) r = Some q"
      and "request_entry (flow_st s') = (request_entry (flow_st s))(r \<mapsto> q\<lparr>req_status := Req_Fulfilled\<rparr>)"
      and "pending_requests (flow_st s') = drop_from (req_issuer q) r (pending_requests (flow_st s))"
      by auto
    with id show ?thesis
      by (intro requests_ok_closed [OF ok, of r q "q\<lparr>req_status := Req_Fulfilled\<rparr>"]) auto
  next
    case (C_reject_request i r t)
    then have "reject_request e i r t s = Inr ((), s')"
      using assms by (auto elim!: postE)
    from reject_request_effect [OF this] id obtain q where "request_entry (flow_st s) r = Some q"
      and "request_entry (flow_st s') = (request_entry (flow_st s))(r \<mapsto> q\<lparr>req_status := Req_Rejected, req_rejection_reason := t\<rparr>)"
      and "pending_requests (flow_st s') = drop_from (req_issuer q) r (pending_requests (flow_st s))"
      by auto
    with id show ?thesis
      by (intro requests_ok_closed [OF ok, of r q "q\<lparr>req_status := Req_Rejected, req_rejection_reason := t\<rparr>"]) auto
  next
    case (C_cancel_request x r)
    then have "cancel_request e x r s = Inr ((), s')"
      using assms by (auto elim!: postE)
    from cancel_request_effect [OF this] id obtain q where "request_entry (flow_st s) r = Some q"
      and "request_entry (flow_st s') = (request_entry (flow_st s))(r \<mapsto> q\<lparr>req_status := Req_Cancelled\<rparr>)"
      and "pending_requests (flow_st s') = drop_from (req_issuer q) r (pending_requests (flow_st s))"
      by auto
    with id show ?thesis
      by (intro requests_ok_closed [OF ok, of r q "q\<lparr>req_status := Req_Cancelled\<rparr>"]) auto
  qed (use assms in \<open>auto elim!: postE simp: requests_ok_def
        dest!: propose_attestation_effect cosign_attestation_effect lib_propose_attestation_effect
          lib_cosign_attestation_effect init_council_effect
          propose_council_action_effect approve_council_action_effect
          execute_council_action_effect\<close>)
qed

lemma exec_requests_ok:
  "exec e c s = Inr s' \<Longrightarrow> requests_ok (flow_st s) \<Longrightarrow> requests_ok (flow_st s')"
  using exec_flow_st [of e c s s'] flow_call_requests_ok [of e _ s s']
  by (cases "\<exists>d. c = Flow d") auto

lemma empty_requests_ok: "requests_ok (flow_st empty_storage)"
  by (simp add: requests_ok_def empty_storage_def)

lemma reachable_requests_ok: "reachable m s \<Longrightarrow> requests_ok (flow_st s)"
  by (induction rule: reachable.induct) (auto intro: exec_requests_ok empty_requests_ok)

text \<open>Once a request is no longer pending, nothing changes it.\<close>

lemma flow_call_closed_request:
  assumes "exec_flow e c s = Inr s'" and ok: "requests_ok (flow_st s)"
    and q: "request_entry (flow_st s) r = Some q" "req_status q \<noteq> Req_Pending"
  shows "request_entry (flow_st s') r = Some q"
proof -
  have id: "req_id q = r" if "request_entry (flow_st s) r = Some q" for r q
    using ok that by (simp add: requests_ok_def)
  show ?thesis
    using assms(1) q id
    by (cases c) (fastforce elim!: postE
        dest!: propose_attestation_effect cosign_attestation_effect lib_propose_attestation_effect
          lib_cosign_attestation_effect init_council_effect
          propose_council_action_effect approve_council_action_effect
          execute_council_action_effect request_attestation_effect fulfill_request_effect
          reject_request_effect cancel_request_effect split: if_splits)+
qed

lemma exec_closed_request:
  assumes "exec e c s = Inr s'" and "requests_ok (flow_st s)"
    and "request_entry (flow_st s) r = Some q" "req_status q \<noteq> Req_Pending"
  shows "request_entry (flow_st s') r = Some q"
  using assms exec_flow_st [of e c s s'] flow_call_closed_request [of e _ s s' r q]
  by (cases "\<exists>d. c = Flow d") auto

subsection \<open>Multi-signature proposals\<close>

lemma proposed_ok:
  assumes "proposals_ok w"
    and "multisig_entry w' = multisig_entry w \<or>
      0 < unat n \<and> unat n \<le> length rs \<and> p = ms_id (new_proposal e i x c rs n) \<and>
      multisig_entry w' = (multisig_entry w)(p \<mapsto> new_proposal e i x c rs n)"
  shows "proposals_ok w'"
  using assms by (auto simp: proposals_ok_def intro: new_proposal_ok split: if_splits)

lemma proposal_signed_ok:
  assumes ok: "proposals_ok w" and q: "multisig_entry w p = Some q" "\<not> ms_finalized q"
      "i \<in> set (ms_required_signers q)" "i \<notin> set (ms_signers q)"
    and w': "multisig_entry w' = (multisig_entry w)
      (ms_id q \<mapsto> q\<lparr>ms_signers := ms_signers q @ [i],
         ms_finalized := unat (ms_threshold q) \<le> Suc (length (ms_signers q))\<rparr>)"
  shows "proposals_ok w'"
proof -
  have "proposal_ok q" using ok q(1) by (simp add: proposals_ok_def)
  from cosigned_ok [OF this q(2-4)] show ?thesis using ok by (simp add: proposals_ok_def w')
qed

lemma flow_call_proposals_ok:
  assumes "exec_flow e c s = Inr s'" and ok: "proposals_ok (flow_st s)"
  shows "proposals_ok (flow_st s')"
proof (cases c)
  case (C_propose_attestation i x ct rs n)
  with assms show ?thesis
    by (auto elim!: postE dest!: propose_attestation_effect intro: proposed_ok [OF ok])
next
  case (L_propose_attestation i x ct rs n)
  with assms show ?thesis
    by (auto elim!: postE dest!: lib_propose_attestation_effect intro: proposed_ok [OF ok])
next
  case (C_cosign_attestation i p)
  with assms show ?thesis
    by (auto elim!: postE dest!: cosign_attestation_effect intro: proposal_signed_ok [OF ok])
next
  case (L_cosign_attestation i p)
  with assms show ?thesis
    by (auto elim!: postE dest!: lib_cosign_attestation_effect intro: proposal_signed_ok [OF ok])
qed (use assms in \<open>auto elim!: postE simp: proposals_ok_def
      dest!: request_attestation_effect fulfill_request_effect reject_request_effect
        cancel_request_effect init_council_effect propose_council_action_effect
        approve_council_action_effect execute_council_action_effect\<close>)

lemma exec_proposals_ok:
  "exec e c s = Inr s' \<Longrightarrow> proposals_ok (flow_st s) \<Longrightarrow> proposals_ok (flow_st s')"
  using exec_flow_st [of e c s s'] flow_call_proposals_ok [of e _ s s']
  by (cases "\<exists>d. c = Flow d") auto

lemma empty_proposals_ok: "proposals_ok (flow_st empty_storage)"
  by (simp add: proposals_ok_def empty_storage_def)

lemma reachable_proposals_ok: "reachable m s \<Longrightarrow> proposals_ok (flow_st s)"
  by (induction rule: reachable.induct) (auto intro: exec_proposals_ok empty_proposals_ok)

subsection \<open>Issuers and bridges\<close>

definition registries_disjoint :: "storage \<Rightarrow> bool" where
  "registries_disjoint s \<longleftrightarrow> (\<forall>a. \<not> (Storage_is_issuer a s \<and> Storage_is_bridge a s))"

lemma registries_disjoint_mono:
  assumes "registries_disjoint s" and "bridge_flag (reg s') = bridge_flag (reg s)"
    and "dom (issuer_flag (reg s')) \<subseteq> dom (issuer_flag (reg s))"
  shows "registries_disjoint s'"
  using assms unfolding registries_disjoint_def readers by (metis domIff subsetD)

lemma core_registries_disjoint:
  "core s' = core s \<Longrightarrow> registries_disjoint s \<Longrightarrow> registries_disjoint s'"
  by (rule registries_disjoint_mono) (auto simp: core_def)

lemma registry_call_disjoint:
  assumes "exec_registry e c s = Inr s'" and "registries_disjoint s"
  shows "registries_disjoint s'"
proof (cases c)
  case (C_bulk_add_to_whitelist i xs)
  with assms show ?thesis
    by (auto simp: bulk_add_to_whitelist_def flow elim!: postE
        intro: core_registries_disjoint [OF for_each_add_to_whitelist_frame])
qed (use assms in \<open>simp only: exec_registry.simps registry_handlers Let_def writers;
      elim steps; auto simp: event_defs registries_disjoint_def readers\<close>)+

lemma flow_call_registries:
  assumes "exec_flow e c s = Inr s'"
  shows "bridge_flag (reg s') = bridge_flag (reg s) \<and>
    dom (issuer_flag (reg s')) \<subseteq> dom (issuer_flag (reg s))"
  using assms
  by (cases c; simp only: exec_flow.simps flow_handlers Let_def writers;
      elim steps store_attestation_core [THEN coreE] lib_store_attestation_core [THEN coreE];
      auto simp: event_defs)

lemma exec_registries_disjoint:
  assumes "exec e c s = Inr s'" and "registries_disjoint s"
  shows "registries_disjoint s'"
proof (cases c)
  case (Admin d)
  with assms show ?thesis
    using admin_call_frame [of e d s s'] by (auto intro: registries_disjoint_mono)
next
  case (Flow d)
  with assms show ?thesis
    using flow_call_registries [of e d s s'] by (auto intro: registries_disjoint_mono)
qed (use assms in \<open>auto intro: registry_call_disjoint core_registries_disjoint
      dest: att_call_core lib_call_core\<close>)

lemma reachable_registries_disjoint: "reachable m s \<Longrightarrow> registries_disjoint s"
proof (induction rule: reachable.induct)
  case deployed
  show ?case by (simp add: registries_disjoint_def readers empty_storage_def)
qed (auto intro: exec_registries_disjoint)

subsection \<open>Roles and pausing\<close>

datatype role = R_Anyone | R_Admin | R_Issuer | R_Bridge

primrec has_role :: "role \<Rightarrow> address \<Rightarrow> storage \<Rightarrow> bool" where
  "has_role R_Anyone a s = True"
| "has_role R_Admin a s = Storage_is_admin a s"
| "has_role R_Issuer a s = Storage_is_issuer a s"
| "has_role R_Bridge a s = Storage_is_bridge a s"

text \<open>The role the caller of an entry point must hold.\<close>

definition role :: "call \<Rightarrow> role" where
  "role c =
     (case c of
        Admin d \<Rightarrow>
          (case d of C_initialize _ _ \<Rightarrow> R_Anyone | C_accept_admin_transfer _ \<Rightarrow> R_Anyone
           | _ \<Rightarrow> R_Admin)
      | Registry d \<Rightarrow>
          (case d of C_register_issuer _ _ \<Rightarrow> R_Admin | C_remove_issuer _ _ \<Rightarrow> R_Admin
           | C_register_bridge _ _ \<Rightarrow> R_Admin | C_set_issuer_tier _ _ _ \<Rightarrow> R_Admin
           | C_register_expiration_hook _ _ _ \<Rightarrow> R_Anyone | C_remove_expiration_hook _ \<Rightarrow> R_Anyone
           | C_delete_template _ _ \<Rightarrow> R_Anyone | _ \<Rightarrow> R_Issuer)
      | Att d \<Rightarrow>
          (case d of C_import_attestation _ _ _ _ _ _ \<Rightarrow> R_Admin
           | C_transfer_attestation _ _ _ \<Rightarrow> R_Admin | C_bridge_attestation _ _ _ _ _ \<Rightarrow> R_Bridge
           | C_create_attestation_as_delegate _ _ _ _ _ _ \<Rightarrow> R_Anyone
           | C_request_deletion _ _ \<Rightarrow> R_Anyone | _ \<Rightarrow> R_Issuer)
      | Flow d \<Rightarrow>
          (case d of C_propose_attestation _ _ _ _ _ \<Rightarrow> R_Issuer | C_cosign_attestation _ _ \<Rightarrow> R_Issuer
           | C_fulfill_request _ _ _ \<Rightarrow> R_Issuer | C_reject_request _ _ _ \<Rightarrow> R_Issuer
           | L_propose_attestation _ _ _ _ _ \<Rightarrow> R_Issuer | L_cosign_attestation _ _ \<Rightarrow> R_Issuer
           | C_request_attestation _ _ _ \<Rightarrow> R_Anyone | C_cancel_request _ _ \<Rightarrow> R_Anyone
           | _ \<Rightarrow> R_Admin)
      | Lib d \<Rightarrow>
          (case d of L_bridge_attestation _ _ _ _ _ \<Rightarrow> R_Bridge | L_request_deletion _ _ \<Rightarrow> R_Anyone
           | L_register_expiration_hook _ _ _ \<Rightarrow> R_Anyone | _ \<Rightarrow> R_Issuer))"

text \<open>The entry points a pause blocks.\<close>

definition pausable :: "call \<Rightarrow> bool" where
  "pausable c =
     (case c of
        Admin d \<Rightarrow> False
      | Registry d \<Rightarrow> (case d of C_register_issuer _ _ \<Rightarrow> True | _ \<Rightarrow> False)
      | Att d \<Rightarrow>
          (case d of C_transfer_attestation _ _ _ \<Rightarrow> False | C_request_deletion _ _ \<Rightarrow> False | _ \<Rightarrow> True)
      | Flow d \<Rightarrow>
          (case d of C_init_council _ _ _ \<Rightarrow> False | C_propose_council_action _ _ \<Rightarrow> False
           | C_approve_council_action _ _ \<Rightarrow> False | C_execute_council_action _ _ \<Rightarrow> False | _ \<Rightarrow> True)
      | Lib d \<Rightarrow>
          (case d of L_bridge_attestation _ _ _ _ _ \<Rightarrow> True | L_create_attestations_batch _ _ _ _ \<Rightarrow> True
           | L_revoke_attestation _ _ _ \<Rightarrow> True | _ \<Rightarrow> False))"

lemma exec_role_admin: "exec_admin e c s = Inr s' \<Longrightarrow> has_role (role (Admin c)) (admin_caller c) s"
  by (cases c; simp only: exec_admin.simps admin_handlers Let_def; elim steps;
      auto simp: role_def readers)

lemma exec_role_registry:
  "exec_registry e c s = Inr s' \<Longrightarrow> has_role (role (Registry c)) (registry_caller c) s"
  by (cases c; simp only: exec_registry.simps registry_handlers Let_def; elim steps;
      auto simp: role_def readers)

lemma exec_role_att: "exec_att e c s = Inr s' \<Longrightarrow> has_role (role (Att c)) (att_caller c) s"
  by (cases c; simp only: exec_att.simps att_handlers Let_def; elim steps;
      simp add: role_def; auto simp: readers)

lemma exec_role_flow: "exec_flow e c s = Inr s' \<Longrightarrow> has_role (role (Flow c)) (flow_caller c) s"
  by (cases c; simp only: exec_flow.simps flow_handlers Let_def; elim steps;
      simp add: role_def readers; auto)

lemma exec_role_lib: "exec_lib e c s = Inr s' \<Longrightarrow> has_role (role (Lib c)) (lib_caller c) s"
  by (cases c; simp only: exec_lib.simps lib_handlers Let_def; elim steps; simp add: role_def)

lemma exec_pausable_att: "exec_att e c s = Inr s' \<Longrightarrow> pausable (Att c) \<Longrightarrow> \<not> Storage_is_paused s"
  by (cases c; simp only: exec_att.simps att_handlers Let_def; elim steps; simp add: pausable_def)

lemma exec_pausable_flow: "exec_flow e c s = Inr s' \<Longrightarrow> pausable (Flow c) \<Longrightarrow> \<not> Storage_is_paused s"
  by (cases c; simp only: exec_flow.simps flow_handlers Let_def; elim steps; simp add: pausable_def)

lemma exec_pausable_lib: "exec_lib e c s = Inr s' \<Longrightarrow> pausable (Lib c) \<Longrightarrow> \<not> Storage_is_paused s"
  by (cases c; simp only: exec_lib.simps lib_handlers Let_def; elim steps; simp add: pausable_def)

lemma exec_pausable_registry:
  "exec_registry e c s = Inr s' \<Longrightarrow> pausable (Registry c) \<Longrightarrow> \<not> Storage_is_paused s"
  by (cases c; simp only: exec_registry.simps registry_handlers Let_def; elim steps;
      simp add: pausable_def)

lemma exec_pausable: "exec e c s = Inr s' \<Longrightarrow> pausable c \<Longrightarrow> \<not> Storage_is_paused s"
  by (cases c) (auto dest: exec_pausable_att exec_pausable_flow exec_pausable_lib
      exec_pausable_registry simp: pausable_def)

end
