(* ===== verification/TL_Creation.thy ===== *)
theory TL_Creation
  imports TL_Attestation
begin

section \<open>When the creation of an attestation succeeds\<close>

text \<open>
  The conditions of \<^verbatim>\<open>create_attestation_internal\<close> (src/src/attestation.rs) gathered in one
  predicate, and the progress argument: every write of the creation path goes through when the
  configured TTL fits its width and the chunked indexes are well formed and have room.
\<close>

lemma subject_chunks_ok_cong:
  assumes "subject_chunk (atts s') = subject_chunk (atts s)" and "inst s' = inst s"
  shows "subject_chunks_ok s' = subject_chunks_ok s"
    and "chunked_subject_list a s' = chunked_subject_list a s"
  using assms ttl_ok_cong [of s' s]
  by (simp_all add: subject_chunks_ok_def chunked_subject_list_def ChunkedIndex_get_subject_ids_def)

lemma issuer_chunks_ok_cong:
  assumes "issuer_chunk (atts s') = issuer_chunk (atts s)" and "inst s' = inst s"
  shows "issuer_chunks_ok s' = issuer_chunks_ok s"
    and "chunked_issuer_list a s' = chunked_issuer_list a s"
  using assms ttl_ok_cong [of s' s]
  by (simp_all add: issuer_chunks_ok_def chunked_issuer_list_def ChunkedIndex_get_issuer_ids_def)

text \<open>A state in which writes do not trap and both chunked indexes are well formed.\<close>

definition storage_ok :: "storage \<Rightarrow> bool" where
  "storage_ok s \<longleftrightarrow> subject_chunks_ok s \<and> issuer_chunks_ok s"

lemma storage_ok_ttl: "storage_ok s \<Longrightarrow> ttl_ok s"
  by (simp add: storage_ok_def subject_chunks_ok_def)

lemma storage_ok_cong:
  "subject_chunk (atts s') = subject_chunk (atts s) \<Longrightarrow> issuer_chunk (atts s') = issuer_chunk (atts s) \<Longrightarrow>
     inst s' = inst s \<Longrightarrow> storage_ok s' = storage_ok s"
  using subject_chunks_ok_cong(1) [of s' s] issuer_chunks_ok_cong(1) [of s' s]
  by (simp add: storage_ok_def)

lemma chunked_add_subject_ok:
  assumes "storage_ok s" and "Suc (length (chunked_subject_list a s)) < 2 ^ 32"
  obtains s' where "ChunkedIndex_add_subject a i s = Inr s'" "storage_ok s'"
    "chunked_subject_list a s' = chunked_subject_list a s @ [i]"
    "\<And>b. chunked_issuer_list b s' = chunked_issuer_list b s" "reg s' = reg s"
proof -
  obtain s' where s': "ChunkedIndex_add_subject a i s = Inr s'" "subject_chunks_ok s'"
    "chunked_subject_list a s' = chunked_subject_list a s @ [i]"
    using chunked_subject.add_law [OF _ assms(2), of i] assms(1) by (auto simp: storage_ok_def)
  obtain c where "inst s' = inst s" "reg s' = reg s"
    "atts s' = (atts s)\<lparr>subject_chunk := (subject_chunk (atts s))(a := c)\<rparr>"
    using ChunkedIndex_add_subject_frame [OF s'(1)] by (auto simp: chunk_frame_def)
  then show ?thesis
    using that s' assms(1) issuer_chunks_ok_cong [of s' s] by (simp add: storage_ok_def)
qed

lemma chunked_add_issuer_ok:
  assumes "storage_ok s" and "Suc (length (chunked_issuer_list a s)) < 2 ^ 32"
  obtains s' where "ChunkedIndex_add_issuer a i s = Inr s'" "storage_ok s'"
    "chunked_issuer_list a s' = chunked_issuer_list a s @ [i]"
    "\<And>b. chunked_subject_list b s' = chunked_subject_list b s" "reg s' = reg s"
proof -
  obtain s' where s': "ChunkedIndex_add_issuer a i s = Inr s'" "issuer_chunks_ok s'"
    "chunked_issuer_list a s' = chunked_issuer_list a s @ [i]"
    using chunked_issuer.add_law [OF _ assms(2), of i] assms(1) by (auto simp: storage_ok_def)
  obtain c where "inst s' = inst s" "reg s' = reg s"
    "atts s' = (atts s)\<lparr>issuer_chunk := (issuer_chunk (atts s))(a := c)\<rparr>"
    using ChunkedIndex_add_issuer_frame [OF s'(1)] by (auto simp: chunk_frame_def)
  then show ?thesis
    using that s' assms(1) subject_chunks_ok_cong [of s' s] by (simp add: storage_ok_def)
qed

text \<open>A write into the attestation store that does not concern the chunks.\<close>

lemma set_atts_ok:
  assumes "storage_ok s" and "\<And>t. subject_chunk (u t) = subject_chunk t"
    and "\<And>t. issuer_chunk (u t) = issuer_chunk t"
  obtains s' where "set_atts k u s = Inr s'" "storage_ok s'" "inst s' = inst s" "reg s' = reg s"
    "\<And>b. chunked_subject_list b s' = chunked_subject_list b s"
    "\<And>b. chunked_issuer_list b s' = chunked_issuer_list b s"
proof -
  let ?s = "extend_persistent k (lifetime s) (atts_update u s)"
  have "set_atts k u s = Inr ?s"
    using storage_ok_ttl [OF assms(1)] by (simp add: set_atts_Inr)
  moreover have "storage_ok ?s" using assms storage_ok_cong [of ?s s] by simp
  ultimately show ?thesis
    using that [of ?s] assms(2,3) subject_chunks_ok_cong(2) [of ?s s]
      issuer_chunks_ok_cong(2) [of ?s s] by simp
qed

lemma set_registry_ok:
  assumes "storage_ok s"
  obtains s' where "set_registry k u s = Inr s'" "storage_ok s'"
proof -
  let ?s = "extend_persistent k (lifetime s) (reg_update u s)"
  have "set_registry k u s = Inr ?s"
    using storage_ok_ttl [OF assms(1)] by (simp add: set_registry_Inr)
  moreover have "storage_ok ?s" using assms storage_ok_cong [of ?s s] by simp
  ultimately show ?thesis by (rule that)
qed

lemma set_global_stats_ok:
  assumes "storage_ok s"
  obtains s' where "Storage_set_global_stats g s = Inr s'" "storage_ok s'"
proof -
  let ?s = "extend_instance (lifetime s) (inst_update (global_stats_update (\<lambda>_. Some g)) s)"
  have ttl: "ttl_ok s" using assms by (rule storage_ok_ttl)
  then have "Storage_set_global_stats g s = Inr ?s"
    by (simp add: Storage_set_global_stats_def set_instance_Inr)
  moreover have "storage_ok ?s"
    using assms by (simp add: storage_ok_def subject_chunks_ok_def issuer_chunks_ok_def
        chunked_subject_list_def chunked_issuer_list_def ChunkedIndex_get_subject_ids_def
        ChunkedIndex_get_issuer_ids_def)
  ultimately show ?thesis by (rule that)
qed

lemma store_attestation_succeeds:
  assumes ok: "storage_ok s"
    and room: "Suc (length (chunked_subject_list (att_subject a) s)) < 2 ^ 32"
      "Suc (length (chunked_issuer_list (att_issuer a) s)) < 2 ^ 32"
    and count: "Suc (unat (total_issued (Storage_get_issuer_stats (att_issuer a) s))) < 2 ^ 64"
  obtains s' where "store_attestation a s = Inr s'" "storage_ok s'"
proof -
  let ?x = "att_subject a" and ?k = "att_issuer a" and ?i = "att_id a"
  obtain s1 where 1: "Storage_set_attestation a s = Inr s1" "storage_ok s1" "reg s1 = reg s"
    "\<And>b. chunked_subject_list b s1 = chunked_subject_list b s"
    "\<And>b. chunked_issuer_list b s1 = chunked_issuer_list b s"
    unfolding Storage_set_attestation_def
    by (rule set_atts_ok [OF ok, where u = "attestation_entry_update (\<lambda>m. m(?i \<mapsto> a))" and k = "K_Attestation ?i"])
      simp_all
  obtain s2 where 2: "Storage_add_subject_attestation ?x ?i s1 = Inr s2" "storage_ok s2" "reg s2 = reg s1"
    "\<And>b. chunked_subject_list b s2 = chunked_subject_list b s1"
    "\<And>b. chunked_issuer_list b s2 = chunked_issuer_list b s1"
    unfolding Storage_add_subject_attestation_def Let_def
    by (rule set_atts_ok [OF 1(2), where k = "K_SubjectAttestations ?x"
          and u = "subject_ids_update (\<lambda>m. m(?x \<mapsto> Storage_get_subject_attestations ?x s1 @ [?i]))"])
      simp_all
  obtain s3 where 3: "Storage_add_issuer_attestation ?k ?i s2 = Inr s3" "storage_ok s3" "reg s3 = reg s2"
    "\<And>b. chunked_subject_list b s3 = chunked_subject_list b s2"
    "\<And>b. chunked_issuer_list b s3 = chunked_issuer_list b s2"
    unfolding Storage_add_issuer_attestation_def Let_def
    by (rule set_atts_ok [OF 2(2), where k = "K_IssuerAttestations ?k"
          and u = "issuer_ids_update (\<lambda>m. m(?k \<mapsto> Storage_get_issuer_attestations ?k s2 @ [?i]))"])
      simp_all
  obtain s4 where 4: "Storage_add_valid_attestation ?x ?i s3 = Inr s4" "storage_ok s4" "reg s4 = reg s3"
    "\<And>b. chunked_subject_list b s4 = chunked_subject_list b s3"
    "\<And>b. chunked_issuer_list b s4 = chunked_issuer_list b s3"
    unfolding Storage_add_valid_attestation_def Let_def
    by (rule set_atts_ok [OF 3(2), where k = "K_ValidAttestations ?x"
          and u = "valid_ids_update (\<lambda>m. m(?x \<mapsto> Storage_get_valid_attestations ?x s3 @ [?i]))"])
      simp_all
  obtain s5 where 5: "ChunkedIndex_add_subject ?x ?i s4 = Inr s5" "storage_ok s5" "reg s5 = reg s4"
    "\<And>b. chunked_issuer_list b s5 = chunked_issuer_list b s4"
    by (rule chunked_add_subject_ok [OF 4(2), of ?x ?i]) (use room(1) 1(4) 2(4) 3(4) 4(4) in simp_all)
  obtain s6 where 6: "ChunkedIndex_add_issuer ?k ?i s5 = Inr s6" "storage_ok s6" "reg s6 = reg s5"
    by (rule chunked_add_issuer_ok [OF 5(2), of ?k ?i])
      (use room(2) 1(5) 2(5) 3(5) 4(5) 5(4) in simp_all)
  have "Storage_get_issuer_stats ?k s6 = Storage_get_issuer_stats ?k s"
    using 1(3) 2(3) 3(3) 4(3) 5(3) 6(3) by (simp add: Storage_get_issuer_stats_def)
  then have add: "checked_add (total_issued (Storage_get_issuer_stats ?k s6)) 1 =
      Inr (total_issued (Storage_get_issuer_stats ?k s) + 1)"
    using count by (simp add: checked_add_def)
  obtain s7 where 7: "Storage_set_issuer_stats ?k ((Storage_get_issuer_stats ?k s6)
      \<lparr>total_issued := total_issued (Storage_get_issuer_stats ?k s) + 1\<rparr>) s6 = Inr s7" "storage_ok s7"
    unfolding Storage_set_issuer_stats_def by (rule set_registry_ok [OF 6(2)])
  obtain s8 where 8: "Storage_increment_total_attestations 1 s7 = Inr s8" "storage_ok s8"
    unfolding Storage_increment_total_attestations_def Let_def by (rule set_global_stats_ok [OF 7(2)])
  show ?thesis
    by (rule that [of s8]) (simp_all add: store_attestation_def Let_def 1(1) 2(1) 3(1) 4(1) 5(1) 6(1) add 7(1) 8)
qed

text \<open>The conditions of \<^verbatim>\<open>create_attestation_internal\<close>, in one place, and those of the fee.\<close>

definition creation_allowed ::
  "env \<Rightarrow> address \<Rightarrow> address \<Rightarrow> string \<Rightarrow> u64 option \<Rightarrow> string option \<Rightarrow> string option \<Rightarrow>
   string list option \<Rightarrow> u64 option \<Rightarrow> storage \<Rightarrow> bool" where
  "creation_allowed e issuer subject claim_type expiration metadata jurisdiction tags valid_from s \<longleftrightarrow>
     authorised e issuer \<and> \<not> Storage_is_paused s \<and> Storage_is_issuer issuer s \<and>
     validate_claim_type claim_type = Inr () \<and> require_registered_claim_type claim_type s = Inr () \<and>
     validate_metadata metadata = Inr () \<and> validate_jurisdiction jurisdiction = Inr () \<and>
     validate_tags tags = Inr () \<and> validate_native_expiration e expiration = Inr () \<and>
     validate_valid_from e valid_from = Inr () \<and> issuer \<noteq> subject \<and>
     (Storage_is_whitelist_enabled issuer s \<longrightarrow> Storage_is_whitelisted issuer subject s) \<and>
     check_rate_limit e issuer claim_type s = Inr () \<and>
     length (Storage_get_issuer_attestations issuer s)
       < unat (max_attestations_per_issuer (Storage_get_limits s)) \<and>
     length (Storage_get_subject_attestations subject s)
       < unat (max_attestations_per_subject (Storage_get_limits s)) \<and>
     \<not> Storage_has_attestation (generate_id e issuer subject claim_type (timestamp e)) s"

definition fee_payable :: "env \<Rightarrow> address \<Rightarrow> storage \<Rightarrow> bool" where
  "fee_payable e issuer s \<longleftrightarrow>
     (\<exists>fc. fee_config (inst s) = Some fc \<and>
        (attestation_fee fc = 0 \<or>
         (\<exists>tok. fee_token fc = Some tok \<and>
            token_transfer_ok e tok issuer (fee_collector fc) (attestation_fee fc))))"

definition native_attestation ::
  "env \<Rightarrow> address \<Rightarrow> address \<Rightarrow> string \<Rightarrow> u64 option \<Rightarrow> string option \<Rightarrow> string option \<Rightarrow>
   string list option \<Rightarrow> u64 option \<Rightarrow> attestation" where
  "native_attestation e issuer subject c x md j tg vf =
     \<lparr>att_id = generate_id e issuer subject c (timestamp e), att_issuer = issuer,
      att_subject = subject, att_claim_type = c, att_timestamp = timestamp e,
      att_expiration = x, att_revoked = False, att_metadata = md, att_jurisdiction = j,
      att_valid_from = vf, att_origin = Origin_Native, att_source_chain = None,
      att_source_tx = None, att_tags = tg, att_revocation_reason = None, att_deleted = False\<rparr>"

lemma charge_attestation_fee_ok:
  assumes "fee_payable e issuer s" obtains s' where "charge_attestation_fee e issuer s = Inr s'"
  using that assms
  by (cases "\<exists>fc. fee_config (inst s) = Some fc \<and> attestation_fee fc = 0")
    (auto simp: fee_payable_def charge_attestation_fee_def load_fee_config_def
      Storage_get_fee_config_def)

lemma charge_attestation_fee_payable:
  "charge_attestation_fee e issuer s = Inr s' \<Longrightarrow> fee_payable e issuer s"
  by (auto simp: fee_payable_def charge_attestation_fee_def load_fee_config_def
      Storage_get_fee_config_def flow split: if_splits)

lemma fee_payable_cong:
  "fee_config (inst s') = fee_config (inst s) \<Longrightarrow> fee_payable e i s' = fee_payable e i s"
  by (simp add: fee_payable_def)

lemma store_attestation_fee_config:
  "store_attestation a s = Inr s' \<Longrightarrow> fee_config (inst s') = fee_config (inst s)"
  unfolding store_attestation_def Let_def writers by (elim steps) simp

lemma create_attestation_internal_Inr:
  "create_attestation_internal e issuer subject c x md j tg vf s = Inr (i, s') \<longleftrightarrow>
     creation_allowed e issuer subject c x md j tg vf s \<and>
     i = generate_id e issuer subject c (timestamp e) \<and>
     (\<exists>s1 s2 s3 s4.
        store_attestation (native_attestation e issuer subject c x md j tg vf) s = Inr s1 \<and>
        Storage_append_audit_entry i \<lparr>ae_action = Audit_Created, ae_actor = issuer,
          ae_timestamp = timestamp e, ae_details = None\<rparr> s1 = Inr s2 \<and>
        Storage_set_last_issuance_time issuer (timestamp e) s2 = Inr s3 \<and>
        charge_attestation_fee e issuer s3 = Inr s4 \<and>
        s' = Events_attestation_created (native_attestation e issuer subject c x md j tg vf) s4)"
  unfolding create_attestation_internal_def Let_def creation_allowed_def native_attestation_def
    and_then_Inr ensure_Inr require_auth_Inr require_not_paused_Inr require_issuer_Inr not_le
  by auto

lemma append_audit_entry_ok:
  assumes "storage_ok s"
  obtains s' where "Storage_append_audit_entry i en s = Inr s'" "storage_ok s'" "inst s' = inst s"
  unfolding Storage_append_audit_entry_def Let_def
  by (rule set_atts_ok [OF assms, where k = "K_AuditLog i"
        and u = "audit_log_update (\<lambda>m. m(i \<mapsto> Storage_get_audit_log i s @ [en]))"])
    (use that in simp_all)

lemma create_attestation_internal_fee_payable:
  assumes "create_attestation_internal e issuer subject c x md j tg vf s = Inr (i, s')"
  shows "fee_payable e issuer s"
proof -
  obtain s1 s2 s3 s4 where 1: "store_attestation (native_attestation e issuer subject c x md j tg vf) s = Inr s1"
    and 2: "Storage_append_audit_entry i \<lparr>ae_action = Audit_Created, ae_actor = issuer,
      ae_timestamp = timestamp e, ae_details = None\<rparr> s1 = Inr s2"
    and 3: "Storage_set_last_issuance_time issuer (timestamp e) s2 = Inr s3"
    and 4: "charge_attestation_fee e issuer s3 = Inr s4"
    using assms unfolding create_attestation_internal_Inr by blast
  have "inst s3 = inst s1"
    using 2 3 unfolding writers by (elim steps) simp
  then have "fee_config (inst s3) = fee_config (inst s)"
    using store_attestation_fee_config [OF 1] by simp
  then show ?thesis
    using charge_attestation_fee_payable [OF 4] by (simp add: fee_payable_def)
qed

lemma create_attestation_internal_progress:
  assumes ok: "storage_ok s"
    and room: "Suc (length (chunked_subject_list subject s)) < 2 ^ 32"
      "Suc (length (chunked_issuer_list issuer s)) < 2 ^ 32"
    and count: "Suc (unat (total_issued (Storage_get_issuer_stats issuer s))) < 2 ^ 64"
    and allowed: "creation_allowed e issuer subject c x md j tg vf s" and fee: "fee_payable e issuer s"
  shows "\<exists>s'. create_attestation_internal e issuer subject c x md j tg vf s =
    Inr (generate_id e issuer subject c (timestamp e), s')"
proof -
  let ?a = "native_attestation e issuer subject c x md j tg vf"
  have a: "att_subject ?a = subject" "att_issuer ?a = issuer"
    by (simp_all add: native_attestation_def)
  obtain s1 where 1: "store_attestation ?a s = Inr s1" "storage_ok s1"
    by (rule store_attestation_succeeds [OF ok, of ?a]) (use room count a in simp_all)
  obtain s2 where 2: "Storage_append_audit_entry (generate_id e issuer subject c (timestamp e))
      \<lparr>ae_action = Audit_Created, ae_actor = issuer, ae_timestamp = timestamp e,
       ae_details = None\<rparr> s1 = Inr s2" "storage_ok s2" "inst s2 = inst s1"
    by (rule append_audit_entry_ok [OF 1(2)])
  obtain s3 where 3: "Storage_set_last_issuance_time issuer (timestamp e) s2 = Inr s3" "storage_ok s3"
    unfolding Storage_set_last_issuance_time_def by (rule set_registry_ok [OF 2(2)])
  have "inst s3 = inst s2"
    using 3(1) unfolding Storage_set_last_issuance_time_def by (elim steps)
  then have "fee_payable e issuer s3"
    using fee fee_payable_cong [of s3 s] 2(3) store_attestation_fee_config [OF 1(1)] by simp
  then obtain s4 where "charge_attestation_fee e issuer s3 = Inr s4"
    by (rule charge_attestation_fee_ok)
  with allowed 1 2 3 show ?thesis unfolding create_attestation_internal_Inr by blast
qed

subsection \<open>What creation does\<close>

text \<open>The whole of what the storage helper does: the record, the three flat lists, the chunks of one subject
  and one issuer, two counters.\<close>

lemma store_attestation_state:
  assumes "store_attestation a s = Inr s'"
  shows "atts s' = (atts s)\<lparr>attestation_entry := (attestation_entry (atts s))(att_id a \<mapsto> a),
       subject_ids := add_to (att_subject a) (att_id a) (subject_ids (atts s)),
       valid_ids := add_to (att_subject a) (att_id a) (valid_ids (atts s)),
       issuer_ids := add_to (att_issuer a) (att_id a) (issuer_ids (atts s)),
       subject_chunk := (subject_chunk (atts s))(att_subject a := subject_chunk (atts s') (att_subject a)),
       issuer_chunk := (issuer_chunk (atts s))(att_issuer a := issuer_chunk (atts s') (att_issuer a))\<rparr>" (is ?A)
    and "\<exists>l. ChunkedIndex_get_subject_ids (att_subject a) s = Inr l \<and>
       ChunkedIndex_get_subject_ids (att_subject a) s' = Inr (l @ [att_id a])" (is ?B)
    and "\<exists>l. ChunkedIndex_get_issuer_ids (att_issuer a) s = Inr l \<and>
       ChunkedIndex_get_issuer_ids (att_issuer a) s' = Inr (l @ [att_id a])" (is ?C)
    and "reg s' = (reg s)\<lparr>issuer_stats := (issuer_stats (reg s))(att_issuer a \<mapsto> (Storage_get_issuer_stats (att_issuer a) s)
       \<lparr>total_issued := total_issued (Storage_get_issuer_stats (att_issuer a) s) + 1\<rparr>)\<rparr>" (is ?D)
    and "inst s' = (inst s)\<lparr>global_stats := Some ((Storage_get_global_stats s)
       \<lparr>total_attestations := saturating_add (total_attestations (Storage_get_global_stats s)) 1\<rparr>)\<rparr>" (is ?E)
    and "events (host s') = events (host s)" (is ?F)
proof -
  note unf = store_attestation_def Let_def writers ChunkedIndex_get_subject_ids_def ChunkedIndex_get_issuer_ids_def
  show ?A ?B ?C ?D ?E ?F
    using assms unfolding unf by (elim chunk_reads steps; simp add: readers index_ops)+
qed

lemma create_attestation_internal_state:
  assumes "create_attestation_internal e issuer subject c x md j tg vf s = Inr (i, s')"
  defines "a \<equiv> native_attestation e issuer subject c x md j tg vf"
  shows "atts s' = (atts s)\<lparr>attestation_entry := (attestation_entry (atts s))(i \<mapsto> a),
       subject_ids := add_to subject i (subject_ids (atts s)), valid_ids := add_to subject i (valid_ids (atts s)),
       issuer_ids := add_to issuer i (issuer_ids (atts s)),
       subject_chunk := (subject_chunk (atts s))(subject := subject_chunk (atts s') subject),
       issuer_chunk := (issuer_chunk (atts s))(issuer := issuer_chunk (atts s') issuer),
       audit_log := add_to i \<lparr>ae_action = Audit_Created, ae_actor = issuer, ae_timestamp = timestamp e,
         ae_details = None\<rparr> (audit_log (atts s))\<rparr>" (is ?A)
    and "\<exists>l. ChunkedIndex_get_subject_ids subject s = Inr l \<and>
       ChunkedIndex_get_subject_ids subject s' = Inr (l @ [i])" (is ?B)
    and "\<exists>l. ChunkedIndex_get_issuer_ids issuer s = Inr l \<and>
       ChunkedIndex_get_issuer_ids issuer s' = Inr (l @ [i])" (is ?C)
    and "reg s' = (reg s)\<lparr>issuer_stats := (issuer_stats (reg s))(issuer \<mapsto> (Storage_get_issuer_stats issuer s)
         \<lparr>total_issued := total_issued (Storage_get_issuer_stats issuer s) + 1\<rparr>),
       last_issuance_time := (last_issuance_time (reg s))(issuer \<mapsto> timestamp e)\<rparr>" (is ?D)
    and "inst s' = (inst s)\<lparr>global_stats := Some ((Storage_get_global_stats s)
       \<lparr>total_attestations := saturating_add (total_attestations (Storage_get_global_stats s)) 1\<rparr>)\<rparr>" (is ?E)
    and "flow_st s' = flow_st s" (is ?F)
    and "events (host s') = events (host (Events_attestation_created a s))" (is ?G)
proof -
  obtain s1 s2 s3 s4 where 1: "store_attestation a s = Inr s1"
    and 2: "Storage_append_audit_entry i \<lparr>ae_action = Audit_Created, ae_actor = issuer,
      ae_timestamp = timestamp e, ae_details = None\<rparr> s1 = Inr s2"
    and 3: "Storage_set_last_issuance_time issuer (timestamp e) s2 = Inr s3"
    and 4: "charge_attestation_fee e issuer s3 = Inr s4"
    and 5: "s' = Events_attestation_created a s4" and f: "att_id a = i" "att_subject a = subject" "att_issuer a = issuer"
    using assms(1) unfolding create_attestation_internal_Inr a_def by (auto simp: native_attestation_def)
  from 2 3 have "inst s3 = inst s1" "flow_st s3 = flow_st s1" "events (host s3) = events (host s1)"
    "reg s3 = (reg s1)\<lparr>last_issuance_time := (last_issuance_time (reg s1))(issuer \<mapsto> timestamp e)\<rparr>"
    "atts s3 = (atts s1)\<lparr>audit_log := add_to i \<lparr>ae_action = Audit_Created, ae_actor = issuer,
       ae_timestamp = timestamp e, ae_details = None\<rparr> (audit_log (atts s1))\<rparr>"
    unfolding Storage_append_audit_entry_def Storage_set_last_issuance_time_def Let_def
    by (elim steps; simp add: readers index_ops)+
  with charge_attestation_fee_frame [OF 4] have s': "inst s' = inst s1" "flow_st s' = flow_st s1"
    "events (host s') = events (host (Events_attestation_created a s1))"
    "reg s' = (reg s1)\<lparr>last_issuance_time := (last_issuance_time (reg s1))(issuer \<mapsto> timestamp e)\<rparr>"
    "atts s' = (atts s1)\<lparr>audit_log := add_to i \<lparr>ae_action = Audit_Created, ae_actor = issuer,
       ae_timestamp = timestamp e, ae_details = None\<rparr> (audit_log (atts s1))\<rparr>"
    by (simp_all add: 5 event_defs publish_def)
  note st = store_attestation_state [OF 1, unfolded f]
  show ?B ?C using st(2,3) by (simp_all add: s' ChunkedIndex_get_subject_ids_def ChunkedIndex_get_issuer_ids_def)
  show ?D ?E ?F ?G
    using st(4-6) store_attestation_effect [OF 1] by (simp_all add: s' event_defs publish_def)
  obtain c d where "atts s1 = (atts s)\<lparr>attestation_entry := (attestation_entry (atts s))(i \<mapsto> a),
       subject_ids := add_to subject i (subject_ids (atts s)), valid_ids := add_to subject i (valid_ids (atts s)),
       issuer_ids := add_to issuer i (issuer_ids (atts s)),
       subject_chunk := (subject_chunk (atts s))(subject := c), issuer_chunk := (issuer_chunk (atts s))(issuer := d)\<rparr>"
    using st(1) by blast
  then show ?A by (simp add: s')
qed

lemma create_attestation_internal_effect:
  assumes "create_attestation_internal e issuer subject c x md j tg vf s = Inr (i, s')"
  defines "a \<equiv> native_attestation e issuer subject c x md j tg vf"
  shows "i = att_id a"
    and "attestation_entry (atts s') = (attestation_entry (atts s))(i \<mapsto> a)"
    and "subject_ids (atts s') = add_to subject i (subject_ids (atts s))"
    and "valid_ids (atts s') = add_to subject i (valid_ids (atts s))"
    and "issuer_ids (atts s') = add_to issuer i (issuer_ids (atts s))"
    and "audit_log (atts s') = add_to i \<lparr>ae_action = Audit_Created, ae_actor = issuer,
           ae_timestamp = timestamp e, ae_details = None\<rparr> (audit_log (atts s))"
    and "endorsements (atts s') = endorsements (atts s)"
    and "endorser_index (atts s') = endorser_index (atts s)"
    and "flow_st s' = flow_st s"
    and "inst s' = (inst s)\<lparr>global_stats := global_stats (inst s')\<rparr>"
    and "reg s' = (reg s)\<lparr>issuer_stats := issuer_stats (reg s'),
           last_issuance_time := (last_issuance_time (reg s))(issuer \<mapsto> timestamp e)\<rparr>"
proof -
  note st = create_attestation_internal_state [OF assms(1), folded a_def]
  obtain f g where A: "atts s' = (atts s)\<lparr>attestation_entry := (attestation_entry (atts s))(i \<mapsto> a),
       subject_ids := add_to subject i (subject_ids (atts s)), valid_ids := add_to subject i (valid_ids (atts s)),
       issuer_ids := add_to issuer i (issuer_ids (atts s)), subject_chunk := f, issuer_chunk := g,
       audit_log := add_to i \<lparr>ae_action = Audit_Created, ae_actor = issuer, ae_timestamp = timestamp e,
         ae_details = None\<rparr> (audit_log (atts s))\<rparr>"
    using st(1) by blast
  show "i = att_id a"
    using assms(1) unfolding create_attestation_internal_Inr a_def by (auto simp: native_attestation_def)
  show "attestation_entry (atts s') = (attestation_entry (atts s))(i \<mapsto> a)"
    "subject_ids (atts s') = add_to subject i (subject_ids (atts s))"
    "valid_ids (atts s') = add_to subject i (valid_ids (atts s))"
    "issuer_ids (atts s') = add_to issuer i (issuer_ids (atts s))"
    "audit_log (atts s') = add_to i \<lparr>ae_action = Audit_Created, ae_actor = issuer,
           ae_timestamp = timestamp e, ae_details = None\<rparr> (audit_log (atts s))"
    "endorsements (atts s') = endorsements (atts s)" "endorser_index (atts s') = endorser_index (atts s)"
    by (simp_all add: A)
  show "flow_st s' = flow_st s" by (rule st(6))
  show "inst s' = (inst s)\<lparr>global_stats := global_stats (inst s')\<rparr>" by (simp add: st(5))
  show "reg s' = (reg s)\<lparr>issuer_stats := issuer_stats (reg s'),
           last_issuance_time := (last_issuance_time (reg s))(issuer \<mapsto> timestamp e)\<rparr>" by (simp add: st(4))
qed

end
