(* ===== verification/TL_Scenario.thy ===== *)
theory TL_Scenario
  imports TL_Invariants TL_Creation
begin

section \<open>A concrete history\<close>

text \<open>
  A host environment with simple stand-ins for the hash and the serialisers, and a short history of
  the contract in it: deployment, initialisation, the registration of an issuer, the creation of an
  attestation.  The properties are applied to its states to show that their hypotheses can hold;
  nothing else depends on the choices made here.  The states are written out, and each is shown to
  be what the call computes from the one before.
\<close>

definition host_at :: "u64 \<Rightarrow> env" where
  "host_at t = \<lparr>timestamp = t, authorised = (\<lambda>_. True), current_contract_address = Address 0,
     sha256 = (\<lambda>p. take 32 (p @ replicate 32 0)),
     address_xdr = (\<lambda>a. case a of Address n \<Rightarrow> [of_nat n]),
     string_xdr = (\<lambda>cs. ascii_bytes cs @ [0]), u64_xdr = (\<lambda>n. [ucast n]),
     address_to_string = (\<lambda>_. ''G''), token_transfer_ok = (\<lambda>_ _ _ _. True),
     token_balance_ok = (\<lambda>_ _. True)\<rparr>"

lemma host_at_simps [simp]: "timestamp (host_at t) = t" "authorised (host_at t) a"
  "token_transfer_ok (host_at t) tk x y n" "token_balance_ok (host_at t) tk x"
  by (simp_all add: host_at_def)

lemma chunk_loop_eval:
  "f ci = None \<Longrightarrow> read_chunks f ci acc = Inr acc"
  "f ci = Some (i # ids) \<Longrightarrow> read_chunks f ci acc = and_then (checked_add ci 1) (\<lambda>cj. read_chunks f cj (acc @ i # ids))"
  "put_chunks upd key tm [] ci s = Inr (ci, s)"
  "put_chunks upd key tm (i # ids) ci s = and_then (checked_add ci 1)
        (\<lambda>cj. put_chunks upd key tm (drop CHUNKED_INDEX_CHUNK_SIZE (i # ids)) cj
           (extend_persistent (key ci) tm (upd (Some (take CHUNKED_INDEX_CHUNK_SIZE (i # ids))) ci s)))"
  "get s ci = None \<Longrightarrow> trim_chunks get upd key ci s = Inr s"
  "get s ci = Some l \<Longrightarrow> trim_chunks get upd key ci s =
     and_then (checked_add ci 1)
        (\<lambda>cj. trim_chunks get upd key cj (drop_persistent (key ci) (upd None ci s)))"
  by (subst read_chunks.simps put_chunks.simps trim_chunks.simps, simp add: Let_def)+

lemmas evaluate = post_def require_auth_def writers readers store_defs with_ttl_eq ttl_ok_def
  lifetime_def event_defs publish_def DEFAULT_INSTANCE_LIFETIME_eq DAY_IN_LEDGERS_def
  require_admin_def require_issuer_def require_not_paused_def get_ttl_lifetime_eq
  saturating_add_def checked_add_def empty_storage_def

lemmas evaluate_chunks = write_chunks_def chunk_loop_eval CHUNKED_INDEX_CHUNK_SIZE_def
  ChunkedIndex_write_subject_chunks_def ChunkedIndex_write_issuer_chunks_def
  ChunkedIndex_get_subject_ids_def ChunkedIndex_get_issuer_ids_def ChunkedIndex_add_subject_def
  ChunkedIndex_add_issuer_def ChunkedIndex_remove_subject_def ChunkedIndex_remove_issuer_def
  subject_chunk_upd_def issuer_chunk_upd_def

definition state_1 :: storage where
  "state_1 = empty_storage\<lparr>
     inst := (inst empty_storage)\<lparr>admin_council := Some [Address 5], version := Some ''1.0.0'',
       fee_config := Some \<lparr>attestation_fee = 0, fee_collector = Address 5, fee_token = None\<rparr>,
       ttl_config := Some \<lparr>ttl_days = 30\<rparr>\<rparr>,
     host := (host empty_storage)\<lparr>instance_ttl := Some 518400,
       events := [\<lparr>ev_topics = [SymV ''adm_init''], ev_data = [AddrV (Address 5), U64V 10]\<rparr>]\<rparr>\<rparr>"

lemma exec_1: "exec (host_at 10) (Admin (C_initialize (Address 5) None)) empty_storage = Inr state_1"
  by (simp add: evaluate initialize_def state_1_def)

definition state_2 :: storage where
  "state_2 = state_1\<lparr>
     inst := (inst state_1)\<lparr>global_stats := Some \<lparr>total_attestations = 0, total_revocations = 0, total_issuers = 1\<rparr>\<rparr>,
     reg := (reg state_1)\<lparr>issuer_flag := [Address 2 \<mapsto> True], issuer_list := Some [Address 2]\<rparr>,
     host := (host state_1)\<lparr>ttl := [K_Issuer (Address 2) \<mapsto> 518400, K_IssuerList \<mapsto> 518400],
       events := events (host state_1) @ [\<lparr>ev_topics = [SymV ''iss_reg'', AddrV (Address 2)], ev_data = [AddrV (Address 5), U64V 11]\<rparr>]\<rparr>\<rparr>"

lemma exec_2: "exec (host_at 11) (Registry (C_register_issuer (Address 5) (Address 2))) state_1 = Inr state_2"
  by (simp add: evaluate register_issuer_def state_1_def state_2_def)

definition kyc_id :: string where
  "kyc_id = generate_id (host_at 12) (Address 2) (Address 3) ''KYC'' 12"

lemma kyc_id: "generate_id (host_at 12) (Address 2) (Address 3) ''KYC'' 12 = kyc_id"
  by (simp add: kyc_id_def)

lemma kyc_valid: "validate_claim_type ''KYC'' = Inr ()"
  by (simp add: flow claim_type_byte_def is_ascii_alphabetic_def is_ascii_digit_def ascii_bytes_def)

definition kyc_att :: attestation where
  "kyc_att = native_attestation (host_at 12) (Address 2) (Address 3) ''KYC'' None None None None None"

definition state_3 :: storage where
  "state_3 = state_2\<lparr>
     inst := (inst state_2)\<lparr>global_stats :=
       Some \<lparr>total_attestations = 1, total_revocations = 0, total_issuers = 1\<rparr>\<rparr>,
     reg := (reg state_2)\<lparr>issuer_stats := [Address 2 \<mapsto> \<lparr>total_issued = 1\<rparr>],
       last_issuance_time := [Address 2 \<mapsto> 12]\<rparr>,
     atts := (atts state_2)\<lparr>attestation_entry := [kyc_id \<mapsto> kyc_att],
       subject_ids := [Address 3 \<mapsto> [kyc_id]], valid_ids := [Address 3 \<mapsto> [kyc_id]],
       issuer_ids := [Address 2 \<mapsto> [kyc_id]],
       subject_chunk := (\<lambda>_. Map.empty)(Address 3 := [0 \<mapsto> [kyc_id]]),
       issuer_chunk := (\<lambda>_. Map.empty)(Address 2 := [0 \<mapsto> [kyc_id]]),
       audit_log := [kyc_id \<mapsto> [\<lparr>ae_action = Audit_Created, ae_actor = Address 2,
         ae_timestamp = 12, ae_details = None\<rparr>]]\<rparr>,
     host := (host state_2)\<lparr>ttl := (ttl (host state_2))
         (K_Attestation kyc_id \<mapsto> 518400, K_SubjectAttestations (Address 3) \<mapsto> 518400,
          K_IssuerAttestations (Address 2) \<mapsto> 518400, K_ValidAttestations (Address 3) \<mapsto> 518400,
          K_SubjectAttestationChunk (Address 3) 0 \<mapsto> 518400,
          K_IssuerAttestationChunk (Address 2) 0 \<mapsto> 518400,
          K_IssuerStats (Address 2) \<mapsto> 518400, K_AuditLog kyc_id \<mapsto> 518400,
          K_LastIssuanceTime (Address 2) \<mapsto> 518400),
       events := events (host state_2) @
         [\<lparr>ev_topics = [SymV ''created'', AddrV (Address 3)],
           ev_data = [StrV kyc_id, AddrV (Address 2), StrV ''KYC'', U64V 12, OptStrV None]\<rparr>]\<rparr>\<rparr>"

lemmas evaluate_creation =
  create_attestation_internal_def kyc_valid validate_metadata_def require_registered_claim_type_def
  validate_jurisdiction_def validate_tags_def validate_native_expiration_def validate_valid_from_def
  check_rate_limit_def charge_attestation_fee_def load_fee_config_def store_attestation_def Let_def
  default_limits_def

lemmas state_defs = state_1_def state_2_def state_3_def

lemma exec_3:
  "exec (host_at 12) (Att (C_create_attestation (Address 2) (Address 3) ''KYC'' None None None)) state_2 =
     Inr state_3"
  by (simp add: evaluate evaluate_chunks evaluate_creation create_attestation_def state_defs
      kyc_id kyc_att_def native_attestation_def)

lemma kyc_att_fields [simp]:
  "att_id kyc_att = kyc_id" "att_issuer kyc_att = Address 2" "att_subject kyc_att = Address 3"
  "att_claim_type kyc_att = ''KYC''" "att_timestamp kyc_att = 12" "att_expiration kyc_att = None"
  "\<not> att_revoked kyc_att" "\<not> att_deleted kyc_att" "att_valid_from kyc_att = None"
  by (simp_all add: kyc_att_def native_attestation_def kyc_id)

lemma state_3_components [simp]:
  "attestation_entry (atts state_3) = [kyc_id \<mapsto> kyc_att]"
  "issuer_tier (reg state_3) = Map.empty"
  by (simp_all add: state_defs empty_storage_def)

lemma state_flow_empty: "flow_st state_3 = flow_st empty_storage" "multisig_entry (flow_st empty_storage) = Map.empty"
  by (simp_all add: state_defs empty_storage_def)

lemma history_reachable: "reachable m state_1" "reachable m state_2" "reachable m state_3"
proof -
  show 1: "reachable m state_1"
    by (rule reachable.invoked [OF reachable.deployed exec_1]) (simp_all add: no_clash_def module_call_def)
  show 2: "reachable m state_2"
    by (rule reachable.invoked [OF 1 exec_2]) (simp_all add: no_clash_def module_call_def)
  show "reachable m state_3"
    by (rule reachable.invoked [OF 2 exec_3]) (simp_all add: no_clash_def module_call_def)
qed

text \<open>The same creation under a global rate limit of 100 seconds.\<close>

definition limited_state :: storage where
  "limited_state = inst_update (rate_limit_config_update (\<lambda>_. Some \<lparr>min_issuance_interval = 100\<rparr>)) state_2"

lemma create_limited:
  "\<exists>i s'. create_attestation_internal (host_at 12) (Address 2) (Address 3) ''KYC'' None None None None None
     limited_state = Inr (i, s')"
  by (simp add: evaluate evaluate_chunks evaluate_creation limited_state_def state_defs kyc_id)

text \<open>The attestation can be revoked by its issuer and deleted by its subject.\<close>

lemma revoke_kyc: "\<exists>s'. revoke_attestation (host_at 20) (Address 2) kyc_id None state_3 = Inr ((), s')"
  by (simp add: evaluate evaluate_chunks revoke_attestation_def validate_reason_def Let_def state_defs)

lemma delete_kyc: "\<exists>s'. request_deletion (host_at 20) (Address 3) kyc_id state_3 = Inr ((), s')"
  by (simp add: evaluate evaluate_chunks request_deletion_def Let_def state_defs)

text \<open>The subject asks the issuer for a second attestation and withdraws the request.\<close>

definition after :: "env \<Rightarrow> call \<Rightarrow> storage \<Rightarrow> storage" where
  "after e c s = (case exec e c s of Inr s' \<Rightarrow> s' | Inl _ \<Rightarrow> s)"

definition aml_request :: attestation_request where
  "aml_request = new_request (host_at 13) (Address 3) (Address 2) ''AML''"

definition state_4 :: storage where
  "state_4 = after (host_at 13) (Flow (C_request_attestation (Address 3) (Address 2) ''AML'')) state_3"

definition state_5 :: storage where
  "state_5 = after (host_at 14) (Flow (C_cancel_request (Address 3) (req_id aml_request))) state_4"

lemma aml_valid: "validate_claim_type ''AML'' = Inr ()"
  by (simp add: flow claim_type_byte_def is_ascii_alphabetic_def is_ascii_digit_def ascii_bytes_def)

lemma exec_4:
  "exec (host_at 13) (Flow (C_request_attestation (Address 3) (Address 2) ''AML'')) state_3 = Inr state_4 \<and>
   inst state_4 = inst state_3 \<and> reg state_4 = reg state_3 \<and> atts state_4 = atts state_3 \<and>
   flow_st state_4 = (flow_st state_3)\<lparr>request_entry := [req_id aml_request \<mapsto> aml_request],
     pending_requests := [Address 2 \<mapsto> [req_id aml_request]]\<rparr>"
  by (simp add: state_4_def after_def evaluate state_defs request_attestation_def aml_valid
      aml_request_def new_request_def Let_def ATTESTATION_REQUEST_TTL_SECS_def)

lemma exec_5:
  "exec (host_at 14) (Flow (C_cancel_request (Address 3) (req_id aml_request))) state_4 = Inr state_5 \<and>
   inst state_5 = inst state_4 \<and> flow_st state_5 = (flow_st state_4)\<lparr>
     request_entry := [req_id aml_request \<mapsto> aml_request\<lparr>req_status := Req_Cancelled\<rparr>],
     pending_requests := [Address 2 \<mapsto> []]\<rparr>"
  using exec_4
  by (simp add: state_5_def after_def evaluate cancel_request_def state_defs)
    (simp add: aml_request_def new_request_def)

lemma requests_reachable: "reachable m state_4" "reachable m state_5"
proof -
  show 4: "reachable m state_4"
    by (rule reachable.invoked [OF history_reachable(3) exec_4 [THEN conjunct1]])
      (simp_all add: no_clash_def module_call_def)
  show "reachable m state_5"
    by (rule reachable.invoked [OF 4 exec_5 [THEN conjunct1]])
      (simp_all add: no_clash_def module_call_def)
qed

text \<open>The issuer proposes an attestation with itself as the only required signer.\<close>

definition solo_proposal :: multisig_proposal where
  "solo_proposal = new_proposal (host_at 13) (Address 2) (Address 3) ''KYC'' [Address 2] 1"

definition state_6 :: storage where
  "state_6 = after (host_at 13)
     (Flow (C_propose_attestation (Address 2) (Address 3) ''KYC'' [Address 2] 1)) state_3"

lemma exec_6:
  "exec (host_at 13) (Flow (C_propose_attestation (Address 2) (Address 3) ''KYC'' [Address 2] 1)) state_3 =
     Inr state_6 \<and> inst state_6 = inst state_3 \<and> reg state_6 = reg state_3 \<and> atts state_6 = atts state_3 \<and>
   flow_st state_6 = (flow_st state_3)\<lparr>multisig_entry := [ms_id solo_proposal \<mapsto> solo_proposal]\<rparr>"
proof -
  have "require_issuer (Address 2) state_3 = Inr ()" "require_not_paused state_3 = Inr ()"
    "Storage_get_issuer_tier (Address 2) state_3 = None" "ttl_ok state_3"
    by (simp_all add: evaluate state_defs)
  then show ?thesis
    by (simp add: state_6_def after_def post_def require_auth_def propose_attestation_def checked_add_def
        Storage_set_multisig_proposal_def set_flow_def with_ttl_eq event_defs state_flow_empty
        solo_proposal_def new_proposal_def Let_def MULTISIG_PROPOSAL_TTL_SECS_def)
qed

text \<open>The only record of the state belongs to the same subject, so no id can clash.\<close>

lemma proposal_reachable: "reachable m state_6"
proof (rule reachable.invoked [OF history_reachable(3) exec_6 [THEN conjunct1]])
  show "no_clash (host_at 13) (Flow (C_propose_attestation (Address 2) (Address 3) ''KYC'' [Address 2] 1)) state_3"
    by (simp add: no_clash_def owner_free_def split: option.splits)
qed (simp add: module_call_def)

end
