(* ===== verification/TL_Basics.thy ===== *)
theory TL_Basics
  imports TL_Scenario
begin

section \<open>Identifiers, status and input validation\<close>

text \<open>
  Properties of the leaves of the contract: the deterministic identifiers and the status of
  \<^verbatim>\<open>types.rs\<close>, the validators of \<^verbatim>\<open>validation.rs\<close> and \<^verbatim>\<open>attestation.rs\<close>, the decimal rendering used in
  the audit log, and the error codes of \<^verbatim>\<open>errors.rs\<close>.
\<close>

text \<open>A host whose serialisers are self-delimiting: lengths and numbers in unary.\<close>

definition unary_host :: env where
  "unary_host = (host_at 0)\<lparr>
     address_xdr := (\<lambda>a. case a of Address n \<Rightarrow> replicate n 1 @ [0]),
     string_xdr := (\<lambda>cs. replicate (length cs) 1 @ 0 # ascii_bytes cs),
     u64_xdr := (\<lambda>n. replicate (unat n) 1)\<rparr>"

lemma unary_prefix:
  "replicate m (1 :: u8) @ 0 # xs = replicate n 1 @ 0 # ys \<Longrightarrow> m = n \<and> xs = ys"
proof (induction m arbitrary: n)
  case 0
  then show ?case by (cases n) auto
next
  case (Suc m)
  then show ?case by (cases n) auto
qed

lemma ascii_bytes_inject: "ascii_bytes xs = ascii_bytes ys \<longleftrightarrow> xs = ys"
proof -
  have "inj (of_char :: char \<Rightarrow> u8)"
  proof
    fix x y :: char
    assume "(of_char x :: u8) = of_char y"
    then have "unat (of_nat (of_char x) :: u8) = unat (of_nat (of_char y) :: u8)"
      by (simp only: of_nat_of_char)
    then have "(of_char x :: nat) mod 256 = of_char y mod 256" by (simp add: unat_of_nat take_bit_eq_mod)
    then show "x = y" by simp
  qed
  then show ?thesis by (simp add: ascii_bytes_def inj_map_eq_map)
qed

lemma unary_host_xdr: "xdr_self_delimiting unary_host"
proof -
  have "a = b" if "address_xdr unary_host a @ xs = address_xdr unary_host b @ ys" for a b xs ys
    using that by (cases a; cases b) (auto simp: unary_host_def dest: unary_prefix)
  moreover have "a = b" if "string_xdr unary_host a @ xs = string_xdr unary_host b @ ys" for a b xs ys
  proof -
    have "length a = length b \<and> ascii_bytes a @ xs = ascii_bytes b @ ys"
      using that unary_prefix [of "length a" "ascii_bytes a @ xs"] by (auto simp: unary_host_def)
    then show ?thesis by (auto simp: ascii_bytes_def simp flip: ascii_bytes_inject)
  qed
  moreover have "a = b" if "u64_xdr unary_host a = u64_xdr unary_host b" for a b
    using that by (simp add: unary_host_def unsigned_word_eqI)
  ultimately show ?thesis unfolding xdr_self_delimiting_def by blast
qed

text \<open>C40: The hex rendering of a digest loses nothing: decoding the 64 characters gives the digest back.\<close>

theorem hash_payload_roundtrip:
  assumes "length (sha256 e payload) = 32"
  shows "unhex (hash_payload e payload) = sha256 e payload"
  by (rule unhex_hash_payload [OF assms])

theorem hash_payload_roundtrip_witness:
  "unhex (hash_payload unary_host [1, 2, 3]) = [1, 2, 3] @ replicate 29 0"
  using hash_payload_roundtrip [of unary_host "[1, 2, 3]"]
  by (simp add: unary_host_def host_at_def numeral_eq_Suc)

text \<open>C39: Two attestation ids coincide exactly if issuer, subject, claim type and time all coincide, or the payloads
  built from them differ and the hash function collides on just these two; the serialisers being
  self-delimiting.\<close>

theorem generate_id_collision:
  assumes "xdr_self_delimiting e" and "\<And>p. length (sha256 e p) = 32"
  shows "generate_id e i x c t = generate_id e i' x' c' t' \<longleftrightarrow>
    i = i' \<and> x = x' \<and> c = c' \<and> t = t' \<or>
    attestation_payload e i x c t \<noteq> attestation_payload e i' x' c' t' \<and>
    sha256 e (attestation_payload e i x c t) = sha256 e (attestation_payload e i' x' c' t')"
proof -
  have "generate_id e i x c t = generate_id e i' x' c' t' \<longleftrightarrow>
      sha256 e (attestation_payload e i x c t) = sha256 e (attestation_payload e i' x' c' t')"
  proof
    assume "generate_id e i x c t = generate_id e i' x' c' t'"
    then show "sha256 e (attestation_payload e i x c t) = sha256 e (attestation_payload e i' x' c' t')"
      using assms(2) unhex_hash_payload unfolding generate_id_def by metis
  qed (simp add: generate_id_def hash_payload_def)
  moreover have "i = i' \<and> x = x' \<and> c = c' \<and> t = t'"
    if "attestation_payload e i x c t = attestation_payload e i' x' c' t'"
    using attestation_payload_inject [OF assms(1) that] by blast
  ultimately show ?thesis by blast
qed

theorem generate_id_collision_witness:
  "generate_id unary_host (Address 2) (Address 3) ''KYC'' 3 \<noteq>
   generate_id unary_host (Address 2) (Address 4) ''KYC'' 3"
proof -
  have "length (sha256 unary_host p) = 32" for p by (simp add: unary_host_def host_at_def)
  from generate_id_collision [OF unary_host_xdr this] show ?thesis
    by (simp add: unary_host_def host_at_def attestation_payload_def ascii_bytes_def numeral_eq_Suc)
qed

text \<open>An attestation counts as valid exactly from its start date on, before its expiration, and while
  it is not revoked; a future start date hides even a revocation.\<close>

lemma get_status_cases:
  "(get_status a t = St_Valid \<longleftrightarrow>
      \<not> att_revoked a \<and> \<not> (\<exists>vf. att_valid_from a = Some vf \<and> t < vf) \<and>
      \<not> (\<exists>ex. att_expiration a = Some ex \<and> ex \<le> t)) \<and>
   (get_status a t = St_Pending \<longleftrightarrow> (\<exists>vf. att_valid_from a = Some vf \<and> t < vf)) \<and>
   (get_status a t = St_Revoked \<longleftrightarrow>
      att_revoked a \<and> \<not> (\<exists>vf. att_valid_from a = Some vf \<and> t < vf)) \<and>
   (get_status a t = St_Expired \<longleftrightarrow>
      (\<exists>ex. att_expiration a = Some ex \<and> ex \<le> t) \<and> \<not> att_revoked a \<and>
      \<not> (\<exists>vf. att_valid_from a = Some vf \<and> t < vf))"
  by (auto simp: get_status_def split: option.splits)

text \<open>A claim type is accepted exactly when it has between 1 and 64 characters, all of them letters,
  digits or underscores; every other one is answered with \<^verbatim>\<open>InvalidClaimType\<close>.\<close>

lemma validate_claim_type_spec:
  "validate_claim_type c =
     (if 1 \<le> length c \<and> length c \<le> 64 \<and> list_all claim_type_byte (ascii_bytes c)
      then Inr () else Inl (Err E_InvalidClaimType))"
proof -
  have "for_each (\<lambda>b _. ensure (claim_type_byte b) (Err E_InvalidClaimType)) bs () =
      ensure (list_all claim_type_byte bs) (Err E_InvalidClaimType)" for bs
    by (induction bs) (auto simp: ensure_def)
  then show ?thesis
    by (simp add: validate_claim_type_def Let_def ensure_def not_less Suc_le_eq del: length_0_conv)
qed

text \<open>A jurisdiction passes exactly when it is absent or one of the listed two-letter codes; the length
  and letter checks of the source reject nothing the list would accept.\<close>

lemma validate_jurisdiction_spec:
  "validate_jurisdiction j =
     (case j of None \<Rightarrow> Inr ()
      | Some code \<Rightarrow> if code \<in> set valid_codes then Inr () else Inl (Err E_InvalidJurisdiction))"
  by (simp add: validate_jurisdiction_eq ensure_def split: option.split)

text \<open>The decimal rendering of a 64-bit number in the audit log reads back as the number and never
  exceeds the 20 bytes of the buffer it is built in.\<close>

lemma u64_to_string_roundtrip:
  "parse_decimal (u64_to_string n) = unat n \<and> length (u64_to_string n) \<le> 20"
proof -
  have "unat n < 10 ^ 20" using unsigned_less [of n, where ?'a = nat] by simp
  from length_u64_digits [OF this] show ?thesis
    by (simp add: u64_to_string_def parse_u64_digits) (simp add: parse_decimal_def)
qed

text \<open>The error codes tell the errors apart, with one exception: an unregistered claim type and an
  invalid fee token are reported under the same number.\<close>

lemma error_codes_distinct:
  "error_code x = error_code y \<longleftrightarrow>
     x = y \<or> {x, y} = {E_ClaimTypeNotRegistered, E_InvalidFeeToken}"
  by (cases x; cases y) (simp_all add: insert_commute doubleton_eq_iff)

end
