(* ===== verification/TL_Indexing.thy ===== *)
theory TL_Indexing
  imports TL_Scenario
begin

section \<open>Indexes and pages\<close>

text \<open>
  What the id indexes of \<^verbatim>\<open>storage.rs\<close> promise to the handlers: the chunked index behaves as a list
  per owner, bulk insertion is iterated insertion, and pages are slices.  The facts come from the
  interpretations of the index contract in the theory of the chunked index.
\<close>

lemma deployed_chunks_ok: "subject_chunks_ok empty_storage" "issuer_chunks_ok empty_storage"
    "chunked_subject_list a empty_storage = []" "chunked_issuer_list a empty_storage = []"
proof -
  have c: "chunk_repr (subject_chunk (atts empty_storage) b) []" "chunk_repr (issuer_chunk (atts empty_storage) b) []" for b
    by (simp_all add: empty_storage_def)
  have l: "chunked_subject_list b empty_storage = []" "chunked_issuer_list b empty_storage = []" for b
    using chunked_subject_list_repr [OF c(1)] chunked_issuer_list_repr [OF c(2)] by simp_all
  then show "chunked_subject_list a empty_storage = []" "chunked_issuer_list a empty_storage = []" .
  show "subject_chunks_ok empty_storage" "issuer_chunks_ok empty_storage"
    using c l by (simp_all add: subject_chunks_ok_def issuer_chunks_ok_def) (simp_all add: ttl_ok_def empty_storage_def)
qed

text \<open>In a state whose chunks are well formed, adding an id to a subject's chunked index returns, keeps
  the chunks well formed, appends the id to that subject's list and leaves every other list alone, so long
  as the list stays below the width of its counter.\<close>

lemma chunked_add_appends:
  assumes "subject_chunks_ok s" and "Suc (length (chunked_subject_list a s)) < 2 ^ 32"
  shows "\<exists>s'. ChunkedIndex_add_subject a i s = Inr s' \<and> subject_chunks_ok s' \<and>
    ChunkedIndex_get_subject_ids a s' = Inr (chunked_subject_list a s @ [i]) \<and>
    (\<forall>b. b \<noteq> a \<longrightarrow> chunked_subject_list b s' = chunked_subject_list b s)"
  using chunked_subject.add_law [OF assms, of i] subject_chunks_ok_read by metis

text \<open>Removing an id that was just added restores every list of the chunked issuer index.\<close>

lemma chunked_remove_undoes_add:
  assumes "issuer_chunks_ok s" and "Suc (length (chunked_issuer_list a s)) < 2 ^ 32"
    and "i \<notin> set (chunked_issuer_list a s)"
  shows "\<exists>s'. and_then (ChunkedIndex_add_issuer a i s) (ChunkedIndex_remove_issuer a i) = Inr s' \<and>
    issuer_chunks_ok s' \<and> (\<forall>b. chunked_issuer_list b s' = chunked_issuer_list b s)"
  by (rule chunked_issuer.remove_undoes_add [OF assms])

text \<open>Writing a batch of ids at once, as \<^verbatim>\<open>create_attestations_batch\<close> does, leaves the chunked issuer
  index as adding the ids one by one would.\<close>

lemma chunked_bulk_is_iterated:
  assumes "issuer_chunks_ok s" and "length (chunked_issuer_list a s) + length xs < 2 ^ 32"
  shows "\<exists>s1 s2. ChunkedIndex_add_issuer_bulk a xs s = Inr s1 \<and>
    for_each (ChunkedIndex_add_issuer a) xs s = Inr s2 \<and>
    (\<forall>b. chunked_issuer_list b s1 = chunked_issuer_list b s2)"
  by (rule chunked_issuer.bulk_is_iterated_add [OF assms])

text \<open>C29: The chunk loops terminate: writing a list of ids returns with exactly one chunk per fifty ids
  occupied, whatever the index held before, and reading walks those chunks and returns the list.\<close>

theorem chunked_write_read:
  assumes "subject_chunks_ok s" and "length xs < 2 ^ 32"
  shows "\<exists>s'. ChunkedIndex_write_subject_chunks a xs s = Inr s' \<and> subject_chunks_ok s' \<and>
    ChunkedIndex_get_subject_ids a s' = Inr xs \<and>
    ChunkedIndex_subject_count a s' = Inr (of_nat (length xs)) \<and>
    (\<forall>n. subject_chunk (atts s') a n \<noteq> None \<longleftrightarrow> 50 * unat n < length xs)"
proof -
  obtain s' where s': "ChunkedIndex_write_subject_chunks a xs s = Inr s'" "subject_chunks_ok s'"
    "chunked_subject_list a s' = xs"
    using write_subject_chunks_law [OF assms, of a] by blast
  have r: "chunk_repr (subject_chunk (atts s') a) xs" using s'(2,3) unfolding subject_chunks_ok_def by metis
  have "subject_chunk (atts s') a n \<noteq> None \<longleftrightarrow> 50 * unat n < length xs" for n
  proof -
    have "unat n < 2 ^ 32" using unsigned_less [of n, where ?'a = nat] by simp
    with r have "subject_chunk (atts s') a (of_nat (unat n)) \<noteq> None \<longleftrightarrow> 50 * unat n < length xs"
      unfolding chunk_repr_def by (metis option.distinct(1))
    then show ?thesis by simp
  qed
  then show ?thesis
    using s' subject_chunks_ok_read [OF s'(2), of a] by (simp add: ChunkedIndex_subject_count_def)
qed

theorem chunked_write_read_witness:
  "\<exists>s'. ChunkedIndex_write_subject_chunks (Address 3) (replicate 120 ''x'') empty_storage = Inr s' \<and>
     ChunkedIndex_get_subject_ids (Address 3) s' = Inr (replicate 120 ''x'') \<and>
     subject_chunk (atts s') (Address 3) 2 \<noteq> None \<and> subject_chunk (atts s') (Address 3) 3 = None"
proof -
  obtain s' where s': "ChunkedIndex_write_subject_chunks (Address 3) (replicate 120 ''x'') empty_storage = Inr s'"
    "ChunkedIndex_get_subject_ids (Address 3) s' = Inr (replicate 120 ''x'')"
    "\<forall>n. subject_chunk (atts s') (Address 3) n \<noteq> None \<longleftrightarrow> 50 * unat n < 120"
    using chunked_write_read [OF deployed_chunks_ok(1), of "replicate 120 ''x''" "Address 3"] by auto
  have "subject_chunk (atts s') (Address 3) 2 \<noteq> None" "subject_chunk (atts s') (Address 3) 3 = None"
    using s'(3) [rule_format, of 2] s'(3) [rule_format, of 3] by simp_all
  with s'(1,2) show ?thesis by blast
qed

text \<open>A page of a subject's ids is the slice of the list it names; a page whose end does not fit 32
  bits traps, unless it starts behind the list.\<close>

lemma subject_page_is_slice:
  assumes "subject_chunks_ok s"
  shows "ChunkedIndex_get_subject_page a start limit s =
    (if length (chunked_subject_list a s) \<le> unat start then Inr []
     else if unat start + unat limit < 2 ^ 32
     then Inr (take (unat limit) (drop (unat start) (chunked_subject_list a s)))
     else Inl Trap)"
  using subject_chunks_ok_read [OF assms, of a]
  by (simp add: ChunkedIndex_get_subject_page_def paginate_eq)

text \<open>Consecutive pages join without gap or overlap: reading two adjoining pages gives the page that
  spans both.\<close>

lemma pages_join:
  assumes "unat start + unat m + unat n < 2 ^ 32"
    and "paginate l start m = Inr p" and "paginate l (start + m) n = Inr q"
  shows "paginate l start (m + n) = Inr (p @ q)"
proof -
  have "unat (start + m) = unat start + unat m" "unat (m + n) = unat m + unat n"
    using assms(1) by (auto intro!: unat_add_exact)
  then show ?thesis
    using assms by (auto simp: paginate_eq take_add add.commute split: if_splits)
qed

section \<open>Listing delegations\<close>

definition live_delegations :: "env \<Rightarrow> address \<Rightarrow> storage \<Rightarrow> (address \<times> string) list \<Rightarrow> delegation list" where
  "live_delegations e a s ix =
     filter (\<lambda>g. case dg_expiration g of None \<Rightarrow> True | Some ex \<Rightarrow> timestamp e < ex)
       (List.map_filter (\<lambda>(d, c). Storage_get_delegation a d c s) ix)"

lemma list_delegations_loop_eq:
  "k \<le> unat start \<Longrightarrow> n \<le> unat limit \<Longrightarrow>
   list_delegations_loop e a start limit s ix k n r =
     r @ take (unat limit - n) (drop (unat start - k) (live_delegations e a s ix))"
proof (induction ix arbitrary: k n r)
  case (Cons x ix)
  obtain d c where x: "x = (d, c)" by fastforce
  show ?case
    using Cons.prems Cons.IH [of "Suc k" n r] Cons.IH [of k n r] Cons.IH [of k "Suc n"]
    by (cases "Storage_get_delegation a d c s")
      (auto simp: x live_delegations_def List.map_filter_def Suc_diff_Suc not_less take_Cons' drop_Cons'
        simp flip: diff_Suc_eq_diff_pred split: option.split)
qed (simp add: live_delegations_def List.map_filter_def)

text \<open>The loop with its two counters in \<^verbatim>\<open>list_delegations_by_delegator\<close> computes the page of the
  unexpired delegations in index order.\<close>

lemma list_delegations_is_page:
  "list_delegations_by_delegator e a start limit s =
     take (unat limit) (drop (unat start) (live_delegations e a s (Storage_get_delegator_index a s)))"
  by (simp add: list_delegations_by_delegator_def list_delegations_loop_eq)

end
