(* ===== verification/TL_Answers.thy ===== *)
theory TL_Answers
  imports TL_Scenario
begin

section \<open>Claim queries answer from the records\<close>

text \<open>
  The queries of \<^verbatim>\<open>query.rs\<close> and the tier query of \<^verbatim>\<open>lib.rs\<close> walk an index of ids.  Here they are
  related to the specification \<open>valid_claim\<close>, which looks at the attestation records only: with the
  consistency of the indexes in reachable states every answer is exact.
\<close>

definition valid_claim :: "env \<Rightarrow> address \<Rightarrow> string \<Rightarrow> storage \<Rightarrow> attestation \<Rightarrow> bool" where
  "valid_claim e subject claim_type s a \<longleftrightarrow>
     attestation_entry (atts s) (att_id a) = Some a \<and> att_subject a = subject \<and>
     att_claim_type a = claim_type \<and> \<not> att_deleted a \<and> get_status a (timestamp e) = St_Valid"

text \<open>What the two indexes contribute to a scan.\<close>

lemma subject_scan:
  assumes "reachable m s"
  shows "(\<exists>i \<in> set (Storage_get_subject_attestations x s). \<exists>a. attestation_entry (atts s) i = Some a \<and>
      \<not> att_deleted a \<and> get_status a (timestamp e) = St_Valid \<and> att_claim_type a = c \<and> P a) \<longleftrightarrow>
    (\<exists>a. valid_claim e x c s a \<and> P a)"
proof -
  have ids: "\<And>i a. attestation_entry (atts s) i = Some a \<Longrightarrow> att_id a = i"
    and ix: "\<And>i. i \<in> set (Storage_get_subject_attestations x s) \<longleftrightarrow>
      (\<exists>a. attestation_entry (atts s) i = Some a \<and> att_subject a = x \<and> \<not> att_revoked a \<and> \<not> att_deleted a)"
    using reachable_view_ok [OF assms]
    by (simp_all add: view_ok_def ids_ok_def subject_index_ok_def view_def
        Storage_get_subject_attestations_def list_of_def)
  show ?thesis (is "?scan \<longleftrightarrow> ?claim")
  proof
    assume ?scan
    then obtain i a where "i \<in> set (Storage_get_subject_attestations x s)" and a: "attestation_entry (atts s) i = Some a"
      "\<not> att_deleted a" "get_status a (timestamp e) = St_Valid" "att_claim_type a = c" "P a" by blast
    then have "att_subject a = x" using ix by auto
    with a ids [OF a(1)] show ?claim by (auto simp: valid_claim_def)
  next
    assume ?claim
    then obtain a where "valid_claim e x c s a" "P a" by blast
    then show ?scan using ix [of "att_id a"] by (auto simp: valid_claim_def get_status_Valid)
  qed
qed

lemma holds_claim_scan:
  "reachable m s \<Longrightarrow> list_ex (holds_claim e c s) (Storage_get_subject_attestations x s) \<longleftrightarrow>
     (\<exists>a. valid_claim e x c s a)"
  using subject_scan [where P = "\<lambda>_. True", of m s x e c] by (auto simp: list_ex_iff holds_claim_iff)

lemma valid_scan:
  assumes "reachable True s"
  shows "(\<exists>i \<in> set (Storage_get_valid_attestations x s). \<exists>a. attestation_entry (atts s) i = Some a \<and>
      att_claim_type a = c \<and> get_status a (timestamp e) = St_Valid) \<longleftrightarrow> (\<exists>a. valid_claim e x c s a)"
proof -
  have ids: "\<And>i a. attestation_entry (atts s) i = Some a \<Longrightarrow> att_id a = i"
    and sound: "\<And>i. i \<in> set (Storage_get_valid_attestations x s) \<Longrightarrow>
      (\<exists>a. attestation_entry (atts s) i = Some a \<and> att_subject a = x \<and> \<not> att_deleted a)"
    and complete: "\<And>i a. attestation_entry (atts s) i = Some a \<Longrightarrow> \<not> att_revoked a \<Longrightarrow>
      \<not> att_deleted a \<Longrightarrow> i \<in> set (Storage_get_valid_attestations (att_subject a) s)"
    using reachable_view_ok [OF assms]
    by (simp_all add: view_ok_def ids_ok_def valid_index_ok_def view_def
        Storage_get_valid_attestations_def list_of_def)
  show ?thesis (is "?scan \<longleftrightarrow> ?claim")
  proof
    assume ?scan
    then obtain i a where i: "i \<in> set (Storage_get_valid_attestations x s)"
      and a: "attestation_entry (atts s) i = Some a" "att_claim_type a = c"
        "get_status a (timestamp e) = St_Valid" by blast
    with a ids [OF a(1)] sound [OF i] show ?claim by (auto simp: valid_claim_def)
  next
    assume ?claim
    then obtain a where "valid_claim e x c s a" by blast
    then show ?scan using complete [of "att_id a" a] by (auto simp: valid_claim_def get_status_Valid)
  qed
qed

text \<open>The checks in terms of the records.\<close>

lemma has_valid_claim_records:
  "reachable True s \<Longrightarrow> fst (has_valid_claim e x c s) \<longleftrightarrow> (\<exists>a. valid_claim e x c s a)"
  by (simp add: has_valid_claim_def scan_valid_claim_iff valid_scan)

lemma has_any_claim_records:
  "reachable m s \<Longrightarrow> fst (has_any_claim e x cs s) \<longleftrightarrow> (\<exists>c a. c \<in> set cs \<and> valid_claim e x c s a)"
  by (auto simp: has_any_claim_def scan_any_claim_iff holds_claim_scan)

lemma has_all_claims_records:
  "reachable m s \<Longrightarrow> has_all_claims e x cs s \<longleftrightarrow> (\<forall>c \<in> set cs. \<exists>a. valid_claim e x c s a)"
  by (auto simp: has_all_claims_def list_all_iff holds_claim_scan)

text \<open>C1: In every state the module handlers can reach, \<^verbatim>\<open>has_valid_claim\<close> answers true exactly when
  the registry holds a live, currently valid attestation of that type for the subject, although the
  query only walks the secondary index; it leaves the contract's storage as it was.\<close>

theorem has_valid_claim_exact:
  assumes "reachable True s"
  shows "(fst (has_valid_claim e subject claim_type s) \<longleftrightarrow>
      (\<exists>a. valid_claim e subject claim_type s a)) \<and>
    same_storage s (snd (has_valid_claim e subject claim_type s))"
  using has_valid_claim_records [OF assms] by (simp add: has_valid_claim_def scan_valid_claim_same)

lemma kyc_valid_claim: "valid_claim (host_at t) x c state_3 a \<longleftrightarrow>
    a = kyc_att \<and> x = Address 3 \<and> c = ''KYC''"
  by (auto simp: valid_claim_def get_status_def)

theorem has_valid_claim_exact_witness:
  "reachable True state_3 \<and> fst (has_valid_claim (host_at 20) (Address 3) ''KYC'' state_3) \<and>
   \<not> fst (has_valid_claim (host_at 20) (Address 2) ''KYC'' state_3)"
  using has_valid_claim_exact [OF history_reachable(3), of "host_at 20"] history_reachable(3)
  by (simp add: kyc_valid_claim)

text \<open>C18: The other claim checks agree with the same specification in every reachable state, whichever
  handlers led to it: any of several claim types, all of them, a claim by a given issuer, and a claim
  by an issuer of at least a given tier.\<close>

theorem claim_checks_exact:
  assumes "reachable m s"
  shows "(fst (has_any_claim e subject claim_types s) \<longleftrightarrow>
      (\<exists>c a. c \<in> set claim_types \<and> valid_claim e subject c s a)) \<and>
    (has_all_claims e subject claim_types s \<longleftrightarrow>
      set claim_types \<subseteq> {c. \<exists>a. valid_claim e subject c s a}) \<and>
    (fst (has_valid_claim_from_issuer e subject c issuer s) \<longleftrightarrow>
      (\<exists>a. valid_claim e subject c s a \<and> att_issuer a = issuer)) \<and>
    (has_valid_claim_from_tier e subject c tier s \<longleftrightarrow>
      (\<exists>a t. valid_claim e subject c s a \<and> issuer_tier (reg s) (att_issuer a) = Some t \<and> tier \<le> t))"
proof (intro conjI)
  show "fst (has_any_claim e subject claim_types s) \<longleftrightarrow>
      (\<exists>c a. c \<in> set claim_types \<and> valid_claim e subject c s a)"
    by (rule has_any_claim_records [OF assms])
  show "has_all_claims e subject claim_types s \<longleftrightarrow>
      set claim_types \<subseteq> {c. \<exists>a. valid_claim e subject c s a}"
    using has_all_claims_records [OF assms] by blast
  show "fst (has_valid_claim_from_issuer e subject c issuer s) \<longleftrightarrow>
      (\<exists>a. valid_claim e subject c s a \<and> att_issuer a = issuer)"
    using subject_scan [OF assms, of subject e c "\<lambda>a. att_issuer a = issuer"]
    by (auto simp: has_valid_claim_from_issuer_def scan_claim_from_issuer_iff [of s s])
  show "has_valid_claim_from_tier e subject c tier s \<longleftrightarrow>
      (\<exists>a t. valid_claim e subject c s a \<and> issuer_tier (reg s) (att_issuer a) = Some t \<and> tier \<le> t)"
    using subject_scan [OF assms, of subject e c
        "\<lambda>a. \<exists>t. issuer_tier (reg s) (att_issuer a) = Some t \<and> tier \<le> t"]
    by (auto simp: has_valid_claim_from_tier_def scan_claim_from_tier_iff less_eq_issuer_tier_def)
qed

theorem claim_checks_exact_witness:
  "reachable False state_3 \<and>
   fst (has_any_claim (host_at 20) (Address 3) [''AML'', ''KYC''] state_3) \<and>
   \<not> has_all_claims (host_at 20) (Address 3) [''AML'', ''KYC''] state_3 \<and>
   fst (has_valid_claim_from_issuer (host_at 20) (Address 3) ''KYC'' (Address 2) state_3) \<and>
   \<not> has_valid_claim_from_tier (host_at 20) (Address 3) ''KYC'' Tier_Basic state_3"
  using claim_checks_exact [OF history_reachable(3), of "host_at 20" "Address 3" "[''AML'', ''KYC'']"
      "''KYC''" "Address 2" Tier_Basic] history_reachable(3)
  by (simp add: kyc_valid_claim)

text \<open>C20: \<^verbatim>\<open>get_valid_claims\<close> lists every claim type the subject holds a valid attestation of, once
  each, and \<^verbatim>\<open>get_attestation_by_type\<close> finds a valid attestation of a type exactly when there is
  one; what it returns is one.\<close>

theorem valid_claims_listed:
  assumes "reachable m s"
  shows "distinct (get_valid_claims e subject s) \<and>
    set (get_valid_claims e subject s) = {c. \<exists>a. valid_claim e subject c s a} \<and>
    (get_attestation_by_type e subject c s = None \<longleftrightarrow> (\<nexists>a. valid_claim e subject c s a)) \<and>
    (\<forall>a. get_attestation_by_type e subject c s = Some a \<longrightarrow> valid_claim e subject c s a)"
proof -
  let ?ids = "Storage_get_subject_attestations subject s"
  let ?found = "List.find (holds_claim e c s) (rev ?ids)"
  have eq: "get_attestation_by_type e subject c s =
      (case ?found of None \<Rightarrow> None | Some i \<Rightarrow> attestation_entry (atts s) i)"
    by (simp add: get_attestation_by_type_def scan_by_type_eq Let_def)
  have found: "i \<in> set ?ids \<and> holds_claim e c s i" if "?found = Some i" for i
    using that by (metis find_Some_iff nth_mem set_rev)
  have none: "?found = None \<longleftrightarrow> (\<nexists>a. valid_claim e subject c s a)"
    using holds_claim_scan [OF assms, of e c subject] by (auto simp: find_None_iff list_ex_iff)
  have some: "valid_claim e subject c s a"
    if "?found = Some i" "attestation_entry (atts s) i = Some a" for i a
    using found [OF that(1)] that(2) reachable_view_ok [OF assms]
    by (auto simp: holds_claim_iff valid_claim_def view_ok_def ids_ok_def subject_index_ok_def view_def
        Storage_get_subject_attestations_def list_of_def)
  have "distinct (get_valid_claims e subject s)"
    "set (get_valid_claims e subject s) = {c. \<exists>a. valid_claim e subject c s a}"
    by (simp_all add: get_valid_claims_def distinct_collect_valid_claims set_collect_valid_claims
        holds_claim_scan [OF assms])
  then show ?thesis
    using none some found by (auto simp: eq holds_claim_iff split: option.splits)
qed

theorem valid_claims_listed_witness:
  "reachable True state_3 \<and> set (get_valid_claims (host_at 20) (Address 3) state_3) = {''KYC''} \<and>
   get_attestation_by_type (host_at 20) (Address 3) ''KYC'' state_3 \<noteq> None \<and>
   get_attestation_by_type (host_at 20) (Address 3) ''AML'' state_3 = None"
  using valid_claims_listed [OF history_reachable(3), of "host_at 20" "Address 3" "''KYC''"]
    valid_claims_listed [OF history_reachable(3), of "host_at 20" "Address 3" "''AML''"]
    history_reachable(3)
  by (simp add: kyc_valid_claim)

end
