(* ===== verification/TL_Lifecycle.thy ===== *)
theory TL_Lifecycle
  imports TL_Answers
begin

section \<open>The life of an attestation\<close>

text \<open>
  What the handlers of \<^verbatim>\<open>attestation.rs\<close> do, one by one: when creation succeeds and what it leaves
  behind, what a revocation and a deletion take away, how fees and rate limits bind, and what an
  endorsement adds.
\<close>

subsection \<open>Creation\<close>

text \<open>C9: While the chunked indexes are well formed and no counter is at its end, creating an attestation
  succeeds exactly when the listed conditions hold (authorisation, role, pause, validation, whitelist, rate
  limit, quotas, fresh id) and the fee can be paid.\<close>

theorem creation_succeeds_iff:
  assumes "storage_ok s"
    and "Suc (length (chunked_subject_list subject s)) < 2 ^ 32"
    and "Suc (length (chunked_issuer_list issuer s)) < 2 ^ 32"
    and "Suc (unat (total_issued (Storage_get_issuer_stats issuer s))) < 2 ^ 64"
  shows "(\<exists>i s'. create_attestation_internal e issuer subject c x md j tg vf s = Inr (i, s')) \<longleftrightarrow>
    creation_allowed e issuer subject c x md j tg vf s \<and> fee_payable e issuer s"
proof
  assume "\<exists>i s'. create_attestation_internal e issuer subject c x md j tg vf s = Inr (i, s')"
  then obtain i s' where s': "create_attestation_internal e issuer subject c x md j tg vf s = Inr (i, s')"
    by blast
  from s' [unfolded create_attestation_internal_Inr] create_attestation_internal_fee_payable [OF s']
  show "creation_allowed e issuer subject c x md j tg vf s \<and> fee_payable e issuer s" by blast
next
  assume "creation_allowed e issuer subject c x md j tg vf s \<and> fee_payable e issuer s"
  then show "\<exists>i s'. create_attestation_internal e issuer subject c x md j tg vf s = Inr (i, s')"
    using create_attestation_internal_progress [OF assms] by blast
qed

lemma state_2_storage_ok:
  "storage_ok state_2" "chunked_subject_list a state_2 = []" "chunked_issuer_list a state_2 = []"
proof -
  have c: "chunk_repr (subject_chunk (atts state_2) b) []" "chunk_repr (issuer_chunk (atts state_2) b) []" for b
    by (simp_all add: state_defs empty_storage_def)
  have l: "chunked_subject_list b state_2 = []" "chunked_issuer_list b state_2 = []" for b
    using chunked_subject_list_repr [OF c(1)] chunked_issuer_list_repr [OF c(2)] by simp_all
  then show "chunked_subject_list a state_2 = []" "chunked_issuer_list a state_2 = []" .
  have "ttl_ok state_2" by (simp add: ttl_ok_def state_defs)
  then show "storage_ok state_2"
    using c l by (simp add: storage_ok_def subject_chunks_ok_def issuer_chunks_ok_def)
qed

theorem creation_succeeds_iff_witness:
  "creation_allowed (host_at 12) (Address 2) (Address 3) ''KYC'' None None None None None state_2 \<and>
   fee_payable (host_at 12) (Address 2) state_2"
proof -
  have "\<exists>i s'. create_attestation_internal (host_at 12) (Address 2) (Address 3) ''KYC'' None None None None None
      state_2 = Inr (i, s')"
    using exec_3 by (auto simp: create_attestation_def elim!: postE)
  then show ?thesis
    by (subst (asm) creation_succeeds_iff)
      (simp_all add: state_2_storage_ok, simp add: readers state_defs empty_storage_def)
qed

text \<open>C11: The whole effect of a successful creation on the storage.  The new record is filed under a fresh id; the
  id is appended to the subject's and the issuer's flat lists, to the index of valid attestations and to both
  chunked indexes; an audit trail is started; the issuer's and the global counter are raised by one, the former
  exactly, the latter saturating; the issuer's last issuance is stamped; one event is published.  Every other
  field of the attestation store, of the registry, of the instance and of the workflows is what it was, and so
  are the chunks of every other subject and issuer.\<close>

theorem creation_effect:
  assumes "create_attestation_internal e issuer subject c x md j tg vf s = Inr (i, s')"
  shows "i = generate_id e issuer subject c (timestamp e) \<and> attestation_entry (atts s) i = None \<and>
    atts s' = (atts s)\<lparr>
      attestation_entry := (attestation_entry (atts s))(i \<mapsto> native_attestation e issuer subject c x md j tg vf),
      subject_ids := add_to subject i (subject_ids (atts s)), valid_ids := add_to subject i (valid_ids (atts s)),
      issuer_ids := add_to issuer i (issuer_ids (atts s)),
      subject_chunk := (subject_chunk (atts s))(subject := subject_chunk (atts s') subject),
      issuer_chunk := (issuer_chunk (atts s))(issuer := issuer_chunk (atts s') issuer),
      audit_log := add_to i \<lparr>ae_action = Audit_Created, ae_actor = issuer,
        ae_timestamp = timestamp e, ae_details = None\<rparr> (audit_log (atts s))\<rparr> \<and>
    (\<exists>l. ChunkedIndex_get_subject_ids subject s = Inr l \<and> ChunkedIndex_get_subject_ids subject s' = Inr (l @ [i])) \<and>
    (\<exists>l. ChunkedIndex_get_issuer_ids issuer s = Inr l \<and> ChunkedIndex_get_issuer_ids issuer s' = Inr (l @ [i])) \<and>
    reg s' = (reg s)\<lparr>
      issuer_stats := (issuer_stats (reg s))(issuer \<mapsto> (Storage_get_issuer_stats issuer s)
        \<lparr>total_issued := total_issued (Storage_get_issuer_stats issuer s) + 1\<rparr>),
      last_issuance_time := (last_issuance_time (reg s))(issuer \<mapsto> timestamp e)\<rparr> \<and>
    inst s' = (inst s)\<lparr>global_stats := Some ((Storage_get_global_stats s)
      \<lparr>total_attestations := saturating_add (total_attestations (Storage_get_global_stats s)) 1\<rparr>)\<rparr> \<and>
    flow_st s' = flow_st s \<and>
    events (host s') =
      events (host (Events_attestation_created (native_attestation e issuer subject c x md j tg vf) s))"
proof -
  have "attestation_entry (atts s) i = None" "i = generate_id e issuer subject c (timestamp e)"
    using assms unfolding create_attestation_internal_Inr creation_allowed_def
    by (auto simp: Storage_has_attestation_def)
  then show ?thesis using create_attestation_internal_state [OF assms] by blast
qed

theorem creation_effect_witness:
  "\<exists>s' i. create_attestation (host_at 12) (Address 2) (Address 3) ''KYC'' None None None state_2 = Inr (i, s') \<and>
     attestation_entry (atts s') = [kyc_id \<mapsto> kyc_att]"
proof -
  obtain i s' where s': "create_attestation_internal (host_at 12) (Address 2) (Address 3) ''KYC'' None None
      None None None state_2 = Inr (i, s')"
    using exec_3 by (auto simp: create_attestation_def elim!: postE)
  have "attestation_entry (atts state_2) = Map.empty" by (simp add: state_defs empty_storage_def)
  moreover have "attestation_entry (atts s') = (attestation_entry (atts state_2))(i \<mapsto> kyc_att)"
    using arg_cong [where f = attestation_entry, OF creation_effect [OF s', THEN conjunct2, THEN conjunct2, THEN conjunct1]]
    by (simp add: kyc_att_def)
  moreover have "i = kyc_id" using creation_effect [OF s'] by (simp add: kyc_id)
  ultimately show ?thesis using s' by (auto simp: create_attestation_def)
qed

subsection \<open>Batch creation\<close>

lemma batch_create_loop:
  assumes "for_each (batch_create_one e k c x lim) ys (acc, s) = Inr (ids, t)"
  defines "f \<equiv> \<lambda>y. generate_id e k y c (timestamp e)"
  shows "ids = acc @ map f ys \<and> distinct (map f ys) \<and>
    (\<forall>y \<in> set ys. attestation_entry (atts s) (f y) = None) \<and>
    attestation_entry (atts t) = attestation_entry (atts s) ++
      map_of (map (\<lambda>y. (f y, native_attestation e k y c x None None None None)) ys)"
  using assms(1)
proof (induction ys arbitrary: acc s)
  case (Cons y ys)
  then obtain ids1 s1 where one: "batch_create_one e k c x lim y (acc, s) = Inr (ids1, s1)"
    and rest: "for_each (batch_create_one e k c x lim) ys (ids1, s1) = Inr (ids, t)"
    by (auto simp: flow)
  from batch_create_one_effect [OF one] have s1: "attestation_entry (atts s) (f y) = None"
    "ids1 = acc @ [f y]" "attestation_entry (atts s1) =
      (attestation_entry (atts s))(f y \<mapsto> native_attestation e k y c x None None None None)"
    by (simp_all add: f_def native_attestation_def Storage_has_attestation_def)
  let ?new = "map_of (map (\<lambda>y. (f y, native_attestation e k y c x None None None None)) ys)"
  note ih = Cons.IH [OF rest]
  then have fresh: "f y \<notin> f ` set ys" using s1(3) by auto
  then have "?new (f y) = None" by (simp add: map_of_eq_None_iff image_image)
  then have new: "(attestation_entry (atts s))(f y \<mapsto> z) ++ ?new = attestation_entry (atts s) ++ ?new(f y \<mapsto> z)" for z
    by (auto simp: map_add_def split: option.split)
  have "attestation_entry (atts t) = attestation_entry (atts s1) ++ ?new" using ih by blast
  then have "attestation_entry (atts t) = attestation_entry (atts s) ++
      map_of (map (\<lambda>y. (f y, native_attestation e k y c x None None None None)) (y # ys))"
    by (simp only: s1(3) new list.map map_of.simps fst_conv snd_conv)
  moreover have "\<forall>z \<in> set (y # ys). attestation_entry (atts s) (f z) = None"
    using ih s1(1,3) by (auto split: if_splits)
  moreover have "ids = ids1 @ map f ys" "distinct (map f ys)" using ih by blast+
  then have "ids = acc @ map f (y # ys)" "distinct (map f (y # ys))" using fresh s1(2) by simp_all
  ultimately show ?case by blast
qed simp

text \<open>C21: A batch creates one attestation per subject, in the order of the subjects, all under fresh and
  pairwise distinct ids, or none at all; every other record stays.\<close>

theorem batch_creation_effect:
  assumes "create_attestations_batch e issuer subjects c x s = Inr (ids, s')"
  shows "ids = map (\<lambda>y. generate_id e issuer y c (timestamp e)) subjects \<and> distinct ids \<and>
    (\<forall>i \<in> set ids. attestation_entry (atts s) i = None) \<and>
    attestation_entry (atts s') = attestation_entry (atts s) ++
      map_of (map (\<lambda>y. (generate_id e issuer y c (timestamp e),
        native_attestation e issuer y c x None None None None)) subjects)"
proof -
  from assms obtain t where loop: "for_each (batch_create_one e issuer c x (Storage_get_limits s))
      subjects ([], s) = Inr (ids, t)" and v: "attestation_entry (atts s') = attestation_entry (atts t)"
    unfolding create_attestations_batch_def Let_def writers
    by (elim steps) (simp_all add: readers)
  from batch_create_loop [OF loop] show ?thesis by (simp add: v)
qed

theorem batch_creation_effect_witness:
  "\<exists>i s'. create_attestations_batch (host_at 12) (Address 2) [Address 3] ''KYC'' None state_2 = Inr ([i], s') \<and>
     attestation_entry (atts s') = [kyc_id \<mapsto> kyc_att]"
proof -
  have "\<exists>r. create_attestations_batch (host_at 12) (Address 2) [Address 3] ''KYC'' None state_2 = Inr r"
    by (simp add: evaluate evaluate_chunks evaluate_creation create_attestations_batch_def batch_create_one_def
        ChunkedIndex_add_issuer_bulk_def state_defs kyc_id)
  then obtain ids s' where s': "create_attestations_batch (host_at 12) (Address 2) [Address 3] ''KYC'' None
      state_2 = Inr (ids, s')" by auto
  have "attestation_entry (atts state_2) = Map.empty" by (simp add: state_defs empty_storage_def)
  with batch_creation_effect [OF s'] s' show ?thesis by (simp add: kyc_id kyc_att_def)
qed

text \<open>A batch pays no fee: whatever fee is configured, a batch creation that succeeds has called no token
contract.\<close>

lemma batch_creation_unpaid:
  assumes "create_attestations_batch e issuer subjects c x s = Inr (ids, s')"
  shows "calls (host s') = calls (host s)"
proof -
  from assms obtain t where loop: "for_each (batch_create_one e issuer c x (Storage_get_limits s))
      subjects ([], s) = Inr (ids, t)" and v: "calls (host s') = calls (host t)"
    unfolding create_attestations_batch_def Let_def writers
    by (elim steps) (simp_all add: readers)
  have "calls (host (snd (ids, t))) = calls (host s)"
  proof (rule for_each_invariant [where I = "\<lambda>p. calls (host (snd p)) = calls (host s)", OF loop])
    fix y p q assume "calls (host (snd p)) = calls (host s)"
      and "batch_create_one e issuer c x (Storage_get_limits s) y p = Inr q"
    then show "calls (host (snd q)) = calls (host s)"
      unfolding batch_create_one_def Let_def writers by (elim steps) (simp add: event_defs)
  qed simp
  then show ?thesis by (simp add: v)
qed

subsection \<open>Revocation and deletion\<close>

lemma revoke_attestation_effect:
  assumes "revoke_attestation e issuer i reason s = Inr (u, s')"
  obtains a where "attestation_entry (atts s) i = Some a" "att_issuer a = issuer" "\<not> att_revoked a"
    "att_id a = i \<longrightarrow> attestation_entry (atts s') =
      (attestation_entry (atts s))(i \<mapsto> a\<lparr>att_revoked := True, att_revocation_reason := reason\<rparr>)"
    "subject_ids (atts s') = drop_from (att_subject a) i (subject_ids (atts s))"
    "valid_ids (atts s') = drop_from (att_subject a) i (valid_ids (atts s))"
    "issuer_ids (atts s') = drop_from issuer i (issuer_ids (atts s))"
    "\<exists>l. ChunkedIndex_get_subject_ids (att_subject a) s = Inr l \<and>
       ChunkedIndex_get_subject_ids (att_subject a) s' = Inr (without i l)"
    "\<exists>l. ChunkedIndex_get_issuer_ids issuer s = Inr l \<and>
       ChunkedIndex_get_issuer_ids issuer s' = Inr (without i l)"
  using assms unfolding revoke_attestation_def Let_def writers Storage_get_attestation_def
    ChunkedIndex_get_subject_ids_def ChunkedIndex_get_issuer_ids_def
  by (elim chunk_reads steps) (simp_all add: readers index_ops event_defs)

text \<open>A record that is revoked or deleted drops out of the specification of the checks; the others stay.\<close>

lemma valid_claim_withdrawn:
  assumes "ids_ok (view s)" and "attestation_entry (atts s') = (attestation_entry (atts s))(i \<mapsto> a)"
    and "att_revoked a \<or> att_deleted a" and "att_id a = i"
  shows "valid_claim e x c s' b \<longleftrightarrow> valid_claim e x c s b \<and> att_id b \<noteq> i"
  using assms by (auto simp: valid_claim_def get_status_Valid)

text \<open>C14: Only the issuer of record can revoke.  Afterwards the record carries the revocation and its reason, and
  the id is gone from the subject's list, the issuer's list, the index of valid attestations and both chunked
  indexes.  At any time, for any subject, \<^verbatim>\<open>has_any_claim\<close> and \<^verbatim>\<open>has_all_claims\<close> answer as if the attestation did
  not exist; so does \<^verbatim>\<open>has_valid_claim\<close>, as long as only the module handlers ran.\<close>

theorem revocation_effect:
  assumes "reachable m s" and "revoke_attestation e issuer i reason s = Inr (u, s')"
  shows "\<exists>a. attestation_entry (atts s) i = Some a \<and> att_issuer a = issuer \<and> \<not> att_revoked a \<and>
    attestation_entry (atts s') =
      (attestation_entry (atts s))(i \<mapsto> a\<lparr>att_revoked := True, att_revocation_reason := reason\<rparr>) \<and>
    subject_ids (atts s') = drop_from (att_subject a) i (subject_ids (atts s)) \<and>
    valid_ids (atts s') = drop_from (att_subject a) i (valid_ids (atts s)) \<and>
    issuer_ids (atts s') = drop_from issuer i (issuer_ids (atts s)) \<and>
    (\<exists>l. ChunkedIndex_get_subject_ids (att_subject a) s = Inr l \<and>
       ChunkedIndex_get_subject_ids (att_subject a) s' = Inr (without i l)) \<and>
    (\<exists>l. ChunkedIndex_get_issuer_ids issuer s = Inr l \<and>
       ChunkedIndex_get_issuer_ids issuer s' = Inr (without i l)) \<and>
    (\<forall>e' x cs. fst (has_any_claim e' x cs s') \<longleftrightarrow> (\<exists>c b. c \<in> set cs \<and> valid_claim e' x c s b \<and> att_id b \<noteq> i)) \<and>
    (\<forall>e' x cs. has_all_claims e' x cs s' \<longleftrightarrow> (\<forall>c \<in> set cs. \<exists>b. valid_claim e' x c s b \<and> att_id b \<noteq> i)) \<and>
    (m \<longrightarrow> (\<forall>e' x c. fst (has_valid_claim e' x c s') \<longleftrightarrow> (\<exists>b. valid_claim e' x c s b \<and> att_id b \<noteq> i)))"
proof -
  obtain a where a: "attestation_entry (atts s) i = Some a" "att_issuer a = issuer" "\<not> att_revoked a"
    and e: "att_id a = i \<longrightarrow> attestation_entry (atts s') =
      (attestation_entry (atts s))(i \<mapsto> a\<lparr>att_revoked := True, att_revocation_reason := reason\<rparr>)"
    and l: "subject_ids (atts s') = drop_from (att_subject a) i (subject_ids (atts s))"
      "valid_ids (atts s') = drop_from (att_subject a) i (valid_ids (atts s))"
      "issuer_ids (atts s') = drop_from issuer i (issuer_ids (atts s))"
      "\<exists>l. ChunkedIndex_get_subject_ids (att_subject a) s = Inr l \<and>
         ChunkedIndex_get_subject_ids (att_subject a) s' = Inr (without i l)"
      "\<exists>l. ChunkedIndex_get_issuer_ids issuer s = Inr l \<and>
         ChunkedIndex_get_issuer_ids issuer s' = Inr (without i l)"
    using assms(2) by (rule revoke_attestation_effect)
  have ids: "ids_ok (view s)" using reachable_view_ok [OF assms(1)] by (simp add: view_ok_def)
  then have i: "att_id a = i" using a(1) by (simp add: ids_ok_def view_def)
  have r: "reachable m s'"
    by (rule reachable.invoked [OF assms(1), of e "Att (C_revoke_attestation issuer i reason)"])
      (use assms(2) in \<open>simp_all add: post_def no_clash_def module_call_def\<close>)
  have "valid_claim e' x c s' b \<longleftrightarrow> valid_claim e' x c s b \<and> att_id b \<noteq> i" for e' x c b
    by (rule valid_claim_withdrawn [OF ids e [rule_format, OF i]]) (simp_all add: i)
  then show ?thesis
    using a e [rule_format, OF i] l has_any_claim_records [OF r] has_all_claims_records [OF r] has_valid_claim_records r
    by auto
qed

theorem revocation_effect_witness:
  "\<exists>s'. revoke_attestation (host_at 20) (Address 2) kyc_id None state_3 = Inr ((), s') \<and>
     attestation_entry (atts s') = [kyc_id \<mapsto> kyc_att\<lparr>att_revoked := True, att_revocation_reason := None\<rparr>] \<and>
     \<not> fst (has_valid_claim (host_at 30) (Address 3) ''KYC'' s')"
proof -
  obtain s' where s': "revoke_attestation (host_at 20) (Address 2) kyc_id None state_3 = Inr ((), s')"
    using revoke_kyc by blast
  with revocation_effect [OF history_reachable(3) [of True] s'] show ?thesis by (auto simp: kyc_valid_claim)
qed

lemma request_deletion_effect:
  assumes "request_deletion e subject i s = Inr (u, s')"
  obtains a where "attestation_entry (atts s) i = Some a" "att_subject a = subject"
    "att_id a = i \<longrightarrow> attestation_entry (atts s') = (attestation_entry (atts s))(i \<mapsto> a\<lparr>att_deleted := True\<rparr>)"
    "subject_ids (atts s') = drop_from subject i (subject_ids (atts s))"
    "valid_ids (atts s') = drop_from subject i (valid_ids (atts s))"
    "audit_log (atts s') = add_to i \<lparr>ae_action = Audit_Deleted, ae_actor = subject,
       ae_timestamp = timestamp e, ae_details = None\<rparr> (audit_log (atts s))"
    "\<exists>l. ChunkedIndex_get_subject_ids subject s = Inr l \<and>
       ChunkedIndex_get_subject_ids subject s' = Inr (without i l)"
  using assms unfolding request_deletion_def Let_def writers Storage_get_attestation_def
    ChunkedIndex_get_subject_ids_def
  by (elim chunk_reads steps) (simp_all add: readers index_ops event_defs)

text \<open>C15: Only the subject can have an attestation deleted.  Afterwards the record is marked, both lookups by id
  answer that there is none, the id is gone from the subject's list, the index of valid attestations and the
  subject's chunked index, and the audit trail records the deletion.  At any time, for any subject,
  \<^verbatim>\<open>has_any_claim\<close> and \<^verbatim>\<open>has_all_claims\<close> answer as if the attestation did not exist; so does \<^verbatim>\<open>has_valid_claim\<close>,
  as long as only the module handlers ran.\<close>

theorem deletion_effect:
  assumes "reachable m s" and "request_deletion e subject i s = Inr (u, s')"
  shows "\<exists>a. attestation_entry (atts s) i = Some a \<and> att_subject a = subject \<and>
    attestation_entry (atts s') = (attestation_entry (atts s))(i \<mapsto> a\<lparr>att_deleted := True\<rparr>) \<and>
    get_attestation i s' = Inl (Err E_NotFound) \<and> (\<forall>e'. get_attestation_status e' i s' = Inl (Err E_NotFound)) \<and>
    subject_ids (atts s') = drop_from subject i (subject_ids (atts s)) \<and>
    valid_ids (atts s') = drop_from subject i (valid_ids (atts s)) \<and>
    (\<exists>l. ChunkedIndex_get_subject_ids subject s = Inr l \<and>
       ChunkedIndex_get_subject_ids subject s' = Inr (without i l)) \<and>
    get_audit_log i s' = get_audit_log i s @ [\<lparr>ae_action = Audit_Deleted, ae_actor = subject,
       ae_timestamp = timestamp e, ae_details = None\<rparr>] \<and>
    (\<forall>e' x cs. fst (has_any_claim e' x cs s') \<longleftrightarrow> (\<exists>c b. c \<in> set cs \<and> valid_claim e' x c s b \<and> att_id b \<noteq> i)) \<and>
    (\<forall>e' x cs. has_all_claims e' x cs s' \<longleftrightarrow> (\<forall>c \<in> set cs. \<exists>b. valid_claim e' x c s b \<and> att_id b \<noteq> i)) \<and>
    (m \<longrightarrow> (\<forall>e' x c. fst (has_valid_claim e' x c s') \<longleftrightarrow> (\<exists>b. valid_claim e' x c s b \<and> att_id b \<noteq> i)))"
proof -
  obtain a where a: "attestation_entry (atts s) i = Some a" "att_subject a = subject"
    and e: "att_id a = i \<longrightarrow> attestation_entry (atts s') = (attestation_entry (atts s))(i \<mapsto> a\<lparr>att_deleted := True\<rparr>)"
    and l: "subject_ids (atts s') = drop_from subject i (subject_ids (atts s))"
      "valid_ids (atts s') = drop_from subject i (valid_ids (atts s))"
      "audit_log (atts s') = add_to i \<lparr>ae_action = Audit_Deleted, ae_actor = subject,
         ae_timestamp = timestamp e, ae_details = None\<rparr> (audit_log (atts s))"
      "\<exists>l. ChunkedIndex_get_subject_ids subject s = Inr l \<and>
         ChunkedIndex_get_subject_ids subject s' = Inr (without i l)"
    using assms(2) by (rule request_deletion_effect)
  have ids: "ids_ok (view s)" using reachable_view_ok [OF assms(1)] by (simp add: view_ok_def)
  then have i: "att_id a = i" using a(1) by (simp add: ids_ok_def view_def)
  have r: "reachable m s'"
    by (rule reachable.invoked [OF assms(1), of e "Att (C_request_deletion subject i)"])
      (use assms(2) in \<open>simp_all add: post_def no_clash_def module_call_def\<close>)
  have lookups: "get_attestation i s' = Inl (Err E_NotFound)" "get_attestation_status e' i s' = Inl (Err E_NotFound)"
    "get_audit_log i s' = get_audit_log i s @ [\<lparr>ae_action = Audit_Deleted, ae_actor = subject,
       ae_timestamp = timestamp e, ae_details = None\<rparr>]" for e'
    using e [rule_format, OF i] l(3)
    by (simp_all add: get_attestation_def get_attestation_status_def get_audit_log_def readers index_ops)
  have "valid_claim e' x c s' b \<longleftrightarrow> valid_claim e' x c s b \<and> att_id b \<noteq> i" for e' x c b
    by (rule valid_claim_withdrawn [OF ids e [rule_format, OF i]]) (simp_all add: i)
  then show ?thesis
    using a e [rule_format, OF i] l lookups has_any_claim_records [OF r] has_all_claims_records [OF r] has_valid_claim_records r
    by auto
qed

theorem deletion_effect_witness:
  "\<exists>s'. request_deletion (host_at 20) (Address 3) kyc_id state_3 = Inr ((), s') \<and>
     get_attestation kyc_id s' = Inl (Err E_NotFound) \<and> \<not> fst (has_valid_claim (host_at 30) (Address 3) ''KYC'' s')"
proof -
  obtain s' where s': "request_deletion (host_at 20) (Address 3) kyc_id state_3 = Inr ((), s')"
    using delete_kyc by blast
  with deletion_effect [OF history_reachable(3) [of True] s'] show ?thesis by (auto simp: kyc_valid_claim)
qed

subsection \<open>Renewal\<close>

text \<open>C22: A renewal replaces the expiration date of an unrevoked attestation of the caller and nothing else
  of the record; right afterwards the attestation is valid, or still waits for its start date.\<close>

theorem renewal_effect:
  assumes "reachable m s" and "renew_attestation e issuer i x s = Inr (u, s')"
  shows "\<exists>a. attestation_entry (atts s) i = Some a \<and> att_issuer a = issuer \<and> \<not> att_revoked a \<and>
    attestation_entry (atts s') = (attestation_entry (atts s))(i \<mapsto> a\<lparr>att_expiration := x\<rparr>) \<and>
    subject_ids (atts s') = subject_ids (atts s) \<and> valid_ids (atts s') = valid_ids (atts s) \<and>
    get_status (a\<lparr>att_expiration := x\<rparr>) (timestamp e) \<in> {St_Valid, St_Pending}"
proof -
  obtain a where a: "attestation_entry (atts s) i = Some a" "att_issuer a = issuer" "\<not> att_revoked a"
    and e: "att_id a = i \<longrightarrow> attestation_entry (atts s') = (attestation_entry (atts s))(i \<mapsto> a\<lparr>att_expiration := x\<rparr>)"
    and l: "subject_ids (atts s') = subject_ids (atts s)" "valid_ids (atts s') = valid_ids (atts s)"
    and x: "\<And>ex. x = Some ex \<Longrightarrow> timestamp e < ex"
    using assms(2) unfolding renew_attestation_def Let_def writers Storage_get_attestation_def
    by (elim steps) (simp add: event_defs)
  have "att_id a = i"
    using reachable_view_ok [OF assms(1)] a(1) by (simp add: view_ok_def ids_ok_def view_def)
  with a e l x show ?thesis
    by (auto simp: get_status_def not_le split: option.splits)
qed

theorem renewal_effect_witness:
  "\<exists>s'. renew_attestation (host_at 20) (Address 2) kyc_id (Some 30) state_3 = Inr ((), s') \<and>
     attestation_entry (atts s') = [kyc_id \<mapsto> kyc_att\<lparr>att_expiration := Some 30\<rparr>]"
proof -
  have "\<exists>s'. renew_attestation (host_at 20) (Address 2) kyc_id (Some 30) state_3 = Inr ((), s')"
    by (simp add: evaluate renew_attestation_def validate_native_expiration_def Let_def state_defs)
  then show ?thesis
    using renewal_effect [OF history_reachable(3), of "host_at 20" "Address 2" kyc_id "Some 30"] by fastforce
qed

subsection \<open>Fees and rate limits\<close>

lemma charge_attestation_fee_calls:
  "charge_attestation_fee e issuer s = Inr s' \<Longrightarrow> \<exists>fc. fee_config (inst s) = Some fc \<and>
    calls (host s') = calls (host s) @
      (if attestation_fee fc = 0 then []
       else [TokenTransfer (the (fee_token fc)) issuer (fee_collector fc) (attestation_fee fc)]) \<and>
    (attestation_fee fc \<noteq> 0 \<longrightarrow> fee_token fc \<noteq> None)"
  unfolding charge_attestation_fee_def load_fee_config_def Storage_get_fee_config_def
  by (elim steps) simp_all

text \<open>A state with an issuer and a fee of five, paid in the token at address 7.\<close>

definition charged_state :: storage where
  "charged_state = inst_update (fee_config_update (\<lambda>_. Some \<lparr>attestation_fee = 5,
     fee_collector = Address 5, fee_token = Some (Address 7)\<rparr>)) state_2"

lemma create_charged:
  "\<exists>i s'. create_attestation_internal (host_at 12) (Address 2) (Address 3) ''KYC'' None None None None None
     charged_state = Inr (i, s')"
  by (simp add: evaluate evaluate_chunks evaluate_creation charged_state_def state_defs kyc_id)

text \<open>C23: Each creation pays the configured fee exactly once, from the issuer to the collector in the
  configured token, and nothing when the fee is zero; without a token a positive fee blocks creation.\<close>

theorem creation_charges_fee:
  assumes "create_attestation_internal e issuer subject c x md j tg vf s = Inr (i, s')"
  shows "\<exists>fc. fee_config (inst s) = Some fc \<and>
    calls (host s') = calls (host s) @
      (if attestation_fee fc = 0 then []
       else [TokenTransfer (the (fee_token fc)) issuer (fee_collector fc) (attestation_fee fc)]) \<and>
    (attestation_fee fc \<noteq> 0 \<longrightarrow> fee_token fc \<noteq> None)"
proof -
  obtain s1 s2 s3 s4 where 1: "store_attestation (native_attestation e issuer subject c x md j tg vf) s = Inr s1"
    and 2: "Storage_append_audit_entry i \<lparr>ae_action = Audit_Created, ae_actor = issuer,
      ae_timestamp = timestamp e, ae_details = None\<rparr> s1 = Inr s2"
    and 3: "Storage_set_last_issuance_time issuer (timestamp e) s2 = Inr s3"
    and 4: "charge_attestation_fee e issuer s3 = Inr s4"
    and 5: "s' = Events_attestation_created (native_attestation e issuer subject c x md j tg vf) s4"
    using assms unfolding create_attestation_internal_Inr by blast
  have "inst s3 = inst s1" "calls (host s3) = calls (host s1)"
    using 2 3 unfolding writers by (elim steps; simp)+
  moreover have "calls (host s1) = calls (host s)" using store_attestation_effect [OF 1] by simp
  ultimately have "fee_config (inst s3) = fee_config (inst s)" "calls (host s3) = calls (host s)"
    using store_attestation_fee_config [OF 1] by simp_all
  moreover have "calls (host s') = calls (host s4)" by (simp add: 5 event_defs)
  ultimately show ?thesis
    using charge_attestation_fee_calls [OF 4] by simp
qed

theorem creation_charges_fee_witness:
  "\<exists>i s'. create_attestation_internal (host_at 12) (Address 2) (Address 3) ''KYC'' None None None None None
     charged_state = Inr (i, s') \<and> calls (host s') = [TokenTransfer (Address 7) (Address 2) (Address 5) 5]"
proof -
  obtain i s' where s': "create_attestation_internal (host_at 12) (Address 2) (Address 3) ''KYC'' None None
      None None None charged_state = Inr (i, s')"
    using create_charged by blast
  from creation_charges_fee [OF s'] have "calls (host s') = [TokenTransfer (Address 7) (Address 2) (Address 5) 5]"
    by (simp add: charged_state_def state_defs empty_storage_def)
  with s' show ?thesis by blast
qed





subsection \<open>Endorsement and confidence\<close>

text \<open>A confidence score always lies between 30 and 100: the tier gives 30, 60 or 90 points and the
  endorsements at most 10; only for a missing attestation there is none.\<close>

lemma confidence_score_bounds:
  assumes "get_confidence_score i s = Inr r"
  shows "(r = None \<longleftrightarrow> attestation_entry (atts s) i = None) \<and>
    (\<forall>n. r = Some n \<longrightarrow> 30 \<le> n \<and> n \<le> 100)"
proof (cases "attestation_entry (atts s) i")
  case None
  with assms show ?thesis by (simp add: get_confidence_score_def get_attestation_entry)
next
  case (Some a)
  define t :: u32 where "t = (case Storage_get_issuer_tier (att_issuer a) s of
      Some Tier_Premium \<Rightarrow> 90 | Some Tier_Verified \<Rightarrow> 60 | Some Tier_Basic \<Rightarrow> 30 | None \<Rightarrow> 30)"
  have t: "30 \<le> unat t" "unat t \<le> 90"
    by (auto simp: t_def split: option.split issuer_tier.split)
  obtain n :: u32 where n: "checked_add t (min n 10) = Inr (the r)" "r \<noteq> None"
    using assms Some unfolding get_confidence_score_def get_attestation_entry t_def Let_def
    by (auto simp: flow)
  have "unat (min n 10) \<le> 10" by (simp add: min_def word_le_nat_alt)
  with n(1) t have "30 \<le> unat (the r)" "unat (the r) \<le> 100"
    by (auto simp: flow unat_add_exact)
  with n(2) Some show ?thesis by (auto simp: word_le_nat_alt)
qed

subsection \<open>Expiration hooks\<close>

text \<open>A query notifies the subject's callback exactly when a hook is registered and the time lies within
  the configured number of days before the expiration; the window is exact because its length in seconds
  always fits 64 bits.\<close>

lemma hook_window:
  "calls (host (maybe_trigger_expiration_hook subject i expiration now s)) =
     calls (host s) @
     (case Storage_get_expiration_hook subject s of
        None \<Rightarrow> []
      | Some hook \<Rightarrow>
          if unat expiration - unat (notify_days_before hook) * 86400 \<le> unat now \<and> now < expiration
          then [NotifyExpiring (callback_contract hook) subject i expiration] else [])"
proof (cases "Storage_get_expiration_hook subject s")
  case (Some hook)
  have "unat (notify_days_before hook) < 2 ^ 32"
    using unsigned_less [of "notify_days_before hook", where ?'a = nat] by simp
  then have "unat (ucast (notify_days_before hook) * SECS_PER_DAY :: u64) =
      unat (notify_days_before hook) * 86400"
    by (subst unat_mult_exact) (auto simp: SECS_PER_DAY_def unsigned_ucast_eq take_bit_nat_eq_self)
  with Some show ?thesis
    by (simp add: maybe_trigger_expiration_hook_def Let_def word_le_nat_alt unat_saturating_sub event_defs)
qed (simp add: maybe_trigger_expiration_hook_def)

end
