(* ===== verification/TL_Host.thy ===== *)
theory TL_Host
  imports TL_Scenario "HOL-Library.Sublist"
begin

section \<open>The contract over the host's key-value store\<close>

text \<open>
  The model keeps the state as records with one typed field per variant of \<^verbatim>\<open>StorageKey\<close>.  The code
  sees one key-value store.  Here the records are read as that store (\<open>entry\<close>), the operations the
  host offers are steps on it (\<open>host_step\<close>), and every call is shown to be a sequence of such
  steps: each sets one key and its lifetime, removes one key, changes the instance entry, publishes
  one event or calls another contract.  Whatever the single steps keep, every call keeps; the
  locale \<open>storage_invariant\<close> says so once, and its interpretations give that every stored entry has a
  lifetime, and that audit trails, endorsements, events and calls only grow.
\<close>

subsection \<open>The store\<close>

datatype (plugins only: code) stored =
    V_Bool bool | V_U64 u64 | V_Ids "string list" | V_Addresses "address list"
  | V_Pairs "(address \<times> string) list" | V_Attestation attestation | V_Metadata issuer_metadata
  | V_ClaimType claim_type_info | V_Tier issuer_tier | V_Stats issuer_stats | V_Hook expiration_hook
  | V_Endorsements "endorsement list" | V_Audit "audit_entry list" | V_Request attestation_request
  | V_Multisig multisig_proposal | V_Council council_proposal | V_Template attestation_template
  | V_Delegation delegation

primrec entry :: "storage_key \<Rightarrow> storage \<Rightarrow> stored option" where
  "entry (K_Issuer a) s = map_option V_Bool (issuer_flag (reg s) a)"
| "entry K_IssuerList s = map_option V_Addresses (issuer_list (reg s))"
| "entry (K_Bridge a) s = map_option V_Bool (bridge_flag (reg s) a)"
| "entry K_BridgeList s = map_option V_Addresses (bridge_list (reg s))"
| "entry (K_Attestation i) s = map_option V_Attestation (attestation_entry (atts s) i)"
| "entry (K_SubjectAttestations a) s = map_option V_Ids (subject_ids (atts s) a)"
| "entry (K_ValidAttestations a) s = map_option V_Ids (valid_ids (atts s) a)"
| "entry (K_IssuerAttestations a) s = map_option V_Ids (issuer_ids (atts s) a)"
| "entry (K_SubjectAttestationChunk a n) s = map_option V_Ids (subject_chunk (atts s) a n)"
| "entry (K_IssuerAttestationChunk a n) s = map_option V_Ids (issuer_chunk (atts s) a n)"
| "entry (K_IssuerMetadata a) s = map_option V_Metadata (issuer_metadata (reg s) a)"
| "entry (K_ClaimType c) s = map_option V_ClaimType (claim_type_entry (reg s) c)"
| "entry K_ClaimTypeList s = map_option V_Ids (claim_type_list (reg s))"
| "entry (K_IssuerTier a) s = map_option V_Tier (issuer_tier (reg s) a)"
| "entry (K_IssuerStats a) s = map_option V_Stats (issuer_stats (reg s) a)"
| "entry (K_ExpirationHook a) s = map_option V_Hook (hook_entry (reg s) a)"
| "entry (K_Endorsements i) s = map_option V_Endorsements (endorsements (atts s) i)"
| "entry (K_EndorserIndex a) s = map_option V_Endorsements (endorser_index (atts s) a)"
| "entry (K_LastIssuanceTime a) s = map_option V_U64 (last_issuance_time (reg s) a)"
| "entry (K_WhitelistEnabled a) s = map_option V_Bool (whitelist_enabled (reg s) a)"
| "entry (K_Whitelist a b) s = map_option V_Bool (whitelist_entry (reg s) (a, b))"
| "entry (K_Request i) s = map_option V_Request (request_entry (flow_st s) i)"
| "entry (K_PendingRequests a) s = map_option V_Ids (pending_requests (flow_st s) a)"
| "entry (K_CouncilProposal n) s = map_option V_Council (council_entry (flow_st s) n)"
| "entry (K_MultisigProposal i) s = map_option V_Multisig (multisig_entry (flow_st s) i)"
| "entry (K_AuditLog i) s = map_option V_Audit (audit_log (atts s) i)"
| "entry (K_AttestationTemplate a i) s = map_option V_Template (template_entry (reg s) (a, i))"
| "entry (K_AttestationTemplateList a) s = map_option V_Ids (template_list (reg s) a)"
| "entry (K_Delegation a b c) s = map_option V_Delegation (delegation_entry (reg s) (a, b, c))"
| "entry (K_DelegatorIndex a) s = map_option V_Pairs (delegator_index (reg s) a)"
| "entry (K_ClaimTypeCount c) s = map_option V_U64 (claim_type_count (reg s) c)"

lemma entry_components [simp]:
  "entry k (inst_update u s) = entry k s"
  "entry k (host_update w s) = entry k s"
  "entry k (extend_persistent k' t s) = entry k s"
  "entry k (extend_instance t s) = entry k s"
  "entry k (drop_persistent k' s) = entry k s"
  by (cases k; simp add: extend_persistent_def extend_instance_def drop_persistent_def)+

text \<open>Each field update writes one key.\<close>

lemma entry_updates [simp]:
  "entry k (reg_update (issuer_flag_update (\<lambda>m. m(a := v0))) s) =
     (if k = K_Issuer a then map_option V_Bool v0 else entry k s)"
  "entry k (reg_update (issuer_list_update (\<lambda>_. v)) s) =
     (if k = K_IssuerList then map_option V_Addresses v else entry k s)"
  "entry k (reg_update (bridge_flag_update (\<lambda>m. m(a := v2))) s) =
     (if k = K_Bridge a then map_option V_Bool v2 else entry k s)"
  "entry k (reg_update (bridge_list_update (\<lambda>_. v)) s) =
     (if k = K_BridgeList then map_option V_Addresses v else entry k s)"
  "entry k (atts_update (attestation_entry_update (\<lambda>m. m(i := v4))) s) =
     (if k = K_Attestation i then map_option V_Attestation v4 else entry k s)"
  "entry k (atts_update (subject_ids_update (\<lambda>m. m(a := v5))) s) =
     (if k = K_SubjectAttestations a then map_option V_Ids v5 else entry k s)"
  "entry k (atts_update (valid_ids_update (\<lambda>m. m(a := v6))) s) =
     (if k = K_ValidAttestations a then map_option V_Ids v6 else entry k s)"
  "entry k (atts_update (issuer_ids_update (\<lambda>m. m(a := v7))) s) =
     (if k = K_IssuerAttestations a then map_option V_Ids v7 else entry k s)"
  "entry k (atts_update (subject_chunk_update (\<lambda>f. f(a := (f a)(n := w)))) s) =
     (if k = K_SubjectAttestationChunk a n then map_option V_Ids w else entry k s)"
  "entry k (atts_update (issuer_chunk_update (\<lambda>f. f(a := (f a)(n := w)))) s) =
     (if k = K_IssuerAttestationChunk a n then map_option V_Ids w else entry k s)"
  "entry k (reg_update (issuer_metadata_update (\<lambda>m. m(a := v10))) s) =
     (if k = K_IssuerMetadata a then map_option V_Metadata v10 else entry k s)"
  "entry k (reg_update (claim_type_entry_update (\<lambda>m. m(c := v11))) s) =
     (if k = K_ClaimType c then map_option V_ClaimType v11 else entry k s)"
  "entry k (reg_update (claim_type_list_update (\<lambda>_. w)) s) =
     (if k = K_ClaimTypeList then map_option V_Ids w else entry k s)"
  "entry k (reg_update (issuer_tier_update (\<lambda>m. m(a := v13))) s) =
     (if k = K_IssuerTier a then map_option V_Tier v13 else entry k s)"
  "entry k (reg_update (issuer_stats_update (\<lambda>m. m(a := v14))) s) =
     (if k = K_IssuerStats a then map_option V_Stats v14 else entry k s)"
  "entry k (reg_update (hook_entry_update (\<lambda>m. m(a := v15))) s) =
     (if k = K_ExpirationHook a then map_option V_Hook v15 else entry k s)"
  "entry k (atts_update (endorsements_update (\<lambda>m. m(i := v16))) s) =
     (if k = K_Endorsements i then map_option V_Endorsements v16 else entry k s)"
  "entry k (atts_update (endorser_index_update (\<lambda>m. m(a := v17))) s) =
     (if k = K_EndorserIndex a then map_option V_Endorsements v17 else entry k s)"
  "entry k (reg_update (last_issuance_time_update (\<lambda>m. m(a := v18))) s) =
     (if k = K_LastIssuanceTime a then map_option V_U64 v18 else entry k s)"
  "entry k (reg_update (whitelist_enabled_update (\<lambda>m. m(a := v19))) s) =
     (if k = K_WhitelistEnabled a then map_option V_Bool v19 else entry k s)"
  "entry k (reg_update (whitelist_entry_update (\<lambda>m. m((a, b) := v20))) s) =
     (if k = K_Whitelist a b then map_option V_Bool v20 else entry k s)"
  "entry k (flow_st_update (request_entry_update (\<lambda>m. m(i := v21))) s) =
     (if k = K_Request i then map_option V_Request v21 else entry k s)"
  "entry k (flow_st_update (pending_requests_update (\<lambda>m. m(a := v22))) s) =
     (if k = K_PendingRequests a then map_option V_Ids v22 else entry k s)"
  "entry k (flow_st_update (council_entry_update (\<lambda>m. m(n := v23))) s) =
     (if k = K_CouncilProposal n then map_option V_Council v23 else entry k s)"
  "entry k (flow_st_update (multisig_entry_update (\<lambda>m. m(i := v24))) s) =
     (if k = K_MultisigProposal i then map_option V_Multisig v24 else entry k s)"
  "entry k (atts_update (audit_log_update (\<lambda>m. m(i := v25))) s) =
     (if k = K_AuditLog i then map_option V_Audit v25 else entry k s)"
  "entry k (reg_update (template_entry_update (\<lambda>m. m((a, i) := v26))) s) =
     (if k = K_AttestationTemplate a i then map_option V_Template v26 else entry k s)"
  "entry k (reg_update (template_list_update (\<lambda>m. m(a := v27))) s) =
     (if k = K_AttestationTemplateList a then map_option V_Ids v27 else entry k s)"
  "entry k (reg_update (delegation_entry_update (\<lambda>m. m((a, b, c) := v28))) s) =
     (if k = K_Delegation a b c then map_option V_Delegation v28 else entry k s)"
  "entry k (reg_update (delegator_index_update (\<lambda>m. m(a := v29))) s) =
     (if k = K_DelegatorIndex a then map_option V_Pairs v29 else entry k s)"
  "entry k (reg_update (claim_type_count_update (\<lambda>m. m(c := v30))) s) =
     (if k = K_ClaimTypeCount c then map_option V_U64 v30 else entry k s)"
  by (cases k; simp)+

text \<open>The store, the instance entry and the host's records determine the state: nothing is lost.\<close>

lemma map_option_inject: "inj f \<Longrightarrow> map_option f x = map_option f y \<longleftrightarrow> x = y"
  by (cases x; cases y) (auto dest: injD)

lemma stored_inj:
  "inj V_Bool" "inj V_U64" "inj V_Ids" "inj V_Addresses" "inj V_Pairs" "inj V_Attestation" "inj V_Metadata"
  "inj V_ClaimType" "inj V_Tier" "inj V_Stats" "inj V_Hook" "inj V_Endorsements" "inj V_Audit" "inj V_Request"
  "inj V_Multisig" "inj V_Council" "inj V_Template" "inj V_Delegation"
  by (simp_all add: inj_def)

lemma entry_determines:
  assumes "\<And>k. entry k s = entry k t" and "inst s = inst t" and "host s = host t"
  shows "s = t"
proof -
  note inj = map_option_inject [OF stored_inj(1)] map_option_inject [OF stored_inj(2)]
    map_option_inject [OF stored_inj(3)] map_option_inject [OF stored_inj(4)] map_option_inject [OF stored_inj(5)]
    map_option_inject [OF stored_inj(6)] map_option_inject [OF stored_inj(7)] map_option_inject [OF stored_inj(8)]
    map_option_inject [OF stored_inj(9)] map_option_inject [OF stored_inj(10)] map_option_inject [OF stored_inj(11)]
    map_option_inject [OF stored_inj(12)] map_option_inject [OF stored_inj(13)] map_option_inject [OF stored_inj(14)]
    map_option_inject [OF stored_inj(15)] map_option_inject [OF stored_inj(16)] map_option_inject [OF stored_inj(17)]
    map_option_inject [OF stored_inj(18)]
  have "reg s = reg t"
    using assms(1) [of "K_Issuer _"] assms(1) [of K_IssuerList] assms(1) [of "K_Bridge _"]
      assms(1) [of K_BridgeList] assms(1) [of "K_IssuerMetadata _"] assms(1) [of "K_ClaimType _"]
      assms(1) [of K_ClaimTypeList] assms(1) [of "K_IssuerTier _"] assms(1) [of "K_IssuerStats _"]
      assms(1) [of "K_ExpirationHook _"] assms(1) [of "K_LastIssuanceTime _"]
      assms(1) [of "K_WhitelistEnabled _"] assms(1) [of "K_Whitelist _ _"]
      assms(1) [of "K_AttestationTemplate _ _"] assms(1) [of "K_AttestationTemplateList _"]
      assms(1) [of "K_Delegation _ _ _"] assms(1) [of "K_DelegatorIndex _"] assms(1) [of "K_ClaimTypeCount _"]
    by (intro registry_store.equality) (simp_all add: inj fun_eq_iff)
  moreover have "atts s = atts t"
    using assms(1) [of "K_Attestation _"] assms(1) [of "K_SubjectAttestations _"]
      assms(1) [of "K_ValidAttestations _"] assms(1) [of "K_IssuerAttestations _"]
      assms(1) [of "K_SubjectAttestationChunk _ _"] assms(1) [of "K_IssuerAttestationChunk _ _"]
      assms(1) [of "K_Endorsements _"] assms(1) [of "K_EndorserIndex _"] assms(1) [of "K_AuditLog _"]
    by (intro attestation_store.equality) (simp_all add: inj fun_eq_iff)
  moreover have "flow_st s = flow_st t"
    using assms(1) [of "K_Request _"] assms(1) [of "K_PendingRequests _"]
      assms(1) [of "K_CouncilProposal _"] assms(1) [of "K_MultisigProposal _"]
    by (intro workflow_store.equality) (simp_all add: inj fun_eq_iff)
  ultimately show ?thesis using assms(2,3) by simp
qed

subsection \<open>Host operations\<close>

text \<open>Audit trails and endorsements are written by appending one element and are never removed.\<close>

fun log_extends :: "stored option \<Rightarrow> stored \<Rightarrow> bool" where
  "log_extends old (V_Audit l) = (l \<noteq> [] \<and> V_Audit (butlast l) = unwrap_or old (V_Audit []))"
| "log_extends old (V_Endorsements l) =
     (l \<noteq> [] \<and> V_Endorsements (butlast l) = unwrap_or old (V_Endorsements []))"
| "log_extends old v = True"

fun log_key :: "storage_key \<Rightarrow> bool" where
  "log_key (K_AuditLog i) = True"
| "log_key (K_Endorsements i) = True"
| "log_key (K_EndorserIndex a) = True"
| "log_key k = False"

text \<open>
  A write stores one value and gives its key the configured lifetime, which has to fit its width; the
  instance entry is written as a whole in the same way.  Four fields of it are also written without a
  lifetime: the version and the proposal counter are set, a pending transfer and a pause reason are
  cleared.
\<close>

inductive host_step :: "storage \<Rightarrow> storage \<Rightarrow> bool" where
  put: "\<lbrakk>\<forall>j. entry j s' = (if j = k then Some v else entry j s); log_extends (entry k s) v; inst s' = inst s;
     ttl_ok s; host s' = (host s)\<lparr>ttl := (ttl (host s))(k \<mapsto> lifetime s)\<rparr>\<rbrakk> \<Longrightarrow> host_step s s'"
| remove: "\<lbrakk>\<forall>j. entry j s' = (if j = k then None else entry j s); \<not> log_key k; inst s' = inst s;
     host s' = (host s)\<lparr>ttl := (ttl (host s))(k := None)\<rparr>\<rbrakk> \<Longrightarrow> host_step s s'"
| set_instance: "\<lbrakk>\<forall>j. entry j s' = entry j s; ttl_ok s;
     host s' = (host s)\<lparr>instance_ttl := Some (lifetime s)\<rparr>\<rbrakk> \<Longrightarrow> host_step s s'"
| note_instance: "\<lbrakk>\<forall>j. entry j s' = entry j s; host s' = host s;
     inst s' = (inst s)\<lparr>version := v, proposal_counter := n\<rparr>\<rbrakk> \<Longrightarrow> host_step s s'"
| clear_instance: "\<lbrakk>\<forall>j. entry j s' = entry j s; host s' = host s;
     inst s' = (inst s)\<lparr>pending_admin_transfer := None\<rparr> \<or> inst s' = (inst s)\<lparr>pause_reason := None\<rparr>\<rbrakk> \<Longrightarrow>
     host_step s s'"
| publish: "\<lbrakk>\<forall>j. entry j s' = entry j s; inst s' = inst s;
     host s' = (host s)\<lparr>events := events (host s) @ [ev]\<rparr>\<rbrakk> \<Longrightarrow> host_step s s'"
| call: "\<lbrakk>\<forall>j. entry j s' = entry j s; inst s' = inst s;
     host s' = (host s)\<lparr>calls := calls (host s) @ [c]\<rparr>\<rbrakk> \<Longrightarrow> host_step s s'"

text \<open>The writers, one after the other, as continuations of a sequence of steps.\<close>

named_theorems runs \<open>fallible writers as continuations of a sequence of host operations\<close>
named_theorems updates \<open>the same for writers that cannot fail\<close>

text \<open>A state that differs from another in what one key holds.\<close>

definition puts :: "storage_key \<Rightarrow> storage \<Rightarrow> storage \<Rightarrow> bool" where
  "puts k s s' \<longleftrightarrow> (\<forall>j. j \<noteq> k \<longrightarrow> entry j s' = entry j s) \<and> inst s' = inst s \<and> host s' = host s \<and>
     (case entry k s' of None \<Rightarrow> False | Some v \<Rightarrow> log_extends (entry k s) v)"

lemma runs_put:
  assumes "host_step\<^sup>*\<^sup>* r s" and "puts k s s'" and "ttl_ok s" and "t = lifetime s"
  shows "host_step\<^sup>*\<^sup>* r (extend_persistent k t s')"
proof (rule rtranclp.rtrancl_into_rtrancl [OF assms(1)])
  obtain v where "entry k s' = Some v" "log_extends (entry k s) v"
    using assms(2) by (auto simp: puts_def split: option.splits)
  then show "host_step s (extend_persistent k t s')"
    using assms(2-4)
    by (intro host_step.put [where k = k and v = v]) (auto simp: puts_def extend_persistent_def)
qed

lemma runs_put_field:
  "host_step\<^sup>*\<^sup>* r s \<Longrightarrow> puts k s (reg_update u s) \<Longrightarrow> ttl_ok s \<Longrightarrow> t = lifetime s \<Longrightarrow>
     host_step\<^sup>*\<^sup>* r (extend_persistent k t (reg_update u s))"
  "host_step\<^sup>*\<^sup>* r s \<Longrightarrow> puts k s (atts_update w s) \<Longrightarrow> ttl_ok s \<Longrightarrow> t = lifetime s \<Longrightarrow>
     host_step\<^sup>*\<^sup>* r (extend_persistent k t (atts_update w s))"
  by (simp_all add: runs_put)

lemma runs_remove:
  assumes "host_step\<^sup>*\<^sup>* r s" and "\<And>j. entry j s' = (if j = k then None else entry j s)"
    and "\<not> log_key k" and "inst s' = inst s" and "host s' = host s"
  shows "host_step\<^sup>*\<^sup>* r (drop_persistent k s')"
proof (rule rtranclp.rtrancl_into_rtrancl [OF assms(1)])
  show "host_step s (drop_persistent k s')"
    by (rule host_step.remove [where k = k]) (use assms in \<open>auto simp: drop_persistent_def\<close>)
qed

lemma runs_instance:
  assumes "host_step\<^sup>*\<^sup>* r s"
  shows "ttl_ok s \<Longrightarrow> host_step\<^sup>*\<^sup>* r (extend_instance (lifetime s) (inst_update u s))"
    and "host_step\<^sup>*\<^sup>* r (inst_update (version_update (\<lambda>_. v)) s)"
    and "host_step\<^sup>*\<^sup>* r (inst_update (proposal_counter_update (\<lambda>_. n)) s)"
    and "host_step\<^sup>*\<^sup>* r (inst_update (pending_admin_transfer_update (\<lambda>_. None)) s)"
    and "host_step\<^sup>*\<^sup>* r (inst_update (pause_reason_update (\<lambda>_. None)) s)"
proof -
  note step = rtranclp.rtrancl_into_rtrancl [OF assms]
  show "host_step\<^sup>*\<^sup>* r (extend_instance (lifetime s) (inst_update u s))" if "ttl_ok s"
    by (rule step, rule host_step.set_instance) (use that in \<open>simp_all add: extend_instance_def\<close>)
  show "host_step\<^sup>*\<^sup>* r (inst_update (version_update (\<lambda>_. v)) s)"
    by (rule step, rule host_step.note_instance [where v = v and n = "proposal_counter (inst s)"]) simp_all
  show "host_step\<^sup>*\<^sup>* r (inst_update (proposal_counter_update (\<lambda>_. n)) s)"
    by (rule step, rule host_step.note_instance [where v = "version (inst s)" and n = n]) simp_all
  show "host_step\<^sup>*\<^sup>* r (inst_update (pending_admin_transfer_update (\<lambda>_. None)) s)"
    "host_step\<^sup>*\<^sup>* r (inst_update (pause_reason_update (\<lambda>_. None)) s)"
    by (rule step, rule host_step.clear_instance; simp)+
qed

lemma runs_publish [updates]:
  assumes "host_step\<^sup>*\<^sup>* r s" shows "host_step\<^sup>*\<^sup>* r (publish tp d s)"
proof (rule rtranclp.rtrancl_into_rtrancl [OF assms(1)])
  show "host_step s (publish tp d s)"
    by (rule host_step.publish [where ev = "\<lparr>ev_topics = tp, ev_data = d\<rparr>"]) (simp_all add: publish_def)
qed

lemma runs_call [updates]:
  assumes "host_step\<^sup>*\<^sup>* r s" shows "host_step\<^sup>*\<^sup>* r (host_update (calls_update (\<lambda>l. l @ [c])) s)"
proof (rule rtranclp.rtrancl_into_rtrancl [OF assms(1)])
  show "host_step s (host_update (calls_update (\<lambda>l. l @ [c])) s)"
    by (rule host_step.call [where c = c]) simp_all
qed

lemma runs_set_instance: "set_instance u s = Inr s' \<Longrightarrow> host_step\<^sup>*\<^sup>* r s \<Longrightarrow> host_step\<^sup>*\<^sup>* r s'"
  by (simp add: set_instance_Inr runs_instance)

lemma runs_set:
  assumes "host_step\<^sup>*\<^sup>* r s"
  shows "set_registry k u s = Inr s' \<Longrightarrow> puts k s (reg_update u s) \<Longrightarrow> host_step\<^sup>*\<^sup>* r s'"
    and "set_atts k w s = Inr s' \<Longrightarrow> puts k s (atts_update w s) \<Longrightarrow> host_step\<^sup>*\<^sup>* r s'"
    and "set_flow k x s = Inr s' \<Longrightarrow> puts k s (flow_st_update x s) \<Longrightarrow> host_step\<^sup>*\<^sup>* r s'"
  using assms by (auto simp: set_registry_Inr set_atts_Inr set_flow_Inr intro!: runs_put)

lemma runs_instance_writers [rotated, runs]:
  assumes "host_step\<^sup>*\<^sup>* r s"
  shows "Storage_set_admin_council l s = Inr s' \<Longrightarrow> host_step\<^sup>*\<^sup>* r s'"
    and "Storage_add_admin a s = Inr s' \<Longrightarrow> host_step\<^sup>*\<^sup>* r s'"
    and "Storage_remove_admin a s = Inr s' \<Longrightarrow> host_step\<^sup>*\<^sup>* r s'"
    and "Storage_set_pending_admin_transfer p s = Inr s' \<Longrightarrow> host_step\<^sup>*\<^sup>* r s'"
    and "Storage_set_fee_config fc s = Inr s' \<Longrightarrow> host_step\<^sup>*\<^sup>* r s'"
    and "Storage_set_ttl_config tc s = Inr s' \<Longrightarrow> host_step\<^sup>*\<^sup>* r s'"
    and "Storage_set_contract_config cc s = Inr s' \<Longrightarrow> host_step\<^sup>*\<^sup>* r s'"
    and "Storage_set_paused b s = Inr s' \<Longrightarrow> host_step\<^sup>*\<^sup>* r s'"
    and "Storage_set_pause_reason rs s = Inr s' \<Longrightarrow> host_step\<^sup>*\<^sup>* r s'"
    and "Storage_set_limits lm s = Inr s' \<Longrightarrow> host_step\<^sup>*\<^sup>* r s'"
    and "Storage_set_rate_limit_config rc s = Inr s' \<Longrightarrow> host_step\<^sup>*\<^sup>* r s'"
    and "Storage_set_claim_type_rate_limit c n s = Inr s' \<Longrightarrow> host_step\<^sup>*\<^sup>* r s'"
    and "Storage_set_require_registered_claim_type b s = Inr s' \<Longrightarrow> host_step\<^sup>*\<^sup>* r s'"
    and "Storage_increment_total_attestations n s = Inr s' \<Longrightarrow> host_step\<^sup>*\<^sup>* r s'"
    and "Storage_increment_total_revocations n s = Inr s' \<Longrightarrow> host_step\<^sup>*\<^sup>* r s'"
    and "Storage_increment_total_issuers s = Inr s' \<Longrightarrow> host_step\<^sup>*\<^sup>* r s'"
    and "Storage_decrement_total_issuers s = Inr s' \<Longrightarrow> host_step\<^sup>*\<^sup>* r s'"
    and "Storage_set_council l s = Inr s' \<Longrightarrow> host_step\<^sup>*\<^sup>* r s'"
    and "Storage_next_proposal_id s = Inr (m, s') \<Longrightarrow> host_step\<^sup>*\<^sup>* r s'"
  using assms unfolding writers
  by (auto simp: flow runs_instance split: if_splits intro: runs_set_instance)

lemma runs_instance_updates [updates]:
  assumes "host_step\<^sup>*\<^sup>* r s"
  shows "host_step\<^sup>*\<^sup>* r (Storage_remove_pending_admin_transfer s)"
    and "host_step\<^sup>*\<^sup>* r (Storage_set_version ver s)"
    and "host_step\<^sup>*\<^sup>* r (Storage_clear_pause_reason s)"
  using assms by (simp_all add: writers runs_instance)

lemma runs_registry_writers [rotated, runs]:
  assumes "host_step\<^sup>*\<^sup>* r s"
  shows "Storage_set_issuer_stats a st s = Inr s' \<Longrightarrow> host_step\<^sup>*\<^sup>* r s'"
    and "Storage_increment_issuer_stats a n s = Inr s' \<Longrightarrow> host_step\<^sup>*\<^sup>* r s'"
    and "Storage_set_issuer_metadata a d s = Inr s' \<Longrightarrow> host_step\<^sup>*\<^sup>* r s'"
    and "Storage_set_issuer_tier a ti s = Inr s' \<Longrightarrow> host_step\<^sup>*\<^sup>* r s'"
    and "Storage_set_last_issuance_time a n s = Inr s' \<Longrightarrow> host_step\<^sup>*\<^sup>* r s'"
    and "Storage_increment_claim_type_count c s = Inr s' \<Longrightarrow> host_step\<^sup>*\<^sup>* r s'"
    and "Storage_decrement_claim_type_count c s = Inr s' \<Longrightarrow> host_step\<^sup>*\<^sup>* r s'"
    and "Storage_set_whitelist_enabled a bl s = Inr s' \<Longrightarrow> host_step\<^sup>*\<^sup>* r s'"
    and "Storage_add_to_whitelist a b s = Inr s' \<Longrightarrow> host_step\<^sup>*\<^sup>* r s'"
    and "Storage_set_expiration_hook a h s = Inr s' \<Longrightarrow> host_step\<^sup>*\<^sup>* r s'"
  using assms unfolding writers
  by - (erule runs_set(1) [rotated]; simp add: puts_def)+

lemma runs_registry_pairs [rotated, runs]:
  assumes "host_step\<^sup>*\<^sup>* r s"
  shows "Storage_add_issuer a s = Inr s' \<Longrightarrow> host_step\<^sup>*\<^sup>* r s'"
    and "Storage_add_bridge a s = Inr s' \<Longrightarrow> host_step\<^sup>*\<^sup>* r s'"
    and "Storage_set_claim_type ct s = Inr s' \<Longrightarrow> host_step\<^sup>*\<^sup>* r s'"
    and "Storage_set_delegation g s = Inr s' \<Longrightarrow> host_step\<^sup>*\<^sup>* r s'"
    and "Storage_set_template tp s = Inr s' \<Longrightarrow> host_step\<^sup>*\<^sup>* r s'"
  using assms unfolding writers
  by (auto simp: with_ttl_Inr puts_def split: if_splits intro!: runs_put_field)

lemma runs_removals [updates]:
  assumes "host_step\<^sup>*\<^sup>* r s"
  shows "host_step\<^sup>*\<^sup>* r (Storage_remove_issuer a s)"
    and "host_step\<^sup>*\<^sup>* r (Storage_remove_from_whitelist a b s)"
    and "host_step\<^sup>*\<^sup>* r (Storage_remove_expiration_hook a s)"
  unfolding writers by (rule runs_remove [OF assms]; simp)+

lemma runs_indexed_removals [rotated, runs]:
  assumes "host_step\<^sup>*\<^sup>* r s"
  shows "Storage_remove_delegation a b c s = Inr s' \<Longrightarrow> host_step\<^sup>*\<^sup>* r s'"
    and "Storage_remove_template a c s = Inr s' \<Longrightarrow> host_step\<^sup>*\<^sup>* r s'"
proof -
  have "host_step\<^sup>*\<^sup>* r (drop_persistent (K_Delegation a b c)
      (reg_update (delegation_entry_update (\<lambda>m. m((a, b, c) := None))) s))"
    by (rule runs_remove [OF assms]) simp_all
  then show "Storage_remove_delegation a b c s = Inr s' \<Longrightarrow> host_step\<^sup>*\<^sup>* r s'"
    unfolding writers by - (erule runs_set(1), assumption, simp add: puts_def)
  have "host_step\<^sup>*\<^sup>* r (drop_persistent (K_AttestationTemplate a c)
      (reg_update (template_entry_update (\<lambda>m. m((a, c) := None))) s))"
    by (rule runs_remove [OF assms]) simp_all
  then show "Storage_remove_template a c s = Inr s' \<Longrightarrow> host_step\<^sup>*\<^sup>* r s'"
    unfolding writers by - (erule runs_set(1), assumption, simp add: puts_def)
qed

lemma runs_attestation_writers [rotated, runs]:
  assumes "host_step\<^sup>*\<^sup>* r s"
  shows "Storage_set_attestation at s = Inr s' \<Longrightarrow> host_step\<^sup>*\<^sup>* r s'"
    and "Storage_add_subject_attestation a i s = Inr s' \<Longrightarrow> host_step\<^sup>*\<^sup>* r s'"
    and "Storage_remove_subject_attestation a i s = Inr s' \<Longrightarrow> host_step\<^sup>*\<^sup>* r s'"
    and "Storage_add_issuer_attestation a i s = Inr s' \<Longrightarrow> host_step\<^sup>*\<^sup>* r s'"
    and "Storage_remove_issuer_attestation a i s = Inr s' \<Longrightarrow> host_step\<^sup>*\<^sup>* r s'"
    and "Storage_add_valid_attestation a i s = Inr s' \<Longrightarrow> host_step\<^sup>*\<^sup>* r s'"
    and "Storage_remove_valid_attestation a i s = Inr s' \<Longrightarrow> host_step\<^sup>*\<^sup>* r s'"
    and "Storage_append_audit_entry i en s = Inr s' \<Longrightarrow> host_step\<^sup>*\<^sup>* r s'"
  using assms unfolding writers
  by - (erule runs_set(2) [rotated]; simp add: puts_def readers; cases "audit_log (atts s) i"; simp)+

lemma runs_attestation_lists [rotated, runs]:
  assumes "host_step\<^sup>*\<^sup>* r s"
  shows "Storage_add_issuer_attestations_bulk a is s = Inr s' \<Longrightarrow> host_step\<^sup>*\<^sup>* r s'"
    and "Storage_add_endorsement i en s = Inr s' \<Longrightarrow> host_step\<^sup>*\<^sup>* r s'"
proof -
  show "Storage_add_issuer_attestations_bulk a is s = Inr s' \<Longrightarrow> host_step\<^sup>*\<^sup>* r s'"
    using assms unfolding writers by (auto simp: puts_def split: if_splits elim: runs_set(2))
  show "Storage_add_endorsement i en s = Inr s' \<Longrightarrow> host_step\<^sup>*\<^sup>* r s'"
    using assms unfolding writers
    by (cases "endorsements (atts s) i"; cases "endorser_index (atts s) (en_endorser en)")
      (auto simp: with_ttl_Inr puts_def readers intro!: runs_put_field)
qed

lemma runs_flow_writers [rotated, runs]:
  assumes "host_step\<^sup>*\<^sup>* r s"
  shows "Storage_set_request rq s = Inr s' \<Longrightarrow> host_step\<^sup>*\<^sup>* r s'"
    and "Storage_add_pending_request a i s = Inr s' \<Longrightarrow> host_step\<^sup>*\<^sup>* r s'"
    and "Storage_remove_pending_request a i s = Inr s' \<Longrightarrow> host_step\<^sup>*\<^sup>* r s'"
    and "Storage_set_multisig_proposal p s = Inr s' \<Longrightarrow> host_step\<^sup>*\<^sup>* r s'"
    and "Storage_set_proposal cp s = Inr s' \<Longrightarrow> host_step\<^sup>*\<^sup>* r s'"
  using assms unfolding writers
  by - (erule runs_set(3) [rotated]; simp add: puts_def)+

lemma write_chunks_ttl: "write_chunks get upd key ids s = Inr s' \<Longrightarrow> ttl_ok s"
  by (auto simp: write_chunks_def get_ttl_lifetime_eq flow split: if_splits)

lemma runs_chunks [rotated, runs]:
  assumes "host_step\<^sup>*\<^sup>* r s"
  shows "ChunkedIndex_write_subject_chunks a ids s = Inr s' \<Longrightarrow> host_step\<^sup>*\<^sup>* r s'"
    and "ChunkedIndex_write_issuer_chunks a ids s = Inr s' \<Longrightarrow> host_step\<^sup>*\<^sup>* r s'"
proof -
  let ?R = "\<lambda>t. host_step\<^sup>*\<^sup>* r t \<and> ttl_ok t \<and> lifetime t = lifetime s"
  show "host_step\<^sup>*\<^sup>* r s'" if w: "ChunkedIndex_write_subject_chunks a ids s = Inr s'"
  proof -
    note w' = w [unfolded ChunkedIndex_write_subject_chunks_def]
    have "?R s'"
    proof (rule subject_family.write_chunks_keeps [where R = ?R, OF w'])
      show "?R s" using assms write_chunks_ttl [OF w'] by simp
      show "?R (extend_persistent (K_SubjectAttestationChunk a ci) (lifetime s) (subject_chunk_upd a (Some v) ci t))"
        if "?R t" for v ci t
        using that runs_put [of r t "K_SubjectAttestationChunk a ci" "subject_chunk_upd a (Some v) ci t" "lifetime s"]
        by (simp add: subject_chunk_upd_def puts_def)
    qed (auto simp: subject_chunk_upd_def intro!: runs_remove)
    then show ?thesis by simp
  qed
  show "host_step\<^sup>*\<^sup>* r s'" if w: "ChunkedIndex_write_issuer_chunks a ids s = Inr s'"
  proof -
    note w' = w [unfolded ChunkedIndex_write_issuer_chunks_def]
    have "?R s'"
    proof (rule issuer_family.write_chunks_keeps [where R = ?R, OF w'])
      show "?R s" using assms write_chunks_ttl [OF w'] by simp
      show "?R (extend_persistent (K_IssuerAttestationChunk a ci) (lifetime s) (issuer_chunk_upd a (Some v) ci t))"
        if "?R t" for v ci t
        using that runs_put [of r t "K_IssuerAttestationChunk a ci" "issuer_chunk_upd a (Some v) ci t" "lifetime s"]
        by (simp add: issuer_chunk_upd_def puts_def)
    qed (auto simp: issuer_chunk_upd_def intro!: runs_remove)
    then show ?thesis by simp
  qed
qed

lemma runs_index [rotated, runs]:
  assumes "host_step\<^sup>*\<^sup>* r s"
  shows "ChunkedIndex_add_subject a i s = Inr s' \<Longrightarrow> host_step\<^sup>*\<^sup>* r s'"
    and "ChunkedIndex_add_issuer a i s = Inr s' \<Longrightarrow> host_step\<^sup>*\<^sup>* r s'"
    and "ChunkedIndex_add_issuer_bulk a ids s = Inr s' \<Longrightarrow> host_step\<^sup>*\<^sup>* r s'"
    and "ChunkedIndex_remove_subject a i s = Inr s' \<Longrightarrow> host_step\<^sup>*\<^sup>* r s'"
    and "ChunkedIndex_remove_issuer a i s = Inr s' \<Longrightarrow> host_step\<^sup>*\<^sup>* r s'"
  using assms
  unfolding ChunkedIndex_add_subject_def ChunkedIndex_add_issuer_def ChunkedIndex_add_issuer_bulk_def
    ChunkedIndex_remove_subject_def ChunkedIndex_remove_issuer_def
  by (auto simp: flow elim: runs_chunks)

subsection \<open>Every call is a sequence of host operations\<close>

text \<open>Elimination rules for the control flow of a handler only, so that the writes stay visible.\<close>

lemmas control = and_thenE Inr_eqE pair_eqE case_prod_stepE if_stepE ensureE ok_orE postE
  case_option_stepE execute_council_operationE

lemma runs_refl: "host_step\<^sup>*\<^sup>* s s"
  by (rule rtranclp.rtrancl_refl)

lemma runs_store [rotated, runs]:
  assumes "host_step\<^sup>*\<^sup>* r s"
  shows "store_attestation a s = Inr s' \<Longrightarrow> host_step\<^sup>*\<^sup>* r s'"
    and "lib_store_attestation a s = Inr s' \<Longrightarrow> host_step\<^sup>*\<^sup>* r s'"
    and "charge_attestation_fee e x s = Inr s' \<Longrightarrow> host_step\<^sup>*\<^sup>* r s'"
  using assms unfolding store_attestation_def lib_store_attestation_def charge_attestation_fee_def Let_def
  by - (elim control; (hypsubst | assumption | erule runs | rule updates)+)+


text \<open>The loops of the batch handlers.\<close>

lemma for_each_runs:
  assumes "for_each f xs s = Inr s'" and "host_step\<^sup>*\<^sup>* r s"
    and "\<And>x t t'. f x t = Inr t' \<Longrightarrow> host_step\<^sup>*\<^sup>* r t \<Longrightarrow> host_step\<^sup>*\<^sup>* r t'"
  shows "host_step\<^sup>*\<^sup>* r s'"
  by (rule for_each_invariant [where I = "host_step\<^sup>*\<^sup>* r", OF assms(1,2)]) (rule assms(3))

lemma batch_create_runs:
  "batch_create_one e i c x l y p = Inr q \<Longrightarrow> host_step\<^sup>*\<^sup>* r (snd p) \<Longrightarrow> host_step\<^sup>*\<^sup>* r (snd q)"
  "lib_batch_create_one e i c x l y p = Inr q \<Longrightarrow> host_step\<^sup>*\<^sup>* r (snd p) \<Longrightarrow> host_step\<^sup>*\<^sup>* r (snd q)"
  unfolding batch_create_one_def lib_batch_create_one_def Let_def event_defs
  by (cases p; cases q; simp only: prod.case snd_conv; elim control;
      (hypsubst | assumption | erule runs | rule updates)+)+

lemma batch_revoke_runs:
  "batch_revoke_one e i rs a s = Inr s' \<Longrightarrow> host_step\<^sup>*\<^sup>* r s \<Longrightarrow> host_step\<^sup>*\<^sup>* r s'"
  "lib_revoke_one e i rs k s = Inr s' \<Longrightarrow> host_step\<^sup>*\<^sup>* r s \<Longrightarrow> host_step\<^sup>*\<^sup>* r s'"
  unfolding batch_revoke_one_def lib_revoke_one_def Let_def event_defs
  by (elim control; (hypsubst | assumption | erule runs | rule updates)+)+

lemma for_each_batch_runs [runs]:
  "for_each (batch_create_one e i c x l) ys (ids, s) = Inr (ids', s') \<Longrightarrow> host_step\<^sup>*\<^sup>* r s \<Longrightarrow> host_step\<^sup>*\<^sup>* r s'"
  "for_each (lib_batch_create_one e i c x l) ys (ids, s) = Inr (ids', s') \<Longrightarrow> host_step\<^sup>*\<^sup>* r s \<Longrightarrow> host_step\<^sup>*\<^sup>* r s'"
  "for_each (batch_revoke_one e i rs) bs s = Inr s' \<Longrightarrow> host_step\<^sup>*\<^sup>* r s \<Longrightarrow> host_step\<^sup>*\<^sup>* r s'"
  "for_each (lib_revoke_one e i rs) ks s = Inr s' \<Longrightarrow> host_step\<^sup>*\<^sup>* r s \<Longrightarrow> host_step\<^sup>*\<^sup>* r s'"
  "for_each (Storage_add_to_whitelist i) ys s = Inr s' \<Longrightarrow> host_step\<^sup>*\<^sup>* r s \<Longrightarrow> host_step\<^sup>*\<^sup>* r s'"
proof -
  show "for_each (batch_create_one e i c x l) ys (ids, s) = Inr (ids', s') \<Longrightarrow> host_step\<^sup>*\<^sup>* r s \<Longrightarrow> host_step\<^sup>*\<^sup>* r s'"
    by (drule for_each_invariant [where I = "\<lambda>p. host_step\<^sup>*\<^sup>* r (snd p)"]) (auto intro: batch_create_runs(1))
  show "for_each (lib_batch_create_one e i c x l) ys (ids, s) = Inr (ids', s') \<Longrightarrow> host_step\<^sup>*\<^sup>* r s \<Longrightarrow> host_step\<^sup>*\<^sup>* r s'"
    by (drule for_each_invariant [where I = "\<lambda>p. host_step\<^sup>*\<^sup>* r (snd p)"]) (auto intro: batch_create_runs(2))
qed (erule for_each_runs; (assumption | erule batch_revoke_runs runs; assumption))+

lemma admin_handler_runs:
  "initialize e a0 d0 s = Inr (u0, s') \<Longrightarrow> host_step\<^sup>*\<^sup>* s s'"
  "transfer_admin e a1 b1 s = Inr (u1, s') \<Longrightarrow> host_step\<^sup>*\<^sup>* s s'"
  "propose_admin_transfer e a2 b2 s = Inr (u2, s') \<Longrightarrow> host_step\<^sup>*\<^sup>* s s'"
  "cancel_admin_transfer e a3 s = Inr (u3, s') \<Longrightarrow> host_step\<^sup>*\<^sup>* s s'"
  "accept_admin_transfer e a4 s = Inr (u4, s') \<Longrightarrow> host_step\<^sup>*\<^sup>* s s'"
  "add_admin e a5 b5 s = Inr (u5, s') \<Longrightarrow> host_step\<^sup>*\<^sup>* s s'"
  "remove_admin e a6 b6 s = Inr (u6, s') \<Longrightarrow> host_step\<^sup>*\<^sup>* s s'"
  "set_fee e a7 f7 c7 t7 s = Inr (u7, s') \<Longrightarrow> host_step\<^sup>*\<^sup>* s s'"
  "set_rate_limit e a8 n8 s = Inr (u8, s') \<Longrightarrow> host_step\<^sup>*\<^sup>* s s'"
  "set_rate_limit_for_claim_type e a9 c9 n9 s = Inr (u9, s') \<Longrightarrow> host_step\<^sup>*\<^sup>* s s'"
  "lib_pause e a10 r10 s = Inr (u10, s') \<Longrightarrow> host_step\<^sup>*\<^sup>* s s'"
  "lib_unpause e a11 s = Inr (u11, s') \<Longrightarrow> host_step\<^sup>*\<^sup>* s s'"
  "set_limits e a12 m12 n12 s = Inr (u12, s') \<Longrightarrow> host_step\<^sup>*\<^sup>* s s'"
  "register_claim_type e a13 c13 d13 s = Inr (u13, s') \<Longrightarrow> host_step\<^sup>*\<^sup>* s s'"
  "lib_set_require_registered_claim_type e a14 b14 s = Inr (u14, s') \<Longrightarrow> host_step\<^sup>*\<^sup>* s s'"
  unfolding admin_handlers Let_def event_defs
  by (elim control; (hypsubst | rule runs_refl | erule runs | rule updates)+)+

lemma admin_call_runs: "exec_admin e c s = Inr s' \<Longrightarrow> host_step\<^sup>*\<^sup>* s s'"
  by (cases c) (auto elim!: postE intro: admin_handler_runs)

lemma registry_handler_runs:
  "register_issuer e a0 i0 s = Inr (u0, s') \<Longrightarrow> host_step\<^sup>*\<^sup>* s s'"
  "remove_issuer e a1 i1 s = Inr (u1, s') \<Longrightarrow> host_step\<^sup>*\<^sup>* s s'"
  "register_bridge e a2 b2 s = Inr (u2, s') \<Longrightarrow> host_step\<^sup>*\<^sup>* s s'"
  "set_issuer_tier e a3 i3 t3 s = Inr (u3, s') \<Longrightarrow> host_step\<^sup>*\<^sup>* s s'"
  "set_issuer_metadata e i4 m4 s = Inr (u4, s') \<Longrightarrow> host_step\<^sup>*\<^sup>* s s'"
  "add_to_whitelist e i5 x5 s = Inr (u5, s') \<Longrightarrow> host_step\<^sup>*\<^sup>* s s'"
  "bulk_add_to_whitelist e i6 xs6 s = Inr (u6, s') \<Longrightarrow> host_step\<^sup>*\<^sup>* s s'"
  "remove_from_whitelist e i7 x7 s = Inr (u7, s') \<Longrightarrow> host_step\<^sup>*\<^sup>* s s'"
  "set_whitelist_enabled e i8 b8 s = Inr (u8, s') \<Longrightarrow> host_step\<^sup>*\<^sup>* s s'"
  "enable_whitelist_mode e i9 s = Inr (u9, s') \<Longrightarrow> host_step\<^sup>*\<^sup>* s s'"
  "delegate_claim_type e i10 d10 c10 x10 s = Inr (u10, s') \<Longrightarrow> host_step\<^sup>*\<^sup>* s s'"
  "revoke_delegation e i11 d11 c11 s = Inr (u11, s') \<Longrightarrow> host_step\<^sup>*\<^sup>* s s'"
  "register_expiration_hook e x12 k12 n12 s = Inr (u12, s') \<Longrightarrow> host_step\<^sup>*\<^sup>* s s'"
  "remove_expiration_hook e x13 s = Inr (u13, s') \<Longrightarrow> host_step\<^sup>*\<^sup>* s s'"
  "save_template e i14 t14 c14 m14 s = Inr (u14, s') \<Longrightarrow> host_step\<^sup>*\<^sup>* s s'"
  "delete_template e i15 t15 s = Inr (u15, s') \<Longrightarrow> host_step\<^sup>*\<^sup>* s s'"
  unfolding registry_handlers Let_def event_defs
  by (elim control; (hypsubst | rule runs_refl | erule runs | rule updates)+)+

lemma registry_call_runs: "exec_registry e c s = Inr s' \<Longrightarrow> host_step\<^sup>*\<^sup>* s s'"
  by (cases c) (auto elim!: postE intro: registry_handler_runs)

lemma att_handler_runs:
  "create_attestation e i0 x0 c0 ex0 m0 tg0 s = Inr (u0, s') \<Longrightarrow> host_step\<^sup>*\<^sup>* s s'"
  "create_attestation_valid_from e i1 x1 c1 ex1 m1 tg1 vf1 s = Inr (u1, s') \<Longrightarrow> host_step\<^sup>*\<^sup>* s s'"
  "create_attestation_jurisdiction e i2 x2 c2 ex2 m2 j2 tg2 s = Inr (u2, s') \<Longrightarrow> host_step\<^sup>*\<^sup>* s s'"
  "import_attestation e a3 i3 x3 c3 ts3 ex3 s = Inr (u3, s') \<Longrightarrow> host_step\<^sup>*\<^sup>* s s'"
  "bridge_attestation e b4 x4 c4 sc4 st4 s = Inr (u4, s') \<Longrightarrow> host_step\<^sup>*\<^sup>* s s'"
  "create_attestations_batch e i5 xs5 c5 ex5 s = Inr (u5, s') \<Longrightarrow> host_step\<^sup>*\<^sup>* s s'"
  "create_attestation_as_delegate e d6 i6 x6 c6 ex6 m6 s = Inr (u6, s') \<Longrightarrow> host_step\<^sup>*\<^sup>* s s'"
  "revoke_attestation e i7 k7 r7 s = Inr (u7, s') \<Longrightarrow> host_step\<^sup>*\<^sup>* s s'"
  "revoke_attestations_batch e i8 ks8 r8 s = Inr (u8, s') \<Longrightarrow> host_step\<^sup>*\<^sup>* s s'"
  "renew_attestation e i9 k9 ex9 s = Inr (u9, s') \<Longrightarrow> host_step\<^sup>*\<^sup>* s s'"
  "update_expiration e i10 k10 ex10 s = Inr (u10, s') \<Longrightarrow> host_step\<^sup>*\<^sup>* s s'"
  "transfer_attestation e a11 k11 i11 s = Inr (u11, s') \<Longrightarrow> host_step\<^sup>*\<^sup>* s s'"
  "request_deletion e x12 k12 s = Inr (u12, s') \<Longrightarrow> host_step\<^sup>*\<^sup>* s s'"
  "endorse_attestation e i13 k13 s = Inr (u13, s') \<Longrightarrow> host_step\<^sup>*\<^sup>* s s'"
  unfolding att_handlers Let_def event_defs
  by (elim control; (hypsubst | rule runs_refl | erule runs | rule updates)+)+

lemma att_call_runs: "exec_att e c s = Inr s' \<Longrightarrow> host_step\<^sup>*\<^sup>* s s'"
  by (cases c) (auto elim!: postE intro: att_handler_runs)

lemma flow_handler_runs:
  "propose_attestation e i0 x0 c0 rs0 n0 s = Inr (u0, s') \<Longrightarrow> host_step\<^sup>*\<^sup>* s s'"
  "cosign_attestation e i1 p1 s = Inr (u1, s') \<Longrightarrow> host_step\<^sup>*\<^sup>* s s'"
  "request_attestation e x2 i2 c2 s = Inr (u2, s') \<Longrightarrow> host_step\<^sup>*\<^sup>* s s'"
  "fulfill_request e i3 r3 ex3 s = Inr (u3, s') \<Longrightarrow> host_step\<^sup>*\<^sup>* s s'"
  "reject_request e i4 r4 t4 s = Inr (u4, s') \<Longrightarrow> host_step\<^sup>*\<^sup>* s s'"
  "cancel_request e x5 r5 s = Inr (u5, s') \<Longrightarrow> host_step\<^sup>*\<^sup>* s s'"
  "init_council e a6 ms6 q6 s = Inr (u6, s') \<Longrightarrow> host_step\<^sup>*\<^sup>* s s'"
  "propose_council_action e a7 op7 s = Inr (u7, s') \<Longrightarrow> host_step\<^sup>*\<^sup>* s s'"
  "approve_council_action e a8 p8 s = Inr (u8, s') \<Longrightarrow> host_step\<^sup>*\<^sup>* s s'"
  "execute_council_action e a9 p9 s = Inr (u9, s') \<Longrightarrow> host_step\<^sup>*\<^sup>* s s'"
  "lib_propose_attestation e i10 x10 c10 rs10 n10 s = Inr (u10, s') \<Longrightarrow> host_step\<^sup>*\<^sup>* s s'"
  "lib_cosign_attestation e i11 p11 s = Inr (u11, s') \<Longrightarrow> host_step\<^sup>*\<^sup>* s s'"
  unfolding flow_handlers Let_def event_defs
  by (elim control; (hypsubst | rule runs_refl | erule runs | rule updates)+)+

lemma flow_call_runs: "exec_flow e c s = Inr s' \<Longrightarrow> host_step\<^sup>*\<^sup>* s s'"
  by (cases c) (auto elim!: postE intro: flow_handler_runs)

lemma lib_handler_runs:
  "lib_bridge_attestation e b0 x0 c0 sc0 st0 s = Inr (u0, s') \<Longrightarrow> host_step\<^sup>*\<^sup>* s s'"
  "lib_create_attestations_batch e i1 xs1 c1 ex1 s = Inr (u1, s') \<Longrightarrow> host_step\<^sup>*\<^sup>* s s'"
  "lib_revoke_attestation e i2 k2 r2 s = Inr (u2, s') \<Longrightarrow> host_step\<^sup>*\<^sup>* s s'"
  "lib_revoke_attestations_batch e i3 ks3 r3 s = Inr (u3, s') \<Longrightarrow> host_step\<^sup>*\<^sup>* s s'"
  "lib_request_deletion e x4 k4 s = Inr (u4, s') \<Longrightarrow> host_step\<^sup>*\<^sup>* s s'"
  "lib_register_expiration_hook e x5 k5 n5 s = Inr (u5, s') \<Longrightarrow> host_step\<^sup>*\<^sup>* s s'"
  unfolding lib_handlers Let_def event_defs
  by (elim control; (hypsubst | rule runs_refl | erule runs | rule updates)+)+

lemma lib_call_runs: "exec_lib e c s = Inr s' \<Longrightarrow> host_step\<^sup>*\<^sup>* s s'"
  by (cases c) (auto elim!: postE intro: lib_handler_runs)

lemma exec_runs: "exec e c s = Inr s' \<Longrightarrow> host_step\<^sup>*\<^sup>* s s'"
  by (cases c) (auto intro: admin_call_runs registry_call_runs att_call_runs flow_call_runs lib_call_runs)

subsection \<open>What host operations keep, calls keep\<close>

locale storage_invariant =
  fixes P :: "storage \<Rightarrow> bool"
  assumes kept: "P s \<Longrightarrow> host_step s s' \<Longrightarrow> P s'"
begin

lemma runs_keep: "host_step\<^sup>*\<^sup>* s s' \<Longrightarrow> P s \<Longrightarrow> P s'"
  by (induction rule: rtranclp_induct) (auto intro: kept)

lemma exec_keeps: "exec e c s = Inr s' \<Longrightarrow> P s \<Longrightarrow> P s'"
  by (rule runs_keep [OF exec_runs])

lemma calls_keep: "(\<lambda>s t. \<exists>e c. exec e c s = Inr t)\<^sup>*\<^sup>* s t \<Longrightarrow> P s \<Longrightarrow> P t"
  by (induction rule: rtranclp_induct) (auto intro: exec_keeps)

lemma reachable_keeps: "reachable m s \<Longrightarrow> P empty_storage \<Longrightarrow> P s"
  by (induction rule: reachable.induct) (auto intro: exec_keeps)

end

text \<open>Exactly the stored entries have a lifetime.\<close>

definition lifetimes_ok :: "storage \<Rightarrow> bool" where
  "lifetimes_ok s \<longleftrightarrow> (\<forall>k. ttl (host s) k = None \<longleftrightarrow> entry k s = None)"

interpretation lifetimes: storage_invariant lifetimes_ok
proof unfold_locales
  fix s s' assume "lifetimes_ok s" and "host_step s s'"
  from this(2,1) show "lifetimes_ok s'"
    by cases (simp_all add: lifetimes_ok_def)
qed

text \<open>The records that document the history: they are only ever extended.\<close>

definition trail_extends :: "storage \<Rightarrow> storage \<Rightarrow> bool" where
  "trail_extends s s' \<longleftrightarrow>
     (\<forall>i. prefix (Storage_get_audit_log i s) (Storage_get_audit_log i s')) \<and>
     (\<forall>i. prefix (Storage_get_endorsements i s) (Storage_get_endorsements i s')) \<and>
     (\<forall>a. prefix (Storage_get_endorsements_by_endorser a s) (Storage_get_endorsements_by_endorser a s')) \<and>
     prefix (events (host s)) (events (host s')) \<and> prefix (calls (host s)) (calls (host s'))"

lemma trail_extends_refl: "trail_extends s s"
  by (simp add: trail_extends_def)

lemma trail_extends_trans: "trail_extends s t \<Longrightarrow> trail_extends t u \<Longrightarrow> trail_extends s u"
  unfolding trail_extends_def by (blast intro: prefix_order.trans)

lemma stored_log_prefix:
  assumes "map_option f y = (if j = k then Some v else map_option f x)"
    and "j = k \<Longrightarrow> log_extends (map_option f x) v" and "inj f"
    and log: "\<And>old l. log_extends old (f l) \<longleftrightarrow> l \<noteq> [] \<and> f (butlast l) = unwrap_or old (f [])"
  shows "prefix (unwrap_or x []) (unwrap_or y [])"
proof (cases "j = k")
  case True
  with assms(1) obtain l where y: "y = Some l" and v: "v = f l" by auto
  have ext: "l \<noteq> []" "f (butlast l) = unwrap_or (map_option f x) (f [])"
    using assms(2) [OF True] unfolding v log by simp_all
  from ext(2) have "unwrap_or x [] = butlast l"
    by (cases x) (auto dest: injD [OF assms(3)])
  then show ?thesis by (simp add: y prefixeq_butlast)
qed (use assms(1) in \<open>simp add: map_option_inject [OF assms(3)]\<close>)

lemma log_entries:
  "map_option V_Audit (audit_log (atts s) i) = entry (K_AuditLog i) s"
  "map_option V_Endorsements (endorsements (atts s) i) = entry (K_Endorsements i) s"
  "map_option V_Endorsements (endorser_index (atts s) a) = entry (K_EndorserIndex a) s"
  by simp_all

lemma trail_kept:
  assumes "\<And>j. log_key j \<Longrightarrow> entry j s' = entry j s"
    and "prefix (events (host s)) (events (host s'))" and "prefix (calls (host s)) (calls (host s'))"
  shows "trail_extends s s'"
proof -
  have "audit_log (atts s') i = audit_log (atts s) i" and "endorsements (atts s') i = endorsements (atts s) i"
    and "endorser_index (atts s') a = endorser_index (atts s) a" for i a
    using assms(1) [of "K_AuditLog i"] assms(1) [of "K_Endorsements i"] assms(1) [of "K_EndorserIndex a"]
    by (simp_all add: map_option_inject [OF stored_inj(12)] map_option_inject [OF stored_inj(13)])
  then show ?thesis using assms(2,3) by (simp add: trail_extends_def readers)
qed

lemma put_trail:
  assumes "\<And>j. entry j s' = (if j = k then Some v else entry j s)" and "log_extends (entry k s) v"
    and "events (host s') = events (host s)" and "calls (host s') = calls (host s)"
  shows "trail_extends s s'"
proof -
  note put = simp_thms log_entries stored_inj log_extends.simps assms(1,2)
  have "prefix (Storage_get_audit_log i s) (Storage_get_audit_log i s')" for i
    unfolding readers
    by (rule stored_log_prefix [of V_Audit _ "K_AuditLog i" k v]) (simp_all only: put)
  moreover have "prefix (Storage_get_endorsements i s) (Storage_get_endorsements i s')" for i
    unfolding readers
    by (rule stored_log_prefix [of V_Endorsements _ "K_Endorsements i" k v]) (simp_all only: put)
  moreover have "prefix (Storage_get_endorsements_by_endorser a s) (Storage_get_endorsements_by_endorser a s')" for a
    unfolding readers
    by (rule stored_log_prefix [of V_Endorsements _ "K_EndorserIndex a" k v]) (simp_all only: put)
  ultimately show ?thesis using assms(3,4) by (simp add: trail_extends_def)
qed

lemma host_step_trail:
  assumes "host_step s s'" shows "trail_extends s s'"
  using assms
proof cases
  case put then show ?thesis by - (rule put_trail, auto)
next
  case remove then show ?thesis by - (rule trail_kept, auto)
qed (rule trail_kept; simp)+

text \<open>Stated of two states, append-only is an invariant of the later one.\<close>

interpretation trails: storage_invariant "trail_extends s" for s
  by unfold_locales (blast intro: trail_extends_trans host_step_trail)

text \<open>With a lifetime that does not fit, nothing is stored any more: entries can only go, and of the instance
  only what is written without a lifetime can change.\<close>

definition frozen :: "storage \<Rightarrow> storage \<Rightarrow> bool" where
  "frozen s t \<longleftrightarrow> \<not> ttl_ok t \<and> (\<forall>k. entry k t = entry k s \<or> entry k t = None) \<and>
     inst t = (inst s)\<lparr>version := version (inst t), proposal_counter := proposal_counter (inst t),
       pending_admin_transfer := pending_admin_transfer (inst t), pause_reason := pause_reason (inst t)\<rparr> \<and>
     (pending_admin_transfer (inst t) = pending_admin_transfer (inst s) \<or> pending_admin_transfer (inst t) = None) \<and>
     (pause_reason (inst t) = pause_reason (inst s) \<or> pause_reason (inst t) = None)"

lemma frozen_refl: "\<not> ttl_ok s \<Longrightarrow> frozen s s"
  by (simp add: frozen_def)

interpretation frozen: storage_invariant "frozen s" for s
proof unfold_locales
  fix t u assume f: "frozen s t" and "host_step t u"
  from this(2) show "frozen s u"
  proof cases
    case note_instance
    then show ?thesis using f by (cases "inst s"; cases "inst t") (auto simp: frozen_def ttl_ok_def)
  next
    case clear_instance
    then show ?thesis using f by (cases "inst s"; cases "inst t") (auto simp: frozen_def ttl_ok_def)
  qed (use f in \<open>auto simp: frozen_def ttl_ok_def\<close>)
qed

subsection \<open>Properties\<close>

text \<open>C25: In every reachable state exactly the keys that hold an entry have a lifetime: no write forgets to
extend the lifetime of what it stored, and no removal leaves one behind.\<close>

theorem entries_have_lifetime:
  assumes "reachable m s"
  shows "ttl (host s) k = None \<longleftrightarrow> entry k s = None"
proof -
  have "lifetimes_ok empty_storage"
    unfolding lifetimes_ok_def
  proof
    show "ttl (host empty_storage) k = None \<longleftrightarrow> entry k empty_storage = None" for k
      by (cases k) (simp_all add: empty_storage_def)
  qed
  then have "lifetimes_ok s" by (rule lifetimes.reachable_keeps [OF assms])
  then show ?thesis by (simp add: lifetimes_ok_def)
qed

theorem entries_have_lifetime_witness:
  "ttl (host state_3) (K_Attestation kyc_id) = Some 518400 \<and> entry (K_Attestation kyc_id) state_3 \<noteq> None"
proof -
  have "ttl (host state_3) (K_Attestation kyc_id) = Some 518400" by (simp add: state_defs)
  then show ?thesis
    using entries_have_lifetime [OF history_reachable(3) [of False], of "K_Attestation kyc_id"] by simp
qed

text \<open>C26: No call shortens or rewrites the history: the audit trail of every attestation, the endorsements
of every attestation and by every endorser, the published events and the calls to other contracts
are afterwards extensions of what they were.\<close>

theorem trails_append_only:
  assumes "exec e c s = Inr s'"
  shows "prefix (Storage_get_audit_log i s) (Storage_get_audit_log i s') \<and>
     prefix (Storage_get_endorsements i s) (Storage_get_endorsements i s') \<and>
     prefix (Storage_get_endorsements_by_endorser a s) (Storage_get_endorsements_by_endorser a s') \<and>
     prefix (events (host s)) (events (host s')) \<and> prefix (calls (host s)) (calls (host s'))"
  using trails.exec_keeps [OF assms trail_extends_refl] by (simp add: trail_extends_def)

theorem trails_append_only_witness:
  "exec (host_at 12) (Att (C_create_attestation (Address 2) (Address 3) ''KYC'' None None None)) state_2 = Inr state_3
     \<and> prefix (Storage_get_audit_log kyc_id state_2) (Storage_get_audit_log kyc_id state_3)
     \<and> prefix (events (host state_2)) (events (host state_3))"
  using exec_3 trails_append_only [OF exec_3, of kyc_id] by blast

end
