(* ===== verification/TL_Governance.thy ===== *)
theory TL_Governance
  imports TL_Host
begin

section \<open>Administration and council\<close>

text \<open>
  Results on \<^verbatim>\<open>admin.rs\<close> and on the council actions of \<^verbatim>\<open>lib.rs\<close>: how the set of admins can change, what
  a configured lifetime that does not fit does to every later call, and what a council action needs.
\<close>

subsection \<open>Admins\<close>

text \<open>Removing an admin removes that address and no other from a council without duplicates, and never
  leaves the council empty.\<close>

lemma remove_admin_keeps_council:
  assumes "admin_council (inst s) = Some council" and "distinct council"
    and "remove_admin e a b s = Inr (u, s')"
  shows "admin_council (inst s') = Some (without b council) \<and> Storage_has_admin s'"
proof -
  have s': "a \<in> set council" "1 < length council" "admin_council (inst s') = Some (without b council)"
    using assms(1,3) unfolding remove_admin_def writers readers
    by (elim steps; simp add: event_defs not_le)+
  have "without b council \<noteq> []"
  proof
    assume "without b council = []"
    then have "set council \<subseteq> {b}" by (metis set_without Diff_eq_empty_iff set_empty)
    then have "card (set council) \<le> 1" using card_mono [of "{b}"] by fastforce
    with s'(2) show False using distinct_card [OF assms(2)] by simp
  qed
  with s'(3) show ?thesis by (simp add: readers)
qed

text \<open>Accepting a proposed transfer makes the accepting address an admin, takes the role from the
  proposer alone, and uses the proposal up; nobody but the named address can accept.\<close>

lemma accept_transfer_effect:
  assumes "accept_admin_transfer e b s = Inr (u, s')" and "admin_council (inst s) = Some council"
  shows "\<exists>p. pending_admin_transfer (inst s) = Some p \<and> new_admin p = b \<and>
    pending_admin_transfer (inst s') = None \<and>
    admin_council (inst s') = Some (without (proposed_by p) (if b \<in> set council then council else council @ [b]))"
  using assms unfolding accept_admin_transfer_def writers readers Let_def
  by (elim steps) (simp_all add: event_defs)

lemma initialize_succeeds:
  assumes "\<not> Storage_has_admin s" and "ttl_ok s" and "authorised e b"
  shows "\<exists>s'. initialize e b d s = Inr ((), s') \<and> admin_council (inst s') = Some [b] \<and>
    ttl_config (inst s') = Some \<lparr>ttl_days = unwrap_or d 30\<rparr>"
  using assms by (simp add: initialize_def require_auth_def writers set_instance_def with_ttl_eq Let_def
      ttl_ok_inst event_defs)

text \<open>C36: A sole admin who transfers the role to itself leaves the contract without any admin, although
  removing the last admin is forbidden; from then on whoever calls \<^verbatim>\<open>initialize\<close> first takes the contract
  over.\<close>

theorem self_transfer_abandons_contract:
  assumes "admin_council (inst s) = Some [a]" and "ttl_ok s" and "authorised e a"
  shows "\<exists>s'. transfer_admin e a a s = Inr ((), s') \<and> \<not> Storage_has_admin s' \<and>
    (\<forall>e' b d. authorised e' b \<longrightarrow>
       (\<exists>t. initialize e' b d s' = Inr ((), t) \<and> admin_council (inst t) = Some [b]))"
proof -
  let ?s = "extend_instance (lifetime s) (inst_update (admin_council_update (\<lambda>_. Some [])) s)"
  let ?s' = "Events_admin_transferred a a ?s"
  have "transfer_admin e a a s = Inr ((), ?s')"
    using assms by (simp add: transfer_admin_def require_auth_def require_admin_def writers readers
        set_instance_def with_ttl_eq)
  moreover have "\<not> Storage_has_admin ?s'" "ttl_ok ?s'"
    using assms(2) by (simp_all add: readers event_defs)
  ultimately show ?thesis using initialize_succeeds [of ?s'] by blast
qed

theorem self_transfer_abandons_contract_witness:
  "\<exists>s' t. transfer_admin (host_at 20) (Address 5) (Address 5) state_1 = Inr ((), s') \<and>
     initialize (host_at 21) (Address 9) None s' = Inr ((), t) \<and> admin_council (inst t) = Some [Address 9]"
proof -
  have "admin_council (inst state_1) = Some [Address 5]" "ttl_ok state_1"
    by (simp_all add: state_1_def ttl_ok_def)
  from self_transfer_abandons_contract [OF this, of "host_at 20"] show ?thesis
    using host_at_simps(2) by blast
qed

subsection \<open>The configured lifetime\<close>

lemma initialize_entries: "initialize e b d s = Inr (u, s') \<Longrightarrow> entry k s' = entry k s"
  unfolding initialize_def Let_def writers
  by (elim steps) (cases k; simp add: event_defs)

lemma register_issuer_needs_ttl: "\<not> ttl_ok s \<Longrightarrow> \<exists>err. register_issuer e b i s = Inl err"
  unfolding register_issuer_def
  by (cases "register_issuer e b i s") (auto simp: register_issuer_def flow Storage_add_issuer_def with_ttl_eq)

lemma empty_entries: "entry k empty_storage = None"
  by (cases k) (simp_all add: empty_storage_def)

text \<open>C37: Initialisation accepts any lifetime, but with 248552 days or more the number of ledgers no longer
  fits 32 bits: the call succeeds, and whatever calls follow, by whomever, none of them stores anything.  The
  store stays empty, no issuer can be registered, and nothing of the instance changes but perhaps its version and
  its proposal counter, the two fields that are set without a lifetime; in particular no admin can repair the
  setting.\<close>

theorem excessive_ttl_bricks_contract:
  assumes "authorised e a" and "248552 \<le> unat d"
  shows "\<exists>s. initialize e a (Some d) empty_storage = Inr ((), s) \<and>
    (\<forall>t. (\<lambda>s t. \<exists>e' c. exec e' c s = Inr t)\<^sup>*\<^sup>* s t \<longrightarrow>
       (\<forall>k. entry k t = None) \<and>
       inst t = (inst s)\<lparr>version := version (inst t), proposal_counter := proposal_counter (inst t)\<rparr> \<and>
       (\<forall>e' b i. \<exists>err. register_issuer e' b i t = Inl err))"
proof -
  have "\<not> Storage_has_admin empty_storage" "ttl_ok empty_storage"
    by (simp_all add: readers ttl_ok_def empty_storage_def)
  from initialize_succeeds [OF this assms(1), of "Some d"] obtain s
    where s: "initialize e a (Some d) empty_storage = Inr ((), s)" "ttl_config (inst s) = Some \<lparr>ttl_days = d\<rparr>"
    by auto
  have none: "entry k s = None" for k using initialize_entries [OF s(1)] empty_entries by simp
  have clear: "pending_admin_transfer (inst s) = None" "pause_reason (inst s) = None"
    using s(1) unfolding initialize_def Let_def writers
    by (elim steps, simp add: event_defs empty_storage_def)+
  have "\<not> ttl_ok s" using assms(2) by (simp add: ttl_ok_def s(2))
  then have f: "frozen s t" if "(\<lambda>s t. \<exists>e' c. exec e' c s = Inr t)\<^sup>*\<^sup>* s t" for t
    using frozen.calls_keep [OF that] frozen_refl by blast
  have "(\<forall>k. entry k t = None) \<and>
      inst t = (inst s)\<lparr>version := version (inst t), proposal_counter := proposal_counter (inst t)\<rparr> \<and>
      (\<forall>e' b i. \<exists>err. register_issuer e' b i t = Inl err)" if "frozen s t" for t
    using that none clear register_issuer_needs_ttl [of t]
    by (cases "inst s"; cases "inst t") (auto simp: frozen_def)
  with s(1) f show ?thesis by blast
qed

theorem excessive_ttl_bricks_contract_witness:
  "\<exists>s. initialize (host_at 10) (Address 5) (Some 300000) empty_storage = Inr ((), s) \<and>
     (\<exists>err. register_issuer (host_at 11) (Address 5) (Address 2) s = Inl err)"
  using excessive_ttl_bricks_contract [of "host_at 10" "Address 5" 300000] by auto

subsection \<open>Council actions\<close>

text \<open>C38: The quorum given to \<^verbatim>\<open>init_council\<close> is never consulted: any single member can propose an action
  and execute it at once on the strength of its own approval, pausing the contract or removing an issuer.\<close>

theorem council_quorum_ignored:
  assumes "admin_council (inst s) = Some council" and "a \<in> set council" and "ttl_ok s"
    and "authorised e a" and "Suc (unat (unwrap_or (proposal_counter (inst s)) 0)) < 2 ^ 32"
  shows "\<exists>n s1 s2. propose_council_action e a op s = Inr (n, s1) \<and>
    execute_council_action e a n s1 = Inr ((), s2) \<and>
    (case op of Op_RemoveIssuer i \<Rightarrow> \<not> Storage_is_issuer i s2 | Op_PauseContract \<Rightarrow> Storage_is_paused s2)"
proof -
  obtain n s1 where s1: "propose_council_action e a op s = Inr (n, s1)" "ttl_ok s1"
      "admin_council (inst s1) = Some council"
      "council_entry (flow_st s1) n = Some \<lparr>cp_id = n, cp_operation = op, cp_proposer = a,
         cp_approvals = [a], cp_executed = False\<rparr>"
    using assms by (simp add: propose_council_action_def require_auth_def Storage_next_proposal_id_def
        checked_add_def Storage_set_proposal_def set_flow_def with_ttl_eq readers event_defs ttl_ok_inst)
  obtain s2 where s2: "execute_council_action e a n s1 = Inr ((), s2)"
    using assms(2,4) s1(2-4)
    by (cases op; cases council)
      (simp_all add: execute_council_action_def require_auth_def readers Storage_set_proposal_def
        set_flow_def with_ttl_eq vec_get_def writers set_instance_def event_defs)
  have "case op of Op_RemoveIssuer i \<Rightarrow> \<not> Storage_is_issuer i s2 | Op_PauseContract \<Rightarrow> Storage_is_paused s2"
    using execute_council_action_effect [OF s2] s1(4) by (cases op) (auto simp: readers)
  with s1(1) s2 show ?thesis by blast
qed

theorem council_quorum_ignored_witness:
  "\<exists>n s1 s2. propose_council_action (host_at 20) (Address 5) Op_PauseContract state_1 = Inr (n, s1) \<and>
     execute_council_action (host_at 20) (Address 5) n s1 = Inr ((), s2) \<and> Storage_is_paused s2"
proof -
  have "admin_council (inst state_1) = Some [Address 5]" "ttl_ok state_1"
    "proposal_counter (inst state_1) = None"
    by (simp_all add: state_1_def ttl_ok_def empty_storage_def)
  then show ?thesis
    using council_quorum_ignored [of state_1 "[Address 5]" "Address 5" "host_at 20" Op_PauseContract] by simp
qed

end
