(* ===== verification/TL_Copies.thy ===== *)
theory TL_Copies
  imports TL_Answers
begin

section \<open>The handlers \<open>lib.rs\<close> keeps for itself\<close>

text \<open>
  \<^verbatim>\<open>lib.rs\<close> has bodies of its own for some handlers of \<^verbatim>\<open>attestation.rs\<close>.  They do not maintain the
  index \<^verbatim>\<open>has_valid_claim\<close> walks; the results here say what follows for that query.
\<close>

lemma reachable_mono: "reachable True s \<Longrightarrow> reachable False s"
  by (induction rule: reachable.induct) (auto intro: reachable.intros)

lemma lib_bridge_attestation_effect:
  assumes "lib_bridge_attestation e b x c sc st s = Inr (i, s')"
  obtains a where "att_id a = i" "att_subject a = x" "att_claim_type a = c" "\<not> att_deleted a"
    "get_status a (timestamp e) = St_Valid" "attestation_entry (atts s) i = None"
    "attestation_entry (atts s') = (attestation_entry (atts s))(i \<mapsto> a)"
    "valid_ids (atts s') = valid_ids (atts s)"
proof -
  from assms obtain a t where "lib_store_attestation a s = Inr t" "view s' = view t"
    "att_id a = i" "att_subject a = x" "att_claim_type a = c" "\<not> att_deleted a" "\<not> att_revoked a"
    "att_valid_from a = None" "att_expiration a = None" "\<not> Storage_has_attestation i s"
    unfolding lib_bridge_attestation_def Let_def writers
    by (elim steps) (simp add: event_defs view_def)
  then show ?thesis
    using that [of a] lib_store_attestation_effect [of a s t]
    by (simp add: Storage_has_attestation_def get_status_def view_def)
qed

text \<open>An attestation bridged through the body in \<^verbatim>\<open>lib.rs\<close> is stored, and \<^verbatim>\<open>has_all_claims\<close> counts it,
  but \<^verbatim>\<open>has_valid_claim\<close> does not see it: the two queries disagree about the same claim.\<close>

lemma lib_bridge_unseen:
  assumes "reachable True s" and "lib_bridge_attestation e b x c sc st s = Inr (i, s')"
    and "\<nexists>a. valid_claim e x c s a"
  shows "has_all_claims e x [c] s' \<and> \<not> fst (has_valid_claim e x c s')"
proof
  obtain a where a: "att_id a = i" "att_subject a = x" "att_claim_type a = c" "\<not> att_deleted a"
    "get_status a (timestamp e) = St_Valid" "attestation_entry (atts s) i = None"
    "attestation_entry (atts s') = (attestation_entry (atts s))(i \<mapsto> a)"
    "valid_ids (atts s') = valid_ids (atts s)"
    using lib_bridge_attestation_effect [OF assms(2)] by blast
  have "exec e (Lib (L_bridge_attestation b x c sc st)) s = Inr s'"
    using assms(2) by (simp add: post_def)
  then have r: "reachable False s'"
    by (rule reachable.invoked [OF reachable_mono [OF assms(1)]]) (simp_all add: no_clash_def)
  have "valid_claim e x c s' a" using a by (simp add: valid_claim_def)
  with holds_claim_scan [OF r, of e c x] show "has_all_claims e x [c] s'"
    by (auto simp: has_all_claims_def)
  have listed: "attestation_entry (atts s) k \<noteq> None" if "k \<in> set (Storage_get_valid_attestations x s)" for k
    using that reachable_view_ok [OF assms(1)]
    by (simp add: view_ok_def valid_index_ok_def view_def readers list_of_def) blast
  have "Storage_get_valid_attestations x s' = Storage_get_valid_attestations x s" using a(8) by (simp add: readers)
  moreover have "i \<notin> set (Storage_get_valid_attestations x s)" using listed a(6) by blast
  ultimately show "\<not> fst (has_valid_claim e x c s')"
    using valid_scan [OF assms(1), of x c e] assms(3) a(7)
    by (auto simp: has_valid_claim_def scan_valid_claim_iff)
qed

text \<open>After a deletion through the second \<^verbatim>\<open>request_deletion\<close> of \<^verbatim>\<open>lib.rs\<close> the attestation is not found any
  more, yet \<^verbatim>\<open>has_valid_claim\<close> keeps answering true for it: that body leaves the id in the index and the
  query does not look at the deletion mark.\<close>

lemma lib_deletion_still_counts:
  assumes "reachable True s" and "lib_request_deletion e x i s = Inr (u, s')"
    and "attestation_entry (atts s) i = Some a" and "valid_claim e' x c s a"
  shows "get_attestation i s' = Inl (Err E_NotFound) \<and> fst (has_valid_claim e' x c s')"
proof -
  have ids: "att_id a = i"
    using reachable_view_ok [OF assms(1)] assms(3) by (simp add: view_ok_def ids_ok_def view_def)
  then have s': "attestation_entry (atts s') = (attestation_entry (atts s))(i \<mapsto> a\<lparr>att_deleted := True\<rparr>)"
    "valid_ids (atts s') = valid_ids (atts s)"
    using assms(2,3) unfolding lib_request_deletion_def Let_def writers Storage_get_attestation_def
    by (elim steps; simp add: event_defs)+
  have "i \<in> set (Storage_get_valid_attestations x s)"
    using reachable_view_ok [OF assms(1)] assms(3,4)
    by (auto simp: view_ok_def valid_index_ok_def view_def readers list_of_def valid_claim_def get_status_Valid)
  then have "i \<in> set (Storage_get_valid_attestations x s')" using s'(2) by (simp add: readers)
  moreover have "get_status (a\<lparr>att_deleted := True\<rparr>) (timestamp e') = St_Valid"
    using assms(4) by (simp add: valid_claim_def get_status_Valid)
  ultimately have "fst (has_valid_claim e' x c s')"
    using assms(4) s'(1) unfolding has_valid_claim_def scan_valid_claim_iff
    by (intro bexI [of _ i]) (auto simp: valid_claim_def)
  then show ?thesis by (simp add: get_attestation_def get_attestation_entry s'(1))
qed

end
