(* ===== verification/TL_Clients.thy ===== *)
theory TL_Clients
  imports TL_Answers
begin

section \<open>Contracts that rely on the registry\<close>

text \<open>
  The example contracts under \<^verbatim>\<open>src/examples\<close>: a token whose transfers need a claim of both parties,
  a ballot whose voters need one, and an insurer whose policyholders need two.  Each holds the address
  of a registry and asks it through a client.  What that address answers is a parameter of the
  handlers (\<open>claim_query\<close>, \<open>claims_query\<close>); the locale \<open>claim_registry\<close> states what the examples may rely
  on, and is interpreted on the queries of TrustLink.

  A panic with a message is \<open>Err\<close> of the message; a failed authorisation, \<^verbatim>\<open>unwrap\<close> of an absent entry,
  an overflow and a failed call into another contract are \<open>Trap\<close>.
\<close>

type_synonym 'a client_res = "string abort + 'a"

text \<open>A call of the contract at an address: subject, claim type, the state of the callee; no value when
  the call fails.\<close>

type_synonym 'w claim_query = "address \<Rightarrow> address \<Rightarrow> string \<Rightarrow> 'w \<Rightarrow> (bool \<times> 'w) option"
type_synonym 'w claims_query = "address \<Rightarrow> address \<Rightarrow> string list \<Rightarrow> 'w \<Rightarrow> (bool \<times> 'w) option"

text \<open>\<^verbatim>\<open>transfer\<close> and \<^verbatim>\<open>mint\<close> of the token contract at an address, on the token's own state.\<close>

type_synonym 't token_transfer = "address \<Rightarrow> address \<Rightarrow> address \<Rightarrow> int \<Rightarrow> 't \<Rightarrow> 't option"
type_synonym 't token_mint = "address \<Rightarrow> address \<Rightarrow> int \<Rightarrow> 't \<Rightarrow> 't option"

definition client_auth :: "env \<Rightarrow> address \<Rightarrow> unit client_res" where
  "client_auth e a = ensure (authorised e a) Trap"

lemma client_auth_Inr [flow]: "client_auth e a = Inr u \<longleftrightarrow> authorised e a"
  by (simp add: client_auth_def flow)

subsection \<open>The token\<close>

text \<open>Amounts are \<^verbatim>\<open>i128\<close> and only passed on.  The last field lists the \<^verbatim>\<open>kyc_xfer\<close> events.\<close>

record kyc_token =
  kt_admin :: "address option"
  kt_trustlink :: "address option"
  kt_events :: "(address \<times> address \<times> int) list"

definition KycToken_initialize :: "env \<Rightarrow> address \<Rightarrow> address \<Rightarrow> kyc_token \<Rightarrow> kyc_token client_res" where
  "KycToken_initialize e admin trustlink_contract k =
     and_then (client_auth e admin) (\<lambda>_.
     and_then (ensure (kt_admin k = None) (Err ''already initialized'')) (\<lambda>_.
     Inr (k\<lparr>kt_admin := Some admin, kt_trustlink := Some trustlink_contract\<rparr>)))"

definition KycToken_mint ::
  "'t token_mint \<Rightarrow> env \<Rightarrow> address \<Rightarrow> int \<Rightarrow> kyc_token \<times> 't \<Rightarrow> (kyc_token \<times> 't) client_res" where
  "KycToken_mint mint e to amount = (\<lambda>(k, t).
     and_then (ok_or (kt_admin k) Trap) (\<lambda>admin.
     and_then (client_auth e admin) (\<lambda>_.
     and_then (ok_or (mint (current_contract_address e) to amount t) Trap) (\<lambda>t.
     Inr (k, t)))))"

definition KycToken_transfer ::
  "'w claim_query \<Rightarrow> 't token_transfer \<Rightarrow> env \<Rightarrow> address \<Rightarrow> address \<Rightarrow> int \<Rightarrow> kyc_token \<times> 'w \<times> 't \<Rightarrow>
   (kyc_token \<times> 'w \<times> 't) client_res" where
  "KycToken_transfer ask transfer e from to amount = (\<lambda>(k, w, t).
     and_then (client_auth e from) (\<lambda>_.
     and_then (ok_or (kt_trustlink k) Trap) (\<lambda>trustlink.
     and_then (ok_or (ask trustlink from ''KYC_PASSED'' w) Trap) (\<lambda>(from_kyc, w).
     and_then (ok_or (ask trustlink to ''KYC_PASSED'' w) Trap) (\<lambda>(to_kyc, w).
     and_then (ensure (\<not> (\<not> from_kyc \<or> \<not> to_kyc)) (Err ''kyc required for sender and receiver'')) (\<lambda>_.
     and_then (ok_or (transfer (current_contract_address e) from to amount t) Trap) (\<lambda>t.
     Inr (k\<lparr>kt_events := kt_events k @ [(from, to, amount)]\<rparr>, w, t))))))))"

definition KycToken_set_trustlink :: "env \<Rightarrow> address \<Rightarrow> address \<Rightarrow> kyc_token \<Rightarrow> kyc_token client_res" where
  "KycToken_set_trustlink e admin trustlink_contract k =
     and_then (client_auth e admin) (\<lambda>_.
     and_then (ok_or (kt_admin k) Trap) (\<lambda>current_admin.
     and_then (ensure (current_admin = admin) (Err ''admin only'')) (\<lambda>_.
     Inr (k\<lparr>kt_trustlink := Some trustlink_contract\<rparr>))))"

definition KycToken_get_trustlink :: "kyc_token \<Rightarrow> address client_res" where
  "KycToken_get_trustlink k = ok_or (kt_trustlink k) Trap"

subsection \<open>The ballot\<close>

record ballot_proposal =
  deadline :: u64

record governance =
  gov_trustlink :: "address option"
  gov_proposal :: "u32 \<rightharpoonup> ballot_proposal"
  gov_vote :: "u32 \<times> address \<rightharpoonup> bool"

definition Governance_initialize :: "address \<Rightarrow> governance \<Rightarrow> governance" where
  "Governance_initialize trustlink g = g\<lparr>gov_trustlink := Some trustlink\<rparr>"

definition Governance_create_proposal :: "u32 \<Rightarrow> u64 \<Rightarrow> governance \<Rightarrow> governance" where
  "Governance_create_proposal pid d g = g\<lparr>gov_proposal := (gov_proposal g)(pid \<mapsto> \<lparr>deadline = d\<rparr>)\<rparr>"

definition Governance_vote ::
  "'w claim_query \<Rightarrow> env \<Rightarrow> address \<Rightarrow> u32 \<Rightarrow> bool \<Rightarrow> governance \<times> 'w \<Rightarrow> (governance \<times> 'w) client_res" where
  "Governance_vote ask e voter pid v = (\<lambda>(g, w).
     and_then (client_auth e voter) (\<lambda>_.
     and_then (ok_or (gov_proposal g pid) (Err ''proposal not found'')) (\<lambda>p.
     and_then (ensure (\<not> deadline p < timestamp e) (Err ''voting period has ended'')) (\<lambda>_.
     and_then (ok_or (gov_trustlink g) (Err ''not initialized'')) (\<lambda>trustlink.
     and_then (ok_or (ask trustlink voter ''KYC_PASSED'' w) Trap) (\<lambda>(kyc, w).
     and_then (ensure kyc (Err ''voter must have valid KYC'')) (\<lambda>_.
     Inr (g\<lparr>gov_vote := (gov_vote g)((pid, voter) \<mapsto> v)\<rparr>, w))))))))"

definition Governance_get_vote_count :: "u32 \<Rightarrow> governance \<Rightarrow> u32 \<times> u32" where
  "Governance_get_vote_count pid g = (0, 0)"

subsection \<open>The insurer\<close>

record insurance =
  ins_admin :: "address option"
  ins_trustlink :: "address option"
  ins_policy_count :: "u32 option"
  ins_policy :: "u32 \<rightharpoonup> address"

definition Insurance_initialize :: "env \<Rightarrow> address \<Rightarrow> address \<Rightarrow> insurance \<Rightarrow> insurance client_res" where
  "Insurance_initialize e admin trustlink_contract i =
     and_then (ensure (ins_admin i = None) (Err ''already initialized'')) (\<lambda>_.
     and_then (client_auth e admin) (\<lambda>_.
     Inr (i\<lparr>ins_admin := Some admin, ins_trustlink := Some trustlink_contract,
            ins_policy_count := Some 0\<rparr>)))"

definition Insurance_issue_policy ::
  "'w claims_query \<Rightarrow> env \<Rightarrow> address \<Rightarrow> address \<Rightarrow> insurance \<times> 'w \<Rightarrow> (u32 \<times> insurance \<times> 'w) client_res" where
  "Insurance_issue_policy ask_all e insurer policyholder = (\<lambda>(i, w).
     and_then (client_auth e insurer) (\<lambda>_.
     and_then (ok_or (ins_trustlink i) Trap) (\<lambda>trustlink.
     and_then (ok_or (ask_all trustlink policyholder [''KYC_PASSED'', ''AML_CLEARED''] w) Trap) (\<lambda>(ok, w).
     and_then (ensure ok (Err ''policyholder must have valid KYC_PASSED and AML_CLEARED claims'')) (\<lambda>_.
     and_then (checked_add (unwrap_or (ins_policy_count i) 0) 1) (\<lambda>n.
     Inr (n, i\<lparr>ins_policy_count := Some n, ins_policy := (ins_policy i)(n \<mapsto> policyholder)\<rparr>, w)))))))"

definition Insurance_get_policy_holder :: "u32 \<Rightarrow> insurance \<Rightarrow> address client_res" where
  "Insurance_get_policy_holder policy_id i = ok_or (ins_policy i policy_id) Trap"

subsection \<open>Effects\<close>

lemma Governance_vote_effect:
  assumes "Governance_vote ask e x p v (g, w) = Inr (g', w')"
  shows "\<exists>site. gov_trustlink g = Some site \<and> ask site x ''KYC_PASSED'' w = Some (True, w') \<and>
    g' = g\<lparr>gov_vote := (gov_vote g)((p, x) \<mapsto> v)\<rparr>"
  using assms unfolding Governance_vote_def prod.case by (elim steps) auto

lemma Insurance_initialize_effect:
  assumes "Insurance_initialize e a site i = Inr i'"
  shows "ins_admin i = None \<and> ins_admin i' = Some a \<and> ins_trustlink i' = Some site \<and>
    ins_policy_count i' = Some 0 \<and> ins_policy i' = ins_policy i"
  using assms unfolding Insurance_initialize_def by (elim steps) simp

subsection \<open>What the examples rely on\<close>

text \<open>
  A registry at an address: in a sound state every question gets an answer, the answer is what
  \<open>holds\<close> says, and asking changes neither the answers nor soundness.
\<close>

locale claim_registry =
  fixes ask :: "'w claim_query"
    and registry :: address
    and holds :: "'w \<Rightarrow> address \<Rightarrow> string \<Rightarrow> bool"
    and sound :: "'w \<Rightarrow> bool"
  assumes answers: "sound w \<Longrightarrow> \<exists>w'. ask registry x c w = Some (holds w x c, w')"
    and keeps: "sound w \<Longrightarrow> ask registry x c w = Some (b, w') \<Longrightarrow> sound w' \<and> holds w' = holds w"
begin

lemma answer:
  assumes "sound w"
  obtains w' where "ask registry x c w = Some (holds w x c, w')" "sound w'" "holds w' = holds w"
  using answers [OF assms] keeps [OF assms] by blast

lemma transfer_iff:
  assumes "sound w" and "kt_trustlink k = Some registry"
  shows "(\<exists>r. KycToken_transfer ask transfer e x y n (k, w, t) = Inr r) \<longleftrightarrow>
    authorised e x \<and> holds w x ''KYC_PASSED'' \<and> holds w y ''KYC_PASSED'' \<and>
    transfer (current_contract_address e) x y n t \<noteq> None"
proof -
  obtain w1 where w1: "ask registry x ''KYC_PASSED'' w = Some (holds w x ''KYC_PASSED'', w1)"
    "sound w1" "holds w1 = holds w" by (rule answer [OF assms(1)])
  obtain w2 where "ask registry y ''KYC_PASSED'' w1 = Some (holds w y ''KYC_PASSED'', w2)"
    using answer [OF w1(2)] w1(3) by metis
  with w1 assms(2) show ?thesis by (auto simp: KycToken_transfer_def flow)
qed

lemma vote_iff:
  assumes "sound w" and "gov_trustlink g = Some registry"
  shows "(\<exists>r. Governance_vote ask e x p v (g, w) = Inr r) \<longleftrightarrow>
    authorised e x \<and> (\<exists>q. gov_proposal g p = Some q \<and> timestamp e \<le> deadline q) \<and>
    holds w x ''KYC_PASSED''"
proof -
  obtain w1 where "ask registry x ''KYC_PASSED'' w = Some (holds w x ''KYC_PASSED'', w1)"
    by (rule answer [OF assms(1)])
  with assms(2) show ?thesis by (auto simp: Governance_vote_def flow not_less)
qed

end

text \<open>The insurer asks one question about several claim types.\<close>

locale claims_registry =
  fixes ask_all :: "'w claims_query"
    and registry :: address
    and holds :: "'w \<Rightarrow> address \<Rightarrow> string \<Rightarrow> bool"
    and sound :: "'w \<Rightarrow> bool"
  assumes answers_all: "sound w \<Longrightarrow> ask_all registry x cs w = Some (list_all (holds w x) cs, w)"
begin

lemma issue_policy_iff:
  assumes "sound w" and "ins_trustlink i = Some registry"
  shows "Insurance_issue_policy ask_all e k x (i, w) = Inr (n, i', w') \<longleftrightarrow>
    authorised e k \<and> holds w x ''KYC_PASSED'' \<and> holds w x ''AML_CLEARED'' \<and>
    Suc (unat (unwrap_or (ins_policy_count i) 0)) < 2 ^ 32 \<and>
    n = unwrap_or (ins_policy_count i) 0 + 1 \<and> w' = w \<and>
    i' = i\<lparr>ins_policy_count := Some n, ins_policy := (ins_policy i)(n \<mapsto> x)\<rparr>"
  using assms by (auto simp: Insurance_issue_policy_def answers_all flow)

end

subsection \<open>TrustLink is such a registry\<close>

text \<open>
  A host where TrustLink is deployed at one address and nothing at any other.  For \<^verbatim>\<open>has_valid_claim\<close> a
  state is sound when its storage is one that the module handlers reach; the events and callbacks of
  earlier questions may differ.  \<^verbatim>\<open>has_all_claims\<close> walks another index, which the bodies of \<^verbatim>\<open>lib.rs\<close> keep
  too: every reachable state will do.
\<close>

definition trustlink_at :: "env \<Rightarrow> address \<Rightarrow> storage claim_query" where
  "trustlink_at e site c x ct s = (if c = site then Some (has_valid_claim e x ct s) else None)"

definition trustlink_all_at :: "env \<Rightarrow> address \<Rightarrow> storage claims_query" where
  "trustlink_all_at e site c x cts s = (if c = site then Some (has_all_claims e x cts s, s) else None)"

definition holds_valid_claim :: "env \<Rightarrow> storage \<Rightarrow> address \<Rightarrow> string \<Rightarrow> bool" where
  "holds_valid_claim e s x c \<longleftrightarrow> (\<exists>a. valid_claim e x c s a)"

definition sound_registry :: "storage \<Rightarrow> bool" where
  "sound_registry s \<longleftrightarrow> (\<exists>t. reachable True t \<and> same_storage t s)"

lemma same_storage_trans: "same_storage s t \<Longrightarrow> same_storage t u \<Longrightarrow> same_storage s u"
  by (simp add: same_storage_def)

lemma same_storage_holds: "same_storage s t \<Longrightarrow> holds_valid_claim e t = holds_valid_claim e s"
  by (simp add: same_storage_def holds_valid_claim_def valid_claim_def fun_eq_iff)

lemma reachable_sound: "reachable True s \<Longrightarrow> sound_registry s"
  by (auto simp: sound_registry_def)

lemma has_valid_claim_sound:
  assumes "sound_registry s"
  shows "fst (has_valid_claim e x c s) = holds_valid_claim e s x c"
proof -
  obtain t where t: "reachable True t" "same_storage t s" using assms by (auto simp: sound_registry_def)
  then have "attestation_entry (atts s) = attestation_entry (atts t)"
    "Storage_get_valid_attestations x s = Storage_get_valid_attestations x t"
    by (simp_all add: same_storage_def readers)
  then have "fst (has_valid_claim e x c s) = holds_valid_claim e t x c"
    using valid_scan [OF t(1), of x c e]
    by (simp add: has_valid_claim_def scan_valid_claim_iff holds_valid_claim_def)
  with same_storage_holds [OF t(2)] show ?thesis by simp
qed

definition sound_subject_index :: "storage \<Rightarrow> bool" where
  "sound_subject_index s \<longleftrightarrow> (\<exists>m t. reachable m t \<and> same_storage t s)"

lemma reachable_sound_subject_index: "reachable m s \<Longrightarrow> sound_subject_index s"
  unfolding sound_subject_index_def by (intro exI [of _ m] exI [of _ s]) simp

lemma has_all_claims_sound:
  assumes "sound_subject_index s"
  shows "has_all_claims e x cs s = list_all (holds_valid_claim e s x) cs"
proof -
  obtain m t where t: "reachable m t" "same_storage t s" using assms by (auto simp: sound_subject_index_def)
  then have "attestation_entry (atts s) = attestation_entry (atts t)"
    "Storage_get_subject_attestations x s = Storage_get_subject_attestations x t"
    by (simp_all add: same_storage_def readers)
  moreover from this have "holds_claim e c s = holds_claim e c t" for c
    by (simp add: fun_eq_iff holds_claim_iff)
  ultimately have "has_all_claims e x cs s = has_all_claims e x cs t"
    by (simp add: has_all_claims_def)
  also have "\<dots> = list_all (holds_valid_claim e t x) cs"
    by (auto simp: has_all_claims_def list_all_iff holds_claim_scan [OF t(1)] holds_valid_claim_def)
  finally show ?thesis using same_storage_holds [OF t(2)] by simp
qed

lemma trustlink_at_same:
  "trustlink_at e site c x ct s = Some (b, s') \<Longrightarrow> same_storage s s'"
  using scan_valid_claim_same [of s e x ct "Storage_get_valid_attestations x s"]
  by (simp add: trustlink_at_def has_valid_claim_def split: if_splits)

interpretation trustlink: claim_registry "trustlink_at e site" site "holds_valid_claim e" sound_registry for e site
proof unfold_locales
  fix s s' :: storage and x c b
  assume s: "sound_registry s"
  show "\<exists>s'. trustlink_at e site site x c s = Some (holds_valid_claim e s x c, s')"
    using has_valid_claim_sound [OF s, of e x c]
    by (cases "has_valid_claim e x c s") (simp add: trustlink_at_def)
  assume "trustlink_at e site site x c s = Some (b, s')"
  then have "same_storage s s'" by (rule trustlink_at_same)
  then show "sound_registry s' \<and> holds_valid_claim e s' = holds_valid_claim e s"
    using s by (auto simp: sound_registry_def same_storage_holds intro: same_storage_trans)
qed

interpretation trustlink_all: claims_registry "trustlink_all_at e site" site "holds_valid_claim e" sound_subject_index
  for e site
  by unfold_locales (simp add: trustlink_all_at_def has_all_claims_sound)

subsection \<open>The examples on TrustLink\<close>

text \<open>C35: As long as only the module handlers of the registry ran, a transfer of the example token, with its
  registry at TrustLink, succeeds exactly when the sender
  authorised it, the registry holds a live, currently valid \<^verbatim>\<open>KYC_PASSED\<close> attestation for the sender and
  one for the receiver, and the token contract accepts the transfer.\<close>

theorem kyc_transfer_gated:
  assumes "reachable True s" and "kt_trustlink k = Some site"
  shows "(\<exists>r. KycToken_transfer (trustlink_at e site) transfer e x y n (k, s, t) = Inr r) \<longleftrightarrow>
    authorised e x \<and> (\<exists>a. valid_claim e x ''KYC_PASSED'' s a) \<and> (\<exists>a. valid_claim e y ''KYC_PASSED'' s a) \<and>
    transfer (current_contract_address e) x y n t \<noteq> None"
  using trustlink.transfer_iff [OF reachable_sound [OF assms(1)] assms(2), of e transfer e x y n t]
  by (simp add: holds_valid_claim_def)

text \<open>A vote in the example ballot is accepted exactly when the voter authorised it, the proposal exists,
  its deadline has not passed and the registry holds a valid \<^verbatim>\<open>KYC_PASSED\<close> attestation of the voter; an
  accepted vote is recorded for that voter and proposal and changes nothing else.\<close>

lemma votes_gated:
  assumes "reachable True s" and "gov_trustlink g = Some site"
  shows "((\<exists>r. Governance_vote (trustlink_at e site) e x p v (g, s) = Inr r) \<longleftrightarrow>
      authorised e x \<and> (\<exists>q. gov_proposal g p = Some q \<and> timestamp e \<le> deadline q) \<and>
      (\<exists>a. valid_claim e x ''KYC_PASSED'' s a)) \<and>
    (\<forall>g' s'. Governance_vote (trustlink_at e site) e x p v (g, s) = Inr (g', s') \<longrightarrow>
      g' = g\<lparr>gov_vote := (gov_vote g)((p, x) \<mapsto> v)\<rparr> \<and> same_storage s s')"
proof
  show "(\<exists>r. Governance_vote (trustlink_at e site) e x p v (g, s) = Inr r) \<longleftrightarrow>
      authorised e x \<and> (\<exists>q. gov_proposal g p = Some q \<and> timestamp e \<le> deadline q) \<and>
      (\<exists>a. valid_claim e x ''KYC_PASSED'' s a)"
    using trustlink.vote_iff [OF reachable_sound [OF assms(1)] assms(2), of e e x p v]
    by (simp add: holds_valid_claim_def)
  show "\<forall>g' s'. Governance_vote (trustlink_at e site) e x p v (g, s) = Inr (g', s') \<longrightarrow>
      g' = g\<lparr>gov_vote := (gov_vote g)((p, x) \<mapsto> v)\<rparr> \<and> same_storage s s'"
    by (auto dest!: Governance_vote_effect dest: trustlink_at_same)
qed

text \<open>The deadline binds nobody: creating the proposal again needs no authorisation and moves it.\<close>

lemma deadline_not_binding:
  assumes "reachable True s" and "gov_trustlink g = Some site" and "authorised e x"
    and "\<exists>a. valid_claim e x ''KYC_PASSED'' s a"
  shows "\<exists>r. Governance_vote (trustlink_at e site) e x p v
    (Governance_create_proposal p (timestamp e) g, s) = Inr r"
  using assms
    trustlink.vote_iff [OF reachable_sound [OF assms(1)], of "Governance_create_proposal p (timestamp e) g" site e e x p v]
  by (auto simp: Governance_create_proposal_def holds_valid_claim_def)

subsection \<open>The insurer beside the registry\<close>

text \<open>
  The insurer and TrustLink as one system: calls of the registry, the bodies of \<^verbatim>\<open>lib.rs\<close> included, and
  calls of the insurer interleave in any order, each in its own environment.  \<open>registry_step\<close> is one call
  of the registry; the insurer may be initialised with whatever address, TrustLink's or not.
\<close>

definition registry_step :: "storage \<Rightarrow> storage \<Rightarrow> bool" where
  "registry_step s s' \<longleftrightarrow> (\<exists>e c. exec e c s = Inr s' \<and> no_clash e c s)"

definition new_insurance :: insurance where
  "new_insurance = \<lparr>ins_admin = None, ins_trustlink = None, ins_policy_count = None,
     ins_policy = Map.empty\<rparr>"

inductive insured :: "address \<Rightarrow> insurance \<Rightarrow> storage \<Rightarrow> bool" for site where
  deployed: "insured site new_insurance empty_storage"
| initialized: "\<lbrakk>insured site i s; Insurance_initialize e a registry i = Inr i'\<rbrakk> \<Longrightarrow> insured site i' s"
| invoked: "\<lbrakk>insured site i s; registry_step s s'\<rbrakk> \<Longrightarrow> insured site i s'"
| issued: "\<lbrakk>insured site i s; Insurance_issue_policy (trustlink_all_at e site) e k x (i, s) = Inr (n, i', s')\<rbrakk> \<Longrightarrow>
    insured site i' s'"

lemma registry_step_reachable: "reachable False s \<Longrightarrow> registry_step s s' \<Longrightarrow> reachable False s'"
  by (auto simp: registry_step_def intro: reachable.invoked)

text \<open>A policy was issued in a state the registry went through, at a time when its holder had both claims.\<close>

definition issued_to :: "address \<Rightarrow> u32 \<Rightarrow> address \<Rightarrow> storage \<Rightarrow> bool" where
  "issued_to site n x s \<longleftrightarrow> (\<exists>e k i i' t. insured site i t \<and> authorised e k \<and>
     Insurance_issue_policy (trustlink_all_at e site) e k x (i, t) = Inr (n, i', t) \<and>
     (\<exists>a. valid_claim e x ''KYC_PASSED'' t a) \<and> (\<exists>a. valid_claim e x ''AML_CLEARED'' t a) \<and>
     registry_step\<^sup>*\<^sup>* t s)"

lemma issued_to_step: "issued_to site n x s \<Longrightarrow> registry_step s s' \<Longrightarrow> issued_to site n x s'"
  unfolding issued_to_def by (blast intro: rtranclp.rtrancl_into_rtrancl)

definition policies_ok :: "insurance \<Rightarrow> bool" where
  "policies_ok i \<longleftrightarrow>
     (ins_trustlink i \<noteq> None \<longrightarrow> ins_admin i \<noteq> None) \<and> (ins_admin i = None \<longrightarrow> ins_policy i = Map.empty) \<and>
     (\<forall>n. ins_policy i n \<noteq> None \<longleftrightarrow> 0 < n \<and> n \<le> unwrap_or (ins_policy_count i) 0)"

text \<open>Only TrustLink answers, so a policy is issued with its address alone.\<close>

lemma issue_policy_effect:
  assumes "sound_subject_index s"
    and "Insurance_issue_policy (trustlink_all_at e site) e k x (i, s) = Inr (n, i', s')"
  shows "ins_trustlink i = Some site \<and> authorised e k \<and> holds_valid_claim e s x ''KYC_PASSED'' \<and>
    holds_valid_claim e s x ''AML_CLEARED'' \<and> Suc (unat (unwrap_or (ins_policy_count i) 0)) < 2 ^ 32 \<and>
    n = unwrap_or (ins_policy_count i) 0 + 1 \<and> s' = s \<and>
    i' = i\<lparr>ins_policy_count := Some n, ins_policy := (ins_policy i)(n \<mapsto> x)\<rparr>"
proof -
  have site: "ins_trustlink i = Some site"
    using assms(2) by (auto simp: Insurance_issue_policy_def trustlink_all_at_def flow split: if_splits)
  show ?thesis using assms(2) site unfolding trustlink_all.issue_policy_iff [OF assms(1) site] by simp
qed

lemma word_le_Suc_iff:
  fixes m n :: "'w::len word"
  assumes "Suc (unat m) < 2 ^ LENGTH('w)"
  shows "n \<le> m + 1 \<longleftrightarrow> n \<le> m \<or> n = m + 1" and "0 < m + 1"
proof -
  have u: "unat (m + 1) = Suc (unat m)" using assms unat_add_exact [of m 1] by simp
  show "n \<le> m + 1 \<longleftrightarrow> n \<le> m \<or> n = m + 1"
    by (simp add: word_le_nat_alt u le_Suc_eq word_unat_eq_iff)
  show "0 < m + 1" by (simp add: word_less_nat_alt u)
qed

lemma insured_sound: "insured site i s \<Longrightarrow> reachable False s \<and> policies_ok i"
proof (induction rule: insured.induct)
  case deployed
  show ?case by (auto simp: policies_ok_def new_insurance_def intro: reachable.deployed)
next
  case (initialized i s e a registry i')
  then show ?case using Insurance_initialize_effect [of e a registry i i']
    by (auto simp: policies_ok_def)
next
  case (invoked i s s')
  then show ?case by (blast intro: registry_step_reachable)
next
  case (issued i s e k x n i' s')
  then show ?case
    using issue_policy_effect [OF reachable_sound_subject_index [of False] issued.hyps(2)]
      word_le_Suc_iff [of "unwrap_or (ins_policy_count i) 0"]
    by (auto simp: policies_ok_def)
qed

lemma insured_backed: "insured site i s \<Longrightarrow> ins_policy i n = Some y \<Longrightarrow> issued_to site n y s"
proof (induction arbitrary: n y rule: insured.induct)
  case deployed
  then show ?case by (simp add: new_insurance_def)
next
  case (initialized i s e a registry i')
  then show ?case using Insurance_initialize_effect [of e a registry i i'] by simp
next
  case (invoked i s s')
  then show ?case by (blast intro: issued_to_step)
next
  case (issued i s e k x m i' s')
  have "sound_subject_index s"
    using insured_sound [OF issued.hyps(1)] reachable_sound_subject_index by blast
  note eff = issue_policy_effect [OF this issued.hyps(2)]
  then have "issued_to site m x s"
    using issued.hyps unfolding issued_to_def holds_valid_claim_def by blast
  with eff issued show ?case by (auto split: if_splits)
qed

text \<open>C34: However the calls of the insurer and of the registry interleave, the registry's calls being any, the
  policies are numbered from one without gaps, and each was issued to its holder by an authorised call made
  in a state the registry went through, at a time when the holder had a valid \<^verbatim>\<open>KYC_PASSED\<close> and a valid
  \<^verbatim>\<open>AML_CLEARED\<close> attestation there.\<close>

theorem policies_backed:
  assumes "insured site i s"
  shows "(\<forall>n. ins_policy i n \<noteq> None \<longleftrightarrow> 0 < n \<and> n \<le> unwrap_or (ins_policy_count i) 0) \<and>
    (\<forall>n x. ins_policy i n = Some x \<longrightarrow> issued_to site n x s)"
  using insured_sound [OF assms] insured_backed [OF assms] unfolding policies_ok_def by blast

subsection \<open>A history with all three\<close>

definition passed_id :: string where
  "passed_id = generate_id (host_at 12) (Address 2) (Address 3) ''KYC_PASSED'' 12"

definition cleared_id :: string where
  "cleared_id = generate_id (host_at 13) (Address 2) (Address 3) ''AML_CLEARED'' 13"

lemma claim_ids: "generate_id (host_at 12) (Address 2) (Address 3) ''KYC_PASSED'' 12 = passed_id"
  "generate_id (host_at 13) (Address 2) (Address 3) ''AML_CLEARED'' 13 = cleared_id"
  by (simp_all add: passed_id_def cleared_id_def)

lemma claim_ids_distinct: "cleared_id \<noteq> passed_id"
proof
  assume "cleared_id = passed_id"
  then have "unhex cleared_id = unhex passed_id" by simp
  then show False
    unfolding cleared_id_def passed_id_def generate_id_def
    by (simp add: unhex_hash_payload host_at_def attestation_payload_def ascii_bytes_def numeral_eq_Suc)
qed

lemma client_claims_valid: "validate_claim_type ''KYC_PASSED'' = Inr ()" "validate_claim_type ''AML_CLEARED'' = Inr ()"
  by (simp_all add: flow claim_type_byte_def is_ascii_alphabetic_def is_ascii_digit_def ascii_bytes_def)

definition passed_state :: storage where
  "passed_state = after (host_at 12)
     (Att (C_create_attestation (Address 2) (Address 3) ''KYC_PASSED'' None None None)) state_2"

definition cleared_state :: storage where
  "cleared_state = after (host_at 13)
     (Att (C_create_attestation (Address 2) (Address 3) ''AML_CLEARED'' None None None)) passed_state"

lemma exec_passed:
  "exec (host_at 12) (Att (C_create_attestation (Address 2) (Address 3) ''KYC_PASSED'' None None None)) state_2 =
     Inr passed_state"
  by (simp add: passed_state_def after_def evaluate evaluate_chunks evaluate_creation create_attestation_def
      state_1_def state_2_def client_claims_valid claim_ids)

lemma exec_cleared:
  "exec (host_at 13) (Att (C_create_attestation (Address 2) (Address 3) ''AML_CLEARED'' None None None)) passed_state =
     Inr cleared_state"
  by (simp add: passed_state_def cleared_state_def after_def evaluate evaluate_chunks evaluate_creation create_attestation_def
      state_1_def state_2_def client_claims_valid claim_ids claim_ids_distinct)

lemma clients_reachable: "reachable True passed_state" "reachable True cleared_state"
proof -
  show r: "reachable True passed_state"
    by (rule reachable.invoked [OF history_reachable(2) exec_passed]) (simp_all add: no_clash_def module_call_def)
  show "reachable True cleared_state"
    by (rule reachable.invoked [OF r exec_cleared]) (simp_all add: no_clash_def module_call_def)
qed

lemma created_entry:
  assumes "exec (host_at t) (Att (C_create_attestation i x c ex m tg)) s = Inr s'"
  shows "attestation_entry (atts s') = (attestation_entry (atts s))
    (generate_id (host_at t) i x c t \<mapsto> native_attestation (host_at t) i x c ex m None tg None)"
  using assms create_attestation_internal_effect(1,2) [of "host_at t" i x c ex m None tg None s _ s']
  by (auto simp: create_attestation_def native_attestation_def elim!: postE)

lemma created_valid:
  assumes "attestation_entry (atts s) (generate_id (host_at t) i x c t) =
    Some (native_attestation (host_at t) i x c None m None tg None)"
  shows "valid_claim (host_at u) x c s (native_attestation (host_at t) i x c None m None tg None)"
  using assms by (simp add: valid_claim_def native_attestation_def get_status_def)

lemma client_claims:
  "\<exists>a. valid_claim (host_at u) (Address 3) ''KYC_PASSED'' cleared_state a"
  "\<exists>a. valid_claim (host_at u) (Address 3) ''AML_CLEARED'' cleared_state a"
proof -
  have e: "attestation_entry (atts cleared_state) passed_id =
      Some (native_attestation (host_at 12) (Address 2) (Address 3) ''KYC_PASSED'' None None None None None)"
    "attestation_entry (atts cleared_state) cleared_id =
      Some (native_attestation (host_at 13) (Address 2) (Address 3) ''AML_CLEARED'' None None None None None)"
    using created_entry [OF exec_passed] created_entry [OF exec_cleared] claim_ids_distinct
    by (simp_all add: claim_ids)
  from created_valid [OF e(1) [folded claim_ids]] show "\<exists>a. valid_claim (host_at u) (Address 3) ''KYC_PASSED'' cleared_state a" by blast
  from created_valid [OF e(2) [folded claim_ids]] show "\<exists>a. valid_claim (host_at u) (Address 3) ''AML_CLEARED'' cleared_state a" by blast
qed

theorem kyc_transfer_gated_witness:
  "\<exists>r. KycToken_transfer (trustlink_at (host_at 20) (Address 9)) (\<lambda>tok x y n t. Some (t :: unit)) (host_at 20)
     (Address 3) (Address 3) 5
     (\<lparr>kt_admin = None, kt_trustlink = Some (Address 9), kt_events = []\<rparr>, cleared_state, ()) = Inr r"
  by (subst kyc_transfer_gated [OF clients_reachable(2)]) (simp_all add: client_claims)

lemma registry_stepI: "exec e c s = Inr s' \<Longrightarrow> no_clash e c s \<Longrightarrow> registry_step s s'"
  by (auto simp: registry_step_def)

definition insurer :: insurance where
  "insurer = \<lparr>ins_admin = Some (Address 8), ins_trustlink = Some (Address 9), ins_policy_count = Some 0,
     ins_policy = Map.empty\<rparr>"

lemma insured_cleared: "insured (Address 9) insurer cleared_state"
proof -
  have "insured (Address 9) new_insurance state_1"
    by (rule insured.invoked [OF insured.deployed registry_stepI [OF exec_1]])
      (simp_all add: no_clash_def module_call_def)
  then have "insured (Address 9) new_insurance state_2"
    by (rule insured.invoked [OF _ registry_stepI [OF exec_2]]) (simp_all add: no_clash_def module_call_def)
  then have "insured (Address 9) new_insurance passed_state"
    by (rule insured.invoked [OF _ registry_stepI [OF exec_passed]]) (simp_all add: no_clash_def module_call_def)
  then have "insured (Address 9) new_insurance cleared_state"
    by (rule insured.invoked [OF _ registry_stepI [OF exec_cleared]]) (simp_all add: no_clash_def module_call_def)
  then show ?thesis
    by (rule insured.initialized [where e = "host_at 14" and a = "Address 8" and registry = "Address 9"])
      (simp add: Insurance_initialize_def client_auth_def new_insurance_def insurer_def)
qed

lemma insured_policy:
  "insured (Address 9) (insurer\<lparr>ins_policy_count := Some 1, ins_policy := [1 \<mapsto> Address 3]\<rparr>) cleared_state"
proof (rule insured.issued [OF insured_cleared])
  show "Insurance_issue_policy (trustlink_all_at (host_at 20) (Address 9)) (host_at 20) (Address 8) (Address 3)
      (insurer, cleared_state) =
    Inr (1, insurer\<lparr>ins_policy_count := Some 1, ins_policy := [1 \<mapsto> Address 3]\<rparr>, cleared_state)"
    by (subst trustlink_all.issue_policy_iff [OF reachable_sound_subject_index [OF clients_reachable(2)]])
      (simp_all add: insurer_def holds_valid_claim_def client_claims)
qed

theorem policies_backed_witness: "issued_to (Address 9) 1 (Address 3) cleared_state"
  using policies_backed [OF insured_policy] by (auto split: if_splits)

end
