(* ===== verification/TL_Typing.thy ===== *)
theory TL_Typing
  imports TL_Host
begin

section \<open>The shape of stored values\<close>

text \<open>
  The handlers validate what they store: lengths of texts, source references of bridged records,
  country codes, start dates, claim types.  This theory says what a value under each key looks like
  (\<open>value_ok\<close>), and shows that every call, from the module or from a copy in \<^verbatim>\<open>lib.rs\<close>, stores only
  such values, so a reader of the store can rely on it without validating again.
\<close>

subsection \<open>Well-formed values\<close>

definition text_bounded :: "nat \<Rightarrow> string option \<Rightarrow> bool" where
  "text_bounded n t = (case t of None \<Rightarrow> True | Some x \<Rightarrow> length x \<le> n)"

definition claim_type_ok :: "string \<Rightarrow> bool" where
  "claim_type_ok c \<longleftrightarrow> c \<noteq> [] \<and> length c \<le> 64 \<and> list_all claim_type_byte (ascii_bytes c)"

definition source_ok :: "attestation \<Rightarrow> bool" where
  "source_ok a =
     (case (att_source_chain a, att_source_tx a) of
        (None, None) \<Rightarrow> att_origin a \<noteq> Origin_Bridged
      | (Some c, Some t) \<Rightarrow> att_origin a = Origin_Bridged \<and> c \<noteq> [] \<and> t \<noteq> [] \<and>
          length c \<le> MAX_SOURCE_CHAIN_LEN \<and> length t \<le> MAX_SOURCE_TX_LEN
      | _ \<Rightarrow> False)"

definition attestation_ok :: "attestation \<Rightarrow> bool" where
  "attestation_ok a \<longleftrightarrow>
     source_ok a \<and> text_bounded 256 (att_metadata a) \<and> text_bounded 128 (att_revocation_reason a) \<and>
     (att_revocation_reason a \<noteq> None \<longrightarrow> att_revoked a) \<and>
     (case att_jurisdiction a of None \<Rightarrow> True | Some c \<Rightarrow> c \<in> set valid_codes) \<and>
     (case att_tags a of None \<Rightarrow> True | Some l \<Rightarrow> length l \<le> 5 \<and> list_all (\<lambda>t. length t \<le> 32) l) \<and>
     (case att_valid_from a of None \<Rightarrow> True | Some t \<Rightarrow> att_timestamp a < t)"

definition template_ok :: "attestation_template \<Rightarrow> bool" where
  "template_ok t \<longleftrightarrow> claim_type_ok (tp_claim_type t) \<and> text_bounded 256 (tp_metadata t)"

definition request_ok :: "attestation_request \<Rightarrow> bool" where
  "request_ok r \<longleftrightarrow> claim_type_ok (req_claim_type r) \<and>
     unat (req_expires_at r) = unat (req_timestamp r) + unat ATTESTATION_REQUEST_TTL_SECS \<and>
     text_bounded 128 (req_rejection_reason r) \<and>
     (req_rejection_reason r \<noteq> None \<longrightarrow> req_status r = Req_Rejected)"

text \<open>Values are filed under the key made from their own fields.\<close>

definition value_ok :: "storage_key \<Rightarrow> stored \<Rightarrow> bool" where
  "value_ok k v =
     (case v of
        V_Attestation a \<Rightarrow> k = K_Attestation (att_id a) \<and> attestation_ok a
      | V_ClaimType x \<Rightarrow> k = K_ClaimType (ct_claim_type x) \<and> claim_type_ok (ct_claim_type x)
      | V_Template t \<Rightarrow> k = K_AttestationTemplate (tp_issuer t) (tp_template_id t) \<and> template_ok t
      | V_Delegation g \<Rightarrow> k = K_Delegation (dg_delegator g) (dg_delegate g) (dg_claim_type g) \<and>
          dg_delegator g \<noteq> dg_delegate g
      | V_Request r \<Rightarrow> k = K_Request (req_id r) \<and> request_ok r
      | V_Endorsements l \<Rightarrow> l \<noteq> [] \<and>
          (distinct (map en_endorser l) \<and> list_all (\<lambda>x. k = K_Endorsements (en_attestation_id x)) l \<or>
           list_all (\<lambda>x. k = K_EndorserIndex (en_endorser x)) l)
      | _ \<Rightarrow> True)"

definition well_typed :: "storage \<Rightarrow> bool" where
  "well_typed s \<longleftrightarrow> (\<forall>k v. entry k s = Some v \<longrightarrow> value_ok k v)"

subsection \<open>The typed fields\<close>

definition atts_typed :: "attestation_store \<Rightarrow> bool" where
  "atts_typed m \<longleftrightarrow> (\<forall>i a. attestation_entry m i = Some a \<longrightarrow> att_id a = i \<and> attestation_ok a)"

definition endorsements_typed :: "attestation_store \<Rightarrow> bool" where
  "endorsements_typed m \<longleftrightarrow>
     (\<forall>i l. endorsements m i = Some l \<longrightarrow>
        l \<noteq> [] \<and> distinct (map en_endorser l) \<and> list_all (\<lambda>x. en_attestation_id x = i) l) \<and>
     (\<forall>a l. endorser_index m a = Some l \<longrightarrow> l \<noteq> [] \<and> list_all (\<lambda>x. en_endorser x = a) l)"

definition reg_typed :: "registry_store \<Rightarrow> bool" where
  "reg_typed m \<longleftrightarrow>
     (\<forall>c x. claim_type_entry m c = Some x \<longrightarrow> ct_claim_type x = c \<and> claim_type_ok c) \<and>
     (\<forall>a i t. template_entry m (a, i) = Some t \<longrightarrow> tp_issuer t = a \<and> tp_template_id t = i \<and> template_ok t) \<and>
     (\<forall>a b c g. delegation_entry m (a, b, c) = Some g \<longrightarrow>
        dg_delegator g = a \<and> dg_delegate g = b \<and> dg_claim_type g = c \<and> a \<noteq> b)"

definition flow_typed :: "workflow_store \<Rightarrow> bool" where
  "flow_typed m \<longleftrightarrow> (\<forall>i r. request_entry m i = Some r \<longrightarrow> req_id r = i \<and> request_ok r)"

lemma well_typed_iff:
  "well_typed s \<longleftrightarrow> atts_typed (atts s) \<and> endorsements_typed (atts s) \<and> reg_typed (reg s) \<and> flow_typed (flow_st s)"
proof
  assume "well_typed s"
  then have *: "entry k s = Some v \<Longrightarrow> value_ok k v" for k v by (simp add: well_typed_def)
  have "atts_typed (atts s)" and "flow_typed (flow_st s)"
    using * [of "K_Attestation _" "V_Attestation _"] * [of "K_Request _" "V_Request _"]
    by (simp_all add: atts_typed_def flow_typed_def value_ok_def)
  moreover have "reg_typed (reg s)"
    unfolding reg_typed_def
  proof (intro conjI allI impI)
    fix a b c x assume "claim_type_entry (reg s) c = Some x"
    with * [of "K_ClaimType c" "V_ClaimType x"] show "ct_claim_type x = c" "claim_type_ok c"
      by (simp_all add: value_ok_def)
  next
    fix a i t assume "template_entry (reg s) (a, i) = Some t"
    with * [of "K_AttestationTemplate a i" "V_Template t"]
    show "tp_issuer t = a" "tp_template_id t = i" "template_ok t" by (simp_all add: value_ok_def)
  next
    fix a b c g assume "delegation_entry (reg s) (a, b, c) = Some g"
    with * [of "K_Delegation a b c" "V_Delegation g"]
    show "dg_delegator g = a" "dg_delegate g = b" "dg_claim_type g = c" "a \<noteq> b"
      by (simp_all add: value_ok_def)
  qed
  moreover have "endorsements_typed (atts s)"
    unfolding endorsements_typed_def
    using * [of "K_Endorsements _" "V_Endorsements _"] * [of "K_EndorserIndex _" "V_Endorsements _"]
    by (fastforce simp: value_ok_def list_all_iff neq_Nil_conv)
  ultimately show "atts_typed (atts s) \<and> endorsements_typed (atts s) \<and> reg_typed (reg s) \<and> flow_typed (flow_st s)"
    by blast
next
  assume typed: "atts_typed (atts s) \<and> endorsements_typed (atts s) \<and> reg_typed (reg s) \<and> flow_typed (flow_st s)"
  show "well_typed s" unfolding well_typed_def
  proof (intro allI impI)
    show "entry k s = Some v \<Longrightarrow> value_ok k v" for k v
      using typed
      by (cases k) (auto simp: value_ok_def list_all_iff atts_typed_def endorsements_typed_def reg_typed_def flow_typed_def)
  qed
qed

lemma guards_ok:
  "validate_claim_type c = Inr u \<longleftrightarrow> claim_type_ok c"
  "validate_metadata m = Inr u \<longleftrightarrow> text_bounded 256 m"
  "validate_reason m = Inr u \<longleftrightarrow> text_bounded 128 m"
  by (auto simp: flow claim_type_ok_def text_bounded_def split: option.splits)

subsection \<open>Attestation records\<close>

lemma atts_typed_same: "attestation_entry m' = attestation_entry m \<Longrightarrow> atts_typed m' = atts_typed m"
  by (simp add: atts_typed_def)

lemma atts_typed_updates [simp]:
  "atts_typed (subject_ids_update f m) = atts_typed m" "atts_typed (valid_ids_update f m) = atts_typed m"
  "atts_typed (issuer_ids_update f m) = atts_typed m" "atts_typed (audit_log_update g m) = atts_typed m"
  "atts_typed (subject_chunk_update h m) = atts_typed m" "atts_typed (issuer_chunk_update h m) = atts_typed m"
  "atts_typed (endorsements_update w m) = atts_typed m" "atts_typed (endorser_index_update v m) = atts_typed m"
  by (simp_all add: atts_typed_def)

lemma atts_typed_update:
  "atts_typed m \<Longrightarrow> attestation_ok a \<Longrightarrow> att_id a = i \<Longrightarrow> atts_typed (attestation_entry_update (\<lambda>f. f(i \<mapsto> a)) m)"
  by (simp add: atts_typed_def)

lemma atts_typed_put:
  assumes "atts_typed m" and "attestation_entry m' = (attestation_entry m)(att_id a \<mapsto> a)" and "attestation_ok a"
  shows "atts_typed m'"
  using assms by (simp add: atts_typed_def)

lemma new_record_ok:
  "attestation_ok \<lparr>att_id = i, att_issuer = is, att_subject = x, att_claim_type = c, att_timestamp = ts,
     att_expiration = ex, att_revoked = False, att_metadata = m, att_jurisdiction = j, att_valid_from = vf,
     att_origin = og, att_source_chain = None, att_source_tx = None, att_tags = tg,
     att_revocation_reason = None, att_deleted = False\<rparr> \<longleftrightarrow>
   og \<noteq> Origin_Bridged \<and> text_bounded 256 m \<and> (\<forall>c. j = Some c \<longrightarrow> c \<in> set valid_codes) \<and>
     (\<forall>l. tg = Some l \<longrightarrow> length l \<le> 5 \<and> list_all (\<lambda>t. length t \<le> 32) l) \<and>
     (\<forall>t. vf = Some t \<longrightarrow> ts < t)"
  by (auto simp: attestation_ok_def source_ok_def text_bounded_def split: option.splits)

lemma text_bounded_None [simp]: "text_bounded n None"
  by (simp add: text_bounded_def)

lemma bridged_record_ok:
  "validate_source_reference sc tx = Inr u \<Longrightarrow>
   attestation_ok \<lparr>att_id = i, att_issuer = is, att_subject = x, att_claim_type = c, att_timestamp = ts,
     att_expiration = ex, att_revoked = False, att_metadata = None, att_jurisdiction = None,
     att_valid_from = None, att_origin = Origin_Bridged, att_source_chain = Some sc, att_source_tx = Some tx,
     att_tags = None, att_revocation_reason = None, att_deleted = False\<rparr>"
  by (simp add: attestation_ok_def source_ok_def flow MAX_SOURCE_CHAIN_LEN_def MAX_SOURCE_TX_LEN_def)

lemma updated_record_ok [simp]:
  "attestation_ok (a\<lparr>att_expiration := ex\<rparr>) = attestation_ok a"
  "attestation_ok (a\<lparr>att_issuer := is\<rparr>) = attestation_ok a"
  "attestation_ok (a\<lparr>att_deleted := b\<rparr>) = attestation_ok a"
  by (auto simp: attestation_ok_def source_ok_def split: option.splits)

lemma revoked_record_ok:
  "attestation_ok a \<Longrightarrow> text_bounded 128 r \<Longrightarrow> attestation_ok (a\<lparr>att_revoked := True, att_revocation_reason := r\<rparr>)"
  by (auto simp: attestation_ok_def source_ok_def split: option.splits)

lemma store_typed:
  "store_attestation a s = Inr s' \<Longrightarrow> atts_typed (atts s) \<Longrightarrow> attestation_ok a \<Longrightarrow> atts_typed (atts s')"
  "lib_store_attestation a s = Inr s' \<Longrightarrow> atts_typed (atts s) \<Longrightarrow> attestation_ok a \<Longrightarrow> atts_typed (atts s')"
  by (rule atts_typed_put; use store_attestation_effect lib_store_attestation_effect in blast)+

lemma get_typed:
  assumes "Storage_get_attestation i s = Inr a" and "atts_typed (atts s)"
  shows "att_id a = i" and "attestation_ok a"
  using assms by (auto simp: Storage_get_attestation_def atts_typed_def flow)

lemma create_attestation_internal_typed:
  "create_attestation_internal e is x c ex m j tg vf s = Inr (u, s') \<Longrightarrow> atts_typed (atts s) \<Longrightarrow> atts_typed (atts s')"
  unfolding create_attestation_internal_def Let_def writers
  by (elim steps, drule store_typed(1), assumption, simp only: new_record_ok guards_ok,
      simp add: flow list_all_iff, simp add: event_defs)

lemma create_attestation_as_delegate_typed:
  "create_attestation_as_delegate e d is x c ex m s = Inr (u, s') \<Longrightarrow> atts_typed (atts s) \<Longrightarrow> atts_typed (atts s')"
  unfolding create_attestation_as_delegate_def Let_def writers
  by (elim steps; drule store_typed(1), assumption, simp only: new_record_ok guards_ok, simp, simp add: event_defs)

lemma plain_creation_typed:
  "import_attestation e d is x c ts ex s = Inr (u, s') \<Longrightarrow> atts_typed (atts s) \<Longrightarrow> atts_typed (atts s')"
  "fulfill_request e is i ex s = Inr (u, s') \<Longrightarrow> atts_typed (atts s) \<Longrightarrow> atts_typed (atts s')"
  unfolding import_attestation_def fulfill_request_def Let_def writers
  by (elim steps, drule store_typed(1), assumption, simp only: new_record_ok, simp, simp add: event_defs)+

lemma bridge_typed:
  "bridge_attestation e b x c sc tx s = Inr (u, s') \<Longrightarrow> atts_typed (atts s) \<Longrightarrow> atts_typed (atts s')"
  "lib_bridge_attestation e b x c sc tx s = Inr (u, s') \<Longrightarrow> atts_typed (atts s) \<Longrightarrow> atts_typed (atts s')"
  unfolding bridge_attestation_def lib_bridge_attestation_def Let_def writers
  by (elim steps, drule store_typed, assumption, erule bridged_record_ok, simp add: event_defs)+

lemma batch_create_one_typed:
  "batch_create_one e is c ex lim x (ids, s) = Inr (ids', s') \<Longrightarrow> atts_typed (atts s) \<Longrightarrow> atts_typed (atts s')"
  unfolding batch_create_one_def Let_def writers prod.case
  by (elim steps, simp add: event_defs, rule atts_typed_update, assumption, simp_all add: new_record_ok)

lemma lib_batch_create_one_typed:
  "lib_batch_create_one e is c ex lim x (ids, s) = Inr (ids', s') \<Longrightarrow> atts_typed (atts s) \<Longrightarrow> atts_typed (atts s')"
  unfolding lib_batch_create_one_def Let_def writers prod.case
  by (elim steps, drule store_typed(2), assumption, simp add: new_record_ok, simp add: event_defs)

lemma multisig_typed:
  "propose_attestation e i x c rs n s = Inr (u, s') \<Longrightarrow> atts_typed (atts s) \<Longrightarrow> atts_typed (atts s')"
  "lib_propose_attestation e i x c rs n s = Inr (u, s') \<Longrightarrow> atts_typed (atts s) \<Longrightarrow> atts_typed (atts s')"
  "cosign_attestation e i p s = Inr (u', s') \<Longrightarrow> atts_typed (atts s) \<Longrightarrow> atts_typed (atts s')"
  "lib_cosign_attestation e i p s = Inr (u', s') \<Longrightarrow> atts_typed (atts s) \<Longrightarrow> atts_typed (atts s')"
  unfolding propose_attestation_def lib_propose_attestation_def cosign_attestation_def lib_cosign_attestation_def
    multisig_attestation_def Let_def writers
  by (elim steps; (drule store_typed)?; simp add: event_defs new_record_ok)+

lemma update_typed:
  "renew_attestation e is i ex s = Inr (u, s') \<Longrightarrow> atts_typed (atts s) \<Longrightarrow> atts_typed (atts s')"
  "update_expiration e is i ex s = Inr (u, s') \<Longrightarrow> atts_typed (atts s) \<Longrightarrow> atts_typed (atts s')"
  "transfer_attestation e ad i is s = Inr (u, s') \<Longrightarrow> atts_typed (atts s) \<Longrightarrow> atts_typed (atts s')"
  "request_deletion e x i s = Inr (u, s') \<Longrightarrow> atts_typed (atts s) \<Longrightarrow> atts_typed (atts s')"
  "lib_request_deletion e x i s = Inr (u, s') \<Longrightarrow> atts_typed (atts s) \<Longrightarrow> atts_typed (atts s')"
  unfolding renew_attestation_def update_expiration_def transfer_attestation_def request_deletion_def
    lib_request_deletion_def Let_def writers Storage_get_attestation_def
  by (elim steps; simp add: event_defs atts_typed_update atts_typed_def)+

lemma revoke_typed:
  "revoke_attestation e is i r s = Inr (u, s') \<Longrightarrow> atts_typed (atts s) \<Longrightarrow> atts_typed (atts s')"
  "lib_revoke_attestation e is i r s = Inr (u, s') \<Longrightarrow> atts_typed (atts s) \<Longrightarrow> atts_typed (atts s')"
  unfolding revoke_attestation_def lib_revoke_attestation_def Let_def writers guards_ok Storage_get_attestation_def
  by (elim steps; simp add: event_defs guards_ok atts_typed_def revoked_record_ok)+

lemma revoke_one_typed:
  "batch_revoke_one e is r a s = Inr s' \<Longrightarrow> attestation_ok a \<Longrightarrow> text_bounded 128 r \<Longrightarrow> atts_typed (atts s) \<Longrightarrow>
     atts_typed (atts s')"
  "lib_revoke_one e is r i s = Inr s' \<Longrightarrow> text_bounded 128 r \<Longrightarrow> atts_typed (atts s) \<Longrightarrow> atts_typed (atts s')"
  unfolding batch_revoke_one_def lib_revoke_one_def Let_def writers Storage_get_attestation_def
  by (elim steps; simp add: event_defs atts_typed_def revoked_record_ok)+

lemma batch_create_typed:
  "create_attestations_batch e is xs c ex s = Inr (u, s') \<Longrightarrow> atts_typed (atts s) \<Longrightarrow> atts_typed (atts s')"
  "lib_create_attestations_batch e is xs c ex s = Inr (u, s') \<Longrightarrow> atts_typed (atts s) \<Longrightarrow> atts_typed (atts s')"
proof -
  assume call: "create_attestations_batch e is xs c ex s = Inr (u, s')" and s: "atts_typed (atts s)"
  from call obtain ids t where loop: "for_each (batch_create_one e is c ex (Storage_get_limits s)) xs ([], s) = Inr (ids, t)"
    and same: "attestation_entry (atts s') = attestation_entry (atts t)"
    unfolding create_attestations_batch_def Let_def writers by (elim steps) (simp_all add: readers)
  have "atts_typed (atts (snd (ids, t)))"
    by (rule for_each_invariant [where I = "\<lambda>p. atts_typed (atts (snd p))", OF loop])
      (use s in \<open>auto intro: batch_create_one_typed\<close>)
  then show "atts_typed (atts s')" by (simp add: atts_typed_same [OF same])
next
  assume call: "lib_create_attestations_batch e is xs c ex s = Inr (u, s')" and s: "atts_typed (atts s)"
  from call obtain ids t where loop: "for_each (lib_batch_create_one e is c ex (Storage_get_limits s)) xs ([], s) = Inr (ids, t)"
    and same: "attestation_entry (atts s') = attestation_entry (atts t)"
    unfolding lib_create_attestations_batch_def Let_def writers by (elim steps) (simp_all add: readers)
  have "atts_typed (atts (snd (ids, t)))"
    by (rule for_each_invariant [where I = "\<lambda>p. atts_typed (atts (snd p))", OF loop])
      (use s in \<open>auto intro: lib_batch_create_one_typed\<close>)
  then show "atts_typed (atts s')" by (simp add: atts_typed_same [OF same])
qed

lemma batch_revoke_typed:
  "revoke_attestations_batch e is xs r s = Inr (u, s') \<Longrightarrow> atts_typed (atts s) \<Longrightarrow> atts_typed (atts s')"
  "lib_revoke_attestations_batch e is xs r s = Inr (u, s') \<Longrightarrow> atts_typed (atts s) \<Longrightarrow> atts_typed (atts s')"
proof -
  assume call: "revoke_attestations_batch e is xs r s = Inr (u, s')" and s: "atts_typed (atts s)"
  from call obtain seen as t where r: "text_bounded 128 r"
    and check: "for_each (batch_revoke_check is s) xs ([], []) = Inr (seen, as)"
    and loop: "for_each (batch_revoke_one e is r) as s = Inr t" and same: "atts s' = atts t"
    unfolding revoke_attestations_batch_def Let_def writers by (elim steps) (simp_all add: guards_ok)
  have "\<forall>a \<in> set (snd (seen, as)). attestation_ok a"
    by (rule for_each_invariant [where I = "\<lambda>p. \<forall>a \<in> set (snd p). attestation_ok a", OF check])
      (use s in \<open>auto simp: batch_revoke_check_Inr atts_typed_def\<close>)
  then have "atts_typed (atts t)"
    by - (rule for_each_invariant [where I = "\<lambda>t. atts_typed (atts t)", OF loop s],
        auto intro: revoke_one_typed(1) [OF _ _ r])
  then show "atts_typed (atts s')" by (simp add: same)
next
  assume call: "lib_revoke_attestations_batch e is xs r s = Inr (u, s')" and s: "atts_typed (atts s)"
  from call have r: "text_bounded 128 r" and loop: "for_each (lib_revoke_one e is r) xs s = Inr s'"
    unfolding lib_revoke_attestations_batch_def Let_def writers by (elim steps, simp add: guards_ok)+
  show "atts_typed (atts s')"
    by (rule for_each_invariant [where I = "\<lambda>t. atts_typed (atts t)", OF loop s])
      (auto intro: revoke_one_typed(2) [OF _ r])
qed

subsection \<open>Registry entries, requests and endorsements\<close>

text \<open>What holds these values, and the calls that leave it alone.\<close>

definition typed_core :: "storage \<Rightarrow> (string \<rightharpoonup> claim_type_info) \<times> (address \<times> string \<rightharpoonup> attestation_template) \<times>
    (address \<times> address \<times> string \<rightharpoonup> delegation) \<times> (string \<rightharpoonup> attestation_request) \<times>
    (string \<rightharpoonup> endorsement list) \<times> (address \<rightharpoonup> endorsement list)" where
  "typed_core s = (claim_type_entry (reg s), template_entry (reg s), delegation_entry (reg s),
     request_entry (flow_st s), endorsements (atts s), endorser_index (atts s))"

lemma typed_coreE:
  assumes "typed_core s' = typed_core s"
  obtains "claim_type_entry (reg s') = claim_type_entry (reg s)" "template_entry (reg s') = template_entry (reg s)"
    "delegation_entry (reg s') = delegation_entry (reg s)" "request_entry (flow_st s') = request_entry (flow_st s)"
    "endorsements (atts s') = endorsements (atts s)" "endorser_index (atts s') = endorser_index (atts s)"
  using assms by (simp add: typed_core_def)

lemma typed_core_typed:
  "typed_core s' = typed_core s \<Longrightarrow> atts_typed (atts s') \<Longrightarrow> well_typed s \<Longrightarrow> well_typed s'"
  by (simp add: well_typed_iff typed_core_def endorsements_typed_def reg_typed_def flow_typed_def)

lemma typed_core_typed_atts:
  "typed_core s' = typed_core s \<Longrightarrow> atts s' = atts s \<Longrightarrow> well_typed s \<Longrightarrow> well_typed s'"
  by (rule typed_core_typed) (simp_all add: well_typed_iff)

lemma store_typed_core:
  "store_attestation a s = Inr s' \<Longrightarrow> typed_core s' = typed_core s"
  "lib_store_attestation a s = Inr s' \<Longrightarrow> typed_core s' = typed_core s"
  unfolding store_attestation_def lib_store_attestation_def Let_def writers
  by (elim steps, simp add: typed_core_def)+

lemma one_typed_core:
  "batch_create_one e i c x l y p = Inr q \<Longrightarrow> typed_core (snd q) = typed_core (snd p)"
  "lib_batch_create_one e i c x l y p = Inr q \<Longrightarrow> typed_core (snd q) = typed_core (snd p)"
  "batch_revoke_one e i r a s = Inr s' \<Longrightarrow> typed_core s' = typed_core s"
  "lib_revoke_one e i r k s = Inr s' \<Longrightarrow> typed_core s' = typed_core s"
  "Storage_add_to_whitelist i y s = Inr s' \<Longrightarrow> typed_core s' = typed_core s"
  unfolding batch_create_one_def lib_batch_create_one_def batch_revoke_one_def lib_revoke_one_def Let_def writers
  by (elim steps store_typed_core [THEN typed_coreE]; simp add: typed_core_def event_defs)+

lemma loop_typed_core:
  assumes "for_each f xs s = Inr s'" and "\<And>x t t'. f x t = Inr t' \<Longrightarrow> typed_core (g t') = typed_core (g t)"
  shows "typed_core (g s') = typed_core (g s)"
  by (rule for_each_invariant [OF assms(1)]) (auto dest: assms(2))

lemmas loops_typed_core =
  loop_typed_core [where g = snd, OF _ one_typed_core(1)] loop_typed_core [where g = snd, OF _ one_typed_core(2)]
  loop_typed_core [where g = id, unfolded id_apply, OF _ one_typed_core(3)]
  loop_typed_core [where g = id, unfolded id_apply, OF _ one_typed_core(4)]
  loop_typed_core [where g = id, unfolded id_apply, OF _ one_typed_core(5)]

lemma att_call_typed_core:
  assumes "exec_att e c s = Inr s'" and "\<And>i k. c \<noteq> C_endorse_attestation i k"
  shows "typed_core s' = typed_core s"
  using assms
  by (cases c; simp only: exec_att.simps att_handlers Let_def writers;
      elim steps store_typed_core [THEN typed_coreE] loops_typed_core [THEN typed_coreE];
      simp add: typed_core_def event_defs)

lemma lib_handlers_typed_core:
  "lib_bridge_attestation e b x c sc st s = Inr (k, s') \<Longrightarrow> typed_core s' = typed_core s"
  "lib_create_attestations_batch e i xs c ex s = Inr (ks, s') \<Longrightarrow> typed_core s' = typed_core s"
  "lib_revoke_attestation e i k r s = Inr (u, s') \<Longrightarrow> typed_core s' = typed_core s"
  "lib_revoke_attestations_batch e i ks r s = Inr (n, s') \<Longrightarrow> typed_core s' = typed_core s"
  "lib_request_deletion e x k s = Inr (u, s') \<Longrightarrow> typed_core s' = typed_core s"
  "lib_register_expiration_hook e x cb d s = Inr (u, s') \<Longrightarrow> typed_core s' = typed_core s"
  unfolding lib_handlers Let_def writers
  by (elim steps store_typed_core [THEN typed_coreE] loops_typed_core [THEN typed_coreE];
      simp add: typed_core_def event_defs)+

lemma admin_call_typed_core:
  assumes "exec_admin e c s = Inr s'" and "\<And>a d h. c \<noteq> C_register_claim_type a d h"
  shows "typed_core s' = typed_core s"
  using assms
  by (cases c; simp only: exec_admin.simps admin_handlers Let_def writers;
      elim steps; simp add: typed_core_def event_defs)

lemma registry_call_typed_core:
  assumes "exec_registry e c s = Inr s'"
    and "\<And>i t k m. c \<noteq> C_save_template i t k m" and "\<And>i t. c \<noteq> C_delete_template i t"
    and "\<And>i d k x. c \<noteq> C_delegate_claim_type i d k x" and "\<And>i d k. c \<noteq> C_revoke_delegation i d k"
  shows "typed_core s' = typed_core s"
proof (cases c)
  case (C_bulk_add_to_whitelist i xs)
  with assms(1) show ?thesis
    by (auto simp: bulk_add_to_whitelist_def flow elim!: postE dest: loops_typed_core(5))
qed (use assms in \<open>simp only: exec_registry.simps registry_handlers Let_def writers;
      elim steps; simp add: typed_core_def event_defs\<close>)+

lemma flow_handler_typed_core:
  "propose_attestation e i0 x0 c0 rs0 n0 s = Inr (u0, s') \<Longrightarrow> typed_core s' = typed_core s"
  "cosign_attestation e i1 p1 s = Inr (u1, s') \<Longrightarrow> typed_core s' = typed_core s"
  "lib_propose_attestation e i2 x2 c2 rs2 n2 s = Inr (u2, s') \<Longrightarrow> typed_core s' = typed_core s"
  "lib_cosign_attestation e i3 p3 s = Inr (u3, s') \<Longrightarrow> typed_core s' = typed_core s"
  "init_council e a4 ms4 q4 s = Inr (u4, s') \<Longrightarrow> typed_core s' = typed_core s"
  "propose_council_action e a5 op5 s = Inr (u5, s') \<Longrightarrow> typed_core s' = typed_core s"
  "approve_council_action e a6 p6 s = Inr (u6, s') \<Longrightarrow> typed_core s' = typed_core s"
  "execute_council_action e a7 p7 s = Inr (u7, s') \<Longrightarrow> typed_core s' = typed_core s"
  unfolding flow_handlers Let_def writers
  by (elim steps store_typed_core [THEN typed_coreE]; simp add: typed_core_def event_defs)+

text \<open>The calls that write them.\<close>

lemma reg_typed_updates:
  "reg_typed m \<Longrightarrow> ct_claim_type x = c \<Longrightarrow> claim_type_ok c \<Longrightarrow>
     reg_typed (claim_type_entry_update (\<lambda>f. f(c \<mapsto> x)) m)"
  "reg_typed m \<Longrightarrow> tp_issuer t = a \<Longrightarrow> tp_template_id t = i \<Longrightarrow> template_ok t \<Longrightarrow>
     reg_typed (template_entry_update (\<lambda>f. f((a, i) \<mapsto> t)) m)"
  "reg_typed m \<Longrightarrow> dg_delegator g = a \<Longrightarrow> dg_delegate g = b \<Longrightarrow> dg_claim_type g = c \<Longrightarrow> a \<noteq> b \<Longrightarrow>
     reg_typed (delegation_entry_update (\<lambda>f. f((a, b, c) \<mapsto> g)) m)"
  "reg_typed m \<Longrightarrow> reg_typed (template_entry_update (\<lambda>f. f((a, i) := None)) m)"
  "reg_typed m \<Longrightarrow> reg_typed (delegation_entry_update (\<lambda>f. f((a, b, c) := None)) m)"
  "reg_typed (claim_type_list_update l1 m) = reg_typed m" "reg_typed (template_list_update l2 m) = reg_typed m"
  "reg_typed (delegator_index_update l3 m) = reg_typed m"
  by (auto simp: reg_typed_def)

lemma registry_values_reg:
  "register_claim_type e a c d s = Inr (u, s') \<Longrightarrow> reg_typed (reg s) \<Longrightarrow>
     reg_typed (reg s') \<and> atts s' = atts s \<and> flow_st s' = flow_st s"
  "save_template e i k c m s = Inr (u, s') \<Longrightarrow> reg_typed (reg s) \<Longrightarrow>
     reg_typed (reg s') \<and> atts s' = atts s \<and> flow_st s' = flow_st s"
  "delete_template e i k s = Inr (u, s') \<Longrightarrow> reg_typed (reg s) \<Longrightarrow>
     reg_typed (reg s') \<and> atts s' = atts s \<and> flow_st s' = flow_st s"
  "delegate_claim_type e i b c x s = Inr (u, s') \<Longrightarrow> reg_typed (reg s) \<Longrightarrow>
     reg_typed (reg s') \<and> atts s' = atts s \<and> flow_st s' = flow_st s"
  "revoke_delegation e i b c s = Inr (u, s') \<Longrightarrow> reg_typed (reg s) \<Longrightarrow>
     reg_typed (reg s') \<and> atts s' = atts s \<and> flow_st s' = flow_st s"
  unfolding register_claim_type_def save_template_def delete_template_def delegate_claim_type_def
    revoke_delegation_def Let_def writers
  by (elim steps; auto simp: event_defs guards_ok template_ok_def reg_typed_updates with_ttl_Inr split: if_splits)+

lemma registry_values_typed:
  assumes "well_typed s"
  shows "register_claim_type e a c d s = Inr (u, s') \<Longrightarrow> well_typed s'"
    and "save_template e i k c m s = Inr (u, s') \<Longrightarrow> well_typed s'"
    and "delete_template e i k s = Inr (u, s') \<Longrightarrow> well_typed s'"
    and "delegate_claim_type e i b c x s = Inr (u, s') \<Longrightarrow> well_typed s'"
    and "revoke_delegation e i b c s = Inr (u, s') \<Longrightarrow> well_typed s'"
  using assms unfolding well_typed_iff by - (drule registry_values_reg, blast, simp)+

lemma new_request_ok:
  assumes "request_attestation e x i c s = Inr (r, s')"
  shows "request_ok (new_request e x i c)"
proof -
  from assms have "claim_type_ok c"
    and "unat (timestamp e) + unat ATTESTATION_REQUEST_TTL_SECS < 2 ^ 64"
    unfolding request_attestation_def Let_def guards_ok by (elim steps, simp add: guards_ok)+
  then show ?thesis by (simp add: request_ok_def new_request_def unat_add_exact)
qed

lemma flow_typed_put:
  assumes "flow_typed m" and "request_entry m' = (request_entry m)(i \<mapsto> r)" and "req_id r = i" and "request_ok r"
  shows "flow_typed m'"
  using assms by (simp add: flow_typed_def)

lemma closed_request_ok:
  assumes "flow_typed m" and "request_entry m i = Some q" and "req_status q = Req_Pending"
    and "request_entry m' = (request_entry m)(req_id q \<mapsto> q\<lparr>req_status := st\<rparr>)"
  shows "flow_typed m'"
  using assms by (auto simp: flow_typed_def request_ok_def)

lemma rejected_request_ok:
  assumes "flow_typed m" and "request_entry m i = Some q" and "text_bounded 128 t"
    and "request_entry m' = (request_entry m)(req_id q \<mapsto> q\<lparr>req_status := Req_Rejected, req_rejection_reason := t\<rparr>)"
  shows "flow_typed m'"
  using assms by (auto simp: flow_typed_def request_ok_def)

lemma reject_request_reason: "reject_request e i k t s = Inr (u, s') \<Longrightarrow> text_bounded 128 t"
  unfolding reject_request_def by (elim steps) (simp add: guards_ok)

lemma requests_typed:
  "request_attestation e x i c s = Inr (u, s') \<Longrightarrow> flow_typed (flow_st s) \<Longrightarrow> flow_typed (flow_st s')"
  "fulfill_request e i k y s = Inr (u, s') \<Longrightarrow> flow_typed (flow_st s) \<Longrightarrow> flow_typed (flow_st s')"
  "reject_request e i k t s = Inr (u', s') \<Longrightarrow> flow_typed (flow_st s) \<Longrightarrow> flow_typed (flow_st s')"
  "cancel_request e x k s = Inr (u', s') \<Longrightarrow> flow_typed (flow_st s) \<Longrightarrow> flow_typed (flow_st s')"
  by (blast dest: request_attestation_effect intro: new_request_ok flow_typed_put)
    (blast dest: fulfill_request_effect intro: closed_request_ok,
     blast dest: reject_request_effect intro: rejected_request_ok reject_request_reason,
     blast dest: cancel_request_effect intro: closed_request_ok)

lemma requests_reg:
  "request_attestation e x i c s = Inr (u, s') \<Longrightarrow> reg_typed (reg s) \<Longrightarrow> reg_typed (reg s')"
  "reject_request e i k t s = Inr (u', s') \<Longrightarrow> reg s' = reg s"
  "cancel_request e x k s = Inr (u', s') \<Longrightarrow> reg s' = reg s"
  using request_attestation_effect [of e x i c s u s']
  unfolding reject_request_def cancel_request_def Let_def writers
  by (simp, elim steps, simp add: event_defs, elim steps, simp add: event_defs)

lemma fulfill_request_frame:
  "fulfill_request e i k y s = Inr (u, s') \<Longrightarrow> endorsements_typed (atts s) \<Longrightarrow> endorsements_typed (atts s')"
  "fulfill_request e i k y s = Inr (u, s') \<Longrightarrow> reg_typed (reg s) \<Longrightarrow> reg_typed (reg s')"
  unfolding fulfill_request_def Let_def writers
  by (elim steps store_typed_core [THEN typed_coreE], simp add: event_defs endorsements_typed_def reg_typed_def)+

text \<open>An endorsement comes once, from another registered issuer, for an attestation that is not revoked,
  and is filed in two lists; nothing else changes.\<close>

lemma endorse_attestation_effect:
  assumes "endorse_attestation e a i s = Inr (u, s')"
  defines "en \<equiv> \<lparr>en_attestation_id = i, en_endorser = a, en_timestamp = timestamp e\<rparr>"
  shows "(\<exists>r. attestation_entry (atts s) i = Some r \<and> att_issuer r \<noteq> a \<and> \<not> att_revoked r) \<and>
    Storage_is_issuer a s \<and> a \<notin> en_endorser ` set (list_of (endorsements (atts s)) i) \<and>
    atts s' = (atts s)\<lparr>endorsements := add_to i en (endorsements (atts s)),
      endorser_index := add_to a en (endorser_index (atts s))\<rparr> \<and>
    inst s' = inst s \<and> reg s' = reg s \<and> flow_st s' = flow_st s"
  using assms(1) unfolding endorse_attestation_def Let_def Storage_add_endorsement_def Storage_index_endorsement_def en_def
    Storage_get_attestation_def
  by (elim steps) (simp add: readers index_ops list_of_def)

lemma endorsements_typed_put:
  assumes "endorsements_typed m" and "en_attestation_id en = i" and "en_endorser en = a"
    and "a \<notin> en_endorser ` set (list_of (endorsements m) i)"
  shows "endorsements_typed (m\<lparr>endorsements := add_to i en (endorsements m), endorser_index := add_to a en (endorser_index m)\<rparr>)"
proof -
  have "distinct (map en_endorser (list_of (endorsements m) i))"
    "list_all (\<lambda>x. en_attestation_id x = i) (list_of (endorsements m) i)"
    using assms(1) by (cases "endorsements m i"; simp add: endorsements_typed_def list_of_def)+
  moreover have "list_all (\<lambda>x. en_endorser x = a) (list_of (endorser_index m) a)"
    using assms(1) by (cases "endorser_index m a"; simp add: endorsements_typed_def list_of_def)
  ultimately show ?thesis
    using assms by (auto simp: endorsements_typed_def add_to_def)
qed

lemma endorse_typed:
  assumes "endorse_attestation e a i s = Inr (u, s')" and "well_typed s"
  shows "well_typed s'"
proof -
  note eff = endorse_attestation_effect [OF assms(1)]
  have "endorsements_typed (atts s')"
    using eff assms(2) endorsements_typed_put by (simp add: well_typed_iff)
  with eff assms(2) show ?thesis by (simp add: well_typed_iff)
qed

subsection \<open>Every call\<close>

lemma att_call_typed:
  assumes "exec_att e c s = Inr s'" and "well_typed s"
  shows "well_typed s'"
proof (cases "\<exists>i k. c = C_endorse_attestation i k")
  case True
  with assms show ?thesis by (auto elim!: postE intro: endorse_typed)
next
  case False
  have "atts_typed (atts s)" using assms(2) by (simp add: well_typed_iff)
  with False assms(1) have "atts_typed (atts s')"
    by (cases c) (auto simp: create_attestation_def create_attestation_valid_from_def
        create_attestation_jurisdiction_def elim!: postE intro: create_attestation_internal_typed
        create_attestation_as_delegate_typed plain_creation_typed bridge_typed(1) update_typed revoke_typed(1)
        batch_create_typed(1) batch_revoke_typed(1))
  moreover have "typed_core s' = typed_core s" using False assms(1) by (intro att_call_typed_core) auto
  ultimately show ?thesis using assms(2) by (blast intro: typed_core_typed)
qed

lemma lib_call_typed:
  assumes "exec_lib e c s = Inr s'" and "well_typed s"
  shows "well_typed s'"
proof (cases "\<exists>x k n. c = L_register_expiration_hook x k n")
  case True
  with assms have "atts s' = atts s" "typed_core s' = typed_core s"
    by (auto simp: lib_register_expiration_hook_def writers set_registry_Inr flow typed_core_def elim!: postE)
  with assms(2) show ?thesis by (blast intro: typed_core_typed_atts)
next
  case False
  have "atts_typed (atts s)" using assms(2) by (simp add: well_typed_iff)
  with False assms(1) have "atts_typed (atts s')" "typed_core s' = typed_core s"
    by (cases c; auto elim!: postE intro: bridge_typed(2) update_typed revoke_typed(2) batch_create_typed(2)
        batch_revoke_typed(2) lib_handlers_typed_core)+
  then show ?thesis using assms(2) by (blast intro: typed_core_typed)
qed

lemma admin_call_typed:
  assumes "exec_admin e c s = Inr s'" and "well_typed s"
  shows "well_typed s'"
proof (cases "\<exists>a d h. c = C_register_claim_type a d h")
  case True
  with assms show ?thesis by (auto elim!: postE intro: registry_values_typed(1))
next
  case False
  with assms(1) have "typed_core s' = typed_core s" by (intro admin_call_typed_core) auto
  with admin_call_atts [OF assms(1)] assms(2) show ?thesis
    by (blast intro: typed_core_typed_atts)
qed

lemma registry_call_typed:
  assumes "exec_registry e c s = Inr s'" and "well_typed s"
  shows "well_typed s'"
proof (cases "typed_core s' = typed_core s")
  case True
  with registry_call_atts [OF assms(1)] assms(2) show ?thesis
    by (blast intro: typed_core_typed_atts)
next
  case False
  with registry_call_typed_core [OF assms(1)] assms show ?thesis
    by (cases c) (auto elim!: postE intro: registry_values_typed)
qed

lemma flow_call_typed:
  assumes "exec_flow e c s = Inr s'" and "well_typed s"
  shows "well_typed s'"
proof (cases "typed_core s' = typed_core s \<and> atts_typed (atts s')")
  case True
  with assms(2) show ?thesis by (blast intro: typed_core_typed)
next
  case False
  with assms show ?thesis
    by (cases c) (auto simp: well_typed_iff council_atts elim!: postE dest: requests_typed requests_reg request_atts
        flow_handler_typed_core multisig_typed plain_creation_typed fulfill_request_frame)
qed

lemma exec_typed: "exec e c s = Inr s' \<Longrightarrow> well_typed s \<Longrightarrow> well_typed s'"
  by (cases c) (auto intro: admin_call_typed registry_call_typed att_call_typed flow_call_typed lib_call_typed)

subsection \<open>The property\<close>

lemma empty_typed: "well_typed empty_storage"
  by (simp add: well_typed_iff atts_typed_def endorsements_typed_def reg_typed_def flow_typed_def empty_storage_def)

text \<open>C13: In every reachable state every stored value has the shape its key promises.  An attestation is filed
under its own id; its texts, tags and source reference keep their bounds, exactly the bridged ones
name a source, a start date lies after the issuance, a jurisdiction is an ISO code, and only revoked
ones carry a reason.  Registered claim types and the claim types of templates and requests are valid
names; a request lives exactly as long as configured and only rejected ones carry a reason; nobody
delegates to themselves; nobody endorses an attestation twice.\<close>

theorem stored_values_well_formed:
  assumes "reachable m s" and "entry k s = Some v"
  shows "value_ok k v"
proof -
  from assms(1) have "well_typed s"
    by (induction rule: reachable.induct) (auto intro: empty_typed exec_typed)
  with assms(2) show ?thesis by (simp add: well_typed_def)
qed

theorem stored_values_well_formed_witness:
  "entry (K_Attestation kyc_id) state_3 = Some (V_Attestation kyc_att) \<and>
   value_ok (K_Attestation kyc_id) (V_Attestation kyc_att)"
proof -
  have e: "entry (K_Attestation kyc_id) state_3 = Some (V_Attestation kyc_att)" by simp
  with stored_values_well_formed [OF history_reachable(3) e] show ?thesis by blast
qed

end
