(* ===== verification/TL_Listing.thy ===== *)
theory TL_Listing
  imports TL_Scenario
begin

section \<open>The chunked listing of a subject\<close>

text \<open>
  \<^verbatim>\<open>get_subject_attestations\<close> pages through the chunked index, \<^verbatim>\<open>has_valid_claim\<close> scans the
  \<^verbatim>\<open>ValidAttestations\<close> list.  In every state the module handlers reach the two hold the same ids in
  the same order, so with the consistency of the valid index the listing misses no live attestation.
\<close>

subsection \<open>The two indexes\<close>

definition mirrored :: "attestation_store \<Rightarrow> bool" where
  "mirrored m \<longleftrightarrow> (\<forall>x. chunk_shape (subject_chunk m x) (list_of (valid_ids m) x))"

lemma mirrored_updates [simp]:
  "mirrored (attestation_entry_update e m) = mirrored m" "mirrored (subject_ids_update f m) = mirrored m"
  "mirrored (issuer_ids_update f m) = mirrored m" "mirrored (audit_log_update g m) = mirrored m"
  "mirrored (issuer_chunk_update h m) = mirrored m" "mirrored (endorsements_update w m) = mirrored m"
  "mirrored (endorser_index_update v m) = mirrored m"
  by (simp_all add: mirrored_def)

lemma mirrored_frame:
  "valid_ids m' = valid_ids m \<Longrightarrow> subject_chunk m' = subject_chunk m \<Longrightarrow> mirrored m' = mirrored m"
  by (simp add: mirrored_def)

text \<open>The effect of the subject operations of the chunked index on a represented list.\<close>

lemma chunk_addE:
  assumes "ChunkedIndex_add_subject x i s = Inr s'"
  obtains c where "inst s' = inst s" "reg s' = reg s" "flow_st s' = flow_st s"
    "atts s' = (atts s)\<lparr>subject_chunk := (subject_chunk (atts s))(x := c)\<rparr>"
    "\<forall>l. chunk_shape (subject_chunk (atts s) x) l \<longrightarrow> chunk_shape c (l @ [i])"
    "events (host s') = events (host s)" "calls (host s') = calls (host s)"
proof -
  obtain c where f: "chunk_frame (\<lambda>t. t\<lparr>subject_chunk := (subject_chunk t)(x := c)\<rparr>) s s'"
    using ChunkedIndex_add_subject_frame [OF assms] by blast
  have "chunk_shape c (l @ [i])" if "chunk_shape (subject_chunk (atts s) x) l" for l
    using ChunkedIndex_subject_returns(1) [OF that assms] f by (simp add: chunk_frame_def)
  with f that [of c] show thesis by (simp add: chunk_frame_def)
qed

lemma chunk_removeE:
  assumes "ChunkedIndex_remove_subject x i s = Inr s'"
  obtains c where "inst s' = inst s" "reg s' = reg s" "flow_st s' = flow_st s"
    "atts s' = (atts s)\<lparr>subject_chunk := (subject_chunk (atts s))(x := c)\<rparr>"
    "\<forall>l. chunk_shape (subject_chunk (atts s) x) l \<longrightarrow> chunk_shape c (without i l)"
    "events (host s') = events (host s)" "calls (host s') = calls (host s)"
proof -
  obtain c where f: "chunk_frame (\<lambda>t. t\<lparr>subject_chunk := (subject_chunk t)(x := c)\<rparr>) s s'"
    using ChunkedIndex_remove_subject_frame [OF assms] by blast
  have "chunk_shape c (without i l)" if "chunk_shape (subject_chunk (atts s) x) l" for l
    using ChunkedIndex_subject_returns(2) [OF that assms] f by (simp add: chunk_frame_def)
  with f that [of c] show thesis by (simp add: chunk_frame_def)
qed

lemmas chunk_steps = chunk_addE chunk_removeE

subsection \<open>Every module handler keeps them equal\<close>

lemma store_mirrored:
  "store_attestation a s = Inr s' \<Longrightarrow> mirrored (atts s) \<Longrightarrow> mirrored (atts s')"
  unfolding store_attestation_def Let_def writers
  by (elim chunk_steps steps) (simp add: readers list_of_def mirrored_def)

lemma batch_create_one_mirrored:
  "batch_create_one e is c ex lim x (ids, s) = Inr (ids', s') \<Longrightarrow> mirrored (atts s) \<Longrightarrow> mirrored (atts s')"
  unfolding batch_create_one_def Let_def writers prod.case
  by (elim chunk_steps steps) (simp add: readers list_of_def mirrored_def event_defs)

lemma removal_mirrored:
  "revoke_attestation e is i r s = Inr (u, s') \<Longrightarrow> mirrored (atts s) \<Longrightarrow> mirrored (atts s')"
  "request_deletion e x i s = Inr (u, s') \<Longrightarrow> mirrored (atts s) \<Longrightarrow> mirrored (atts s')"
  unfolding revoke_attestation_def request_deletion_def Let_def writers
  by (elim chunk_steps steps, simp add: readers list_of_def mirrored_def event_defs)+

lemma create_attestation_internal_mirrored:
  "create_attestation_internal e is x c ex m j tg vf s = Inr (u, s') \<Longrightarrow> mirrored (atts s) \<Longrightarrow> mirrored (atts s')"
  unfolding create_attestation_internal_def Let_def writers
  by (elim steps; drule store_mirrored; simp add: event_defs)

lemma create_attestation_as_delegate_mirrored:
  "create_attestation_as_delegate e d is x c ex m s = Inr (u, s') \<Longrightarrow> mirrored (atts s) \<Longrightarrow> mirrored (atts s')"
  unfolding create_attestation_as_delegate_def Let_def writers
  by (elim steps; drule store_mirrored; simp add: event_defs)

lemma import_attestation_mirrored:
  "import_attestation e d is x c ts ex s = Inr (u, s') \<Longrightarrow> mirrored (atts s) \<Longrightarrow> mirrored (atts s')"
  unfolding import_attestation_def Let_def writers
  by (elim steps; drule store_mirrored; simp add: event_defs)

lemma bridge_attestation_mirrored:
  "bridge_attestation e b x c sc tx s = Inr (u, s') \<Longrightarrow> mirrored (atts s) \<Longrightarrow> mirrored (atts s')"
  unfolding bridge_attestation_def Let_def writers
  by (elim steps; drule store_mirrored; simp add: event_defs)

lemma fulfill_request_mirrored:
  "fulfill_request e is i ex s = Inr (u, s') \<Longrightarrow> mirrored (atts s) \<Longrightarrow> mirrored (atts s')"
  unfolding fulfill_request_def Let_def writers
  by (elim steps; drule store_mirrored; simp add: event_defs)

lemmas creation_mirrored = create_attestation_internal_mirrored create_attestation_as_delegate_mirrored
  import_attestation_mirrored bridge_attestation_mirrored fulfill_request_mirrored

lemma multisig_mirrored:
  "propose_attestation e i x c rs n s = Inr (u, s') \<Longrightarrow> mirrored (atts s) \<Longrightarrow> mirrored (atts s')"
  "cosign_attestation e i p s = Inr (u', s') \<Longrightarrow> mirrored (atts s) \<Longrightarrow> mirrored (atts s')"
  unfolding propose_attestation_def cosign_attestation_def Let_def writers
  by (elim steps; (drule store_mirrored)?; simp add: event_defs)+

lemma create_attestations_batch_mirrored:
  assumes "create_attestations_batch e is xs c ex s = Inr (u, s')" and "mirrored (atts s)"
  shows "mirrored (atts s')"
proof -
  from assms(1) obtain ids t where loop: "for_each (batch_create_one e is c ex (Storage_get_limits s)) xs ([], s) = Inr (ids, t)"
    and same: "valid_ids (atts s') = valid_ids (atts t)" "subject_chunk (atts s') = subject_chunk (atts t)"
    unfolding create_attestations_batch_def Let_def writers by (elim steps) (simp_all add: readers)
  have "mirrored (atts (snd (ids, t)))"
    by (rule for_each_invariant [where I = "\<lambda>p. mirrored (atts (snd p))", OF loop])
      (use assms(2) in \<open>auto intro: batch_create_one_mirrored\<close>)
  then show ?thesis by (simp add: mirrored_frame [OF same])
qed

lemma revoke_attestations_batch_mirrored:
  assumes "revoke_attestations_batch e is xs r s = Inr (u, s')" and "mirrored (atts s)"
  shows "mirrored (atts s')"
proof -
  from assms(1) obtain as t where loop: "for_each (batch_revoke_one e is r) as s = Inr t" and same: "atts s' = atts t"
    unfolding revoke_attestations_batch_def Let_def writers by (elim steps) simp_all
  have "mirrored (atts t)"
  proof (rule for_each_invariant [where I = "\<lambda>t. mirrored (atts t)", OF loop assms(2)])
    fix a t t' assume "mirrored (atts t)" and "batch_revoke_one e is r a t = Inr t'"
    then show "mirrored (atts t')"
      unfolding batch_revoke_one_def Let_def writers by (elim steps) (simp add: event_defs)
  qed
  then show ?thesis by (simp add: same)
qed

lemma update_mirrored:
  "renew_attestation e is i ex s = Inr (u, s') \<Longrightarrow> mirrored (atts s) \<Longrightarrow> mirrored (atts s')"
  "update_expiration e is i ex s = Inr (u, s') \<Longrightarrow> mirrored (atts s) \<Longrightarrow> mirrored (atts s')"
  "transfer_attestation e ad i is s = Inr (u, s') \<Longrightarrow> mirrored (atts s) \<Longrightarrow> mirrored (atts s')"
  "endorse_attestation e is i s = Inr (u, s') \<Longrightarrow> mirrored (atts s) \<Longrightarrow> mirrored (atts s')"
  unfolding renew_attestation_def update_expiration_def transfer_attestation_def endorse_attestation_def
    Let_def writers
  by (elim steps; simp add: event_defs)+

lemma exec_mirrored:
  assumes "exec e c s = Inr s'" and "module_call c" and "mirrored (atts s)"
  shows "mirrored (atts s')"
proof (cases c)
  case (Att d)
  with assms show ?thesis
    by (cases d) (auto simp: create_attestation_def create_attestation_valid_from_def
        create_attestation_jurisdiction_def elim!: postE intro: creation_mirrored removal_mirrored
        update_mirrored create_attestations_batch_mirrored revoke_attestations_batch_mirrored)
next
  case (Flow d)
  with assms show ?thesis
    by (cases d) (auto simp: module_call_def request_atts council_atts elim!: postE
        intro: creation_mirrored multisig_mirrored)
qed (use assms in \<open>auto simp: module_call_def admin_call_atts registry_call_atts\<close>)

lemma reachable_mirrored: "reachable True s \<Longrightarrow> mirrored (atts s)"
proof (induction rule: reachable.induct)
  case deployed
  show ?case by (simp add: mirrored_def empty_storage_def)
qed (auto intro: exec_mirrored)

text \<open>C19: As long as only the module handlers ran, the chunked listing of a subject is the list
\<^verbatim>\<open>has_valid_claim\<close> scans, id by id; a page of \<^verbatim>\<open>get_subject_attestations\<close> is the slice of that list it names,
nothing filtered out of it, and no attestation that is neither revoked nor deleted is missing from
the list.\<close>

theorem subject_listing_complete:
  fixes x :: address
  assumes "reachable True s"
  defines "l \<equiv> Storage_get_valid_attestations x s"
  shows "ChunkedIndex_get_subject_ids x s = Inr l \<and>
    (\<forall>start limit. unat start + unat limit < 2 ^ 32 \<longrightarrow>
       get_subject_attestations x start limit s = Inr (take (unat limit) (drop (unat start) l))) \<and>
    (\<forall>i a. attestation_entry (atts s) i = Some a \<longrightarrow> att_subject a = x \<longrightarrow> \<not> att_revoked a \<longrightarrow>
       \<not> att_deleted a \<longrightarrow> i \<in> set l)"
proof -
  have v: "valid_index_ok (view s)" using reachable_view_ok [OF assms(1)] by (simp add: view_ok_def)
  have l: "l = list_of (valid_ids (atts s)) x" by (simp add: l_def readers list_of_def)
  have ids: "ChunkedIndex_get_subject_ids x s = Inr l"
    using reachable_mirrored [OF assms(1)] by (simp add: l mirrored_def ChunkedIndex_get_subject_ids_def read_chunks_shape_0)
  have live: "live s (\<lambda>_. True) i" if "i \<in> set l" for i
    using v that by (fastforce simp: l valid_index_ok_def view_def live_def Storage_get_attestation_def)
  have "get_subject_attestations x start limit s = Inr (take (unat limit) (drop (unat start) l))"
    if page: "unat start + unat limit < 2 ^ 32" for start limit
  proof -
    let ?p = "take (unat limit) (drop (unat start) l)"
    have "filter (live s (\<lambda>_. True)) ?p = ?p"
      using live by (auto simp: filter_id_conv dest!: in_set_takeD in_set_dropD)
    then show ?thesis
      using page by (simp add: get_subject_attestations_def ChunkedIndex_get_subject_page_def ids paginate_eq)
  qed
  moreover have "i \<in> set l" if "attestation_entry (atts s) i = Some a" "att_subject a = x" "\<not> att_revoked a"
    "\<not> att_deleted a" for i a
    using v that by (auto simp: l valid_index_ok_def view_def)
  ultimately show ?thesis using ids by blast
qed

theorem subject_listing_complete_witness:
  "reachable True state_3 \<and> get_subject_attestations (Address 3) 0 10 state_3 = Inr [kyc_id]"
proof -
  have "Storage_get_valid_attestations (Address 3) state_3 = [kyc_id]" by (simp add: readers state_defs)
  with subject_listing_complete [OF history_reachable(3) [of True], of "Address 3"] history_reachable(3)
  show ?thesis by simp
qed

end
