(* ===== verification/TL_Queries.thy ===== *)
theory TL_Queries
  imports TL_Listing
begin

section \<open>The entry points that answer\<close>

text \<open>
  The queries of \<^verbatim>\<open>TrustLinkContract\<close> (\<^verbatim>\<open>src/src/lib.rs\<close>) as datatypes, one per group of the file, with a
  dispatcher that runs the function each entry point forwards to.  A query never changes what is
  stored, in any state; it may publish events and notify a subject's callback.  What the listings
  return is never a deleted attestation.
\<close>

subsection \<open>Queries and answers\<close>

datatype (plugins only: code) claim_query =
    Q_has_valid_claim address string
  | Q_has_valid_claim_from_issuer address string address
  | Q_has_any_claim address "string list"
  | Q_has_all_claims address "string list"
  | Q_has_valid_claim_from_tier address string issuer_tier

datatype (plugins only: code) listing_query =
    Q_get_attestation string
  | Q_get_subject_attestations address u32 u32
  | Q_get_attestations_in_range address u64 u64 u32 u32
  | Q_get_attestations_in_range_after address u64 u64 "string option" u32
  | Q_get_attestations_by_tag address string
  | Q_get_attestations_by_jurisdiction address string u32 u32
  | Q_get_issuer_attestations address u32 u32
  | Q_get_attestation_by_type address string

datatype (plugins only: code) record_query =
    Q_get_audit_log string
  | Q_get_attestation_status string
  | Q_get_issuer_attestation_count address
  | Q_get_valid_claims address
  | Q_get_subject_attestation_count address
  | Q_get_valid_claim_count address
  | Q_get_global_stats
  | Q_get_endorsement_count string
  | Q_list_endorsements_by_endorser address u32 u32
  | Q_get_confidence_score string

datatype (plugins only: code) registry_query =
    Q_is_issuer address
  | Q_get_issuer_tier address
  | Q_is_bridge address
  | Q_get_bridge_list u32 u32
  | Q_get_issuer_list u32 u32
  | Q_is_whitelisted address address
  | Q_is_whitelist_enabled address
  | Q_get_issuer_metadata address
  | Q_get_issuer_stats address
  | Q_get_delegation address address string
  | Q_list_delegations_by_delegator address u32 u32
  | Q_get_expiration_hook address
  | Q_get_template address string
  | Q_list_templates address
  | Q_get_claim_type_description string
  | Q_list_claim_types u32 u32
  | Q_get_claim_type_count string

datatype (plugins only: code) config_query =
    Q_get_admin
  | Q_get_admin_council
  | Q_get_pending_admin_transfer
  | Q_get_fee_config
  | Q_get_rate_limit
  | Q_get_rate_limit_for_claim_type string
  | Q_get_pause_reason
  | Q_is_paused
  | Q_get_registered_claim_type
  | Q_get_require_registered_claim_type
  | Q_get_limits
  | Q_get_multisig_ttl
  | Q_get_contract_metadata
  | Q_get_council
  | Q_get_council_proposal u32
  | Q_get_multisig_proposal string

datatype (plugins only: code) request_query =
    Q_get_pending_requests address u32 u32
  | Q_get_request string
  | Q_get_version
  | Q_health_check

datatype (plugins only: code) query =
    Claims claim_query | Listing listing_query | Records record_query
  | Roles registry_query | Config config_query | Requests request_query

datatype (plugins only: code) answer =
    A_Bool bool | A_U32 u32 | A_U64 u64 | A_OptU32 "u32 option" | A_OptU64 "u64 option"
  | A_Text string | A_OptText "string option" | A_Texts "string list"
  | A_Address address | A_Addresses "address list" | A_OptAddresses "address list option"
  | A_Ids "string list" | A_Attestation attestation | A_OptAttestation "attestation option"
  | A_Attestations "attestation list" | A_Status attestation_status | A_Audit "audit_entry list"
  | A_Stats global_stats | A_IssuerStats issuer_stats | A_Endorsements "endorsement list"
  | A_Tier "issuer_tier option" | A_Metadata "issuer_metadata option" | A_Delegation "delegation option"
  | A_Delegations "delegation list" | A_Hook "expiration_hook option" | A_Template attestation_template
  | A_Transfer "pending_admin_transfer option" | A_Fee fee_config | A_RateLimit "rate_limit_config option"
  | A_Limits storage_limits | A_Contract contract_metadata | A_Council "council_proposal option"
  | A_Multisig multisig_proposal | A_Requests "attestation_request list" | A_Request attestation_request
  | A_Health health_status

subsection \<open>Dispatch\<close>

text \<open>A query that only reads, possibly trapping or failing.\<close>

definition reads :: "('a \<Rightarrow> answer) \<Rightarrow> 'a res \<Rightarrow> storage \<Rightarrow> (answer \<times> storage) res" where
  "reads f r s = and_then r (\<lambda>x. Inr (f x, s))"

primrec exec_claim_query :: "env \<Rightarrow> claim_query \<Rightarrow> storage \<Rightarrow> (answer \<times> storage) res" where
  "exec_claim_query e (Q_has_valid_claim x c) s = Inr (apfst A_Bool (has_valid_claim e x c s))"
| "exec_claim_query e (Q_has_valid_claim_from_issuer x c i) s =
     Inr (apfst A_Bool (has_valid_claim_from_issuer e x c i s))"
| "exec_claim_query e (Q_has_any_claim x cs) s = Inr (apfst A_Bool (has_any_claim e x cs s))"
| "exec_claim_query e (Q_has_all_claims x cs) s = Inr (A_Bool (has_all_claims e x cs s), s)"
| "exec_claim_query e (Q_has_valid_claim_from_tier x c t) s =
     Inr (A_Bool (has_valid_claim_from_tier e x c t s), s)"

primrec exec_listing_query :: "env \<Rightarrow> listing_query \<Rightarrow> storage \<Rightarrow> (answer \<times> storage) res" where
  "exec_listing_query e (Q_get_attestation i) s = reads A_Attestation (get_attestation i s) s"
| "exec_listing_query e (Q_get_subject_attestations x k n) s =
     reads A_Ids (get_subject_attestations x k n s) s"
| "exec_listing_query e (Q_get_attestations_in_range x f t k n) s =
     reads A_Attestations (get_attestations_in_range x f t k n s) s"
| "exec_listing_query e (Q_get_attestations_in_range_after x f t c n) s =
     reads A_Attestations (get_attestations_in_range_after x f t c n s) s"
| "exec_listing_query e (Q_get_attestations_by_tag x t) s =
     Inr (A_Ids (get_attestations_by_tag x t s), s)"
| "exec_listing_query e (Q_get_attestations_by_jurisdiction x j k n) s =
     reads A_Ids (get_attestations_by_jurisdiction x j k n s) s"
| "exec_listing_query e (Q_get_issuer_attestations i k n) s =
     reads A_Ids (get_issuer_attestations i k n s) s"
| "exec_listing_query e (Q_get_attestation_by_type x c) s =
     Inr (A_OptAttestation (get_attestation_by_type e x c s), s)"

primrec exec_record_query :: "env \<Rightarrow> record_query \<Rightarrow> storage \<Rightarrow> (answer \<times> storage) res" where
  "exec_record_query e (Q_get_audit_log i) s = Inr (A_Audit (get_audit_log i s), s)"
| "exec_record_query e (Q_get_attestation_status i) s =
     and_then (get_attestation_status e i s) (\<lambda>p. Inr (apfst A_Status p))"
| "exec_record_query e (Q_get_issuer_attestation_count i) s =
     Inr (A_U32 (get_issuer_attestation_count i s), s)"
| "exec_record_query e (Q_get_valid_claims x) s = Inr (A_Texts (get_valid_claims e x s), s)"
| "exec_record_query e (Q_get_subject_attestation_count x) s =
     reads A_U32 (get_subject_attestation_count x s) s"
| "exec_record_query e (Q_get_valid_claim_count x) s = Inr (A_U32 (get_valid_claim_count e x s), s)"
| "exec_record_query e Q_get_global_stats s = Inr (A_Stats (get_global_stats s), s)"
| "exec_record_query e (Q_get_endorsement_count i) s = Inr (A_U32 (get_endorsement_count i s), s)"
| "exec_record_query e (Q_list_endorsements_by_endorser a k n) s =
     reads A_Endorsements (list_endorsements_by_endorser a k n s) s"
| "exec_record_query e (Q_get_confidence_score i) s = reads A_OptU32 (get_confidence_score i s) s"

primrec exec_registry_query :: "env \<Rightarrow> registry_query \<Rightarrow> storage \<Rightarrow> (answer \<times> storage) res" where
  "exec_registry_query e (Q_is_issuer a) s = Inr (A_Bool (is_issuer a s), s)"
| "exec_registry_query e (Q_get_issuer_tier i) s = Inr (A_Tier (get_issuer_tier i s), s)"
| "exec_registry_query e (Q_is_bridge a) s = Inr (A_Bool (is_bridge a s), s)"
| "exec_registry_query e (Q_get_bridge_list k n) s = reads A_Addresses (get_bridge_list k n s) s"
| "exec_registry_query e (Q_get_issuer_list k n) s = reads A_Addresses (get_issuer_list k n s) s"
| "exec_registry_query e (Q_is_whitelisted i x) s = Inr (A_Bool (is_whitelisted i x s), s)"
| "exec_registry_query e (Q_is_whitelist_enabled i) s = Inr (A_Bool (is_whitelist_enabled i s), s)"
| "exec_registry_query e (Q_get_issuer_metadata i) s = Inr (A_Metadata (get_issuer_metadata i s), s)"
| "exec_registry_query e (Q_get_issuer_stats i) s = Inr (A_IssuerStats (get_issuer_stats i s), s)"
| "exec_registry_query e (Q_get_delegation i d c) s = Inr (A_Delegation (get_delegation i d c s), s)"
| "exec_registry_query e (Q_list_delegations_by_delegator i k n) s =
     Inr (A_Delegations (list_delegations_by_delegator e i k n s), s)"
| "exec_registry_query e (Q_get_expiration_hook x) s = Inr (A_Hook (get_expiration_hook x s), s)"
| "exec_registry_query e (Q_get_template i t) s = reads A_Template (get_template i t s) s"
| "exec_registry_query e (Q_list_templates i) s = Inr (A_Texts (list_templates i s), s)"
| "exec_registry_query e (Q_get_claim_type_description c) s =
     Inr (A_OptText (get_claim_type_description c s), s)"
| "exec_registry_query e (Q_list_claim_types k n) s = reads A_Texts (list_claim_types k n s) s"
| "exec_registry_query e (Q_get_claim_type_count c) s = Inr (A_U64 (get_claim_type_count c s), s)"

primrec exec_config_query :: "env \<Rightarrow> config_query \<Rightarrow> storage \<Rightarrow> (answer \<times> storage) res" where
  "exec_config_query e Q_get_admin s = reads A_Address (get_admin s) s"
| "exec_config_query e Q_get_admin_council s = reads A_Addresses (get_admin_council s) s"
| "exec_config_query e Q_get_pending_admin_transfer s =
     Inr (A_Transfer (get_pending_admin_transfer s), s)"
| "exec_config_query e Q_get_fee_config s = reads A_Fee (get_fee_config s) s"
| "exec_config_query e Q_get_rate_limit s = Inr (A_RateLimit (get_rate_limit s), s)"
| "exec_config_query e (Q_get_rate_limit_for_claim_type c) s =
     Inr (A_OptU64 (get_rate_limit_for_claim_type c s), s)"
| "exec_config_query e Q_get_pause_reason s = Inr (A_OptText (get_pause_reason s), s)"
| "exec_config_query e Q_is_paused s = Inr (A_Bool (is_paused s), s)"
| "exec_config_query e Q_get_registered_claim_type s =
     Inr (A_Bool (get_require_registered_claim_type s), s)"
| "exec_config_query e Q_get_require_registered_claim_type s =
     Inr (A_Bool (Storage_get_require_registered_claim_type s), s)"
| "exec_config_query e Q_get_limits s = Inr (A_Limits (get_limits s), s)"
| "exec_config_query e Q_get_multisig_ttl s = Inr (A_U32 (get_multisig_ttl s), s)"
| "exec_config_query e Q_get_contract_metadata s = reads A_Contract (get_contract_metadata s) s"
| "exec_config_query e Q_get_council s = Inr (A_OptAddresses (get_council s), s)"
| "exec_config_query e (Q_get_council_proposal n) s = Inr (A_Council (get_council_proposal n s), s)"
| "exec_config_query e (Q_get_multisig_proposal p) s = reads A_Multisig (get_multisig_proposal p s) s"

primrec exec_request_query :: "env \<Rightarrow> request_query \<Rightarrow> storage \<Rightarrow> (answer \<times> storage) res" where
  "exec_request_query e (Q_get_pending_requests i k n) s =
     reads A_Requests (get_pending_requests e i k n s) s"
| "exec_request_query e (Q_get_request r) s = reads A_Request (get_request r s) s"
| "exec_request_query e Q_get_version s = reads A_Text (get_version s) s"
| "exec_request_query e Q_health_check s = Inr (A_Health (health_check s), s)"

primrec exec_query :: "env \<Rightarrow> query \<Rightarrow> storage \<Rightarrow> (answer \<times> storage) res" where
  "exec_query e (Claims q) s = exec_claim_query e q s"
| "exec_query e (Listing q) s = exec_listing_query e q s"
| "exec_query e (Records q) s = exec_record_query e q s"
| "exec_query e (Roles q) s = exec_registry_query e q s"
| "exec_query e (Config q) s = exec_config_query e q s"
| "exec_query e (Requests q) s = exec_request_query e q s"

subsection \<open>Queries only read\<close>

text \<open>All a query may do besides answering.\<close>

definition answered :: "storage \<Rightarrow> storage \<Rightarrow> bool" where
  "answered s s' \<longleftrightarrow> (\<exists>evs cs. s' = host_update (\<lambda>h. h\<lparr>events := events h @ evs, calls := calls h @ cs\<rparr>) s)"

lemma answered_refl: "answered s s"
  unfolding answered_def by (intro exI [of _ "[]"]) simp

lemma answered_trans: "answered s t \<Longrightarrow> answered t u \<Longrightarrow> answered s u"
  unfolding answered_def comp_def by (elim exE, hypsubst, simp add: comp_def) blast

lemma answered_publish: "answered s (publish tp d s)"
  unfolding answered_def
  by (intro exI [of _ "[\<lparr>ev_topics = tp, ev_data = d\<rparr>]"] exI [of _ "[]"]) (simp add: publish_def)

lemma answered_call: "answered s (host_update (calls_update (\<lambda>l. l @ [c])) s)"
  unfolding answered_def by (intro exI [of _ "[]"] exI [of _ "[c]"]) simp

lemma answered_hook: "answered s (maybe_trigger_expiration_hook x i ex t s)"
  unfolding maybe_trigger_expiration_hook_def Let_def event_defs
  by (auto split: option.split intro: answered_refl answered_trans [OF answered_publish answered_call])

lemma answered_expired: "answered s (Events_attestation_expired i x s)"
  by (simp add: event_defs answered_publish)

lemma scan_valid_claim_answered: "answered s (snd (scan_valid_claim e x c ids s))"
  by (induction ids) (auto simp: answered_refl answered_hook split: sum.split)

lemma scan_claim_from_issuer_answered: "answered s (snd (scan_claim_from_issuer e x c k ids s))"
proof (induction ids arbitrary: s)
  case (Cons i ids)
  then show ?case
    by (auto simp: answered_refl answered_hook split: sum.split attestation_status.split
        intro: answered_trans [OF answered_expired])
qed (simp add: answered_refl)

lemma scan_any_inner_answered: "scan_any_inner e x c ids s = Some t \<Longrightarrow> answered s t"
  by (induction ids) (auto simp: answered_hook split: sum.splits if_splits)

lemma scan_any_claim_answered: "answered s (snd (scan_any_claim e x ids cs s))"
  by (induction cs) (auto simp: answered_refl scan_any_inner_answered split: option.split)

lemma claim_query_answered: "exec_claim_query e q s = Inr (ans, s') \<Longrightarrow> answered s s'"
  by (cases q) (auto simp: has_valid_claim_def has_valid_claim_from_issuer_def has_any_claim_def answered_refl
      dest!: arg_cong [where f = snd] intro: scan_valid_claim_answered scan_claim_from_issuer_answered
        scan_any_claim_answered split: if_splits)

lemma reads_answered: "reads f r s = Inr (ans, s') \<Longrightarrow> answered s s'"
  by (auto simp: reads_def flow answered_refl)

lemma status_query_answered: "get_attestation_status e i s = Inr (st, s') \<Longrightarrow> answered s s'"
  by (auto simp: get_attestation_status_def flow Let_def answered_refl answered_expired split: if_splits)

lemma record_query_answered: "exec_record_query e q s = Inr (ans, s') \<Longrightarrow> answered s s'"
  by (cases q) (auto simp: answered_refl flow dest: reads_answered status_query_answered)

lemma pure_query_answered:
  "exec_listing_query e q1 s = Inr (ans, s') \<Longrightarrow> answered s s'"
  "exec_registry_query e q2 s = Inr (ans, s') \<Longrightarrow> answered s s'"
  "exec_config_query e q3 s = Inr (ans, s') \<Longrightarrow> answered s s'"
  "exec_request_query e q4 s = Inr (ans, s') \<Longrightarrow> answered s s'"
proof -
  show "exec_listing_query e q1 s = Inr (ans, s') \<Longrightarrow> answered s s'"
    by (cases q1) (auto simp: answered_refl dest: reads_answered)
  show "exec_registry_query e q2 s = Inr (ans, s') \<Longrightarrow> answered s s'"
    by (cases q2) (auto simp: answered_refl dest: reads_answered)
  show "exec_config_query e q3 s = Inr (ans, s') \<Longrightarrow> answered s s'"
    by (cases q3) (auto simp: answered_refl dest: reads_answered)
  show "exec_request_query e q4 s = Inr (ans, s') \<Longrightarrow> answered s s'"
    by (cases q4) (auto simp: answered_refl dest: reads_answered)
qed

lemma query_answered: "exec_query e q s = Inr (ans, s') \<Longrightarrow> answered s s'"
  by (cases q) (auto intro: claim_query_answered record_query_answered pure_query_answered)

text \<open>C27: No query changes what is stored: whatever the state, instance entry, registry, attestations, requests,
proposals and all lifetimes are afterwards what they were, and published events and calls to other
contracts are only added to.  In particular no read extends a lifetime, as \<^verbatim>\<open>docs/storage-layout.md\<close> says and
\<^verbatim>\<open>docs/security.md\<close>, \<^verbatim>\<open>docs/compliance.md\<close> and \<^verbatim>\<open>docs/stellar-concepts.md\<close> deny.\<close>

theorem queries_read_only:
  assumes "exec_query e q s = Inr (ans, s')"
  shows "same_storage s s' \<and> ttl (host s') = ttl (host s) \<and> instance_ttl (host s') = instance_ttl (host s) \<and>
    (\<exists>evs. events (host s') = events (host s) @ evs) \<and> (\<exists>cs. calls (host s') = calls (host s) @ cs)"
  using query_answered [OF assms] by (auto simp: answered_def same_storage_def)

theorem queries_read_only_witness:
  "\<exists>ans s'. exec_query (host_at 20) (Claims (Q_has_valid_claim (Address 3) ''KYC'')) state_3 = Inr (ans, s') \<and>
     same_storage state_3 s'"
proof -
  obtain ans s' where q: "exec_query (host_at 20) (Claims (Q_has_valid_claim (Address 3) ''KYC'')) state_3 = Inr (ans, s')"
    by (cases "has_valid_claim (host_at 20) (Address 3) ''KYC'' state_3") simp
  with queries_read_only [OF q] show ?thesis by blast
qed

subsection \<open>Listings\<close>

definition stored_live :: "storage \<Rightarrow> attestation \<Rightarrow> bool" where
  "stored_live s a \<longleftrightarrow> (\<exists>i. attestation_entry (atts s) i = Some a) \<and> \<not> att_deleted a"

definition answer_live :: "storage \<Rightarrow> answer \<Rightarrow> bool" where
  "answer_live s ans =
     (case ans of
        A_Ids ids \<Rightarrow> \<forall>i \<in> set ids. \<exists>a. attestation_entry (atts s) i = Some a \<and> \<not> att_deleted a
      | A_Attestation a \<Rightarrow> stored_live s a
      | A_OptAttestation r \<Rightarrow> (\<forall>a. r = Some a \<longrightarrow> stored_live s a)
      | A_Attestations l \<Rightarrow> (\<forall>a \<in> set l. stored_live s a)
      | _ \<Rightarrow> False)"

lemma live_entry: "live s P i \<Longrightarrow> \<exists>a. attestation_entry (atts s) i = Some a \<and> \<not> att_deleted a"
  by (auto simp: live_def get_attestation_entry split: option.splits)

lemma paginate_subset: "paginate l k n = Inr p \<Longrightarrow> x \<in> set p \<Longrightarrow> x \<in> set l"
  by (auto simp: paginate_eq split: if_splits dest!: in_set_takeD in_set_dropD)

lemma load_live: "\<forall>i \<in> set ids. live s P i \<Longrightarrow> a \<in> set (load s ids) \<Longrightarrow> stored_live s a"
  by (induction ids) (auto simp: load_def stored_live_def List.map_filter_def live_def get_attestation_entry
      split: option.splits)

lemma scan_by_type_live: "scan_by_type e c s ids k = Some a \<Longrightarrow> stored_live s a"
  by (induction k) (auto simp: stored_live_def get_attestation_entry split: option.splits if_splits)

lemma map_filter_vec_get: "x \<in> set (List.map_filter (vec_get l) ks) \<Longrightarrow> x \<in> set l"
  by (auto simp: List.map_filter_def vec_get_def split: if_splits)

lemma range_after_live:
  assumes "get_attestations_in_range_after x f t c n s = Inr l" and "a \<in> set l"
  shows "stored_live s a"
proof -
  let ?ids = "filter (live s (\<lambda>a. f \<le> att_timestamp a \<and> att_timestamp a \<le> t)) (Storage_get_subject_attestations x s)"
  from assms have "a \<in> set (load s ?ids)"
    by (auto simp: get_attestations_in_range_after_def Let_def flow split: if_splits option.splits
        dest!: map_filter_vec_get)
  then show ?thesis by (rule load_live [rotated]) auto
qed

lemma id_listings_live:
  "get_subject_attestations x k n s = Inr ids \<Longrightarrow> answer_live s (A_Ids ids)"
  "get_issuer_attestations x k n s = Inr ids \<Longrightarrow> answer_live s (A_Ids ids)"
  "get_attestations_by_jurisdiction x j k n s = Inr ids \<Longrightarrow> answer_live s (A_Ids ids)"
  "answer_live s (A_Ids (get_attestations_by_tag x tag s))"
  by (auto simp: answer_live_def get_subject_attestations_def get_issuer_attestations_def
      get_attestations_by_jurisdiction_def get_attestations_by_tag_def flow
      dest!: paginate_subset intro: live_entry)

lemma value_listings_live:
  "get_attestation i s = Inr a \<Longrightarrow> stored_live s a"
  "get_attestation_by_type e x c s = Some a \<Longrightarrow> stored_live s a"
  "get_attestations_in_range x f t k n s = Inr l \<Longrightarrow> a \<in> set l \<Longrightarrow> stored_live s a"
proof -
  show "get_attestation i s = Inr a \<Longrightarrow> stored_live s a"
    by (auto simp: get_attestation_def Storage_get_attestation_def stored_live_def flow)
  show "get_attestation_by_type e x c s = Some a \<Longrightarrow> stored_live s a"
    by (auto simp: get_attestation_by_type_def Let_def intro: scan_by_type_live)
  show "get_attestations_in_range x f t k n s = Inr l \<Longrightarrow> a \<in> set l \<Longrightarrow> stored_live s a"
    by (auto simp: get_attestations_in_range_def Let_def flow dest!: paginate_subset intro!: load_live)
qed

text \<open>C17: Every attestation a listing or lookup returns, by id or by value, is stored and not deleted: what a subject
had deleted appears in no page, no search by tag, jurisdiction, date or type, and no direct lookup.  \<^verbatim>\<open>docs/compliance.md\<close> says that the
raw record stays accessible by \<^verbatim>\<open>get_attestation\<close>; the code answers that there is none.\<close>

theorem listings_hide_deleted:
  assumes "exec_listing_query e q s = Inr (ans, s')"
  shows "answer_live s ans"
proof (cases q)
  case (Q_get_attestation i)
  with assms show ?thesis by (auto simp: reads_def flow answer_live_def value_listings_live)
next
  case (Q_get_attestations_in_range x f t k n)
  with assms show ?thesis by (auto simp: reads_def flow answer_live_def dest: value_listings_live(3))
next
  case (Q_get_attestations_in_range_after x f t c n)
  with assms show ?thesis by (auto simp: reads_def flow answer_live_def dest: range_after_live)
next
  case (Q_get_attestation_by_type x c)
  with assms show ?thesis by (auto simp: answer_live_def dest: value_listings_live(2))
qed (use assms in \<open>auto simp: reads_def flow id_listings_live\<close>)

theorem listings_hide_deleted_witness:
  "exec_listing_query (host_at 20) (Q_get_attestation kyc_id) state_3 = Inr (A_Attestation kyc_att, state_3) \<and>
     answer_live state_3 (A_Attestation kyc_att)"
proof -
  have q: "exec_listing_query (host_at 20) (Q_get_attestation kyc_id) state_3 = Inr (A_Attestation kyc_att, state_3)"
    by (simp add: reads_def get_attestation_def get_attestation_entry ensure_def)
  with listings_hide_deleted [OF q] show ?thesis by blast
qed

end
