(* ===== verification/TL_Attribution.thy ===== *)
theory TL_Attribution
  imports TL_Scenario
begin

section \<open>Who stands behind a record\<close>

text \<open>
  A new attestation record names an issuer.  This theory shows that no call, from a module or from
  \<^verbatim>\<open>lib.rs\<close>, adds a record for an issuer who did not agree to it: the issuer authorised the call itself, an
  admin imported the record, a delegate acted within an unexpired delegation, or a proposal of the
  issuer reached its threshold with the call.
\<close>

definition attributed :: "env \<Rightarrow> storage \<Rightarrow> attestation \<Rightarrow> bool" where
  "attributed e s a \<longleftrightarrow>
     authorised e (att_issuer a) \<and> att_origin a = Origin_Native \<and> Storage_is_issuer (att_issuer a) s \<or>
     authorised e (att_issuer a) \<and> att_origin a = Origin_Bridged \<and> Storage_is_bridge (att_issuer a) s \<or>
     att_origin a = Origin_Imported \<and> Storage_is_issuer (att_issuer a) s \<and>
       (\<exists>ad council. authorised e ad \<and> admin_council (inst s) = Some council \<and> ad \<in> set council) \<or>
     att_origin a = Origin_Native \<and> Storage_is_issuer (att_issuer a) s \<and>
       (\<exists>d g. authorised e d \<and> delegation_entry (reg s) (att_issuer a, d, att_claim_type a) = Some g \<and>
          (\<forall>t. dg_expiration g = Some t \<longrightarrow> timestamp e < t)) \<or>
     att_origin a = Origin_Native \<and>
       (\<exists>p q k. multisig_entry (flow_st s) p = Some q \<and> ms_proposer q = att_issuer a \<and>
          ms_subject q = att_subject a \<and> ms_claim_type q = att_claim_type a \<and> \<not> ms_finalized q \<and>
          authorised e k \<and> k \<in> set (ms_required_signers q) \<and> k \<notin> set (ms_signers q) \<and>
          unat (ms_threshold q) \<le> Suc (length (ms_signers q)))"

subsection \<open>Records a call adds\<close>

definition only_new :: "(attestation \<Rightarrow> bool) \<Rightarrow> storage \<Rightarrow> storage \<Rightarrow> bool" where
  "only_new P s s' \<longleftrightarrow>
     (\<forall>i a. attestation_entry (atts s) i = None \<longrightarrow> attestation_entry (atts s') i = Some a \<longrightarrow> P a)"

lemma only_new_same: "attestation_entry (atts s') = attestation_entry (atts s) \<Longrightarrow> only_new P s s'"
  by (simp add: only_new_def)

lemma only_new_put: "attestation_entry (atts s') = (attestation_entry (atts s))(k \<mapsto> a) \<Longrightarrow> P a \<Longrightarrow> only_new P s s'"
  by (simp add: only_new_def)

lemma only_new_update:
  "attestation_entry (atts s') = (attestation_entry (atts s))(k \<mapsto> a) \<Longrightarrow>
     attestation_entry (atts s) k \<noteq> None \<Longrightarrow> only_new P s s'"
  by (auto simp: only_new_def)

lemma only_new_mono: "only_new Q s s' \<Longrightarrow> (\<And>a. Q a \<Longrightarrow> P a) \<Longrightarrow> only_new P s s'"
  by (simp add: only_new_def)

lemma store_only_new:
  assumes "attestation_entry (atts s') = attestation_entry (atts t)" and "atts t0 = atts s" and "P a"
  shows "store_attestation a t0 = Inr t \<Longrightarrow> only_new P s s'"
    and "lib_store_attestation a t0 = Inr t \<Longrightarrow> only_new P s s'"
proof -
  show "store_attestation a t0 = Inr t \<Longrightarrow> only_new P s s'"
    using assms store_attestation_effect [of a t0 t] by (intro only_new_put [of s' s "att_id a" a]) auto
  show "lib_store_attestation a t0 = Inr t \<Longrightarrow> only_new P s s'"
    using assms lib_store_attestation_effect [of a t0 t] by (intro only_new_put [of s' s "att_id a" a]) auto
qed

lemma attributedI:
  "authorised e k \<Longrightarrow> Storage_is_issuer k s \<Longrightarrow> att_issuer a = k \<Longrightarrow> att_origin a = Origin_Native \<Longrightarrow> attributed e s a"
  "authorised e k \<Longrightarrow> Storage_is_bridge k s \<Longrightarrow> att_issuer a = k \<Longrightarrow> att_origin a = Origin_Bridged \<Longrightarrow> attributed e s a"
  "authorised e d \<Longrightarrow> \<exists>c. admin_council (inst s) = Some c \<and> d \<in> set c \<Longrightarrow> Storage_is_issuer k s \<Longrightarrow>
     att_issuer a = k \<Longrightarrow> att_origin a = Origin_Imported \<Longrightarrow> attributed e s a"
  "authorised e d \<Longrightarrow> Storage_is_issuer k s \<Longrightarrow> delegation_entry (reg s) (k, d, c) = Some g \<Longrightarrow>
     (\<And>t. dg_expiration g = Some t \<Longrightarrow> timestamp e < t) \<Longrightarrow>
     att_issuer a = k \<Longrightarrow> att_claim_type a = c \<Longrightarrow> att_origin a = Origin_Native \<Longrightarrow> attributed e s a"
  "multisig_entry (flow_st s) p = Some q \<Longrightarrow> \<not> ms_finalized q \<Longrightarrow> authorised e d \<Longrightarrow> d \<in> set (ms_required_signers q) \<Longrightarrow>
     d \<notin> set (ms_signers q) \<Longrightarrow> unat (ms_threshold q) \<le> Suc (length (ms_signers q)) \<Longrightarrow>
     att_issuer a = ms_proposer q \<Longrightarrow> att_subject a = ms_subject q \<Longrightarrow> att_claim_type a = ms_claim_type q \<Longrightarrow>
     att_origin a = Origin_Native \<Longrightarrow> attributed e s a"
  by (fastforce simp: attributed_def)+

subsubsection \<open>Creation\<close>

lemma create_attestation_internal_attributed:
  "create_attestation_internal e is x c ex m j tg vf s = Inr (u, s') \<Longrightarrow> only_new (attributed e s) s s'"
  unfolding create_attestation_internal_def Let_def writers
  by (elim steps, erule store_only_new(1) [rotated 3], simp add: event_defs, rule refl,
      rule attributedI(1), assumption, assumption, simp_all (no_asm))

lemma create_attestation_as_delegate_attributed:
  "create_attestation_as_delegate e d is x c ex m s = Inr (u, s') \<Longrightarrow> only_new (attributed e s) s s'"
  unfolding create_attestation_as_delegate_def Let_def writers Storage_get_delegation_def
  by (elim steps; erule store_only_new(1) [rotated 3], simp add: event_defs, rule refl,
      rule attributedI(4), assumption, assumption, assumption, simp add: not_le, simp_all (no_asm))

lemma import_attestation_attributed:
  "import_attestation e d is x c ts ex s = Inr (u, s') \<Longrightarrow> only_new (attributed e s) s s'"
  unfolding import_attestation_def Let_def writers
  by (elim steps, erule store_only_new(1) [rotated 3], simp add: event_defs, rule refl,
      rule attributedI(3), assumption, assumption, assumption, simp_all (no_asm))

lemma bridge_attestation_attributed:
  "bridge_attestation e b x c sc tx s = Inr (u, s') \<Longrightarrow> only_new (attributed e s) s s'"
  "lib_bridge_attestation e b x c sc tx s = Inr (u, s') \<Longrightarrow> only_new (attributed e s) s s'"
  unfolding bridge_attestation_def lib_bridge_attestation_def Let_def writers
  by (elim steps, erule store_only_new [rotated 3], simp add: event_defs, rule refl,
      rule attributedI(2), assumption, assumption, simp (no_asm), simp (no_asm))+

lemma fulfill_request_attributed:
  "fulfill_request e is i ex s = Inr (u, s') \<Longrightarrow> only_new (attributed e s) s s'"
  unfolding fulfill_request_def Let_def writers
  by (elim steps, erule store_only_new(1) [rotated 3], simp add: event_defs, rule refl,
      rule attributedI(1), assumption, assumption, simp_all (no_asm))

lemma propose_attestation_attributed:
  "propose_attestation e i x c rs n s = Inr (u, s') \<Longrightarrow> only_new (attributed e s) s s'"
  "lib_propose_attestation e i x c rs n s = Inr (u, s') \<Longrightarrow> only_new (attributed e s) s s'"
  unfolding propose_attestation_def lib_propose_attestation_def Let_def writers
  by (elim steps; (rule only_new_same, simp add: event_defs; fail)?; erule store_only_new [rotated 3], simp add: event_defs, rule refl,
      rule attributedI(1), assumption, assumption, simp (no_asm), simp (no_asm))+

lemma cosign_attestation_attributed:
  "cosign_attestation e i p s = Inr (u, s') \<Longrightarrow> only_new (attributed e s) s s'"
  "lib_cosign_attestation e i p s = Inr (u, s') \<Longrightarrow> only_new (attributed e s) s s'"
  unfolding cosign_attestation_def lib_cosign_attestation_def Let_def writers Storage_get_multisig_proposal_def
  by (elim steps; (rule only_new_same, simp add: event_defs; fail)?; erule store_only_new [rotated 3],
      simp add: event_defs, simp add: event_defs,
      rule attributedI(5), assumption, assumption, assumption, assumption, assumption, simp,
      simp_all (no_asm) add: multisig_attestation_def)+

subsubsection \<open>Batches\<close>

definition issued_by :: "address \<Rightarrow> attestation \<Rightarrow> bool" where
  "issued_by k a \<longleftrightarrow> att_issuer a = k \<and> att_origin a = Origin_Native"

lemma batch_create_one_issued:
  "batch_create_one e k c ex lim x (ids, t) = Inr (ids', t') \<Longrightarrow> only_new (issued_by k) s t \<Longrightarrow> only_new (issued_by k) s t'"
  "lib_batch_create_one e k c ex lim x (ids, t) = Inr (ids', t') \<Longrightarrow> only_new (issued_by k) s t \<Longrightarrow> only_new (issued_by k) s t'"
proof -
  show "batch_create_one e k c ex lim x (ids, t) = Inr (ids', t') \<Longrightarrow> only_new (issued_by k) s t \<Longrightarrow> only_new (issued_by k) s t'"
    by (drule batch_create_one_effect) (auto simp: only_new_def issued_by_def split: if_splits)
  assume one: "lib_batch_create_one e k c ex lim x (ids, t) = Inr (ids', t')" and t: "only_new (issued_by k) s t"
  from one obtain a u where u: "lib_store_attestation a t = Inr u" and same: "attestation_entry (atts t') = attestation_entry (atts u)"
    and a: "issued_by k a"
    unfolding lib_batch_create_one_def Let_def writers prod.case
    by (elim steps) (simp add: event_defs issued_by_def)
  show "only_new (issued_by k) s t'"
    using lib_store_attestation_effect [OF u] t a by (auto simp: only_new_def same split: if_splits)
qed

lemma issued_by_attributed:
  "authorised e k \<Longrightarrow> Storage_is_issuer k s \<Longrightarrow> only_new (issued_by k) s s' \<Longrightarrow> only_new (attributed e s) s s'"
  by (erule only_new_mono) (simp add: issued_by_def attributedI(1))

lemma create_attestations_batch_attributed:
  assumes "create_attestations_batch e k xs c ex s = Inr (ids, s')"
  shows "only_new (attributed e s) s s'"
proof -
  from assms obtain t where auth: "authorised e k" "Storage_is_issuer k s"
    and loop: "for_each (batch_create_one e k c ex (Storage_get_limits s)) xs ([], s) = Inr (ids, t)"
    and same: "attestation_entry (atts s') = attestation_entry (atts t)"
    unfolding create_attestations_batch_def Let_def writers by (elim steps) (simp_all add: readers)
  have "only_new (issued_by k) s (snd (ids, t))"
    by (rule for_each_invariant [where I = "\<lambda>p. only_new (issued_by k) s (snd p)", OF loop])
      (auto simp: only_new_same intro: batch_create_one_issued(1))
  then have "only_new (issued_by k) s s'" by (simp add: only_new_def same)
  with auth show ?thesis by (rule issued_by_attributed)
qed

lemma lib_create_attestations_batch_attributed:
  assumes "lib_create_attestations_batch e k xs c ex s = Inr (ids, s')"
  shows "only_new (attributed e s) s s'"
proof -
  from assms obtain t where auth: "authorised e k" "Storage_is_issuer k s"
    and loop: "for_each (lib_batch_create_one e k c ex (Storage_get_limits s)) xs ([], s) = Inr (ids, t)"
    and same: "attestation_entry (atts s') = attestation_entry (atts t)"
    unfolding lib_create_attestations_batch_def Let_def writers by (elim steps) (simp_all add: readers)
  have "only_new (issued_by k) s (snd (ids, t))"
    by (rule for_each_invariant [where I = "\<lambda>p. only_new (issued_by k) s (snd p)", OF loop])
      (auto simp: only_new_same intro: batch_create_one_issued(2))
  then have "only_new (issued_by k) s s'" by (simp add: only_new_def same)
  with auth show ?thesis by (rule issued_by_attributed)
qed

subsubsection \<open>Calls that add nothing\<close>

lemma update_adds_nothing:
  "renew_attestation e is i ex s = Inr (u, s') \<Longrightarrow> ids_ok (view s) \<Longrightarrow> only_new P s s'"
  "update_expiration e is i ex s = Inr (u, s') \<Longrightarrow> ids_ok (view s) \<Longrightarrow> only_new P s s'"
  "transfer_attestation e ad i is s = Inr (u, s') \<Longrightarrow> ids_ok (view s) \<Longrightarrow> only_new P s s'"
  "request_deletion e x i s = Inr (u, s') \<Longrightarrow> ids_ok (view s) \<Longrightarrow> only_new P s s'"
  "lib_request_deletion e x i s = Inr (u, s') \<Longrightarrow> ids_ok (view s) \<Longrightarrow> only_new P s s'"
  unfolding renew_attestation_def update_expiration_def transfer_attestation_def request_deletion_def
    lib_request_deletion_def Let_def writers Storage_get_attestation_def
  by (elim steps; simp add: event_defs ids_ok_def view_def only_new_def)+

lemma revoke_adds_nothing:
  "revoke_attestation e is i r s = Inr (u, s') \<Longrightarrow> ids_ok (view s) \<Longrightarrow> only_new P s s'"
  "lib_revoke_attestation e is i r s = Inr (u, s') \<Longrightarrow> ids_ok (view s) \<Longrightarrow> only_new P s s'"
  "endorse_attestation e is i s = Inr (u, s') \<Longrightarrow> only_new P s s'"
  unfolding revoke_attestation_def lib_revoke_attestation_def endorse_attestation_def Let_def writers
    Storage_get_attestation_def
  by (elim steps; simp add: event_defs ids_ok_def view_def only_new_def)+

lemma revoke_attestations_batch_adds_nothing:
  assumes "revoke_attestations_batch e is xs r s = Inr (u, s')" and ids: "ids_ok (view s)"
  shows "only_new P s s'"
proof -
  from assms(1) obtain seen as t where check: "for_each (batch_revoke_check is s) xs ([], []) = Inr (seen, as)"
    and loop: "for_each (batch_revoke_one e is r) as s = Inr t" and same: "atts s' = atts t"
    unfolding revoke_attestations_batch_def Let_def writers by (elim steps) simp_all
  have "\<forall>a \<in> set (snd (seen, as)). attestation_entry (atts s) (att_id a) \<noteq> None"
    by (rule for_each_invariant [where I = "\<lambda>p. \<forall>a \<in> set (snd p). attestation_entry (atts s) (att_id a) \<noteq> None", OF check])
      (use ids in \<open>auto simp: batch_revoke_check_Inr ids_ok_def view_def\<close>)
  then have "only_new P s t"
    by - (rule for_each_invariant [where I = "only_new P s", OF loop only_new_same [OF refl]],
        drule batch_revoke_one_effect, auto simp: only_new_def view_def split: if_splits)
  then show ?thesis by (simp add: only_new_def same)
qed

lemma lib_revoke_attestations_batch_adds_nothing:
  assumes "lib_revoke_attestations_batch e is xs r s = Inr (u, s')" and ids: "ids_ok (view s)"
  shows "only_new P s s'"
proof -
  from assms(1) have loop: "for_each (lib_revoke_one e is r) xs s = Inr s'"
    unfolding lib_revoke_attestations_batch_def by (elim steps) simp
  have "only_new (\<lambda>_. False) s s' \<and> ids_ok (view s')"
  proof (rule for_each_invariant [where I = "\<lambda>t. only_new (\<lambda>_. False) s t \<and> ids_ok (view t)", OF loop])
    fix i t t' assume t: "only_new (\<lambda>_. False) s t \<and> ids_ok (view t)" and one: "lib_revoke_one e is r i t = Inr t'"
    from one obtain a b where "attestation_entry (atts t) i = Some a"
      and "attestation_entry (atts t') = (attestation_entry (atts t))(att_id a \<mapsto> b)"
      unfolding lib_revoke_one_def Let_def writers Storage_get_attestation_def
      by (elim steps) (simp add: event_defs)
    with t have "only_new (\<lambda>_. False) s t'"
      by (auto simp: ids_ok_def view_def only_new_def split: if_splits)
    then show "only_new (\<lambda>_. False) s t' \<and> ids_ok (view t')"
      using t lib_revoke_one_vstep [OF one, where m = True and rw = True, THEN vstep_ids_ok] by simp
  qed (use ids in \<open>simp add: only_new_same\<close>)
  then show ?thesis by (auto elim: only_new_mono)
qed

subsection \<open>Every call\<close>

lemma att_call_attributed:
  assumes "exec_att e c s = Inr s'" and "ids_ok (view s)"
  shows "only_new (attributed e s) s s'"
  using assms
  by (cases c) (auto simp: create_attestation_def create_attestation_valid_from_def
      create_attestation_jurisdiction_def elim!: postE intro: create_attestation_internal_attributed
      create_attestation_as_delegate_attributed import_attestation_attributed bridge_attestation_attributed(1)
      create_attestations_batch_attributed update_adds_nothing revoke_adds_nothing
      revoke_attestations_batch_adds_nothing)

lemma flow_call_attributed:
  assumes "exec_flow e c s = Inr s'"
  shows "only_new (attributed e s) s s'"
  using assms
  by (cases c) (auto elim!: postE intro: fulfill_request_attributed propose_attestation_attributed
      cosign_attestation_attributed only_new_same simp: request_atts council_atts)

lemma lib_call_attributed:
  assumes "exec_lib e c s = Inr s'" and "ids_ok (view s)"
  shows "only_new (attributed e s) s s'"
proof (cases c)
  case (L_register_expiration_hook x k n)
  with assms(1) have "atts s' = atts s"
    by (auto simp: lib_register_expiration_hook_def writers set_registry_Inr flow elim!: postE)
  then show ?thesis by (simp add: only_new_same)
qed (use assms in \<open>auto elim!: postE intro: bridge_attestation_attributed(2)
      lib_create_attestations_batch_attributed update_adds_nothing revoke_adds_nothing
      lib_revoke_attestations_batch_adds_nothing\<close>)

lemma exec_attributed:
  assumes "exec e c s = Inr s'" and "ids_ok (view s)"
  shows "only_new (attributed e s) s s'"
  using assms
  by (cases c) (auto intro: att_call_attributed flow_call_attributed lib_call_attributed
      only_new_same simp: admin_call_atts registry_call_atts)

text \<open>C6: Nobody is made the issuer of an attestation without their agreement.  A record that a call adds names as its
issuer an account that authorised the call and is a registered issuer (or bridge, for a bridged record); or a
council member imported it for a registered issuer; or a delegate authorised the call and holds an unexpired
delegation from the issuer for the claim type; or it is the attestation of a proposal of the issuer, and the
call is the co-signature that brings the proposal to its threshold.\<close>

theorem new_records_attributed:
  assumes "reachable m s" and "exec e c s = Inr s'"
    and "attestation_entry (atts s) i = None" and "attestation_entry (atts s') i = Some a"
  shows "attributed e s a"
proof -
  have "ids_ok (view s)" using reachable_view_ok [OF assms(1)] by (simp add: view_ok_def)
  from exec_attributed [OF assms(2) this] assms(3,4) show ?thesis by (simp add: only_new_def)
qed

theorem new_records_attributed_witness:
  "attestation_entry (atts state_2) kyc_id = None \<and> attestation_entry (atts state_3) kyc_id = Some kyc_att \<and>
   attributed (host_at 12) state_2 kyc_att"
proof -
  have n: "attestation_entry (atts state_2) kyc_id = None" by (simp add: state_defs empty_storage_def)
  have y: "attestation_entry (atts state_3) kyc_id = Some kyc_att" by simp
  from new_records_attributed [OF history_reachable(2) exec_3 n y] n y show ?thesis by blast
qed

end
