(* ===== verification/TL_Changes.thy ===== *)
theory TL_Changes
  imports TL_Attribution
begin

section \<open>Who may change a record\<close>

text \<open>
  The counterpart of the attribution of new records: what can happen to a record that exists, and who must
  ask for it.  The issuer of record may revoke it while it is not revoked, or move its expiration; the subject
  may delete it; an admin may transfer it to another registered issuer.  Nothing else changes a record, in
  any call of the modules or of \<^verbatim>\<open>lib.rs\<close> but those of the multi-signature workflow.
\<close>

text \<open>The change of a record \<open>a\<close> into \<open>b\<close> that the caller \<open>k\<close> may bring about.\<close>

definition may_change :: "address \<Rightarrow> storage \<Rightarrow> attestation \<Rightarrow> attestation \<Rightarrow> bool" where
  "may_change k s a b \<longleftrightarrow>
     b = a \<or>
     k = att_issuer a \<and> Storage_is_issuer k s \<and> \<not> att_revoked a \<and>
       (\<exists>r. b = a\<lparr>att_revoked := True, att_revocation_reason := r\<rparr>) \<or>
     k = att_issuer a \<and> Storage_is_issuer k s \<and> \<not> att_revoked a \<and> (\<exists>ex. b = a\<lparr>att_expiration := ex\<rparr>) \<or>
     k = att_subject a \<and> b = a\<lparr>att_deleted := True\<rparr> \<or>
     Storage_is_admin k s \<and> (\<exists>n. Storage_is_issuer n s \<and> b = a\<lparr>att_issuer := n\<rparr>)"

definition changes :: "(attestation \<Rightarrow> attestation \<Rightarrow> bool) \<Rightarrow> storage \<Rightarrow> storage \<Rightarrow> bool" where
  "changes P s s' \<longleftrightarrow>
     (\<forall>i a. attestation_entry (atts s) i = Some a \<longrightarrow> (\<exists>b. attestation_entry (atts s') i = Some b \<and> P a b))"

lemma changes_same: "attestation_entry (atts s') = attestation_entry (atts s) \<Longrightarrow> changes (may_change k t) s s'"
  by (simp add: changes_def may_change_def)

lemma changes_new:
  "attestation_entry (atts s') = (attestation_entry (atts s))(i \<mapsto> a) \<Longrightarrow>
     attestation_entry (atts s) i = None \<Longrightarrow> changes (may_change k t) s s'"
  by (auto simp: changes_def may_change_def)

lemma changes_one:
  assumes "attestation_entry (atts s) i = Some a" and "ids_ok (view s)"
    and "attestation_entry (atts s') = (attestation_entry (atts s))(att_id a \<mapsto> b)" and "may_change k t a b"
  shows "changes (may_change k t) s s'"
proof -
  have "att_id a = i" using assms(1,2) by (simp add: ids_ok_def view_def)
  with assms(1,3,4) show ?thesis by (auto simp: changes_def may_change_def)
qed

subsection \<open>New records leave the others alone\<close>

lemma store_changes:
  assumes "attestation_entry (atts s') = attestation_entry (atts t)" and "\<not> Storage_has_attestation (att_id a) s"
  shows "store_attestation a s = Inr t \<Longrightarrow> changes (may_change k u) s s'"
    and "lib_store_attestation a s = Inr t \<Longrightarrow> changes (may_change k u) s s'"
proof -
  have n: "attestation_entry (atts s) (att_id a) = None" using assms(2) by (simp add: Storage_has_attestation_def)
  show "store_attestation a s = Inr t \<Longrightarrow> changes (may_change k u) s s'"
    using assms(1) store_attestation_effect [of a s t] by (intro changes_new [OF _ n]) auto
  show "lib_store_attestation a s = Inr t \<Longrightarrow> changes (may_change k u) s s'"
    using assms(1) lib_store_attestation_effect [of a s t] by (intro changes_new [OF _ n]) auto
qed

lemma creation_changes:
  "create_attestation_internal e is x c ex m j tg vf s = Inr (u, s') \<Longrightarrow> changes (may_change k t) s s'"
  "import_attestation e d is x c ts ex s = Inr (u, s') \<Longrightarrow> changes (may_change k t) s s'"
  "bridge_attestation e b x c sc tx s = Inr (u, s') \<Longrightarrow> changes (may_change k t) s s'"
  "lib_bridge_attestation e b x c sc tx s = Inr (u, s') \<Longrightarrow> changes (may_change k t) s s'"
  "fulfill_request e is i ex s = Inr (u, s') \<Longrightarrow> changes (may_change k t) s s'"
  unfolding create_attestation_internal_def import_attestation_def bridge_attestation_def
    lib_bridge_attestation_def fulfill_request_def Let_def writers
  by (elim steps; erule store_changes [rotated 2]; simp add: event_defs)+

lemma create_attestation_as_delegate_changes:
  "create_attestation_as_delegate e d is x c ex m s = Inr (u, s') \<Longrightarrow> changes (may_change k t) s s'"
  unfolding create_attestation_as_delegate_def Let_def writers
  by (elim steps; erule store_changes [rotated 2]; simp add: event_defs)

definition keeps :: "storage \<Rightarrow> storage \<Rightarrow> bool" where
  "keeps s s' \<longleftrightarrow> (\<forall>i a. attestation_entry (atts s) i = Some a \<longrightarrow> attestation_entry (atts s') i = Some a)"

lemma keeps_changes:
  "keeps s t \<Longrightarrow> attestation_entry (atts s') = attestation_entry (atts t) \<Longrightarrow> changes (may_change k u) s s'"
  by (simp add: keeps_def changes_def may_change_def)

lemma batch_one_keeps:
  "batch_create_one e k c ex lim x p = Inr q \<Longrightarrow> keeps s (snd p) \<Longrightarrow> keeps s (snd q)"
  "lib_batch_create_one e k c ex lim x p = Inr q \<Longrightarrow> keeps s (snd p) \<Longrightarrow> keeps s (snd q)"
proof -
  show "batch_create_one e k c ex lim x p = Inr q \<Longrightarrow> keeps s (snd p) \<Longrightarrow> keeps s (snd q)"
    by (cases p; cases q) (auto dest!: batch_create_one_effect simp: keeps_def Storage_has_attestation_def)
  assume one: "lib_batch_create_one e k c ex lim x p = Inr q" and "keeps s (snd p)"
  from one obtain a u where u: "lib_store_attestation a (snd p) = Inr u"
    and "attestation_entry (atts (snd q)) = attestation_entry (atts u)"
    and "\<not> Storage_has_attestation (att_id a) (snd p)"
    unfolding lib_batch_create_one_def Let_def writers by (elim steps) (simp add: event_defs)
  then show "keeps s (snd q)"
    using lib_store_attestation_effect [OF u] \<open>keeps s (snd p)\<close>
    by (auto simp: keeps_def Storage_has_attestation_def)
qed

lemma for_each_keeps:
  assumes "for_each f xs ([], s) = Inr q" and "\<And>x p q. f x p = Inr q \<Longrightarrow> keeps s (snd p) \<Longrightarrow> keeps s (snd q)"
  shows "keeps s (snd q)"
  by (rule for_each_invariant [where I = "\<lambda>p. keeps s (snd p)", OF assms(1)]) (auto simp: keeps_def dest: assms(2))

lemma create_attestations_batch_changes:
  "create_attestations_batch e i xs c ex s = Inr (u, s') \<Longrightarrow> changes (may_change k t) s s'"
  "lib_create_attestations_batch e i xs c ex s = Inr (u, s') \<Longrightarrow> changes (may_change k t) s s'"
  unfolding create_attestations_batch_def lib_create_attestations_batch_def Let_def writers
  by (elim steps; rule keeps_changes, erule for_each_keeps, erule (1) batch_one_keeps; simp add: readers)+

subsection \<open>Changes to one record\<close>

lemma may_changeI:
  "att_issuer a = k \<Longrightarrow> Storage_is_issuer k s \<Longrightarrow> \<not> att_revoked a \<Longrightarrow>
     may_change k s a (a\<lparr>att_revoked := True, att_revocation_reason := r\<rparr>)"
  "att_issuer a = k \<Longrightarrow> Storage_is_issuer k s \<Longrightarrow> \<not> att_revoked a \<Longrightarrow> may_change k s a (a\<lparr>att_expiration := ex\<rparr>)"
  "att_subject a = k \<Longrightarrow> may_change k s a (a\<lparr>att_deleted := True\<rparr>)"
  "\<exists>c. admin_council (inst s) = Some c \<and> k \<in> set c \<Longrightarrow> Storage_is_issuer n s \<Longrightarrow> may_change k s a (a\<lparr>att_issuer := n\<rparr>)"
  by (auto simp: may_change_def Storage_is_admin_def Storage_get_admin_council_def)

lemmas change_rules =
  changes_one [OF _ _ _ may_changeI(1)] changes_one [OF _ _ _ may_changeI(2)]
  changes_one [OF _ _ _ may_changeI(3)] changes_one [OF _ _ _ may_changeI(4)]

lemma revoke_changes:
  "revoke_attestation e k i r s = Inr (u, s') \<Longrightarrow> ids_ok (view s) \<Longrightarrow> changes (may_change k s) s s'"
  "lib_revoke_attestation e k i r s = Inr (u, s') \<Longrightarrow> ids_ok (view s) \<Longrightarrow> changes (may_change k s) s s'"
  unfolding revoke_attestation_def lib_revoke_attestation_def Let_def writers Storage_get_attestation_def
  by (elim steps, rule change_rules(1) [where r = r], assumption, assumption, simp add: event_defs,
      assumption, assumption, assumption)+

lemma expiration_changes:
  "renew_attestation e k i ex s = Inr (u, s') \<Longrightarrow> ids_ok (view s) \<Longrightarrow> changes (may_change k s) s s'"
  "update_expiration e k i ex s = Inr (u, s') \<Longrightarrow> ids_ok (view s) \<Longrightarrow> changes (may_change k s) s s'"
  unfolding renew_attestation_def update_expiration_def Let_def writers Storage_get_attestation_def
  by (elim steps, rule change_rules(2) [where ex = ex], assumption, assumption, simp add: event_defs,
      assumption, assumption, assumption)+

lemma deletion_changes:
  "request_deletion e k i s = Inr (u, s') \<Longrightarrow> ids_ok (view s) \<Longrightarrow> changes (may_change k s) s s'"
  "lib_request_deletion e k i s = Inr (u, s') \<Longrightarrow> ids_ok (view s) \<Longrightarrow> changes (may_change k s) s s'"
  unfolding request_deletion_def lib_request_deletion_def Let_def writers Storage_get_attestation_def
  by (elim steps, rule change_rules(3), assumption, assumption, simp add: event_defs, assumption)+

lemma transfer_changes:
  "transfer_attestation e k i n s = Inr (u, s') \<Longrightarrow> ids_ok (view s) \<Longrightarrow> changes (may_change k s) s s'"
  unfolding transfer_attestation_def Let_def writers Storage_get_attestation_def
  by (elim steps; (rule changes_same, simp; fail)?; rule change_rules(4) [where n = n], assumption, assumption,
      simp add: event_defs, assumption, assumption)

lemma endorse_changes: "endorse_attestation e k i s = Inr (u, s') \<Longrightarrow> changes (may_change k s) s s'"
  unfolding endorse_attestation_def Let_def writers by (elim steps, rule changes_same) simp

subsection \<open>Batch revocation\<close>

text \<open>In the loops a record is as before or revoked with the reason of the batch.\<close>

definition revoking :: "address \<Rightarrow> string option \<Rightarrow> attestation \<Rightarrow> attestation \<Rightarrow> bool" where
  "revoking k r a b \<longleftrightarrow> b = a \<or>
     att_issuer a = k \<and> \<not> att_revoked a \<and> b = a\<lparr>att_revoked := True, att_revocation_reason := r\<rparr>"

lemma revoking_changes:
  assumes "Storage_is_issuer k s" and "changes (revoking k r) s t" and "attestation_entry (atts s') = attestation_entry (atts t)"
  shows "changes (may_change k s) s s'"
  using assms unfolding changes_def revoking_def may_change_def by metis

lemma revoke_attestations_batch_changes:
  assumes "revoke_attestations_batch e k xs r s = Inr (n, s')" and ids: "ids_ok (view s)"
  shows "changes (may_change k s) s s'"
proof -
  from assms(1) obtain seen as t where k: "Storage_is_issuer k s"
    and check: "for_each (batch_revoke_check k s) xs ([], []) = Inr (seen, as)"
    and loop: "for_each (batch_revoke_one e k r) as s = Inr t" and same: "atts s' = atts t"
    unfolding revoke_attestations_batch_def Let_def writers by (elim steps) simp_all
  have as: "\<forall>a \<in> set (snd (seen, as)). attestation_entry (atts s) (att_id a) = Some a \<and> att_issuer a = k \<and> \<not> att_revoked a"
    by (rule for_each_invariant [where I = "\<lambda>p. \<forall>a \<in> set (snd p). attestation_entry (atts s) (att_id a) = Some a \<and>
          att_issuer a = k \<and> \<not> att_revoked a", OF check])
      (use ids in \<open>auto simp: batch_revoke_check_Inr ids_ok_def view_def\<close>)
  have "changes (revoking k r) s t"
  proof (rule for_each_invariant [where I = "changes (revoking k r) s", OF loop])
    fix a u u' assume "a \<in> set as" and u: "changes (revoking k r) s u" and one: "batch_revoke_one e k r a u = Inr u'"
    have "attestation_entry (atts u') = (attestation_entry (atts u))(att_id a \<mapsto> a\<lparr>att_revoked := True, att_revocation_reason := r\<rparr>)"
      using arg_cong [OF batch_revoke_one_effect [OF one], of vw_entry] by (simp add: view_components)
    with u as \<open>a \<in> set as\<close> show "changes (revoking k r) s u'" by (auto simp: changes_def revoking_def)
  qed (simp add: changes_def revoking_def)
  from revoking_changes [OF k this] show ?thesis by (simp add: same)
qed

lemma lib_revoke_check_all:
  assumes "for_each (lib_revoke_check k s) xs u = Inr v" and "i \<in> set xs"
  shows "\<exists>a. attestation_entry (atts s) i = Some a \<and> att_issuer a = k \<and> \<not> att_revoked a"
  using assms
  by (induction xs arbitrary: u) (auto simp: flow lib_revoke_check_def Storage_get_attestation_def)

lemma lib_revoke_one_revoking:
  assumes "lib_revoke_one e k r i u = Inr u'" and u: "changes (revoking k r) s u" and ids: "ids_ok (view u)"
    and a: "attestation_entry (atts s) i = Some a" "att_issuer a = k" "\<not> att_revoked a"
  shows "changes (revoking k r) s u'"
proof -
  from assms(1) obtain b where b: "attestation_entry (atts u) i = Some b"
    and u': "attestation_entry (atts u') = (attestation_entry (atts u))(att_id b \<mapsto> b\<lparr>att_revoked := True, att_revocation_reason := r\<rparr>)"
    unfolding lib_revoke_one_def Let_def writers Storage_get_attestation_def
    by (elim steps) (simp add: event_defs)
  have i: "att_id b = i" using b ids by (simp add: ids_ok_def view_def)
  have "revoking k r a b" using u a(1) b unfolding changes_def by (metis option.inject)
  then have "b\<lparr>att_revoked := True, att_revocation_reason := r\<rparr> = a\<lparr>att_revoked := True, att_revocation_reason := r\<rparr>"
    by (auto simp: revoking_def)
  with u a show ?thesis by (auto simp: changes_def u' i) (auto simp: revoking_def)
qed

lemma lib_revoke_attestations_batch_changes:
  assumes "lib_revoke_attestations_batch e k xs r s = Inr (n, s')" and ids: "ids_ok (view s)"
  shows "changes (may_change k s) s s'"
proof -
  from assms(1) obtain v where k: "Storage_is_issuer k s"
    and check: "for_each (lib_revoke_check k s) xs () = Inr v"
    and loop: "for_each (lib_revoke_one e k r) xs s = Inr s'"
    unfolding lib_revoke_attestations_batch_def by (elim steps) simp
  have "changes (revoking k r) s s' \<and> ids_ok (view s')"
  proof (rule for_each_invariant [where I = "\<lambda>u. changes (revoking k r) s u \<and> ids_ok (view u)", OF loop])
    fix i u u' assume i: "i \<in> set xs" and u: "changes (revoking k r) s u \<and> ids_ok (view u)" and one: "lib_revoke_one e k r i u = Inr u'"
    from lib_revoke_check_all [OF check i] obtain a where "attestation_entry (atts s) i = Some a" "att_issuer a = k" "\<not> att_revoked a"
      by blast
    with u lib_revoke_one_revoking [OF one] lib_revoke_one_vstep [OF one, where m = True and rw = True, THEN vstep_ids_ok]
    show "changes (revoking k r) s u' \<and> ids_ok (view u')" by blast
  qed (use ids in \<open>simp add: changes_def revoking_def\<close>)
  from revoking_changes [OF k conjunct1 [OF this]] show ?thesis by simp
qed

subsection \<open>Every call\<close>

lemma att_call_changes:
  assumes "exec_att e c s = Inr s'" and "ids_ok (view s)"
  shows "changes (may_change (att_caller c) s) s s'"
  using assms
  by (cases c) (auto simp: create_attestation_def create_attestation_valid_from_def
      create_attestation_jurisdiction_def elim!: postE intro: creation_changes
      create_attestation_as_delegate_changes create_attestations_batch_changes(1) revoke_changes(1)
      expiration_changes deletion_changes(1) transfer_changes endorse_changes revoke_attestations_batch_changes)

lemma lib_call_changes:
  assumes "exec_lib e c s = Inr s'" and "ids_ok (view s)"
  shows "changes (may_change (lib_caller c) s) s s'"
proof (cases c)
  case (L_register_expiration_hook x k n)
  with assms(1) have "atts s' = atts s"
    by (auto simp: lib_register_expiration_hook_def writers set_registry_Inr flow elim!: postE)
  then show ?thesis by (simp add: changes_same)
qed (use assms in \<open>auto elim!: postE intro: creation_changes(4) create_attestations_batch_changes(2)
      revoke_changes(2) deletion_changes(2) lib_revoke_attestations_batch_changes\<close>)

lemma exec_changes:
  assumes "exec e c s = Inr s'" and "ids_ok (view s)" and "\<not> multisig_call c"
  shows "changes (may_change (caller c) s) s s'"
proof (cases c)
  case (Flow d)
  with assms show ?thesis
    by (cases d) (auto simp: multisig_call_def request_atts council_atts elim!: postE
        intro: creation_changes(5) changes_same)
qed (use assms in \<open>auto intro: att_call_changes lib_call_changes changes_same
      simp: admin_call_atts registry_call_atts\<close>)

text \<open>C7: Only the parties to an attestation can change its record.  Whatever call outside the multi-signature
  workflow succeeds, the record of an attestation is still there and, unless it is as before, one of four
  things happened, always at the request and with the authorisation of the caller: its issuer, still
  registered, revoked it while it was not revoked; its issuer moved the expiration; its subject deleted it; an admin
  transferred it to another registered issuer.\<close>

theorem changes_attributed:
  assumes "reachable m s" and "exec e c s = Inr s'" and "\<not> multisig_call c"
    and "attestation_entry (atts s) i = Some a"
  shows "\<exists>b. attestation_entry (atts s') i = Some b \<and> may_change (caller c) s a b \<and> authorised e (caller c)"
proof -
  have "ids_ok (view s)" using reachable_view_ok [OF assms(1)] by (simp add: view_ok_def)
  from exec_changes [OF assms(2) this assms(3)] assms(4)
  obtain b where "attestation_entry (atts s') i = Some b" "may_change (caller c) s a b" by (auto simp: changes_def)
  moreover have "authorised e (caller c)"
    using assms(2) by (cases c) (auto dest: admin_call_authorised registry_call_authorised att_call_authorised
        flow_call_authorised lib_call_authorised)
  ultimately show ?thesis by blast
qed

theorem changes_attributed_witness:
  "\<exists>s b. exec (host_at 14) (Att (C_request_deletion (Address 3) kyc_id)) state_3 = Inr s \<and>
     attestation_entry (atts s) kyc_id = Some b \<and> may_change (Address 3) state_3 kyc_att b"
proof -
  obtain s where s: "exec (host_at 14) (Att (C_request_deletion (Address 3) kyc_id)) state_3 = Inr s"
    by (simp add: evaluate evaluate_chunks request_deletion_def state_defs Let_def)
  from changes_attributed [OF history_reachable(3) s, of kyc_id kyc_att] s show ?thesis
    by (auto simp: multisig_call_def)
qed

end
