(* ===== verification/TL_Registries.thy ===== *)
theory TL_Registries
  imports TL_Indexing
begin

section \<open>The registries and their listings\<close>

text \<open>
  Issuers, bridges, claim types, delegations and templates are each kept twice in \<^verbatim>\<open>storage.rs\<close>: as one entry
  per member, which the handlers consult, and as a list in order of registration, which the listing
  entry points page through.  This theory shows that every call keeps the two in step.  The one exception
  is the list of issuers, from which \<^verbatim>\<open>remove_issuer\<close> takes nothing away: it lists everybody who was ever
  registered.
\<close>

subsection \<open>Enumerations\<close>

definition enumerates :: "'a list \<Rightarrow> 'a set \<Rightarrow> bool" where
  "enumerates l A \<longleftrightarrow> distinct l \<and> set l = A"

lemma enumerates_new: "enumerates l A \<Longrightarrow> x \<notin> A \<Longrightarrow> B = insert x A \<Longrightarrow> enumerates (l @ [x]) B"
  by (auto simp: enumerates_def)

lemma enumerates_again: "enumerates l A \<Longrightarrow> x \<in> A \<Longrightarrow> B = insert x A \<Longrightarrow> enumerates l B"
  by (auto simp: enumerates_def)

lemma enumerates_without: "enumerates l A \<Longrightarrow> B = A - {x} \<Longrightarrow> enumerates (without x l) B"
  by (auto simp: enumerates_def)

lemma enumerates_member: "enumerates l A \<Longrightarrow> x \<in> set l \<longleftrightarrow> x \<in> A"
  by (simp add: enumerates_def)

text \<open>The parts of the registry store that hold members and lists.\<close>

definition books :: "storage \<Rightarrow> (address \<rightharpoonup> bool) \<times> address list option \<times> (address \<rightharpoonup> bool) \<times>
    address list option \<times> (string \<rightharpoonup> claim_type_info) \<times> string list option \<times>
    (address \<times> address \<times> string \<rightharpoonup> delegation) \<times> (address \<rightharpoonup> (address \<times> string) list) \<times>
    (address \<times> string \<rightharpoonup> attestation_template) \<times> (address \<rightharpoonup> string list)" where
  "books s = (issuer_flag (reg s), issuer_list (reg s), bridge_flag (reg s), bridge_list (reg s),
     claim_type_entry (reg s), claim_type_list (reg s), delegation_entry (reg s), delegator_index (reg s),
     template_entry (reg s), template_list (reg s))"

definition listed :: "storage \<Rightarrow> bool" where
  "listed s \<longleftrightarrow>
     distinct (Storage_get_issuer_list s) \<and> dom (issuer_flag (reg s)) \<subseteq> set (Storage_get_issuer_list s) \<and>
     enumerates (Storage_get_bridge_list s) (dom (bridge_flag (reg s))) \<and>
     enumerates (Storage_get_claim_type_list s) (dom (claim_type_entry (reg s))) \<and>
     (\<forall>i. enumerates (Storage_get_delegator_index i s) {(d, c). delegation_entry (reg s) (i, d, c) \<noteq> None}) \<and>
     (\<forall>i. enumerates (Storage_get_template_registry i s) {n. template_entry (reg s) (i, n) \<noteq> None})"

lemmas list_readers = Storage_get_issuer_list_def Storage_get_bridge_list_def Storage_get_claim_type_list_def
  Storage_get_delegator_index_def Storage_get_template_registry_def

lemma booksE:
  assumes "books s' = books s"
  obtains "issuer_flag (reg s') = issuer_flag (reg s)" "issuer_list (reg s') = issuer_list (reg s)"
    "bridge_flag (reg s') = bridge_flag (reg s)" "bridge_list (reg s') = bridge_list (reg s)"
    "claim_type_entry (reg s') = claim_type_entry (reg s)" "claim_type_list (reg s') = claim_type_list (reg s)"
    "delegation_entry (reg s') = delegation_entry (reg s)" "delegator_index (reg s') = delegator_index (reg s)"
    "template_entry (reg s') = template_entry (reg s)" "template_list (reg s') = template_list (reg s)"
  using assms by (simp add: books_def)

lemma listed_books: "books s' = books s \<Longrightarrow> listed s \<Longrightarrow> listed s'"
  by (erule booksE) (simp add: listed_def list_readers)

subsection \<open>Calls that leave the registries alone\<close>

lemma store_attestation_books:
  "store_attestation a s = Inr s' \<Longrightarrow> books s' = books s"
  "lib_store_attestation a s = Inr s' \<Longrightarrow> books s' = books s"
  unfolding store_attestation_def lib_store_attestation_def Let_def writers
  by (elim steps; simp add: books_def)+

lemma for_each_books:
  assumes "for_each f xs s = Inr s'" and "\<And>x t t'. f x t = Inr t' \<Longrightarrow> books t' = books t"
  shows "books s' = books s"
  by (rule for_each_invariant [OF assms(1)]) (auto dest: assms(2))

lemma for_each_snd_books:
  assumes "for_each f xs p = Inr q" and "\<And>x p q. f x p = Inr q \<Longrightarrow> books (snd q) = books (snd p)"
  shows "books (snd q) = books (snd p)"
  by (rule for_each_invariant [OF assms(1)]) (auto dest: assms(2))

lemma batch_steps_books:
  "batch_create_one e k c ex lim x p = Inr q \<Longrightarrow> books (snd q) = books (snd p)"
  "lib_batch_create_one e k c ex lim x p = Inr q \<Longrightarrow> books (snd q) = books (snd p)"
  "batch_revoke_one e k r a s = Inr s' \<Longrightarrow> books s' = books s"
  "lib_revoke_one e k r i s = Inr s' \<Longrightarrow> books s' = books s"
  "Storage_add_to_whitelist k x s = Inr s' \<Longrightarrow> books s' = books s"
  unfolding batch_create_one_def lib_batch_create_one_def batch_revoke_one_def lib_revoke_one_def
    Let_def writers
  by (elim steps store_attestation_books(2) [THEN booksE]; simp add: books_def event_defs)+

lemmas batch_books =
  for_each_snd_books [OF _ batch_steps_books(1)] for_each_snd_books [OF _ batch_steps_books(2)]
  for_each_books [OF _ batch_steps_books(3)] for_each_books [OF _ batch_steps_books(4)]
  for_each_books [OF _ batch_steps_books(5)]

lemma att_call_books:
  assumes "exec_att e c s = Inr s'" shows "books s' = books s"
  using assms
  by (cases c; simp only: exec_att.simps att_handlers Let_def writers;
      elim steps store_attestation_books(1) [THEN booksE] batch_books [THEN booksE];
      simp add: books_def event_defs)

lemma lib_handlers_books:
  "lib_bridge_attestation e b x c sc st s = Inr (k, s') \<Longrightarrow> books s' = books s"
  "lib_create_attestations_batch e i xs c ex s = Inr (ks, s') \<Longrightarrow> books s' = books s"
  "lib_revoke_attestation e i k r s = Inr (u, s') \<Longrightarrow> books s' = books s"
  "lib_revoke_attestations_batch e i ks r s = Inr (n, s') \<Longrightarrow> books s' = books s"
  "lib_request_deletion e x k s = Inr (u, s') \<Longrightarrow> books s' = books s"
  "lib_register_expiration_hook e x cb d s = Inr (u, s') \<Longrightarrow> books s' = books s"
  unfolding lib_handlers Let_def writers
  by (elim steps store_attestation_books(2) [THEN booksE] batch_books [THEN booksE];
      simp add: books_def event_defs)+

lemma flow_handlers_books:
  "propose_attestation e i x c rs n s = Inr (p, s') \<Longrightarrow> books s' = books s"
  "cosign_attestation e i p s = Inr (u, s') \<Longrightarrow> books s' = books s"
  "request_attestation e x i c s = Inr (r, s') \<Longrightarrow> books s' = books s"
  "fulfill_request e i r ex s = Inr (k, s') \<Longrightarrow> books s' = books s"
  "reject_request e i r t s = Inr (u, s') \<Longrightarrow> books s' = books s"
  "cancel_request e x r s = Inr (u, s') \<Longrightarrow> books s' = books s"
  "init_council e a ms q s = Inr (u, s') \<Longrightarrow> books s' = books s"
  "propose_council_action e a opn s = Inr (m, s') \<Longrightarrow> books s' = books s"
  "approve_council_action e a j s = Inr (u, s') \<Longrightarrow> books s' = books s"
  "lib_propose_attestation e i x c rs n s = Inr (p, s') \<Longrightarrow> books s' = books s"
  "lib_cosign_attestation e i p s = Inr (u, s') \<Longrightarrow> books s' = books s"
  unfolding flow_handlers Let_def writers
  by (elim steps store_attestation_books [THEN booksE]; simp add: books_def event_defs)+

subsection \<open>Calls that change them\<close>

lemma listed_drop_issuer:
  assumes "listed s" and "books s' = books (Storage_remove_issuer a s)"
  shows "listed s'"
  using assms(1) by (rule_tac listed_books [OF assms(2)]) (auto simp: listed_def list_readers writers)

lemma execute_council_action_listed:
  "execute_council_action e a p s = Inr (u, s') \<Longrightarrow> listed s \<Longrightarrow> listed s'"
  unfolding execute_council_action_def Let_def writers
  by (elim steps; (erule listed_books [rotated]; simp add: books_def event_defs; fail)?;
      erule listed_drop_issuer; simp add: books_def event_defs writers)

lemma Storage_add_issuer_listed:
  "Storage_add_issuer a s = Inr s' \<Longrightarrow> listed s \<Longrightarrow> listed s'"
  unfolding Storage_add_issuer_def Let_def
  by (elim steps; auto simp: listed_def list_readers)

lemma Storage_add_bridge_listed:
  "Storage_add_bridge a s = Inr s' \<Longrightarrow> listed s \<Longrightarrow> listed s'"
  unfolding Storage_add_bridge_def Let_def
  by (elim steps; auto simp: listed_def list_readers enumerates_def)

lemma Storage_set_claim_type_listed:
  "Storage_set_claim_type info s = Inr s' \<Longrightarrow> listed s \<Longrightarrow> listed s'"
  unfolding Storage_set_claim_type_def Let_def
  by (elim steps; auto simp: listed_def list_readers enumerates_def)

lemma Storage_set_delegation_listed:
  "Storage_set_delegation g s = Inr s' \<Longrightarrow> listed s \<Longrightarrow> listed s'"
  unfolding Storage_set_delegation_def Let_def
  by (elim steps; auto simp: listed_def list_readers enumerates_def)

lemma Storage_remove_delegation_listed:
  "Storage_remove_delegation i d c s = Inr s' \<Longrightarrow> listed s \<Longrightarrow> listed s'"
  unfolding Storage_remove_delegation_def Let_def writers
  by (elim steps; auto simp: listed_def list_readers enumerates_def)

lemma Storage_set_template_listed:
  "Storage_set_template t s = Inr s' \<Longrightarrow> listed s \<Longrightarrow> listed s'"
  unfolding Storage_set_template_def Let_def
  by (elim steps; auto simp: listed_def list_readers enumerates_def)

lemma Storage_remove_template_listed:
  "Storage_remove_template i n s = Inr s' \<Longrightarrow> listed s \<Longrightarrow> listed s'"
  unfolding Storage_remove_template_def Let_def writers
  by (elim steps; auto simp: listed_def list_readers enumerates_def)

lemma remove_issuer_listed:
  "remove_issuer e a i s = Inr (u, s') \<Longrightarrow> listed s \<Longrightarrow> listed s'"
  unfolding remove_issuer_def Let_def writers
  by (elim steps, erule listed_drop_issuer [of _ _ i]) (simp add: books_def event_defs writers)

lemma registry_handlers_listed:
  "register_issuer e a i s = Inr (u, s') \<Longrightarrow> listed s \<Longrightarrow> listed s'"
  "register_bridge e a i s = Inr (u, s') \<Longrightarrow> listed s \<Longrightarrow> listed s'"
  "delegate_claim_type e i d c ex s = Inr (u, s') \<Longrightarrow> listed s \<Longrightarrow> listed s'"
  "revoke_delegation e i d c s = Inr (u, s') \<Longrightarrow> listed s \<Longrightarrow> listed s'"
  "save_template e i n c m s = Inr (u, s') \<Longrightarrow> listed s \<Longrightarrow> listed s'"
  "delete_template e i n s = Inr (u, s') \<Longrightarrow> listed s \<Longrightarrow> listed s'"
  "register_claim_type e a c ds s = Inr (u, s') \<Longrightarrow> listed s \<Longrightarrow> listed s'"
proof -
  note keep = listed_books [rotated]
  show "register_issuer e a i s = Inr (u, s') \<Longrightarrow> listed s \<Longrightarrow> listed s'"
    unfolding register_issuer_def Storage_increment_total_issuers_def Storage_set_global_stats_def Let_def
    by (elim steps, rule keep, erule (1) Storage_add_issuer_listed) (simp add: books_def event_defs)
  show "register_bridge e a i s = Inr (u, s') \<Longrightarrow> listed s \<Longrightarrow> listed s'"
    unfolding register_bridge_def by (elim steps) (auto dest: Storage_add_bridge_listed)
  show "delegate_claim_type e i d c ex s = Inr (u, s') \<Longrightarrow> listed s \<Longrightarrow> listed s'"
    unfolding delegate_claim_type_def Let_def
    by (elim steps, rule keep, erule (1) Storage_set_delegation_listed) (simp add: books_def event_defs)
  show "revoke_delegation e i d c s = Inr (u, s') \<Longrightarrow> listed s \<Longrightarrow> listed s'"
    unfolding revoke_delegation_def
    by (elim steps, rule keep, erule (1) Storage_remove_delegation_listed) (simp add: books_def event_defs)
  show "save_template e i n c m s = Inr (u, s') \<Longrightarrow> listed s \<Longrightarrow> listed s'"
    unfolding save_template_def Let_def
    by (elim steps, rule keep, erule (1) Storage_set_template_listed) (simp add: books_def event_defs)
  show "delete_template e i n s = Inr (u, s') \<Longrightarrow> listed s \<Longrightarrow> listed s'"
    unfolding delete_template_def
    by (elim steps, rule keep, erule (1) Storage_remove_template_listed) (simp add: books_def event_defs)
  show "register_claim_type e a c ds s = Inr (u, s') \<Longrightarrow> listed s \<Longrightarrow> listed s'"
    unfolding register_claim_type_def Let_def
    by (elim steps, rule keep, erule (1) Storage_set_claim_type_listed) (simp add: books_def event_defs)
qed

lemma registry_frames_books:
  "set_issuer_tier e a i t s = Inr (u, s') \<Longrightarrow> books s' = books s"
  "set_issuer_metadata e i m s = Inr (u, s') \<Longrightarrow> books s' = books s"
  "add_to_whitelist e i x s = Inr (u, s') \<Longrightarrow> books s' = books s"
  "remove_from_whitelist e i x s = Inr (u, s') \<Longrightarrow> books s' = books s"
  "set_whitelist_enabled e i b s = Inr (u, s') \<Longrightarrow> books s' = books s"
  "enable_whitelist_mode e i s = Inr (u, s') \<Longrightarrow> books s' = books s"
  "register_expiration_hook e x cb d s = Inr (u, s') \<Longrightarrow> books s' = books s"
  "remove_expiration_hook e x s = Inr (u, s') \<Longrightarrow> books s' = books s"
  unfolding set_issuer_tier_def set_issuer_metadata_def add_to_whitelist_def
    remove_from_whitelist_def set_whitelist_enabled_def enable_whitelist_mode_def
    register_expiration_hook_def remove_expiration_hook_def Let_def writers
  by (elim steps; simp add: books_def event_defs)+

lemma bulk_add_to_whitelist_books:
  "bulk_add_to_whitelist e i xs s = Inr (u, s') \<Longrightarrow> books s' = books s"
  unfolding bulk_add_to_whitelist_def by (auto simp: flow dest: batch_books(5))

lemma admin_frames_books:
  assumes "exec_admin e c s = Inr s'" and "\<And>a ct d. c \<noteq> C_register_claim_type a ct d"
  shows "books s' = books s"
  using assms
  by (cases c; simp only: exec_admin.simps admin_handlers Let_def writers;
      elim steps; simp add: books_def event_defs writers)

subsection \<open>Every call\<close>

lemma exec_listed:
  assumes "exec e c s = Inr s'" and "listed s"
  shows "listed s'"
proof (cases c)
  case (Admin d)
  show ?thesis
  proof (cases "\<exists>a ct ds. d = C_register_claim_type a ct ds")
    case True
    then show ?thesis using Admin assms by (auto elim!: postE intro: registry_handlers_listed(7))
  next
    case False
    then show ?thesis
      using Admin assms admin_frames_books [of e d s s'] by (auto intro: listed_books)
  qed
next
  case (Registry d)
  then show ?thesis
    using assms by (cases d) (auto elim!: postE intro: registry_handlers_listed
        remove_issuer_listed listed_books dest: registry_frames_books bulk_add_to_whitelist_books)
next
  case (Att d)
  then show ?thesis using assms by (auto intro: listed_books dest: att_call_books)
next
  case (Flow d)
  then show ?thesis
    using assms by (cases d) (auto elim!: postE intro: execute_council_action_listed listed_books
        dest: flow_handlers_books)
next
  case (Lib d)
  then show ?thesis
    using assms by (cases d) (auto elim!: postE intro: listed_books dest: lib_handlers_books)
qed

lemma reachable_listed: "reachable m s \<Longrightarrow> listed s"
proof (induction rule: reachable.induct)
  case deployed
  show ?case by (simp add: listed_def list_readers enumerates_def empty_storage_def)
qed (auto intro: exec_listed)

subsection \<open>What the listing entry points answer\<close>

lemma paginate_whole: "length l \<le> unat n \<Longrightarrow> paginate l 0 n = Inr l"
  using unsigned_less [of n, where ?'a = nat] by (simp add: paginate_eq)

lemma set_map_filter: "set (List.map_filter f xs) = {y. \<exists>x \<in> set xs. f x = Some y}"
  by (induction xs) (auto split: option.splits)

lemma live_delegations_set:
  assumes "enumerates ix {(d, c). delegation_entry (reg s) (i, d, c) \<noteq> None}"
  shows "set (live_delegations e i s ix) =
    {g. \<exists>d c. Storage_get_delegation i d c s = Some g \<and> (\<forall>t. dg_expiration g = Some t \<longrightarrow> timestamp e < t)}"
proof -
  have "set ix = {(d, c). delegation_entry (reg s) (i, d, c) \<noteq> None}" using assms by (simp add: enumerates_def)
  then have "set (List.map_filter (\<lambda>(d, c). Storage_get_delegation i d c s) ix) =
      {g. \<exists>d c. Storage_get_delegation i d c s = Some g}"
    by (auto simp: set_map_filter Storage_get_delegation_def)
  then show ?thesis by (auto simp: live_delegations_def split: option.splits)
qed

lemma length_live_delegations: "length (live_delegations e i s ix) \<le> length ix"
  unfolding live_delegations_def List.map_filter_def
  by (rule le_trans [OF length_filter_le]) simp

text \<open>C16: Whoever pages through a registry sees it whole.  In every reachable state the listings of bridges,
  claim types and templates hold exactly the registered ones, once each; the listing of an issuer's
  delegations holds exactly those that have not expired; and every registered issuer is in the list of
  issuers, once.\<close>

theorem registries_listed:
  assumes "reachable m s" and "length (Storage_get_bridge_list s) \<le> unat n"
    and "length (Storage_get_claim_type_list s) \<le> unat n" and "length (Storage_get_delegator_index i s) \<le> unat n"
    and "length (Storage_get_issuer_list s) \<le> unat n"
  shows "(\<exists>l. get_bridge_list 0 n s = Inr l \<and> distinct l \<and> (\<forall>a. a \<in> set l \<longleftrightarrow> is_bridge a s)) \<and>
    (\<exists>l. list_claim_types 0 n s = Inr l \<and> distinct l \<and>
       (\<forall>c. c \<in> set l \<longleftrightarrow> get_claim_type_description c s \<noteq> None)) \<and>
    set (list_delegations_by_delegator e i 0 n s) =
      {g. \<exists>d c. Storage_get_delegation i d c s = Some g \<and> (\<forall>t. dg_expiration g = Some t \<longrightarrow> timestamp e < t)} \<and>
    distinct (list_templates i s) \<and> (\<forall>k. k \<in> set (list_templates i s) \<longleftrightarrow> (\<exists>t. get_template i k s = Inr t)) \<and>
    (\<exists>l. get_issuer_list 0 n s = Inr l \<and> distinct l \<and> (\<forall>a. is_issuer a s \<longrightarrow> a \<in> set l))"
proof -
  have l: "listed s" by (rule reachable_listed [OF assms(1)])
  then have b: "enumerates (Storage_get_bridge_list s) (dom (bridge_flag (reg s)))"
    and c: "enumerates (Storage_get_claim_type_list s) (dom (claim_type_entry (reg s)))"
    and d: "enumerates (Storage_get_delegator_index i s) {(d, c). delegation_entry (reg s) (i, d, c) \<noteq> None}"
    and t: "enumerates (Storage_get_template_registry i s) {k. template_entry (reg s) (i, k) \<noteq> None}"
    and a: "distinct (Storage_get_issuer_list s)" "dom (issuer_flag (reg s)) \<subseteq> set (Storage_get_issuer_list s)"
    by (simp_all add: listed_def)
  have "list_delegations_by_delegator e i 0 n s = live_delegations e i s (Storage_get_delegator_index i s)"
    using assms(4) length_live_delegations [of e i s "Storage_get_delegator_index i s"]
    by (simp add: list_delegations_is_page)
  moreover have "get_bridge_list 0 n s = Inr (Storage_get_bridge_list s)"
    "list_claim_types 0 n s = Inr (Storage_get_claim_type_list s)" "get_issuer_list 0 n s = Inr (Storage_get_issuer_list s)"
    using assms(2,3,5) by (simp_all add: get_bridge_list_def list_claim_types_def get_issuer_list_def
        paginate_addresses_eq paginate_whole)
  ultimately show ?thesis
    using b c t a live_delegations_set [OF d]
    by (auto simp: enumerates_def is_bridge_def Storage_is_bridge_def get_claim_type_description_def
        Storage_get_claim_type_def list_templates_def get_template_def Storage_get_template_def ok_or_Inr
        is_issuer_def Storage_is_issuer_def)
qed

definition kyc_delegation :: delegation where
  "kyc_delegation = \<lparr>dg_delegator = Address 2, dg_delegate = Address 4, dg_claim_type = ''KYC'', dg_expiration = Some 99\<rparr>"

theorem registries_listed_witness:
  "\<exists>s. exec (host_at 12) (Registry (C_delegate_claim_type (Address 2) (Address 4) ''KYC'' (Some 99))) state_2 = Inr s \<and>
     set (list_delegations_by_delegator (host_at 20) (Address 2) 0 10 s) = {kyc_delegation}"
proof -
  obtain s where s: "exec (host_at 12) (Registry (C_delegate_claim_type (Address 2) (Address 4) ''KYC'' (Some 99))) state_2 = Inr s"
    and r: "reg s = (reg state_2)\<lparr>delegation_entry := [(Address 2, Address 4, ''KYC'') \<mapsto> kyc_delegation],
      delegator_index := [Address 2 \<mapsto> [(Address 4, ''KYC'')]]\<rparr>"
    by (simp add: evaluate delegate_claim_type_def validate_native_expiration_def Storage_set_delegation_def
        Let_def state_defs kyc_delegation_def)
  have "reachable True s"
    using reachable.invoked [OF history_reachable(2) s, where m = True]
    by (simp add: no_clash_def module_call_def)
  from registries_listed [OF this, where n = 10 and i = "Address 2" and e = "host_at 20"] s r
  show ?thesis
    by (auto simp: list_readers state_defs empty_storage_def Storage_get_delegation_def kyc_delegation_def
        split: if_splits)
qed

text \<open>Removing an issuer takes its role away and leaves it in the list of issuers.\<close>

lemma removed_issuer_still_listed:
  assumes "reachable m s" and "remove_issuer e a i s = Inr (u, s')" and "is_issuer i s"
  shows "\<not> is_issuer i s' \<and> i \<in> set (Storage_get_issuer_list s')"
proof -
  have "i \<in> set (Storage_get_issuer_list s)"
    using reachable_listed [OF assms(1)] assms(3) by (auto simp: listed_def is_issuer_def Storage_is_issuer_def)
  then show ?thesis
    using assms(2) unfolding remove_issuer_def Let_def writers
    by (elim steps) (simp add: list_readers is_issuer_def Storage_is_issuer_def event_defs)
qed

end
