(* ===== verification/TL_Statistics.thy ===== *)
theory TL_Statistics
  imports TL_Scenario
begin

section \<open>Statistics\<close>

text \<open>
  The contract keeps counters beside the records: how many attestations exist, how many were revoked, how
  many each issuer has issued.  Every handler updates them by hand, most in the step that stores the record,
  the batches once at the end.  This theory shows that the module handlers never lose count: as long as
  the numbers fit 64 bits, each counter is the cardinality of the set of records it stands for.
\<close>

subsection \<open>Counting records\<close>

definition count_records :: "(attestation \<Rightarrow> bool) \<Rightarrow> (string \<rightharpoonup> attestation) \<Rightarrow> nat" where
  "count_records P m = card {i. \<exists>a. m i = Some a \<and> P a}"

lemma finite_records: "finite (dom m) \<Longrightarrow> finite {i. \<exists>a. m i = Some a \<and> P a}"
  by (rule finite_subset [where B = "dom m"]) auto

lemma count_records_new:
  assumes "finite (dom m)" and "m k = None"
  shows "count_records P (m(k \<mapsto> a)) = count_records P m + (if P a then 1 else 0)"
proof -
  have "{i. \<exists>b. (m(k \<mapsto> a)) i = Some b \<and> P b} =
      (if P a then insert k {i. \<exists>b. m i = Some b \<and> P b} else {i. \<exists>b. m i = Some b \<and> P b})"
    using assms(2) by auto
  then show ?thesis using assms finite_records [OF assms(1), of P] by (auto simp: count_records_def)
qed

lemma count_records_update:
  assumes "finite (dom m)" and "m k = Some b"
  shows "count_records P (m(k \<mapsto> a)) + (if P b then 1 else 0) = count_records P m + (if P a then 1 else 0)"
proof -
  have d: "finite (dom (m(k := None)))" "(m(k := None)) k = None" using assms(1) by simp_all
  have new: "count_records P (m(k \<mapsto> c)) = count_records P (m(k := None)) + (if P c then 1 else 0)" for c
    using count_records_new [OF d, of P c] by (simp only: fun_upd_upd)
  have "m(k \<mapsto> b) = m" using assms(2) by auto
  then show ?thesis using new [of a] new [of b] by simp
qed

lemma count_records_same:
  assumes "finite (dom m)" and "m k = Some b" and "P a = P b"
  shows "count_records P (m(k \<mapsto> a)) = count_records P m"
  using count_records_update [where P = P and a = a, OF assms(1,2)] assms(3) by (simp split: if_splits)

lemma count_records_le: "finite (dom m) \<Longrightarrow> count_records P m \<le> count_records (\<lambda>_. True) m"
  unfolding count_records_def by (rule card_mono) (rule finite_records, auto)

lemma count_records_grow: "finite (dom m) \<Longrightarrow> count_records (\<lambda>_. True) m \<le> count_records (\<lambda>_. True) (m(k \<mapsto> a))"
  by (cases "m k") (simp_all add: count_records_new count_records_update [where P = "\<lambda>_. True", simplified])

subsection \<open>Records against counters\<close>

text \<open>The records and the counters of a state.\<close>

definition sheet :: "storage \<Rightarrow> (string \<rightharpoonup> attestation) \<times> u64 \<times> u64 \<times> (address \<Rightarrow> u64)" where
  "sheet s = (attestation_entry (atts s), total_attestations (Storage_get_global_stats s),
     total_revocations (Storage_get_global_stats s), (\<lambda>a. total_issued (Storage_get_issuer_stats a s)))"

text \<open>A sheet in the middle of a call: the counters are \<open>n\<close> attestations of issuer \<open>k\<close> and \<open>r\<close> revocations
  behind the records.\<close>

definition behind :: "nat \<Rightarrow> address \<Rightarrow> nat \<Rightarrow>
    (string \<rightharpoonup> attestation) \<times> u64 \<times> u64 \<times> (address \<Rightarrow> u64) \<Rightarrow> bool" where
  "behind n k r = (\<lambda>(m, tot, revs, issued).
     finite (dom m) \<and> unat tot + n = count_records (\<lambda>_. True) m \<and>
     unat revs + r = count_records att_revoked m \<and>
     unat (issued k) + n = count_records (\<lambda>x. att_issuer x = k) m \<and>
     (\<forall>a. a \<noteq> k \<longrightarrow> unat (issued a) = count_records (\<lambda>x. att_issuer x = a) m))"

definition tallied :: "storage \<Rightarrow> bool" where
  "tallied s \<longleftrightarrow> behind 0 (Address 0) 0 (sheet s)"

lemma behind_0: "behind 0 k r c = behind 0 l r c"
  by (auto simp: behind_def)

lemma tallied_behind: "tallied s \<longleftrightarrow> behind 0 k 0 (sheet s)"
  unfolding tallied_def by (rule behind_0)

text \<open>A new record, a record that changes, and the counters catching up.\<close>

lemma behind_put:
  assumes "behind n k r (m, tot, revs, issued)" and "m i = None" and "att_issuer a = k" and "\<not> att_revoked a"
  shows "behind (Suc n) k r (m(i \<mapsto> a), tot, revs, issued)"
  using assms by (auto simp: behind_def count_records_new)

lemma behind_change:
  assumes "behind n k r (m, tot, revs, issued)" and b: "m i = Some b"
    and "att_issuer a = att_issuer b" and "att_revoked a = att_revoked b"
  shows "behind n k r (m(i \<mapsto> a), tot, revs, issued)"
proof -
  have "finite (dom m)" using assms(1) by (simp add: behind_def)
  note same = count_records_same [where a = a, OF this b]
  show ?thesis using assms by (simp add: behind_def same)
qed

lemma behind_revoke:
  assumes "behind n k r (m, tot, revs, issued)" and b: "m i = Some b"
    and "att_issuer a = att_issuer b" and "att_revoked a" "\<not> att_revoked b"
  shows "behind n k (Suc r) (m(i \<mapsto> a), tot, revs, issued)"
proof -
  have f: "finite (dom m)" using assms(1) by (simp add: behind_def)
  note same = count_records_same [where a = a, OF f b]
  have "count_records att_revoked (m(i \<mapsto> a)) = Suc (count_records att_revoked m)"
    using count_records_update [where P = att_revoked and k = i and m = m and a = a and b = b, OF f b] assms(4,5) by simp
  then show ?thesis using assms by (simp add: behind_def same)
qed

lemma behind_catch_up:
  assumes "behind n k r (m, tot, revs, issued)" and "count_records (\<lambda>_. True) m < 2 ^ 64"
  shows "behind 0 k r (m, saturating_add tot (of_nat n), revs, issued(k := saturating_add (issued k) (of_nat n)))"
proof -
  have n: "unat (of_nat n :: u64) = n" using assms by (auto simp: behind_def unat_of_nat)
  have "unat (issued k) + n \<le> count_records (\<lambda>_. True) m"
    using assms(1) count_records_le [of m "\<lambda>x. att_issuer x = k"] by (simp add: behind_def)
  with n show ?thesis using assms by (auto simp: behind_def unat_saturating_add)
qed

lemma behind_count_revocations:
  assumes "behind n k r (m, tot, revs, issued)" and "count_records (\<lambda>_. True) m < 2 ^ 64"
  shows "behind n k 0 (m, tot, saturating_add revs (of_nat r), issued)"
proof -
  have "unat revs + r \<le> count_records (\<lambda>_. True) m"
    using assms(1) count_records_le [of m att_revoked] by (auto simp: behind_def)
  then show ?thesis using assms by (auto simp: behind_def unat_saturating_add unat_of_nat)
qed

lemma tallied_sheet: "sheet s' = sheet s \<Longrightarrow> tallied s \<Longrightarrow> tallied s'"
  by (simp add: tallied_def)

subsection \<open>Storing a record\<close>

lemma store_attestation_sheet:
  assumes "store_attestation a s = Inr s'"
  shows "sheet s' = ((attestation_entry (atts s))(att_id a \<mapsto> a),
      saturating_add (total_attestations (Storage_get_global_stats s)) 1, total_revocations (Storage_get_global_stats s),
      (\<lambda>b. total_issued (Storage_get_issuer_stats b s))(att_issuer a :=
         saturating_add (total_issued (Storage_get_issuer_stats (att_issuer a) s)) 1))"
  using assms unfolding store_attestation_def Let_def writers
  by (elim steps) (simp add: sheet_def readers saturating_add_def fun_eq_iff)

lemma store_attestation_tallied:
  assumes "sheet s' = sheet t" and "store_attestation a s = Inr t" and "\<not> Storage_has_attestation (att_id a) s"
    and "\<not> att_revoked a" and "tallied s" and "count_records (\<lambda>_. True) (attestation_entry (atts s')) < 2 ^ 64"
  shows "tallied s'"
proof -
  let ?k = "att_issuer a"
  have new: "attestation_entry (atts s) (att_id a) = None"
    using assms(3) by (simp add: Storage_has_attestation_def)
  have "behind 0 ?k 0 (sheet s)" using assms(5) tallied_behind by blast
  from behind_put [OF this [unfolded sheet_def], of "att_id a" a] new assms(4)
  have "behind 1 ?k 0 ((attestation_entry (atts s))(att_id a \<mapsto> a), total_attestations (Storage_get_global_stats s),
      total_revocations (Storage_get_global_stats s), (\<lambda>b. total_issued (Storage_get_issuer_stats b s)))" by simp
  from behind_catch_up [OF this] assms(6) have "behind 0 ?k 0 (sheet t)"
    using assms(1) store_attestation_sheet [OF assms(2)] by (simp add: sheet_def)
  then show ?thesis by (simp add: tallied_behind [where k = ?k] assms(1))
qed

lemma sheetI:
  assumes "attestation_entry (atts s') = attestation_entry (atts s)" and "global_stats (inst s') = global_stats (inst s)"
    and "issuer_stats (reg s') = issuer_stats (reg s)"
  shows "sheet s' = sheet s"
  using assms by (simp add: sheet_def readers)

text \<open>The bound on the number of records.\<close>

abbreviation "fits s \<equiv> count_records (\<lambda>_. True) (attestation_entry (atts s)) < 2 ^ 64"

lemma create_attestation_internal_tallied:
  "create_attestation_internal e is x c ex m j tg vf s = Inr (u, s') \<Longrightarrow> tallied s \<Longrightarrow> fits s' \<Longrightarrow> tallied s'"
  unfolding create_attestation_internal_def Let_def writers
  by (elim steps, erule store_attestation_tallied [rotated], simp, simp, assumption, assumption, rule sheetI)
    (simp_all add: event_defs)

lemma create_attestation_as_delegate_tallied:
  "create_attestation_as_delegate e d is x c ex m s = Inr (u, s') \<Longrightarrow> tallied s \<Longrightarrow> fits s' \<Longrightarrow> tallied s'"
  unfolding create_attestation_as_delegate_def Let_def writers
  by (elim steps; erule store_attestation_tallied [rotated], simp, simp, assumption, assumption, rule sheetI)
    (simp_all add: event_defs)

lemma other_creations_tallied:
  "import_attestation e d is x c ts ex s = Inr (u, s') \<Longrightarrow> tallied s \<Longrightarrow> fits s' \<Longrightarrow> tallied s'"
  "bridge_attestation e b x c sc tx s = Inr (u, s') \<Longrightarrow> tallied s \<Longrightarrow> fits s' \<Longrightarrow> tallied s'"
  "fulfill_request e is i ex s = Inr (u, s') \<Longrightarrow> tallied s \<Longrightarrow> fits s' \<Longrightarrow> tallied s'"
  unfolding import_attestation_def bridge_attestation_def fulfill_request_def Let_def writers
  by (elim steps; erule store_attestation_tallied [rotated], simp, simp, assumption, assumption, rule sheetI;
      simp add: event_defs)+

subsection \<open>Changing a record\<close>

definition amends :: "string \<Rightarrow> storage \<Rightarrow> storage \<Rightarrow> bool" where
  "amends i s s' \<longleftrightarrow> (\<exists>a b. attestation_entry (atts s) i = Some b \<and>
     attestation_entry (atts s') = (attestation_entry (atts s))(att_id b \<mapsto> a) \<and>
     att_issuer a = att_issuer b \<and> att_revoked a = att_revoked b \<and>
     global_stats (inst s') = global_stats (inst s) \<and> issuer_stats (reg s') = issuer_stats (reg s))"

lemma amends_tallied:
  assumes "amends i s s'" and "ids_ok (view s)" and "tallied s"
  shows "tallied s'"
proof -
  from assms(1) obtain a b where b: "attestation_entry (atts s) i = Some b"
    and s': "attestation_entry (atts s') = (attestation_entry (atts s))(att_id b \<mapsto> a)"
      "global_stats (inst s') = global_stats (inst s)" "issuer_stats (reg s') = issuer_stats (reg s)"
    and "att_issuer a = att_issuer b" "att_revoked a = att_revoked b"
    unfolding amends_def by blast
  moreover have "att_id b = i" using b assms(2) by (simp add: ids_ok_def view_def)
  ultimately show ?thesis
    using assms(3) behind_change [of 0 _ 0 "attestation_entry (atts s)" _ _ _ i b a]
    by (simp add: tallied_def sheet_def readers)
qed

lemma amendsI:
  assumes "attestation_entry (atts s) i = Some b"
    and "global_stats (inst s') = global_stats (inst s)" and "issuer_stats (reg s') = issuer_stats (reg s)"
  shows "attestation_entry (atts s') = (attestation_entry (atts s))(att_id b \<mapsto> b\<lparr>att_expiration := ex\<rparr>) \<Longrightarrow> amends i s s'"
    and "attestation_entry (atts s') = (attestation_entry (atts s))(att_id b \<mapsto> b\<lparr>att_deleted := True\<rparr>) \<Longrightarrow> amends i s s'"
  using assms unfolding amends_def by force+

lemma record_amendments:
  "renew_attestation e is i ex s = Inr (u, s') \<Longrightarrow> amends i s s'"
  "update_expiration e is i ex s = Inr (u, s') \<Longrightarrow> amends i s s'"
  "request_deletion e x i s = Inr (u, s') \<Longrightarrow> amends i s s'"
  unfolding renew_attestation_def update_expiration_def request_deletion_def Let_def writers
    Storage_get_attestation_def
    apply (elim steps; rule amendsI(1) [where ex = ex], assumption; simp add: event_defs)
   apply (elim steps; rule amendsI(1) [where ex = ex], assumption; simp add: event_defs)
  apply (elim steps; rule amendsI(2), assumption; simp add: event_defs)
  done

lemma endorse_attestation_sheet: "endorse_attestation e k i s = Inr (u, s') \<Longrightarrow> sheet s' = sheet s"
  unfolding endorse_attestation_def Let_def writers by (elim steps, rule sheetI) simp_all

lemma revoke_attestation_tallied:
  assumes "revoke_attestation e k i r s = Inr (u, s')" and ids: "ids_ok (view s)" and "tallied s" and "fits s'"
  shows "tallied s'"
proof -
  from assms(1) obtain a where a: "attestation_entry (atts s) i = Some a" "\<not> att_revoked a"
    and s': "sheet s' = ((attestation_entry (atts s))(att_id a \<mapsto> a\<lparr>att_revoked := True, att_revocation_reason := r\<rparr>),
      total_attestations (Storage_get_global_stats s), saturating_add (total_revocations (Storage_get_global_stats s)) 1,
      (\<lambda>b. total_issued (Storage_get_issuer_stats b s)))"
    unfolding revoke_attestation_def Let_def writers Storage_get_attestation_def
    by (elim steps) (simp add: sheet_def readers event_defs)
  have i: "att_id a = i" using a(1) ids by (simp add: ids_ok_def view_def)
  have "behind 0 k (Suc 0) ((attestation_entry (atts s))(i \<mapsto> a\<lparr>att_revoked := True, att_revocation_reason := r\<rparr>),
      total_attestations (Storage_get_global_stats s), total_revocations (Storage_get_global_stats s),
      (\<lambda>b. total_issued (Storage_get_issuer_stats b s)))"
    by (rule behind_revoke [where b = a and i = i]) (use assms(3) a in \<open>simp_all add: tallied_behind [where k = k] sheet_def\<close>)
  from behind_count_revocations [OF this] assms(4) s' show ?thesis
    by (simp add: tallied_behind [where k = k] i) (simp add: sheet_def)
qed

lemma behind_move:
  assumes "behind 0 q r (m, tot, revs, issued)" and b: "m i = Some b" and "att_issuer b \<noteq> k"
    and "count_records (\<lambda>_. True) m < 2 ^ 64"
  shows "behind 0 q r (m(i \<mapsto> b\<lparr>att_issuer := k\<rparr>), tot, revs,
    issued(att_issuer b := saturating_sub (issued (att_issuer b)) 1, k := saturating_add (issued k) 1))"
proof -
  let ?m = "m(i \<mapsto> b\<lparr>att_issuer := k\<rparr>)" and ?n = "\<lambda>a. count_records (\<lambda>x. att_issuer x = a)"
  have f: "finite (dom m)" and c: "unat (issued a) = ?n a m" for a
    using assms(1) by (cases "a = q"; simp add: behind_def)+
  note upd = count_records_update [where k = i and b = b and a = "b\<lparr>att_issuer := k\<rparr>", OF f b]
  have n: "?n (att_issuer b) ?m = ?n (att_issuer b) m - 1" "?n k ?m = Suc (?n k m)" "0 < ?n (att_issuer b) m"
    using upd [of "\<lambda>x. att_issuer x = att_issuer b"] upd [of "\<lambda>x. att_issuer x = k"] assms(3) by simp_all
  have o: "?n a ?m = ?n a m" if "a \<noteq> att_issuer b" "a \<noteq> k" for a
    using upd [of "\<lambda>x. att_issuer x = a"] that by simp
  have "?n k m < count_records (\<lambda>_. True) m"
    using count_records_le [of ?m "\<lambda>x. att_issuer x = k"] n(2) upd [of "\<lambda>_. True"] f by simp
  then have "unat (issued k) + 1 < 2 ^ 64" using c [of k] assms(4) by simp
  then have "unat ((issued(att_issuer b := saturating_sub (issued (att_issuer b)) 1, k := saturating_add (issued k) 1)) a) = ?n a ?m" for a
    using n o [of a] c assms(3) by (auto simp: unat_saturating_add unat_saturating_sub)
  then show ?thesis
    using assms(1) f count_records_same [where k = i and b = b and a = "b\<lparr>att_issuer := k\<rparr>", OF f b]
    by (simp add: behind_def)
qed

lemma transfer_attestation_tallied:
  assumes "transfer_attestation e ad i k s = Inr (u, s')" and ids: "ids_ok (view s)" and "tallied s" and "fits s'"
  shows "tallied s'"
proof (cases "s' = s")
  case False
  with assms(1) obtain a where a: "attestation_entry (atts s) i = Some a" "att_issuer a \<noteq> k"
    and s': "sheet s' = ((attestation_entry (atts s))(att_id a \<mapsto> a\<lparr>att_issuer := k\<rparr>),
      total_attestations (Storage_get_global_stats s), total_revocations (Storage_get_global_stats s),
      (\<lambda>b. total_issued (Storage_get_issuer_stats b s))
        (att_issuer a := saturating_sub (total_issued (Storage_get_issuer_stats (att_issuer a) s)) 1,
         k := saturating_add (total_issued (Storage_get_issuer_stats k s)) 1))"
    unfolding transfer_attestation_def Let_def writers Storage_get_attestation_def
    by (elim steps) (simp_all add: sheet_def readers event_defs fun_eq_iff)
  have i: "att_id a = i" using a(1) ids by (simp add: ids_ok_def view_def)
  have "behind 0 k 0 (sheet s)" using assms(3) tallied_behind by blast
  moreover have "count_records (\<lambda>_. True) (attestation_entry (atts s)) < 2 ^ 64"
    using assms(4) s' count_records_grow [of "attestation_entry (atts s)"] assms(3)
    by (simp add: sheet_def tallied_def behind_def) (meson le_less_trans)
  ultimately show ?thesis
    using behind_move [of k 0 "attestation_entry (atts s)" _ _ _ i a k] a s'
    by (simp add: tallied_behind [where k = k] i) (simp add: sheet_def)
qed (use assms in simp)

subsection \<open>Batches\<close>

lemma batch_create_one_behind:
  assumes "batch_create_one e k c ex lim x (ids, s) = Inr (ids', s')" and "behind (length ids) k 0 (sheet s)"
  shows "behind (length ids') k 0 (sheet s')"
proof -
  note put = behind_put [OF assms(2) [unfolded sheet_def Storage_get_global_stats_def Storage_get_issuer_stats_def]]
  show ?thesis
    using batch_create_one_effect [OF assms(1)] by (auto simp: Storage_has_attestation_def sheet_def readers intro!: put)
qed

lemma create_attestations_batch_tallied:
  assumes "create_attestations_batch e k xs c ex s = Inr (ids, s')" and "tallied s" and "fits s'"
  shows "tallied s'"
proof -
  from assms(1) obtain t where loop: "for_each (batch_create_one e k c ex (Storage_get_limits s)) xs ([], s) = Inr (ids, t)"
    and s': "sheet s' = (attestation_entry (atts t), saturating_add (total_attestations (Storage_get_global_stats t)) (of_nat (length ids)),
      total_revocations (Storage_get_global_stats t), (\<lambda>b. total_issued (Storage_get_issuer_stats b t))
        (k := saturating_add (total_issued (Storage_get_issuer_stats k t)) (of_nat (length ids))))"
    unfolding create_attestations_batch_def Let_def writers
    by (elim steps) (simp_all add: sheet_def readers fun_eq_iff)
  have "behind (length (fst (ids, t))) k 0 (sheet (snd (ids, t)))"
    by (rule for_each_invariant [where I = "\<lambda>p. behind (length (fst p)) k 0 (sheet (snd p))", OF loop])
      (use assms(2) in \<open>auto simp: tallied_behind [where k = k] intro: batch_create_one_behind\<close>)
  then have "behind (length ids) k 0 (attestation_entry (atts t), total_attestations (Storage_get_global_stats t),
      total_revocations (Storage_get_global_stats t), (\<lambda>b. total_issued (Storage_get_issuer_stats b t)))"
    by (simp add: sheet_def)
  moreover have "count_records (\<lambda>_. True) (attestation_entry (atts t)) < 2 ^ 64"
    using s' assms(3) by (simp add: sheet_def)
  ultimately show ?thesis
    using behind_catch_up s' by (simp add: tallied_behind [where k = k])
qed

lemma batch_revoke_one_sheet:
  assumes "batch_revoke_one e k r a s = Inr s'"
  shows "sheet s' = ((attestation_entry (atts s))(att_id a \<mapsto> a\<lparr>att_revoked := True, att_revocation_reason := r\<rparr>), snd (sheet s))"
  using assms unfolding batch_revoke_one_def Let_def writers
  by (elim steps) (simp add: sheet_def readers event_defs)

lemma batch_revoke_loop_behind:
  assumes "for_each (batch_revoke_one e k r) as s = Inr s'" and "behind 0 k n (sheet s)"
    and "distinct (map att_id as)"
    and "\<forall>a \<in> set as. attestation_entry (atts s) (att_id a) = Some a \<and> \<not> att_revoked a"
  shows "behind 0 k (n + length as) (sheet s')"
  using assms
proof (induction as arbitrary: s n)
  case (Cons a as)
  from Cons.prems(1) obtain t where one: "batch_revoke_one e k r a s = Inr t"
    and rest: "for_each (batch_revoke_one e k r) as t = Inr s'" by (auto simp: flow)
  note t = batch_revoke_one_sheet [OF one]
  have "behind 0 k (Suc n) (sheet t)"
    using Cons.prems(2,4) behind_revoke [where b = a and i = "att_id a" and n = 0 and r = n and m = "attestation_entry (atts s)"
        and a = "a\<lparr>att_revoked := True, att_revocation_reason := r\<rparr>"]
    by (simp add: t) (simp add: sheet_def)
  moreover have "attestation_entry (atts t) (att_id b) = Some b" if "b \<in> set as" for b
  proof -
    have "att_id b \<noteq> att_id a" using that Cons.prems(3) by (metis distinct.simps(2) imageI list.simps(9) set_map)
    then show ?thesis using that t Cons.prems(4) by (simp add: sheet_def)
  qed
  ultimately have "behind 0 k (Suc n + length as) (sheet s')"
    using Cons.IH [OF rest, of "Suc n"] Cons.prems(3,4) by simp
  then show ?case by simp
qed simp

lemma batch_revoke_check_unrevoked:
  assumes "for_each (batch_revoke_check k s) xs ([], []) = Inr (seen, as)"
  shows "\<forall>a \<in> set as. \<not> att_revoked a"
proof -
  have "\<forall>a \<in> set (snd (seen, as)). \<not> att_revoked a"
    by (rule for_each_invariant [where I = "\<lambda>p. \<forall>a \<in> set (snd p). \<not> att_revoked a", OF assms])
      (auto simp: batch_revoke_check_Inr)
  then show ?thesis by simp
qed

lemma revoke_attestations_batch_tallied:
  assumes "revoke_attestations_batch e k xs r s = Inr (n, s')" and ids: "ids_ok (view s)" and "tallied s" and "fits s'"
  shows "tallied s'"
proof -
  from assms(1) obtain seen as t
    where few: "length xs \<le> 50" and check: "for_each (batch_revoke_check k s) xs ([], []) = Inr (seen, as)"
      and loop: "for_each (batch_revoke_one e k r) as s = Inr t"
      and rest: "(if 0 < (of_nat (length as) :: u32) then Storage_increment_total_revocations (ucast (of_nat (length as) :: u32)) t
        else Inr t) = Inr s'"
    unfolding revoke_attestations_batch_def Let_def MAX_BATCH_def
    by (elim steps) (simp_all add: not_less)
  have zero: "saturating_add v 0 = v" for v :: u64
    using unsigned_less [of v, where ?'a = nat] by (simp add: saturating_add_def)
  have s': "sheet s' = (attestation_entry (atts t), total_attestations (Storage_get_global_stats t),
      saturating_add (total_revocations (Storage_get_global_stats t)) (ucast (of_nat (length as) :: u32)),
      (\<lambda>b. total_issued (Storage_get_issuer_stats b t)))"
    using rest unfolding writers Let_def
    by (cases "(of_nat (length as) :: u32) = 0")
      (auto simp: sheet_def readers zero set_instance_Inr word_neq_0_conv)
  from batch_revoke_check_all [OF check] have d: "seen = xs" "distinct seen"
    and l: "list_all2 (\<lambda>i a. attestation_entry (atts s) i = Some a) seen as" by auto
  have m: "map att_id as = seen"
    using l ids by (intro nth_equalityI) (auto simp: list_all2_conv_all_nth ids_ok_def view_components)
  have e: "attestation_entry (atts s) (att_id a) = Some a" if "a \<in> set as" for a
    using that l ids by (auto simp: in_set_conv_nth list_all2_conv_all_nth ids_ok_def view_components)
  have "behind 0 k (0 + length as) (sheet t)"
    by (rule batch_revoke_loop_behind [OF loop])
      (use d m e assms(3) batch_revoke_check_unrevoked [OF check] in \<open>auto simp: tallied_behind [where k = k]\<close>)
  then have b: "behind 0 k (length as) (attestation_entry (atts t), total_attestations (Storage_get_global_stats t),
      total_revocations (Storage_get_global_stats t), (\<lambda>b. total_issued (Storage_get_issuer_stats b t)))"
    by (simp add: sheet_def)
  have "length as = length xs" using m d(1) by (metis length_map)
  then have "ucast (of_nat (length as) :: u32) = (of_nat (length as) :: u64)"
    using few by (intro word_unat_eq_iff [THEN iffD2]) (simp add: unat_of_nat unsigned_ucast_eq take_bit_nat_def)
  moreover have "count_records (\<lambda>_. True) (attestation_entry (atts t)) < 2 ^ 64"
    using s' assms(4) by (simp add: sheet_def)
  ultimately show ?thesis
    using behind_count_revocations [OF b] s' by (simp add: tallied_behind [where k = k])
qed

subsection \<open>Calls that count nothing\<close>

lemma for_each_add_to_whitelist_sheet:
  "for_each (Storage_add_to_whitelist i) xs s = Inr s' \<Longrightarrow> sheet s' = sheet s"
  by (rule for_each_invariant [where I = "\<lambda>t. sheet t = sheet s"])
    (auto simp: Storage_add_to_whitelist_def set_registry_Inr sheet_def readers)

lemma admin_call_sheet: "exec_admin e c s = Inr s' \<Longrightarrow> sheet s' = sheet s"
  by (cases c; simp only: exec_admin.simps admin_handlers Let_def writers;
      elim steps; simp add: sheet_def readers event_defs writers)

lemma registry_call_sheet:
  assumes "exec_registry e c s = Inr s'" shows "sheet s' = sheet s"
proof (cases c)
  case (C_bulk_add_to_whitelist i xs)
  with assms show ?thesis
    by (auto simp: bulk_add_to_whitelist_def flow elim!: postE dest: for_each_add_to_whitelist_sheet)
qed (use assms in \<open>simp only: exec_registry.simps registry_handlers Let_def writers;
      elim steps; simp add: sheet_def readers event_defs\<close>)+

lemma flow_handlers_sheet:
  "request_attestation e x i c s = Inr (r, s') \<Longrightarrow> sheet s' = sheet s"
  "reject_request e i k t s = Inr (u, s') \<Longrightarrow> sheet s' = sheet s"
  "cancel_request e x k s = Inr (u, s') \<Longrightarrow> sheet s' = sheet s"
  "init_council e a ms q s = Inr (u, s') \<Longrightarrow> sheet s' = sheet s"
  "propose_council_action e a opn s = Inr (n, s') \<Longrightarrow> sheet s' = sheet s"
  "approve_council_action e a p s = Inr (u, s') \<Longrightarrow> sheet s' = sheet s"
  "execute_council_action e a p s = Inr (u, s') \<Longrightarrow> sheet s' = sheet s"
  unfolding flow_handlers Let_def writers
  by (elim steps; simp add: sheet_def readers event_defs)+

subsection \<open>Every call of the modules\<close>

lemma att_call_tallied:
  assumes "exec_att e c s = Inr s'" and "ids_ok (view s)" and "tallied s" and "fits s'"
  shows "tallied s'"
  using assms
  by (cases c) (auto simp: create_attestation_def create_attestation_valid_from_def
      create_attestation_jurisdiction_def elim!: postE intro: create_attestation_internal_tallied
      create_attestation_as_delegate_tallied other_creations_tallied create_attestations_batch_tallied
      revoke_attestation_tallied revoke_attestations_batch_tallied transfer_attestation_tallied
      record_amendments [THEN amends_tallied] endorse_attestation_sheet [THEN tallied_sheet])

lemma exec_tallied:
  assumes "exec e c s = Inr s'" and "module_call c" and "\<not> multisig_call c" and "ids_ok (view s)"
    and "tallied s" and "fits s'"
  shows "tallied s'"
proof (cases c)
  case (Flow d)
  with assms show ?thesis
    by (cases d) (auto simp: module_call_def multisig_call_def elim!: postE intro: other_creations_tallied(3)
        flow_handlers_sheet [THEN tallied_sheet])
qed (use assms in \<open>auto simp: module_call_def intro: att_call_tallied
      admin_call_sheet [THEN tallied_sheet] registry_call_sheet [THEN tallied_sheet]\<close>)

subsection \<open>Histories\<close>

text \<open>The number of records is finite and never falls, so a bound on the last state bounds all before it.\<close>

lemma vstep_finite: "vstep m rw v w \<Longrightarrow> finite (dom (vw_entry v)) \<Longrightarrow> finite (dom (vw_entry w))"
  by (erule vstep.cases) auto

lemma reachable_finite: "reachable m s \<Longrightarrow> finite (dom (attestation_entry (atts s)))"
proof (induction rule: reachable.induct)
  case (invoked s e c s')
  have "ids_ok (view s)" using reachable_view_ok [OF invoked.hyps(1)] by (simp add: view_ok_def)
  from exec_vsteps [OF invoked.hyps(2-4) this] have "finite (dom (vw_entry (view s')))"
    by (induction rule: rtranclp_induct) (use invoked.IH vstep_finite in \<open>auto simp: view_def\<close>)
  then show ?case by (simp add: view_def)
qed (simp add: empty_storage_def)

lemma exec_records_grow:
  assumes "reachable m s" and "reachable m s'" and "exec e c s = Inr s'" and "\<not> multisig_call c"
  shows "count_records (\<lambda>_. True) (attestation_entry (atts s)) \<le> count_records (\<lambda>_. True) (attestation_entry (atts s'))"
proof -
  have "ids_ok (view s)" using reachable_view_ok [OF assms(1)] by (simp add: view_ok_def)
  then have "(vstep False False)\<^sup>*\<^sup>* (view s) (view s')" using exec_vsteps_fresh [OF assms(3,4)] by simp
  from vsteps_evolves [OF this] have "dom (attestation_entry (atts s)) \<subseteq> dom (attestation_entry (atts s'))"
    by (force simp: view_def)
  from card_mono [OF reachable_finite [OF assms(2)] this] show ?thesis by (simp add: count_records_def dom_def)
qed

text \<open>A sequence of invocations, each in its own environment.\<close>

definition run :: "(env \<times> call) list \<Rightarrow> storage \<Rightarrow> storage res" where
  "run = for_each (\<lambda>(e, c). exec e c)"

definition plain :: "call \<Rightarrow> bool" where
  "plain c \<longleftrightarrow> module_call c \<and> \<not> multisig_call c"

lemma run_snoc: "run (h @ [(e, c)]) s = Inr u \<longleftrightarrow> (\<exists>t. run h s = Inr t \<and> exec e c t = Inr u)"
  by (auto simp: run_def for_each_append flow)

lemma plain_reachable:
  assumes "reachable True s" and "exec e c s = Inr s'" and "plain c"
  shows "reachable True s'"
proof (rule reachable.invoked [OF assms(1,2)])
  show "no_clash e c s"
    using assms(3) by (auto simp: no_clash_def plain_def multisig_call_def split: call.splits flow_call.splits)
qed (use assms(3) in \<open>simp add: plain_def\<close>)

lemma deployed_tallied: "tallied empty_storage"
  by (simp add: tallied_def behind_def sheet_def readers count_records_def empty_storage_def)

lemma run_tallied:
  assumes "run h empty_storage = Inr s" and "\<forall>(e, c) \<in> set h. plain c"
  shows "reachable True s \<and> (fits s \<longrightarrow> tallied s)"
  using assms
proof (induction h arbitrary: s rule: rev_induct)
  case Nil
  then have "s = empty_storage" by (simp add: run_def)
  then show ?case by (simp add: reachable.deployed deployed_tallied)
next
  case (snoc x h)
  obtain e c where x: "x = (e, c)" by (cases x)
  with snoc.prems obtain t where t: "run h empty_storage = Inr t" and one: "exec e c t = Inr s" and c: "plain c"
    by (auto simp: run_snoc)
  from snoc.IH [OF t] snoc.prems(2) have rt: "reachable True t" and ft: "fits t \<longrightarrow> tallied t" by auto
  have rs: "reachable True s" by (rule plain_reachable [OF rt one c])
  have ids: "ids_ok (view t)" using reachable_view_ok [OF rt] by (simp add: view_ok_def)
  have grow: "count_records (\<lambda>_. True) (attestation_entry (atts t)) \<le> count_records (\<lambda>_. True) (attestation_entry (atts s))"
    using exec_records_grow [OF rt rs one] c by (simp add: plain_def)
  show ?case
  proof (intro conjI impI rs)
    assume "fits s"
    with grow ft have "tallied t" by simp
    with c ids \<open>fits s\<close> show "tallied s" by (intro exec_tallied [OF one]) (simp_all add: plain_def)
  qed
qed

text \<open>C12: The statistics are exact.  After any history of calls of the module handlers, the multi-signature
  workflow apart, the counters say how many attestations are stored, how many of them are revoked, and, for
  each issuer, of how many it is the issuer of record, so long as the number of attestations fits 64 bits;
  the health check reports the same number.\<close>

theorem statistics_exact:
  assumes "run h empty_storage = Inr s" and "\<forall>(e, c) \<in> set h. plain c"
    and "card (dom (attestation_entry (atts s))) < 2 ^ 64"
  shows "unat (total_attestations (Storage_get_global_stats s)) = card (dom (attestation_entry (atts s))) \<and>
    unat (total_revocations (Storage_get_global_stats s)) =
      card {i. \<exists>a. attestation_entry (atts s) i = Some a \<and> att_revoked a} \<and>
    (\<forall>k. unat (total_issued (get_issuer_stats k s)) =
      card {i. \<exists>a. attestation_entry (atts s) i = Some a \<and> att_issuer a = k}) \<and>
    unat (hs_total_attestations (health_check s)) = card (dom (attestation_entry (atts s)))"
proof -
  have all: "count_records (\<lambda>_. True) (attestation_entry (atts s)) = card (dom (attestation_entry (atts s)))"
    by (simp add: count_records_def dom_def)
  with run_tallied [OF assms(1,2)] assms(3) have "tallied s" by simp
  then have "behind 0 k 0 (sheet s)" for k using tallied_behind by blast
  then show ?thesis
    by (simp add: behind_def sheet_def all get_issuer_stats_def health_check_def Let_def) (simp add: count_records_def)
qed

theorem statistics_exact_witness:
  "run [(host_at 10, Admin (C_initialize (Address 5) None)),
        (host_at 11, Registry (C_register_issuer (Address 5) (Address 2))),
        (host_at 12, Att (C_create_attestation (Address 2) (Address 3) ''KYC'' None None None))] empty_storage = Inr state_3 \<and>
   unat (total_issued (get_issuer_stats (Address 2) state_3)) = 1 \<and> unat (hs_total_attestations (health_check state_3)) = 1"
proof -
  have r: "run [(host_at 10, Admin (C_initialize (Address 5) None)),
        (host_at 11, Registry (C_register_issuer (Address 5) (Address 2))),
        (host_at 12, Att (C_create_attestation (Address 2) (Address 3) ''KYC'' None None None))] empty_storage = Inr state_3"
    by (simp only: run_def for_each.simps prod.case exec_1 exec_2 exec_3 and_then_simps)
  from statistics_exact [OF r] r show ?thesis by (simp add: plain_def module_call_def multisig_call_def)
qed

text \<open>The number of issuers is not exact: it counts registrations, also repeated ones.\<close>

lemma repeated_registration_counts:
  assumes "register_issuer e a i s = Inr (u, s')" and "is_issuer i s"
  shows "(\<forall>k. is_issuer k s' = is_issuer k s) \<and>
    hs_issuer_count (health_check s') = saturating_add (hs_issuer_count (health_check s)) 1"
  using assms unfolding register_issuer_def Storage_add_issuer_def Let_def writers
  by (elim steps) (auto simp: is_issuer_def health_check_def readers Let_def event_defs)

end
