(* ===== verification/TL_Wrapper.thy ===== *)
theory TL_Wrapper
  imports TL_Indexing
begin

section \<open>The two implementations of the chunked index\<close>

text \<open>
  \<^verbatim>\<open>storage.rs\<close> defines \<^verbatim>\<open>ChunkedIndex\<close> twice: first as a thin wrapper that delegates to the flat lists, with the
  comment that it provides the API \<^verbatim>\<open>attestation.rs\<close> and \<^verbatim>\<open>query.rs\<close> expect, and further down with chunks of fifty
  ids.  The wrapper (\<open>FlatIndex\<close> here) is the reference implementation of the other.  This theory models its
  operations, states the interface both implement as a locale over calls and queries, interprets it on
  both, and concludes that no client can tell them apart.
\<close>

subsection \<open>The wrapper\<close>

definition FlatIndex_add_subject :: "address \<Rightarrow> string \<Rightarrow> storage \<Rightarrow> storage res" where
  "FlatIndex_add_subject subject i s = Storage_add_subject_attestation subject i s"

definition FlatIndex_add_issuer :: "address \<Rightarrow> string \<Rightarrow> storage \<Rightarrow> storage res" where
  "FlatIndex_add_issuer issuer i s = Storage_add_issuer_attestation issuer i s"

definition FlatIndex_add_issuer_bulk :: "address \<Rightarrow> string list \<Rightarrow> storage \<Rightarrow> storage res" where
  "FlatIndex_add_issuer_bulk issuer ids s = for_each (Storage_add_issuer_attestation issuer) ids s"

definition FlatIndex_remove_subject :: "address \<Rightarrow> string \<Rightarrow> storage \<Rightarrow> storage res" where
  "FlatIndex_remove_subject subject i s = Storage_remove_subject_attestation subject i s"

definition FlatIndex_remove_issuer :: "address \<Rightarrow> string \<Rightarrow> storage \<Rightarrow> storage res" where
  "FlatIndex_remove_issuer issuer i s = Storage_remove_issuer_attestation issuer i s"

definition FlatIndex_get_subject_page :: "address \<Rightarrow> u32 \<Rightarrow> u32 \<Rightarrow> storage \<Rightarrow> string list res" where
  "FlatIndex_get_subject_page subject start limit s =
     (let ids = Storage_get_subject_attestations subject s in paginate ids start limit)"

definition FlatIndex_get_issuer_page :: "address \<Rightarrow> u32 \<Rightarrow> u32 \<Rightarrow> storage \<Rightarrow> string list res" where
  "FlatIndex_get_issuer_page issuer start limit s =
     (let ids = Storage_get_issuer_attestations issuer s in paginate ids start limit)"

definition FlatIndex_subject_count :: "address \<Rightarrow> storage \<Rightarrow> u32" where
  "FlatIndex_subject_count subject s = of_nat (length (Storage_get_subject_attestations subject s))"

definition FlatIndex_issuer_count :: "address \<Rightarrow> storage \<Rightarrow> u32" where
  "FlatIndex_issuer_count issuer s = of_nat (length (Storage_get_issuer_attestations issuer s))"

definition FlatIndex_get_subject_all :: "address \<Rightarrow> storage \<Rightarrow> string list" where
  "FlatIndex_get_subject_all subject s = Storage_get_subject_attestations subject s"

subsection \<open>The interface\<close>

datatype index_call =
    I_add_subject address string
  | I_add_issuer address string
  | I_add_issuer_bulk address "string list"
  | I_remove_subject address string
  | I_remove_issuer address string

datatype index_query =
    I_subject_page address u32 u32
  | I_issuer_page address u32 u32
  | I_subject_count address
  | I_issuer_count address
  | I_subject_all address

datatype index_answer = Ids "string list" | Count u32

primrec flat_call :: "index_call \<Rightarrow> storage \<Rightarrow> storage res" where
  "flat_call (I_add_subject x i) = FlatIndex_add_subject x i"
| "flat_call (I_add_issuer k i) = FlatIndex_add_issuer k i"
| "flat_call (I_add_issuer_bulk k is) = FlatIndex_add_issuer_bulk k is"
| "flat_call (I_remove_subject x i) = FlatIndex_remove_subject x i"
| "flat_call (I_remove_issuer k i) = FlatIndex_remove_issuer k i"

primrec flat_query :: "index_query \<Rightarrow> storage \<Rightarrow> index_answer res" where
  "flat_query (I_subject_page x b n) s = and_then (FlatIndex_get_subject_page x b n s) (\<lambda>l. Inr (Ids l))"
| "flat_query (I_issuer_page k b n) s = and_then (FlatIndex_get_issuer_page k b n s) (\<lambda>l. Inr (Ids l))"
| "flat_query (I_subject_count x) s = Inr (Count (FlatIndex_subject_count x s))"
| "flat_query (I_issuer_count k) s = Inr (Count (FlatIndex_issuer_count k s))"
| "flat_query (I_subject_all x) s = Inr (Ids (FlatIndex_get_subject_all x s))"

primrec chunked_call :: "index_call \<Rightarrow> storage \<Rightarrow> storage res" where
  "chunked_call (I_add_subject x i) = ChunkedIndex_add_subject x i"
| "chunked_call (I_add_issuer k i) = ChunkedIndex_add_issuer k i"
| "chunked_call (I_add_issuer_bulk k is) = ChunkedIndex_add_issuer_bulk k is"
| "chunked_call (I_remove_subject x i) = ChunkedIndex_remove_subject x i"
| "chunked_call (I_remove_issuer k i) = ChunkedIndex_remove_issuer k i"

primrec chunked_query :: "index_query \<Rightarrow> storage \<Rightarrow> index_answer res" where
  "chunked_query (I_subject_page x b n) s = and_then (ChunkedIndex_get_subject_page x b n s) (\<lambda>l. Inr (Ids l))"
| "chunked_query (I_issuer_page k b n) s = and_then (ChunkedIndex_get_issuer_page k b n s) (\<lambda>l. Inr (Ids l))"
| "chunked_query (I_subject_count x) s = and_then (ChunkedIndex_subject_count x s) (\<lambda>n. Inr (Count n))"
| "chunked_query (I_issuer_count k) s = and_then (ChunkedIndex_issuer_count k s) (\<lambda>n. Inr (Count n))"
| "chunked_query (I_subject_all x) s = and_then (ChunkedIndex_get_subject_all x s) (\<lambda>l. Inr (Ids l))"

text \<open>What calls and queries mean on the lists themselves, and how many ids a call adds.\<close>

type_synonym id_lists = "(address \<Rightarrow> string list) \<times> (address \<Rightarrow> string list)"

primrec list_call :: "index_call \<Rightarrow> id_lists \<Rightarrow> id_lists" where
  "list_call (I_add_subject x i) = apfst (\<lambda>f. f(x := f x @ [i]))"
| "list_call (I_add_issuer k i) = apsnd (\<lambda>f. f(k := f k @ [i]))"
| "list_call (I_add_issuer_bulk k is) = apsnd (\<lambda>f. f(k := f k @ is))"
| "list_call (I_remove_subject x i) = apfst (\<lambda>f. f(x := without i (f x)))"
| "list_call (I_remove_issuer k i) = apsnd (\<lambda>f. f(k := without i (f k)))"

primrec list_query :: "index_query \<Rightarrow> id_lists \<Rightarrow> index_answer res" where
  "list_query (I_subject_page x b n) p = and_then (paginate (fst p x) b n) (\<lambda>l. Inr (Ids l))"
| "list_query (I_issuer_page k b n) p = and_then (paginate (snd p k) b n) (\<lambda>l. Inr (Ids l))"
| "list_query (I_subject_count x) p = Inr (Count (of_nat (length (fst p x))))"
| "list_query (I_issuer_count k) p = Inr (Count (of_nat (length (snd p k))))"
| "list_query (I_subject_all x) p = Inr (Ids (fst p x))"

primrec growth :: "index_call \<Rightarrow> nat" where
  "growth (I_add_subject x i) = 1"
| "growth (I_add_issuer k i) = 1"
| "growth (I_add_issuer_bulk k is) = length is"
| "growth (I_remove_subject x i) = 0"
| "growth (I_remove_issuer k i) = 0"

definition room :: "nat \<Rightarrow> id_lists \<Rightarrow> bool" where
  "room n p \<longleftrightarrow> (\<forall>a. length (fst p a) + n < 2 ^ 32 \<and> length (snd p a) + n < 2 ^ 32)"

lemma room_less: "room n p \<Longrightarrow> m \<le> n \<Longrightarrow> room m p"
  unfolding room_def by (meson add_le_cancel_left le_less_trans)

lemma list_call_growth:
  "length (fst (list_call c p) a) \<le> length (fst p a) + growth c"
  "length (snd (list_call c p) a) \<le> length (snd p a) + growth c"
  by (cases c; cases p; simp add: length_without_le)+

lemma list_call_room:
  assumes "room (growth c + n) p" shows "room n (list_call c p)"
  unfolding room_def
proof
  fix a
  have "length (fst p a) + (growth c + n) < 2 ^ 32" "length (snd p a) + (growth c + n) < 2 ^ 32"
    using assms unfolding room_def by blast+
  then show "length (fst (list_call c p) a) + n < 2 ^ 32 \<and> length (snd (list_call c p) a) + n < 2 ^ 32"
    using list_call_growth [of c p a] by linarith
qed

locale attestation_index =
  fixes lists :: "storage \<Rightarrow> id_lists"
    and wf :: "storage \<Rightarrow> bool"
    and call_index :: "index_call \<Rightarrow> storage \<Rightarrow> storage res"
    and ask_index :: "index_query \<Rightarrow> storage \<Rightarrow> index_answer res"
  assumes call_law: "wf s \<Longrightarrow> room (growth c) (lists s) \<Longrightarrow>
      \<exists>s'. call_index c s = Inr s' \<and> wf s' \<and> lists s' = list_call c (lists s)"
    and ask_law: "wf s \<Longrightarrow> ask_index q s = list_query q (lists s)"
begin

lemma calls_follow_lists:
  assumes "wf s" and "room (sum_list (map growth cs)) (lists s)"
  shows "\<exists>s'. for_each call_index cs s = Inr s' \<and> wf s' \<and> lists s' = fold list_call cs (lists s)"
  using assms
proof (induction cs arbitrary: s)
  case (Cons c cs)
  obtain t where t: "call_index c s = Inr t" "wf t" "lists t = list_call c (lists s)"
    using call_law [OF Cons.prems(1), of c] room_less [OF Cons.prems(2), of "growth c"] by auto
  with Cons.IH [OF t(2)] list_call_room [of c "sum_list (map growth cs)" "lists s"] Cons.prems(2)
  show ?case by simp
qed simp

lemma answers_follow_lists:
  assumes "wf s" and "room (sum_list (map growth cs)) (lists s)"
  shows "and_then (for_each call_index cs s) (ask_index q) = list_query q (fold list_call cs (lists s))"
  using calls_follow_lists [OF assms] ask_law by auto

end

subsection \<open>Both implement it\<close>

definition flat_lists :: "storage \<Rightarrow> id_lists" where
  "flat_lists s = (\<lambda>x. Storage_get_subject_attestations x s, \<lambda>k. Storage_get_issuer_attestations k s)"

definition chunked_lists :: "storage \<Rightarrow> id_lists" where
  "chunked_lists s = (\<lambda>x. chunked_subject_list x s, \<lambda>k. chunked_issuer_list k s)"

lemmas flat_ops = FlatIndex_add_subject_def FlatIndex_add_issuer_def FlatIndex_add_issuer_bulk_def
  FlatIndex_remove_subject_def FlatIndex_remove_issuer_def FlatIndex_get_subject_page_def
  FlatIndex_get_issuer_page_def FlatIndex_subject_count_def FlatIndex_issuer_count_def
  FlatIndex_get_subject_all_def

lemma flat_bulk:
  "ttl_ok s \<Longrightarrow> \<exists>s'. for_each (Storage_add_issuer_attestation k) is s = Inr s' \<and> ttl_ok s' \<and>
     flat_lists s' = list_call (I_add_issuer_bulk k is) (flat_lists s)"
proof (induction "is" arbitrary: s)
  case (Cons i "is")
  obtain t where t: "Storage_add_issuer_attestation k i s = Inr t" "ttl_ok t"
    "flat_lists t = list_call (I_add_issuer k i) (flat_lists s)"
    using Cons.prems by (simp add: flat_lists_def index_defs fun_eq_iff)
  have "list_call (I_add_issuer_bulk k is) (list_call (I_add_issuer k i) p) = list_call (I_add_issuer_bulk k (i # is)) p" for p
    by (cases p) simp
  with Cons.IH [OF t(2)] t show ?case by auto
qed (simp add: flat_lists_def)

interpretation flat_index: attestation_index flat_lists ttl_ok flat_call flat_query
proof unfold_locales
  fix s c assume "ttl_ok s"
  then show "\<exists>s'. flat_call c s = Inr s' \<and> ttl_ok s' \<and> flat_lists s' = list_call c (flat_lists s)"
    using flat_bulk
    by (cases c) (auto simp: flat_ops flat_lists_def index_defs fun_eq_iff)
next
  fix s q show "flat_query q s = list_query q (flat_lists s)"
    by (cases q) (simp_all add: flat_ops flat_lists_def)
qed

text \<open>An update of one side of the chunked index leaves the other alone.\<close>

lemma chunked_subject_update:
  assumes "storage_ok s"
    and "\<exists>s'. r = Inr s' \<and> subject_chunks_ok s' \<and> chunked_subject_list x s' = l \<and>
      (\<forall>y. y \<noteq> x \<longrightarrow> chunked_subject_list y s' = chunked_subject_list y s)"
    and "\<And>s'. r = Inr s' \<Longrightarrow> \<exists>c. chunk_frame (\<lambda>t. t\<lparr>subject_chunk := (subject_chunk t)(x := c)\<rparr>) s s'"
  shows "\<exists>s'. r = Inr s' \<and> storage_ok s' \<and> chunked_lists s' = apfst (\<lambda>g. g(x := l)) (chunked_lists s)"
proof -
  from assms(2) obtain s' where s': "r = Inr s'" "subject_chunks_ok s'" "chunked_subject_list x s' = l"
    "\<forall>y. y \<noteq> x \<longrightarrow> chunked_subject_list y s' = chunked_subject_list y s" by blast
  have "issuer_chunk (atts s') = issuer_chunk (atts s)" "inst s' = inst s"
    using assms(3) [OF s'(1)] by (auto simp: chunk_frame_def)
  from issuer_chunks_ok_cong [OF this] s' assms(1) show ?thesis
    by (auto simp: storage_ok_def chunked_lists_def)
qed

lemma chunked_issuer_update:
  assumes "storage_ok s"
    and "\<exists>s'. r = Inr s' \<and> issuer_chunks_ok s' \<and> chunked_issuer_list k s' = l \<and>
      (\<forall>y. y \<noteq> k \<longrightarrow> chunked_issuer_list y s' = chunked_issuer_list y s)"
    and "\<And>s'. r = Inr s' \<Longrightarrow> \<exists>c. chunk_frame (\<lambda>t. t\<lparr>issuer_chunk := (issuer_chunk t)(k := c)\<rparr>) s s'"
  shows "\<exists>s'. r = Inr s' \<and> storage_ok s' \<and> chunked_lists s' = apsnd (\<lambda>g. g(k := l)) (chunked_lists s)"
proof -
  from assms(2) obtain s' where s': "r = Inr s'" "issuer_chunks_ok s'" "chunked_issuer_list k s' = l"
    "\<forall>y. y \<noteq> k \<longrightarrow> chunked_issuer_list y s' = chunked_issuer_list y s" by blast
  have "subject_chunk (atts s') = subject_chunk (atts s)" "inst s' = inst s"
    using assms(3) [OF s'(1)] by (auto simp: chunk_frame_def)
  from subject_chunks_ok_cong [OF this] s' assms(1) show ?thesis
    by (auto simp: storage_ok_def chunked_lists_def)
qed

lemma chunked_call_law:
  assumes ok: "storage_ok s" and room: "room (growth c) (chunked_lists s)"
  shows "\<exists>s'. chunked_call c s = Inr s' \<and> storage_ok s' \<and> chunked_lists s' = list_call c (chunked_lists s)"
proof -
  have s: "subject_chunks_ok s" and i: "issuer_chunks_ok s" using ok by (simp_all add: storage_ok_def)
  show ?thesis
  proof (cases c)
    case (I_add_subject x j)
    with room have "Suc (length (chunked_subject_list x s)) < 2 ^ 32" by (simp add: room_def chunked_lists_def)
    from chunked_subject_update [OF ok chunked_subject.add_law [OF s this, of j] ChunkedIndex_add_subject_frame]
    show ?thesis using I_add_subject by (simp add: chunked_lists_def)
  next
    case (I_add_issuer k j)
    with room have "Suc (length (chunked_issuer_list k s)) < 2 ^ 32" by (simp add: room_def chunked_lists_def)
    from chunked_issuer_update [OF ok chunked_issuer.add_law [OF i this, of j] ChunkedIndex_add_issuer_frame]
    show ?thesis using I_add_issuer by (simp add: chunked_lists_def)
  next
    case (I_add_issuer_bulk k js)
    with room have "length (chunked_issuer_list k s) + length js < 2 ^ 32" by (simp add: room_def chunked_lists_def)
    from chunked_issuer_update [OF ok chunked_issuer.bulk_law [OF i this] ChunkedIndex_add_issuer_bulk_frame]
    show ?thesis using I_add_issuer_bulk by (simp add: chunked_lists_def)
  next
    case (I_remove_subject x j)
    from chunked_subject_update [OF ok chunked_subject.remove_law [OF s, of x j] ChunkedIndex_remove_subject_frame]
    show ?thesis using I_remove_subject by (simp add: chunked_lists_def)
  next
    case (I_remove_issuer k j)
    from chunked_issuer_update [OF ok chunked_issuer.remove_law [OF i, of k j] ChunkedIndex_remove_issuer_frame]
    show ?thesis using I_remove_issuer by (simp add: chunked_lists_def)
  qed
qed

interpretation chunked_index: attestation_index chunked_lists storage_ok chunked_call chunked_query
proof (unfold_locales, rule chunked_call_law, assumption, assumption)
  fix s q assume "storage_ok s"
  then have "ChunkedIndex_get_subject_ids x s = Inr (chunked_subject_list x s)"
    "ChunkedIndex_get_issuer_ids x s = Inr (chunked_issuer_list x s)" for x
    using subject_chunks_ok_read issuer_chunks_ok_read by (simp_all add: storage_ok_def)
  then show "chunked_query q s = list_query q (chunked_lists s)"
    by (cases q) (simp_all add: ChunkedIndex_get_subject_page_def ChunkedIndex_get_issuer_page_def
        ChunkedIndex_subject_count_def ChunkedIndex_issuer_count_def ChunkedIndex_get_subject_all_def chunked_lists_def)
qed

text \<open>C28: The two implementations of \<^verbatim>\<open>ChunkedIndex\<close> are observationally equivalent: from states in which they hold the
  same lists, after any sequence of calls, both answer every query alike, traps of a page whose end does
  not fit 32 bits included.\<close>

theorem index_implementations_equivalent:
  assumes "storage_ok s" and "flat_lists s = chunked_lists s"
    and "room (sum_list (map growth cs)) (chunked_lists s)"
  shows "and_then (for_each chunked_call cs s) (chunked_query q) = and_then (for_each flat_call cs s) (flat_query q)"
  using chunked_index.answers_follow_lists [OF assms(1,3)] flat_index.answers_follow_lists [of s cs q] assms
    storage_ok_ttl [OF assms(1)] by simp

theorem index_implementations_equivalent_witness:
  "and_then (for_each chunked_call [I_add_subject (Address 3) ''a'', I_add_issuer_bulk (Address 2) [''a'', ''b''],
      I_remove_issuer (Address 2) ''a''] empty_storage) (chunked_query (I_issuer_page (Address 2) 0 10)) =
   Inr (Ids [''b''])"
proof -
  have ok: "storage_ok empty_storage" using deployed_chunks_ok by (simp add: storage_ok_def)
  have l: "flat_lists empty_storage = (\<lambda>_. [], \<lambda>_. [])" "chunked_lists empty_storage = (\<lambda>_. [], \<lambda>_. [])"
    by (simp_all add: flat_lists_def chunked_lists_def deployed_chunks_ok fun_eq_iff)
      (simp_all add: readers empty_storage_def)
  show ?thesis
    by (subst index_implementations_equivalent [OF ok])
      (simp_all add: l room_def, simp add: flat_ops index_defs ttl_ok_def empty_storage_def paginate_eq)
qed

end
