(* ===== verification/TL_Fulfilment.thy ===== *)
theory TL_Fulfilment
  imports TL_Lifecycle
begin

section \<open>From a request to an answer\<close>

text \<open>
  The workflow of \<^verbatim>\<open>src/src/request.rs\<close> seen from its end: when an issuer can fulfil a request
  (\<open>fulfilment_allowed\<close> gathers the guards of the handler), that it then does, and that from then on the
  claim check of \<^verbatim>\<open>src/src/query.rs\<close> answers for the subject who asked, until the attestation expires.
\<close>

definition fulfilment_allowed :: "env \<Rightarrow> address \<Rightarrow> attestation_request \<Rightarrow> u64 option \<Rightarrow> storage \<Rightarrow> bool" where
  "fulfilment_allowed e issuer q expiration s \<longleftrightarrow>
     authorised e issuer \<and> \<not> Storage_is_paused s \<and> Storage_is_issuer issuer s \<and>
     req_issuer q = issuer \<and> req_status q = Req_Pending \<and> timestamp e < req_expires_at q \<and>
     validate_native_expiration e expiration = Inr () \<and>
     \<not> Storage_has_attestation (generate_id e issuer (req_subject q) (req_claim_type q) (timestamp e)) s \<and>
     length (Storage_get_issuer_attestations issuer s)
       < unat (max_attestations_per_issuer (Storage_get_limits s)) \<and>
     length (Storage_get_subject_attestations (req_subject q) s)
       < unat (max_attestations_per_subject (Storage_get_limits s))"

definition fulfilled_attestation ::
  "env \<Rightarrow> address \<Rightarrow> attestation_request \<Rightarrow> u64 option \<Rightarrow> attestation" where
  "fulfilled_attestation e issuer q expiration =
     native_attestation e issuer (req_subject q) (req_claim_type q) expiration None None None None"

lemma fulfil_request_Inr:
  "fulfill_request e issuer r x s = Inr (i, s') \<longleftrightarrow>
     (\<exists>q. request_entry (flow_st s) r = Some q \<and> fulfilment_allowed e issuer q x s \<and>
        i = generate_id e issuer (req_subject q) (req_claim_type q) (timestamp e) \<and>
        (\<exists>s1 s2 s3. store_attestation (fulfilled_attestation e issuer q x) s = Inr s1 \<and>
           Storage_set_request (q\<lparr>req_status := Req_Fulfilled\<rparr>)
             (Events_attestation_created (fulfilled_attestation e issuer q x) s1) = Inr s2 \<and>
           Storage_remove_pending_request issuer r s2 = Inr s3 \<and>
           s' = Events_request_fulfilled r issuer i s3))"
  unfolding fulfill_request_def Let_def fulfilment_allowed_def fulfilled_attestation_def
    native_attestation_def and_then_Inr ensure_Inr require_auth_Inr require_not_paused_Inr
    require_issuer_Inr Storage_get_request_def ok_or_Inr not_le
  by auto

lemma set_flow_ok: "ttl_ok s \<Longrightarrow> \<exists>s'. set_flow k u s = Inr s' \<and> ttl_ok s'"
  by (auto simp: set_flow_Inr ttl_ok_def)

lemma fulfil_request_progress:
  assumes "request_entry (flow_st s) r = Some q" and "fulfilment_allowed e issuer q x s"
    and "storage_ok s" and "Suc (length (chunked_subject_list (req_subject q) s)) < 2 ^ 32"
    and "Suc (length (chunked_issuer_list issuer s)) < 2 ^ 32"
    and "Suc (unat (total_issued (Storage_get_issuer_stats issuer s))) < 2 ^ 64"
  shows "\<exists>i s'. fulfill_request e issuer r x s = Inr (i, s')"
proof -
  let ?a = "fulfilled_attestation e issuer q x"
  have a: "att_subject ?a = req_subject q" "att_issuer ?a = issuer"
    by (simp_all add: fulfilled_attestation_def native_attestation_def)
  obtain s1 where 1: "store_attestation ?a s = Inr s1" "storage_ok s1"
    by (rule store_attestation_succeeds [OF assms(3), of ?a]) (use assms(4-6) a in simp_all)
  have "ttl_ok (Events_attestation_created ?a s1)"
    using storage_ok_ttl [OF 1(2)] by (simp add: ttl_ok_def event_defs)
  then obtain s2 where 2: "Storage_set_request (q\<lparr>req_status := Req_Fulfilled\<rparr>)
      (Events_attestation_created ?a s1) = Inr s2" "ttl_ok s2"
    using set_flow_ok unfolding Storage_set_request_def by blast
  obtain s3 where "Storage_remove_pending_request issuer r s2 = Inr s3"
    using set_flow_ok [OF 2(2)] unfolding Storage_remove_pending_request_def Let_def by blast
  with assms(1,2) 1 2 show ?thesis unfolding fulfil_request_Inr by blast
qed

lemma fulfil_request_registry:
  assumes "fulfill_request e issuer r x s = Inr (i, s')" and "request_entry (flow_st s) r = Some q"
  shows "attestation_entry (atts s') = (attestation_entry (atts s))(i \<mapsto> fulfilled_attestation e issuer q x)"
    and "valid_ids (atts s') = add_to (req_subject q) i (valid_ids (atts s))"
proof -
  let ?a = "fulfilled_attestation e issuer q x"
  obtain s1 s2 s3 where 1: "store_attestation ?a s = Inr s1"
    and 2: "Storage_set_request (q\<lparr>req_status := Req_Fulfilled\<rparr>) (Events_attestation_created ?a s1) = Inr s2"
    and 3: "Storage_remove_pending_request issuer r s2 = Inr s3"
    and s': "s' = Events_request_fulfilled r issuer i s3"
    and i: "i = att_id ?a" "att_subject ?a = req_subject q"
    using assms unfolding fulfil_request_Inr
    by (auto simp: fulfilled_attestation_def native_attestation_def)
  have "atts s' = atts s1"
    using 2 3 s' unfolding writers Let_def by (elim steps) (simp add: event_defs)
  with store_attestation_effect [OF 1] i
  show "attestation_entry (atts s') = (attestation_entry (atts s))(i \<mapsto> ?a)"
    "valid_ids (atts s') = add_to (req_subject q) i (valid_ids (atts s))" by simp_all
qed

lemma fulfilled_claim_holds:
  assumes "fulfill_request e issuer r x s = Inr (i, s')" and "request_entry (flow_st s) r = Some q"
    and "\<And>v. x = Some v \<Longrightarrow> timestamp e' < v"
  shows "fst (has_valid_claim e' (req_subject q) (req_claim_type q) s')"
proof -
  have "get_status (fulfilled_attestation e issuer q x) (timestamp e') = St_Valid"
    "att_claim_type (fulfilled_attestation e issuer q x) = req_claim_type q"
    using assms(3) by (simp_all add: get_status_Valid fulfilled_attestation_def native_attestation_def)
  moreover have "i \<in> set (Storage_get_valid_attestations (req_subject q) s')"
    using fulfil_request_registry(2) [OF assms(1,2)]
    by (simp add: Storage_get_valid_attestations_def index_ops)
  ultimately show ?thesis
    using fulfil_request_registry(1) [OF assms(1,2)]
    by (auto simp: has_valid_claim_def scan_valid_claim_iff)
qed

text \<open>C10: With room in the indexes and counters, a request can be fulfilled exactly by the issuer it names,
  while it is pending and unexpired and the registry accepts the attestation; no fee, whitelist or rate limit
  is consulted.  From then on the subject's claim check is true until the chosen expiration, and the request is
  closed and gone from the issuer's pending list.\<close>

theorem fulfilment_grants_claim:
  assumes "request_entry (flow_st s) r = Some q" and "req_id q = r"
    and "storage_ok s" and "Suc (length (chunked_subject_list (req_subject q) s)) < 2 ^ 32"
    and "Suc (length (chunked_issuer_list issuer s)) < 2 ^ 32"
    and "Suc (unat (total_issued (Storage_get_issuer_stats issuer s))) < 2 ^ 64"
  shows "((\<exists>i s'. fulfill_request e issuer r x s = Inr (i, s')) \<longleftrightarrow> fulfilment_allowed e issuer q x s) \<and>
    (\<forall>i s' e'. fulfill_request e issuer r x s = Inr (i, s') \<longrightarrow>
       (\<forall>v. x = Some v \<longrightarrow> timestamp e' < v) \<longrightarrow>
       fst (has_valid_claim e' (req_subject q) (req_claim_type q) s') \<and>
       request_entry (flow_st s') r = Some (q\<lparr>req_status := Req_Fulfilled\<rparr>) \<and>
       r \<notin> set (Storage_get_pending_request_ids issuer s'))"
proof (intro conjI allI impI)
  show "(\<exists>i s'. fulfill_request e issuer r x s = Inr (i, s')) \<longleftrightarrow> fulfilment_allowed e issuer q x s"
    using fulfil_request_progress [OF assms(1) _ assms(3-6)] assms(1) fulfil_request_Inr by fastforce
  fix i s' and e' :: env
  assume f: "fulfill_request e issuer r x s = Inr (i, s')" and x: "\<forall>v. x = Some v \<longrightarrow> timestamp e' < v"
  show "fst (has_valid_claim e' (req_subject q) (req_claim_type q) s')"
    using fulfilled_claim_holds [OF f assms(1)] x by blast
  show "request_entry (flow_st s') r = Some (q\<lparr>req_status := Req_Fulfilled\<rparr>)"
    "r \<notin> set (Storage_get_pending_request_ids issuer s')"
    using fulfill_request_effect [OF f] assms(1,2)
    by (auto simp: Storage_get_pending_request_ids_def list_of_def [symmetric])
qed

text \<open>The subject asks before it has any attestation.\<close>

definition asked_state :: storage where
  "asked_state = after (host_at 13) (Flow (C_request_attestation (Address 3) (Address 2) ''AML'')) state_2"

lemma asked_state:
  "exec (host_at 13) (Flow (C_request_attestation (Address 3) (Address 2) ''AML'')) state_2 = Inr asked_state \<and>
   inst asked_state = inst state_2 \<and> reg asked_state = reg state_2 \<and> atts asked_state = atts state_2 \<and>
   request_entry (flow_st asked_state) = [req_id aml_request \<mapsto> aml_request]"
  by (simp add: asked_state_def after_def evaluate state_defs request_attestation_def aml_valid
      aml_request_def new_request_def Let_def ATTESTATION_REQUEST_TTL_SECS_def)

lemma asked_state_room:
  "storage_ok asked_state" "chunked_subject_list a asked_state = []" "chunked_issuer_list a asked_state = []"
  "fulfilment_allowed (host_at 14) (Address 2) aml_request (Some 90) asked_state"
proof -
  have eq: "inst asked_state = inst state_2" "atts asked_state = atts state_2" "reg asked_state = reg state_2"
    using asked_state by simp_all
  then show "storage_ok asked_state" "chunked_subject_list a asked_state = []"
    "chunked_issuer_list a asked_state = []"
    using storage_ok_cong [of asked_state state_2] subject_chunks_ok_cong(2) [of asked_state state_2]
      issuer_chunks_ok_cong(2) [of asked_state state_2] state_2_storage_ok by simp_all
  show "fulfilment_allowed (host_at 14) (Address 2) aml_request (Some 90) asked_state"
    using eq by (simp add: fulfilment_allowed_def readers state_defs empty_storage_def default_limits_def
        aml_request_def new_request_def ATTESTATION_REQUEST_TTL_SECS_def flow)
qed

theorem fulfilment_grants_claim_witness:
  "\<exists>i s'. fulfill_request (host_at 14) (Address 2) (req_id aml_request) (Some 90) asked_state = Inr (i, s') \<and>
     fst (has_valid_claim (host_at 80) (Address 3) ''AML'' s')"
proof -
  have q: "req_subject aml_request = Address 3" "req_claim_type aml_request = ''AML''"
    by (simp_all add: aml_request_def new_request_def)
  have "Storage_get_issuer_stats (Address 2) asked_state = \<lparr>total_issued = 0\<rparr>"
    using asked_state by (simp add: readers state_defs empty_storage_def)
  then show ?thesis
    using fulfilment_grants_claim [of asked_state "req_id aml_request" aml_request "Address 2"
        "host_at 14" "Some 90"] asked_state asked_state_room q
    by (auto 4 3 dest!: spec [where x = "host_at 80"])
qed

end
