(* ===== verification/Spec2Isabelle.thy ===== *)
theory Spec2Isabelle
  imports TL_Basics TL_Indexing TL_Lifecycle TL_Governance TL_Copies TL_Clients TL_Typing TL_Queries TL_Changes TL_Registries TL_Statistics TL_Wrapper TL_Fulfilment
begin

text \<open>
  TrustLink is a Soroban smart contract: issuers appointed by an admin council attest claims about
  subjects (accounts), and other contracts ask whether a subject holds a valid claim.  This library
  models the contract under \<^verbatim>\<open>src/src\<close> and the example clients under \<^verbatim>\<open>src/examples\<close>, and proves what
  their parts promise.

  \<^bold>\<open>The program.\<close>  \<^verbatim>\<open>lib.rs\<close> holds the entry points; most forward to a module (\<^verbatim>\<open>admin.rs\<close>,
  \<^verbatim>\<open>attestation.rs\<close>, \<^verbatim>\<open>multisig.rs\<close>, \<^verbatim>\<open>request.rs\<close>, \<^verbatim>\<open>query.rs\<close>), some have bodies of their own.  All
  modules read and write one key-value store through \<^verbatim>\<open>storage.rs\<close>, check their input with
  \<^verbatim>\<open>validation.rs\<close>, publish events through \<^verbatim>\<open>events.rs\<close>, and share the types of \<^verbatim>\<open>types.rs\<close>, \<^verbatim>\<open>errors.rs\<close> and
  \<^verbatim>\<open>constants.rs\<close>.  An attestation record is indexed by subject and by issuer, twice each (a flat list and
  a list in chunks of fifty), and once more in the list \<^verbatim>\<open>has_valid_claim\<close> walks.

  \<^bold>\<open>The model.\<close>  A handler is a function from the environment of the invocation, its arguments and the
  state to an error or a result with the new state (type \<open>res\<close>); a panic, a failed \<^verbatim>\<open>require_auth\<close> and an
  arithmetic overflow (the release profile checks overflow) are the error \<open>Trap\<close>, a returned \<^verbatim>\<open>Error\<close> is
  \<open>Err\<close>.  An aborted invocation leaves no trace.  Machine integers are words of their width; checked and
  saturating operations are those of Rust.  The environment record \<open>env\<close> holds what is not code of the
  repository: the ledger clock, who authorised the call, SHA-256, XDR, and whether calls into the fee
  token succeed.

  \<^item> \<open>TL_Prelude\<close>: results, loops over lists (\<open>for_each\<close>), checked arithmetic, id lists, and the collections
    \<open>flow\<close> (what a successful step means) and \<open>steps\<close> (elimination rules that walk a handler).
  \<^item> \<open>TL_Types\<close>: \<^verbatim>\<open>types.rs\<close>, \<^verbatim>\<open>errors.rs\<close>, \<^verbatim>\<open>constants.rs\<close>; identifiers, status.
  \<^item> \<open>TL_State\<close>: the state as five records of maps (instance, registry, attestations, workflows, host), one
    field per variant of \<^verbatim>\<open>StorageKey\<close>, and the lifetime every write sets.
  \<^item> \<open>TL_Storage\<close>: the functions of \<^verbatim>\<open>impl Storage\<close>, one definition each.
  \<^item> \<open>TL_Events\<close>: \<^verbatim>\<open>events.rs\<close>.  \<open>TL_Validation\<close>: \<^verbatim>\<open>validation.rs\<close> and the validators of \<^verbatim>\<open>attestation.rs\<close>.
  \<^item> \<open>TL_Chunked\<close>: pagination and \<^verbatim>\<open>ChunkedIndex\<close>; the locales \<open>chunk_family\<close> (a family of chunk entries)
    and \<open>id_index\<close>, \<open>id_index_bulk\<close> (what handlers rely on), interpreted on the subject and issuer
    chunks, the three flat indexes and the pending-request lists.
  \<^item> \<open>TL_Attestation\<close>, \<open>TL_Multisig\<close>, \<open>TL_Request\<close>, \<open>TL_Query\<close>, \<open>TL_Admin\<close>: the modules, in the order of the
    source.  \<open>TL_Council\<close>: the bodies \<^verbatim>\<open>lib.rs\<close> has itself, names prefixed \<open>lib_\<close> where a module has one too.
  \<^item> \<open>TL_Creation\<close>: when a creation succeeds.  \<open>TL_Index\<close>: an abstract machine for records and indexes,
    its invariants, and the steps every handler takes in it.
  \<^item> \<open>TL_Contract\<close>: all state-changing entry points as one datatype, the dispatcher \<open>exec\<close>, and \<open>reachable\<close>.
    \<open>TL_Invariants\<close>: invariants of reachable states, roles, pausing.
  \<^item> \<open>TL_Scenario\<close>: a concrete history, evaluated by the simplifier, to which the properties are applied.
  \<^item> \<open>TL_Host\<close>: the five records read as the one key-value store of the host (\<open>entry\<close>), the operations the host
    offers as a step relation (\<open>host_step\<close>; a write needs the configured lifetime to fit), every call as a sequence of such
    steps, and the locale
    \<open>storage_invariant\<close>: what single steps keep, calls keep.  It is interpreted on the lifetimes of entries,
    on the trails that may only grow, and on the states that a lifetime too long has frozen.
  \<^item> \<open>TL_Typing\<close>: the shape of every stored value (\<open>value_ok\<close>) and that no call stores another.
  \<^item> \<open>TL_Attribution\<close>: on whose authority a call may add a record, for every call.  \<open>TL_Changes\<close>: who may
    change one, and how.
  \<^item> \<open>TL_Registries\<close>: issuers, bridges, claim types, delegations and templates against the lists kept of them.
    \<open>TL_Statistics\<close>: the counters against the records they count, over whole histories (\<open>run\<close>).
  \<^item> \<open>TL_Wrapper\<close>: the other \<^verbatim>\<open>ChunkedIndex\<close> of \<^verbatim>\<open>storage.rs\<close>, a wrapper over the flat lists (\<open>FlatIndex\<close>); the
    locale \<open>attestation_index\<close> is the interface of both and is interpreted on both.
  \<^item> \<open>TL_Listing\<close>: the chunked index of a subject against the list of valid attestations.
    \<open>TL_Queries\<close>: the entry points that answer, as datatypes with a dispatcher (\<open>exec_query\<close>).
  \<^item> \<open>TL_Clients\<close>: the three example contracts.  The registry they call is a parameter; the locales
    \<open>claim_registry\<close> and \<open>claims_registry\<close> say what they rely on and are interpreted on TrustLink's queries, and
    the insurer is put beside the registry as one system with interleaved calls (\<open>insured\<close>).
  \<^item> \<open>TL_Fulfilment\<close>: when a request can be fulfilled, and that the claim check then answers for the subject.
  \<^item> \<open>TL_Basics\<close>, \<open>TL_Indexing\<close>, \<open>TL_Lifecycle\<close>, \<open>TL_Answers\<close>, \<open>TL_Governance\<close>, \<open>TL_Copies\<close> and this theory:
    the properties.

  \<^bold>\<open>Reachable states.\<close>  \<open>reachable True\<close> admits calls of the module handlers only, \<open>reachable False\<close> also
  the bodies of \<^verbatim>\<open>lib.rs\<close> for bridging, batches, revocation, deletion, hooks and proposals, which keep fewer
  indexes.
  Neither path of \<^verbatim>\<open>multisig.rs\<close> checks whether an id is taken, so a step of the relation asks (\<open>no_clash\<close>)
  that such a call does not hit the id of another subject's record; ids are hashes, and
  \<open>generate_id_collision\<close> says that this takes a hash collision.

  \<^bold>\<open>What is shown.\<close>  Every call refines the abstract registry machine and (lemma \<open>exec_runs\<close>)
  is a sequence of host operations; the
  indexes stay consistent, exactly the stored entries have lifetimes, every stored value has the shape its
  key promises, audit trails and events only grow; the statistics count the records exactly and the listings of
  the registries are complete; the claim
  queries answer exactly from the records; records keep their identity and revocation is final; nobody
  becomes the issuer of a record without agreeing, and only issuer, subject or an admin can change one; calls
  need authorisation and role and respect a pause; creation and the fulfilment of a request
  succeed exactly under their conditions, and a fulfilled request makes the claim check true;
  effects of creation, batches, renewal, revocation, deletion, endorsement, fees and rate limits;
  queries change nothing, listings are complete and never show a deleted attestation;
  requests and proposals keep their invariants; chunked indexes, pages and renderings equal their
  list-level specifications, with the overflow cases written out, and the two implementations of the chunked
  index cannot be told apart; what holds only while the module handlers ran says so; the example contracts serve exactly the
  accounts whose records in the registry say so.  The theories \<open>TL_Governance\<close> and
  \<open>TL_Copies\<close>, the last lemma here, \<open>batch_creation_unpaid\<close>, \<open>removed_issuer_still_listed\<close> and
  \<open>repeated_registration_counts\<close> also prove behaviour the code does not intend: an admin who
  transfers to itself abandons the contract, with an excessive lifetime nothing is ever stored again, a council quorum
  is never consulted, a proposal may be impossible to finalise, a batch pays no fee, a removed issuer stays in the list of issuers, a repeated registration counts twice, and the bodies in \<^verbatim>\<open>lib.rs\<close> make
  \<^verbatim>\<open>has_valid_claim\<close> disagree with the records.

  \<^bold>\<open>Bounds.\<close>  Nothing uses fuel.  The chunk loops are total because their counter is 32 bits wide and checked;
  the digit loop because the number shrinks.  Lists longer than \<open>2 ^ 32\<close> cannot occur on the host and are
  excluded by hypotheses where a length is converted.

  \<^bold>\<open>Not modelled.\<close>  The sources are an unfinished merge: \<^verbatim>\<open>storage.rs\<close> repeats most functions several times
  (modelled is one complete copy whose reader and writer use the same key; other copies are cut off or
  use other keys, such as \<^verbatim>\<open>StorageLimits\<close> beside \<^verbatim>\<open>Limits\<close>), and some bodies do not type-check
  because they use fields or variables that do not exist: \<^verbatim>\<open>set_require_registered_claim_type\<close> of
  \<^verbatim>\<open>admin.rs\<close>, and in \<^verbatim>\<open>lib.rs\<close> \<^verbatim>\<open>create_template\<close>, \<^verbatim>\<open>create_attestation_from_template\<close>, \<^verbatim>\<open>get_config\<close>, the
  cursor query, the private council dispatcher over a type that does not exist, the second
  \<^verbatim>\<open>fulfill_request\<close> and \<^verbatim>\<open>reject_request\<close>; these are left out.  Three more are completed in the evident way: \<^verbatim>\<open>pause\<close>
  of \<^verbatim>\<open>lib.rs\<close> hands the event constructor a fourth argument, the reason, which \<^verbatim>\<open>contract_paused\<close> does not take
  (the event is published without it), \<^verbatim>\<open>issuer_tier_updated\<close> names two undeclared variables (the tier it is given
  is published), and \<^verbatim>\<open>paginate_addresses\<close> is cut off behind its loop (it returns what it collected).  Left out too is
  \<^verbatim>\<open>attestation_updated\<close> of \<^verbatim>\<open>events.rs\<close>,
  whose topic has two definitions and which nothing calls.  The copies of validators, queries and of the fee and
  hook helpers in \<^verbatim>\<open>lib.rs\<close> that repeat a module word for word are represented by the module's definition.  Tests,
  bindings, the indexer and the deployment scripts are not part of the model.  Expiry of ledger entries is not
  modelled: lifetimes are recorded, entries do not vanish; on the host an archived persistent entry is not lost
  but makes the invocations that touch it fail until it is restored.
\<close>

section \<open>The registry of attestations\<close>

text \<open>C2: Every successful call, of whichever entry point, is a sequence of steps of the abstract registry
  machine \<open>vstep\<close> on the records and the two id indexes: the handlers refine that machine.\<close>

theorem calls_refine_registry:
  assumes "reachable m s" and "exec e c s = Inr s'" and "no_clash e c s" and "m \<Longrightarrow> module_call c"
  shows "(vstep m True)\<^sup>*\<^sup>* (view s) (view s')"
  using exec_vsteps [OF assms(2-4)] reachable_view_ok [OF assms(1)] by (simp add: view_ok_def)

theorem calls_refine_registry_witness:
  "exec (host_at 12) (Att (C_create_attestation (Address 2) (Address 3) ''KYC'' None None None)) state_2 =
     Inr state_3 \<and> (vstep True True)\<^sup>*\<^sup>* (view state_2) (view state_3)"
  using calls_refine_registry [OF history_reachable(2) exec_3, where m = True] exec_3
  by (simp add: no_clash_def module_call_def)

text \<open>C3: In every reachable state each record is filed under its own id and the subject index lists
  exactly the subject's attestations that are neither revoked nor deleted; as long as only the module
  handlers ran, the index \<^verbatim>\<open>has_valid_claim\<close> walks contains all of those and no deleted one.\<close>

theorem indexes_consistent:
  assumes "reachable m s"
  shows "(\<forall>i a. attestation_entry (atts s) i = Some a \<longrightarrow> att_id a = i) \<and>
    (\<forall>x i. i \<in> set (Storage_get_subject_attestations x s) \<longleftrightarrow>
       (\<exists>a. attestation_entry (atts s) i = Some a \<and> att_subject a = x \<and>
            \<not> att_revoked a \<and> \<not> att_deleted a)) \<and>
    (m \<longrightarrow> (\<forall>x i. i \<in> set (Storage_get_valid_attestations x s) \<longrightarrow>
         (\<exists>a. attestation_entry (atts s) i = Some a \<and> att_subject a = x \<and> \<not> att_deleted a)) \<and>
       (\<forall>i a. attestation_entry (atts s) i = Some a \<longrightarrow> \<not> att_revoked a \<longrightarrow> \<not> att_deleted a \<longrightarrow>
         i \<in> set (Storage_get_valid_attestations (att_subject a) s)))"
  using reachable_view_ok [OF assms]
  by (simp add: view_ok_def ids_ok_def subject_index_ok_def valid_index_ok_def view_def
      Storage_get_subject_attestations_def Storage_get_valid_attestations_def list_of_def)

theorem indexes_consistent_witness:
  "reachable True state_3 \<and> kyc_id \<in> set (Storage_get_subject_attestations (Address 3) state_3) \<and>
   kyc_id \<in> set (Storage_get_valid_attestations (Address 3) state_3)"
proof -
  have "kyc_id \<in> set (Storage_get_subject_attestations (att_subject kyc_att) state_3) \<and>
    kyc_id \<in> set (Storage_get_valid_attestations (att_subject kyc_att) state_3)"
    using indexes_consistent [OF history_reachable(3) [of True]]
    by (simp del: kyc_att_fields(3))
  then show ?thesis using history_reachable(3) [of True] by simp
qed

text \<open>C4: No call outside the multi-signature workflow replaces or loses a record: what was attested
  (subject, claim type, time, metadata, origin) never changes afterwards, and revocation and deletion
  are final.\<close>

theorem records_evolve:
  assumes "reachable m s" and "exec e c s = Inr s'" and "\<not> multisig_call c"
    and "attestation_entry (atts s) i = Some a"
  shows "\<exists>b. attestation_entry (atts s') i = Some b \<and> evolves a b"
proof -
  have "(vstep False False)\<^sup>*\<^sup>* (view s) (view s')"
    using exec_vsteps_fresh [OF assms(2,3)] reachable_view_ok [OF assms(1)] by (simp add: view_ok_def)
  from vsteps_evolves [OF this, of i a] assms(4) show ?thesis by (simp add: view_def)
qed

theorem records_evolve_witness:
  "\<exists>b. attestation_entry (atts state_4) kyc_id = Some b \<and> evolves kyc_att b"
  using records_evolve [OF history_reachable(3) exec_4 [THEN conjunct1], of kyc_id kyc_att]
  by (simp add: multisig_call_def)

section \<open>Access control\<close>

text \<open>C5: A call succeeds only with the authorisation of its caller, and only if the caller holds the role
  the entry point asks for (admin, registered issuer, registered bridge).\<close>

theorem calls_authorised:
  assumes "exec e c s = Inr s'"
  shows "authorised e (caller c) \<and> has_role (role c) (caller c) s"
  using assms
  by (cases c) (auto dest: admin_call_authorised registry_call_authorised att_call_authorised
      flow_call_authorised lib_call_authorised exec_role_admin exec_role_registry exec_role_att
      exec_role_flow exec_role_lib)

theorem calls_authorised_witness:
  "authorised (host_at 12) (Address 2) \<and> Storage_is_issuer (Address 2) state_2"
  using calls_authorised [OF exec_3] by (simp add: role_def)

text \<open>C8: While the contract is paused, every entry point that checks the flag fails and leaves no trace: the
  registration of issuers, every way to create an attestation (single, from a date, with a jurisdiction,
  imported, bridged, delegated, and both bodies for batches), revocation, renewal, update, endorsement, the
  multi-signature workflow and requests.  \<^verbatim>\<open>docs/security.md\<close> and \<^verbatim>\<open>AUDIT_SCOPE.md\<close> say that batches escape the
  pause; the code checks it.\<close>

theorem paused_calls_fail:
  assumes "Storage_is_paused s" and "pausable c"
  shows "\<exists>err. exec e c s = Inl err"
  using exec_pausable [of e c s] assms by (cases "exec e c s") auto

theorem paused_calls_fail_witness:
  "\<exists>err. exec (host_at 12) (Att (C_create_attestation (Address 2) (Address 3) ''KYC'' None None None))
     (inst_update (paused_update (\<lambda>_. Some True)) state_2) = Inl err"
  by (rule paused_calls_fail) (simp_all add: pausable_def readers)

text \<open>No address is an issuer and a bridge at once, in any reachable state.\<close>

lemma issuers_and_bridges_disjoint:
  assumes "reachable m s"
  shows "\<not> (Storage_is_issuer a s \<and> Storage_is_bridge a s)"
  using reachable_registries_disjoint [OF assms] by (simp add: registries_disjoint_def)

section \<open>Workflows\<close>

text \<open>C30: In every reachable state an issuer's pending list holds, once each, exactly the ids of the
  requests addressed to the issuer whose status is still pending.\<close>

theorem pending_requests_exact:
  assumes "reachable m s"
  shows "distinct (Storage_get_pending_request_ids x s) \<and>
    (r \<in> set (Storage_get_pending_request_ids x s) \<longleftrightarrow>
       (\<exists>q. request_entry (flow_st s) r = Some q \<and> req_id q = r \<and> req_issuer q = x \<and>
            req_status q = Req_Pending))"
  using reachable_requests_ok [OF assms]
  by (auto simp: requests_ok_def Storage_get_pending_request_ids_def list_of_def)

theorem pending_requests_exact_witness:
  "reachable True state_4 \<and>
   req_id aml_request \<in> set (Storage_get_pending_request_ids (Address 2) state_4)"
  using pending_requests_exact [OF requests_reachable(1), of "Address 2" "req_id aml_request"]
    requests_reachable(1) exec_4
  by (simp add: aml_request_def new_request_def)

text \<open>C31: A request that has been fulfilled, rejected or cancelled is never touched again.\<close>

theorem closed_requests_final:
  assumes "reachable m s" and "exec e c s = Inr s'"
    and "request_entry (flow_st s) r = Some q" and "req_status q \<noteq> Req_Pending"
  shows "request_entry (flow_st s') r = Some q"
  using exec_closed_request [OF assms(2) reachable_requests_ok [OF assms(1)] assms(3,4)] .

theorem closed_requests_final_witness:
  "\<exists>s'. exec (host_at 15) (Admin (C_unpause (Address 5))) state_5 = Inr s' \<and>
     request_entry (flow_st s') (req_id aml_request) = Some (aml_request\<lparr>req_status := Req_Cancelled\<rparr>)"
proof -
  obtain s' where s': "exec (host_at 15) (Admin (C_unpause (Address 5))) state_5 = Inr s'"
    by (rule that [of "after (host_at 15) (Admin (C_unpause (Address 5))) state_5"])
      (use exec_4 exec_5 in \<open>simp add: after_def evaluate state_defs lib_unpause_def\<close>)
  show ?thesis
    using closed_requests_final [OF requests_reachable(2) s'] s' exec_5 by simp
qed

text \<open>C32: The signatures on a multi-signature proposal are distinct, come from the proposer and the
  required signers, and the proposal is final exactly when a co-signature has brought their number to
  the threshold.\<close>

theorem proposals_consistent:
  assumes "reachable m s" and "multisig_entry (flow_st s) p = Some q"
  shows "ms_id q = p \<and> distinct (ms_signers q) \<and> ms_proposer q \<in> set (ms_signers q) \<and>
    set (ms_signers q) \<subseteq> insert (ms_proposer q) (set (ms_required_signers q)) \<and>
    0 < unat (ms_threshold q) \<and> unat (ms_threshold q) \<le> length (ms_required_signers q) \<and>
    (ms_finalized q \<longleftrightarrow>
       2 \<le> length (ms_signers q) \<and> unat (ms_threshold q) \<le> length (ms_signers q))"
  using reachable_proposals_ok [OF assms(1)] assms(2) by (simp add: proposals_ok_def proposal_ok_def)

theorem proposals_consistent_witness:
  "multisig_entry (flow_st state_6) (ms_id solo_proposal) = Some solo_proposal \<and>
   distinct (ms_signers solo_proposal) \<and> \<not> ms_finalized solo_proposal"
  using proposals_consistent [OF proposal_reachable, of "ms_id solo_proposal" solo_proposal] exec_6
  by (simp add: solo_proposal_def new_proposal_def)

text \<open>C33: A co-signature that brings the signatures to the threshold stores the proposed attestation, issued
  by the proposer and dated at the proposal, and lists it for its subject; any other co-signature leaves
  the registry alone.\<close>

theorem cosign_activates:
  assumes "cosign_attestation e i p s = Inr (u, s')" and "multisig_entry (flow_st s) p = Some q"
  defines "a \<equiv> multisig_attestation e q"
  shows "if unat (ms_threshold q) \<le> Suc (length (ms_signers q))
    then attestation_entry (atts s') = (attestation_entry (atts s))(att_id a \<mapsto> a) \<and>
      subject_ids (atts s') = add_to (ms_subject q) (att_id a) (subject_ids (atts s)) \<and>
      valid_ids (atts s') = add_to (ms_subject q) (att_id a) (valid_ids (atts s)) \<and>
      issuer_ids (atts s') = add_to (ms_proposer q) (att_id a) (issuer_ids (atts s))
    else atts s' = atts s"
proof (cases "unat (ms_threshold q) \<le> Suc (length (ms_signers q))")
  case True
  have a: "multisig_attestation e (q\<lparr>ms_signers := l, ms_finalized := f\<rparr>) = a" for l f
    by (simp add: a_def multisig_attestation_def)
  from assms(1,2) True obtain t0 t where st: "store_attestation a t0 = Inr t" and t0: "atts t0 = atts s"
    and s': "atts s' = atts t"
    unfolding cosign_attestation_def Let_def writers Storage_get_multisig_proposal_def
    by (elim steps) (simp_all add: event_defs a)
  from store_attestation_effect [OF st] True show ?thesis
    by (simp add: s' t0) (simp add: a_def multisig_attestation_def)
next
  case False
  then show ?thesis
    using assms(1,2) unfolding cosign_attestation_def Let_def writers Storage_get_multisig_proposal_def
    by (elim steps) (simp_all add: event_defs)
qed

definition duo_proposal :: multisig_proposal where
  "duo_proposal = new_proposal (host_at 13) (Address 2) (Address 3) ''KYC'' [Address 2, Address 4] 2"

definition duo_state :: storage where
  "duo_state = reg_update (issuer_flag_update (\<lambda>m. m(Address 4 \<mapsto> True)))
     (flow_st_update (multisig_entry_update (\<lambda>m. m(''p'' \<mapsto> duo_proposal))) state_2)"

theorem cosign_activates_witness:
  "\<exists>s' j. cosign_attestation (host_at 14) (Address 4) ''p'' duo_state = Inr ((), s') \<and>
     attestation_entry (atts s') = [j \<mapsto> multisig_attestation (host_at 14) duo_proposal]"
proof -
  have "\<exists>s'. cosign_attestation (host_at 14) (Address 4) ''p'' duo_state = Inr ((), s')"
    by (simp add: evaluate evaluate_chunks cosign_attestation_def duo_state_def duo_proposal_def new_proposal_def
        MULTISIG_PROPOSAL_TTL_SECS_def store_attestation_def multisig_attestation_def Let_def state_defs)
  then obtain s' where s': "cosign_attestation (host_at 14) (Address 4) ''p'' duo_state = Inr ((), s')" by blast
  have "multisig_entry (flow_st duo_state) ''p'' = Some duo_proposal" "ms_threshold duo_proposal = 2"
    "length (ms_signers duo_proposal) = 1" "attestation_entry (atts duo_state) = Map.empty"
    by (simp_all add: duo_state_def duo_proposal_def new_proposal_def state_defs empty_storage_def)
  with cosign_activates [OF s'] s' show ?thesis by fastforce
qed

text \<open>A proposal whose only required signer is its proposer passes the threshold check but can never be
  finalised: the proposer counts as having signed, and nobody else may co-sign.\<close>

lemma solo_proposal_stuck:
  assumes "reachable m s" and "multisig_entry (flow_st s) p = Some q"
    and "set (ms_required_signers q) \<subseteq> {ms_proposer q}"
  shows "\<not> ms_finalized q \<and> (\<exists>err. cosign_attestation e i p s = Inl err)"
proof -
  have ok: "proposal_ok q" using reachable_proposals_ok [OF assms(1)] assms(2) by (simp add: proposals_ok_def)
  then have signers: "set (ms_signers q) = {ms_proposer q}" "distinct (ms_signers q)"
    using assms(3) by (auto simp: proposal_ok_def)
  then have "length (ms_signers q) = 1" using distinct_card by fastforce
  then have "\<not> ms_finalized q" using ok by (auto simp: proposal_ok_def)
  moreover have "cosign_attestation e i p s \<noteq> Inr (u, t)" for u t
    using cosign_attestation_effect [of e i p s u t] assms(2,3) signers(1) by auto
  ultimately show ?thesis by (cases "cosign_attestation e i p s") auto
qed

end
